(* ===== verification/JS_Base.thy ===== *)
theory JS_Base
  imports Complex_Main "HOL-Library.AList"
begin

text \<open>
  The JavaScript values the front end computes with, and the part of the standard library
  it uses on them (objects and header lists share the association-list operations): truthiness, \<open>??\<close> and \<open>||\<close>, property reads and object spreads,
  \<open>trim\<close>, \<open>toLowerCase\<close>, \<open>Number\<close>, \<open>String\<close>, \<open>parseFloat\<close>, \<open>parseInt\<close>.

  Conventions. A JavaScript string is a \<^typ>\<open>string\<close> whose characters stand for the UTF-16
  code units below 256. A JavaScript number is an exact rational, an infinity or NaN: rounding
  to 53 bits and the sign of zero are not modelled. An object is the list of its own
  enumerable properties in insertion order; property names are assumed not to be names
  inherited from \<open>Object.prototype\<close>.
\<close>

named_theorems js_simps \<open>evaluation rules for the JavaScript value operations\<close>

section \<open>Values\<close>

datatype jsnum = Fin rat | NaN | PosInf | NegInf

datatype jsval =
    JUndef
  | JNull
  | JBool bool
  | JNum jsnum
  | JStr string
  | JArr "jsval list"
  | JObj "(string \<times> jsval) list"

type_synonym props = "(string \<times> jsval) list"

abbreviation jint :: "int \<Rightarrow> jsval" where
  "jint i \<equiv> JNum (Fin (of_int i))"

fun truthy :: "jsval \<Rightarrow> bool" where
  "truthy JUndef = False"
| "truthy JNull = False"
| "truthy (JBool b) = b"
| "truthy (JNum (Fin q)) = (q \<noteq> 0)"
| "truthy (JNum NaN) = False"
| "truthy (JNum PosInf) = True"
| "truthy (JNum NegInf) = True"
| "truthy (JStr s) = (s \<noteq> [])"
| "truthy (JArr xs) = True"
| "truthy (JObj ps) = True"

definition nullish :: "jsval \<Rightarrow> bool" where
  [js_simps]: "nullish v \<longleftrightarrow> v = JUndef \<or> v = JNull"

text \<open>\<open>a ?? b\<close> and \<open>a || b\<close> on values.\<close>

definition coalesce :: "jsval \<Rightarrow> jsval \<Rightarrow> jsval" where
  [js_simps]: "coalesce a b = (if nullish a then b else a)"

definition js_or :: "jsval \<Rightarrow> jsval \<Rightarrow> jsval" where
  [js_simps]: "js_or a b = (if truthy a then a else b)"

fun is_str :: "jsval \<Rightarrow> bool" where
  "is_str (JStr _) = True"
| "is_str _ = False"

fun is_number :: "jsval \<Rightarrow> bool" where
  "is_number (JNum _) = True"
| "is_number _ = False"

text \<open>\<open>v && typeof v === 'object'\<close>: arrays are objects.\<close>

fun is_object :: "jsval \<Rightarrow> bool" where
  "is_object (JObj _) = True"
| "is_object (JArr _) = True"
| "is_object _ = False"

fun is_array :: "jsval \<Rightarrow> bool" where
  "is_array (JArr _) = True"
| "is_array _ = False"

fun arr_elems :: "jsval \<Rightarrow> jsval list" where
  "arr_elems (JArr xs) = xs"
| "arr_elems _ = []"

fun str_of :: "jsval \<Rightarrow> string" where
  "str_of (JStr s) = s"
| "str_of _ = []"

text \<open>The own properties of a value: the entries \<open>Object.entries\<close> lists for an object.\<close>

fun own_props :: "jsval \<Rightarrow> props" where
  "own_props (JObj ps) = ps"
| "own_props _ = []"

section \<open>Objects\<close>

text \<open>
  \<open>get_prop\<close> is a property read that cannot fail (\<open>v?.k\<close>, or \<open>v.k\<close> where \<open>v\<close> is
  known not to be nullish). Reads that raise on a nullish receiver are written with
  \<open>read_prop\<close> of theory JS_IO.
\<close>

definition get_prop :: "jsval \<Rightarrow> string \<Rightarrow> jsval" where
  "get_prop v k = (case map_of (own_props v) k of None \<Rightarrow> JUndef | Some x \<Rightarrow> x)"

definition has_own :: "jsval \<Rightarrow> string \<Rightarrow> bool" where
  "has_own v k \<longleftrightarrow> k \<in> set (map fst (own_props v))"

definition obj_set :: "string \<Rightarrow> 'v \<Rightarrow> (string \<times> 'v) list \<Rightarrow> (string \<times> 'v) list" where
  "obj_set k v ps = AList.update k v ps"

definition obj_del :: "string \<Rightarrow> (string \<times> 'v) list \<Rightarrow> (string \<times> 'v) list" where
  "obj_del k ps = AList.delete k ps"

text \<open>\<open>{ ...a, ...b }\<close>\<close>

definition spread :: "(string \<times> 'v) list \<Rightarrow> (string \<times> 'v) list \<Rightarrow> (string \<times> 'v) list" where
  "spread a b = foldl (\<lambda>acc p. obj_set (fst p) (snd p) acc) a b"

text \<open>Conditional assignment: \<open>if (c) out.k = v\<close>.\<close>

definition set_if :: "bool \<Rightarrow> string \<Rightarrow> 'v \<Rightarrow> (string \<times> 'v) list \<Rightarrow> (string \<times> 'v) list" where
  "set_if c k v ps = (if c then obj_set k v ps else ps)"

lemma map_of_obj_set [simp]: "map_of (obj_set k v ps) = (map_of ps)(k \<mapsto> v)"
  by (simp add: obj_set_def update_conv')

lemma map_of_set_if [simp]:
  "map_of (set_if c k v ps) = (if c then (map_of ps)(k \<mapsto> v) else map_of ps)"
  by (simp add: set_if_def)

lemma map_of_obj_del [simp]: "map_of (obj_del k ps) = (map_of ps)(k := None)"
  by (simp add: obj_del_def delete_conv')

lemma keys_obj_set [simp]: "fst ` set (obj_set k v ps) = insert k (fst ` set ps)"
  by (simp add: obj_set_def dom_update)

lemma keys_set_if:
  "fst ` set (set_if c k v ps) = (if c then insert k (fst ` set ps) else fst ` set ps)"
  by (simp add: set_if_def)

lemma keys_obj_del [simp]: "fst ` set (obj_del k ps) = fst ` set ps - {k}"
  by (simp add: obj_del_def delete_keys set_map [symmetric] del: set_map)

lemma distinct_obj_set: "distinct (map fst ps) \<Longrightarrow> distinct (map fst (obj_set k v ps))"
  by (simp add: obj_set_def distinct_update)

lemma obj_set_Nil [simp]: "obj_set k v [] = [(k, v)]"
  by (simp add: obj_set_def)

lemma obj_set_Cons [simp]:
  "obj_set k v ((k', v') # ps) = (if k' = k then (k, v) # ps else (k', v') # obj_set k v ps)"
  by (simp add: obj_set_def)

lemma obj_set_not_Nil [simp]: "obj_set k v ps \<noteq> []"
  by (cases ps) (auto simp: obj_set_def)

lemma set_if_Nil_iff [simp]: "set_if c k v ps = [] \<longleftrightarrow> \<not> c \<and> ps = []"
  by (simp add: set_if_def)

lemma set_if_True_False [simp]: "set_if True k v ps = obj_set k v ps" "set_if False k v ps = ps"
  by (simp_all add: set_if_def)

lemma spread_Nil [simp]: "spread a [] = a"
  by (simp add: spread_def)

lemma spread_Cons [simp]: "spread a (p # b) = spread (obj_set (fst p) (snd p) a) b"
  by (simp add: spread_def)

lemma keys_spread [simp]: "fst ` set (spread a b) = fst ` set a \<union> fst ` set b"
  by (induction b arbitrary: a) simp_all

lemma distinct_spread: "distinct (map fst a) \<Longrightarrow> distinct (map fst (spread a b))"
  by (induction b arbitrary: a) (auto simp: distinct_obj_set)

text \<open>A spread object reads from its second part first, when that part has distinct keys.\<close>

lemma map_of_spread:
  "distinct (map fst b) \<Longrightarrow> map_of (spread a b) = map_of a ++ map_of b"
proof (induction b arbitrary: a)
  case Nil
  then show ?case by simp
next
  case (Cons p b)
  obtain k v where p: "p = (k, v)" by (cases p)
  with Cons.prems have k: "k \<notin> dom (map_of b)"
    by (simp add: dom_map_of_conv_image_fst)
  have "map_of (spread a (p # b)) = (map_of a)(k \<mapsto> v) ++ map_of b"
    using Cons p by simp
  also have "\<dots> = map_of a ++ map_of (p # b)"
    using k p by (auto simp: fun_eq_iff map_add_def split: option.splits)
  finally show ?case .
qed

lemma obj_set_fresh: "k \<notin> fst ` set ps \<Longrightarrow> obj_set k v ps = ps @ [(k, v)]"
  by (induction ps) auto

lemma spread_fresh: "distinct (map fst (a @ b)) \<Longrightarrow> spread a b = a @ b"
proof (induction b arbitrary: a)
  case (Cons p b)
  then have "obj_set (fst p) (snd p) a = a @ [p]" by (simp add: obj_set_fresh)
  with Cons show ?case by simp
qed simp

lemma get_prop_simps [js_simps]:
  "get_prop (JObj ps) k = (case map_of ps k of None \<Rightarrow> JUndef | Some x \<Rightarrow> x)"
  "get_prop JUndef k = JUndef" "get_prop JNull k = JUndef" "get_prop (JStr s) k = JUndef"
  "get_prop (JBool b) k = JUndef" "get_prop (JNum n) k = JUndef" "get_prop (JArr xs) k = JUndef"
  by (simp_all add: get_prop_def)

lemma get_prop_obj_set:
  "get_prop (JObj (obj_set k v ps)) k' = (if k' = k then v else get_prop (JObj ps) k')"
  by (simp add: get_prop_simps)

lemma has_own_simps [js_simps]:
  "has_own (JObj ps) k \<longleftrightarrow> k \<in> fst ` set ps"
  "has_own JUndef k = False" "has_own JNull k = False" "has_own (JStr s) k = False"
  by (simp_all add: has_own_def)

lemma get_prop_not_own: "\<not> has_own v k \<Longrightarrow> get_prop v k = JUndef"
  by (auto simp: has_own_def get_prop_def split: option.splits dest: map_of_SomeD)
     (metis fst_conv image_eqI map_of_SomeD)

end
