(* ===== verification/JS_Text.thy ===== *)
theory JS_Text
  imports JS_Base
begin

text \<open>
  Strings and numbers of the standard library: \<open>trim\<close>, \<open>toLowerCase\<close>, \<open>split\<close>,
  \<open>join\<close>, \<open>includes\<close>, \<open>startsWith\<close>; the string-to-number conversions (\<open>Number\<close>,
  \<open>parseFloat\<close>, \<open>parseInt\<close> with radix 10) and the number-to-string conversion.
  A finite decimal is printed exactly in the notation of \<open>Number::toString\<close>; a rational
  with no finite decimal expansion is cut after 17 decimals.
\<close>

section \<open>Characters and strings\<close>

definition code :: "char \<Rightarrow> nat" where
  "code c = of_char c"

lemma code_inject [simp]: "code a = code b \<longleftrightarrow> a = b"
  by (simp add: code_def)

lemma code_less [simp]: "code c < 256"
  by (simp add: code_def)

definition is_ws :: "char \<Rightarrow> bool" where
  "is_ws c \<longleftrightarrow> code c \<in> {9, 10, 11, 12, 13, 32, 160}"

definition trim_start :: "string \<Rightarrow> string" where
  "trim_start s = dropWhile is_ws s"

definition trim :: "string \<Rightarrow> string" where
  "trim s = rev (dropWhile is_ws (rev (dropWhile is_ws s)))"

definition is_digit :: "char \<Rightarrow> bool" where
  "is_digit c \<longleftrightarrow> 48 \<le> code c \<and> code c \<le> 57"

text \<open>\<open>toLowerCase\<close> on the Latin-1 range: A-Z and the accented capitals without the
  multiplication sign.\<close>

definition lower_char :: "char \<Rightarrow> char" where
  "lower_char c =
     (if (65 \<le> code c \<and> code c \<le> 90) \<or> (192 \<le> code c \<and> code c \<le> 222 \<and> code c \<noteq> 215)
      then char_of (code c + 32) else c)"

definition to_lower :: "string \<Rightarrow> string" where
  "to_lower s = map lower_char s"

fun starts_with :: "string \<Rightarrow> string \<Rightarrow> bool" where
  "starts_with s [] = True"
| "starts_with [] (c # p) = False"
| "starts_with (d # s) (c # p) = (d = c \<and> starts_with s p)"

fun str_includes :: "string \<Rightarrow> string \<Rightarrow> bool" where
  "str_includes [] p = (p = [])"
| "str_includes (c # s) p = (starts_with (c # s) p \<or> str_includes s p)"

text \<open>\<open>s.split(c)\<close> for a one-character separator, and \<open>xs.join(sep)\<close>.\<close>

fun split_on :: "char \<Rightarrow> string \<Rightarrow> string list" where
  "split_on c [] = [[]]"
| "split_on c (d # s) =
     (if d = c then [] # split_on c s
      else (case split_on c s of [] \<Rightarrow> [[d]] | w # ws \<Rightarrow> (d # w) # ws))"

fun join :: "string \<Rightarrow> string list \<Rightarrow> string" where
  "join sep [] = []"
| "join sep [x] = x"
| "join sep (x # y # xs) = x @ sep @ join sep (y # xs)"

lemma starts_with_append [simp]: "starts_with (p @ s) p"
  by (induction p) auto

lemma starts_with_iff: "starts_with s p \<longleftrightarrow> (\<exists>r. s = p @ r)"
  by (induction s p rule: starts_with.induct) auto

lemma includes_append: "str_includes (a @ p @ b) p"
proof (induction a)
  case Nil
  have "starts_with (p @ b) p" by simp
  then show ?case by (cases "p @ b") auto
next
  case (Cons c a)
  then show ?case by simp
qed

lemma split_on_not_Nil [simp]: "split_on c s \<noteq> []"
  by (induction s) (auto split: list.splits)

lemma join_Cons: "xs \<noteq> [] \<Longrightarrow> join sep (x # xs) = x @ sep @ join sep xs"
  by (cases xs) auto

lemma join_head: "join sep ((d # w) # ws) = d # join sep (w # ws)"
  by (cases ws) auto

lemma split_on_no_sep: "c \<notin> set s \<Longrightarrow> split_on c s = [s]"
  by (induction s) auto

lemma split_on_append: "c \<notin> set w \<Longrightarrow> split_on c (w @ c # s) = w # split_on c s"
  by (induction w) auto

text \<open>Splitting undoes joining when no part contains the separator.\<close>

lemma split_on_join:
  "xs \<noteq> [] \<Longrightarrow> (\<And>x. x \<in> set xs \<Longrightarrow> c \<notin> set x) \<Longrightarrow> split_on c (join [c] xs) = xs"
proof (induction xs)
  case Nil
  then show ?case by simp
next
  case (Cons x xs)
  show ?case
  proof (cases "xs = []")
    case True
    with Cons.prems show ?thesis by (simp add: split_on_no_sep)
  next
    case False
    with Cons show ?thesis by (simp add: join_Cons split_on_append)
  qed
qed

lemma join_split_on: "join [c] (split_on c s) = s"
proof (induction s)
  case Nil
  then show ?case by simp
next
  case (Cons d s)
  then show ?case
    by (cases "split_on c s") (auto simp: join_Cons join_head split: list.splits)
qed

lemma trim_no_ws_ends: "trim s \<noteq> [] \<Longrightarrow> \<not> is_ws (hd (trim s)) \<and> \<not> is_ws (last (trim s))"
proof -
  assume ne: "trim s \<noteq> []"
  define u where "u = dropWhile is_ws s"
  have t: "trim s = rev (dropWhile is_ws (rev u))" by (simp add: trim_def u_def)
  then have d: "dropWhile is_ws (rev u) \<noteq> []" using ne by simp
  have lst: "\<not> is_ws (last (trim s))"
    using t d hd_dropWhile [OF d] by (simp add: last_rev)
  have "u = rev (dropWhile is_ws (rev u)) @ rev (takeWhile is_ws (rev u))"
    by (metis rev_append rev_rev_ident takeWhile_dropWhile_id)
  then have "hd (trim s) = hd u" using ne t by (metis hd_append2)
  moreover have "u \<noteq> []" using d by auto
  then have "\<not> is_ws (hd u)" unfolding u_def by (rule hd_dropWhile)
  ultimately show ?thesis using lst by simp
qed

lemma trim_id: "s = [] \<or> (\<not> is_ws (hd s) \<and> \<not> is_ws (last s)) \<Longrightarrow> trim s = s"
proof (cases "s = []")
  case False
  assume "s = [] \<or> (\<not> is_ws (hd s) \<and> \<not> is_ws (last s))"
  with False have h: "\<not> is_ws (hd s)" and l: "\<not> is_ws (last s)" by auto
  have "dropWhile is_ws s = s" using h False by (cases s) auto
  moreover have "dropWhile is_ws (rev s) = rev s"
    using l False by (cases "rev s") (auto simp: last_rev [symmetric] rev_swap)
  ultimately show ?thesis by (simp add: trim_def)
qed (simp add: trim_def)

lemma trim_idem [simp]: "trim (trim s) = trim s"
  using trim_no_ws_ends [of s] by (intro trim_id) auto

section \<open>Decimal numerals\<close>

definition digit_val :: "char \<Rightarrow> nat" where
  "digit_val c = code c - 48"

definition num_of_digits :: "string \<Rightarrow> nat" where
  "num_of_digits s = foldl (\<lambda>a c. 10 * a + digit_val c) 0 s"

fun show_nat :: "nat \<Rightarrow> string" where
  "show_nat n =
     (if n < 10 then [char_of (48 + n)] else show_nat (n div 10) @ [char_of (48 + n mod 10)])"

declare show_nat.simps [simp del]

definition show_int :: "int \<Rightarrow> string" where
  "show_int i = (if i < 0 then ''-'' @ show_nat (nat (- i)) else show_nat (nat i))"

lemma code_digit [simp]: "n < 10 \<Longrightarrow> code (char_of (48 + n)) = 48 + n"
  by (simp add: code_def of_char_of)

lemma digit_val_digit [simp]: "n < 10 \<Longrightarrow> digit_val (char_of (48 + n)) = n"
  by (simp add: digit_val_def)

lemma num_of_digits_snoc [simp]: "num_of_digits (s @ [c]) = 10 * num_of_digits s + digit_val c"
  by (simp add: num_of_digits_def)

text \<open>Printing a natural number and reading it back is the identity.\<close>

lemma num_of_digits_show_nat [simp]: "num_of_digits (show_nat n) = n"
proof (induction n rule: show_nat.induct)
  case (1 n)
  show ?case
  proof (cases "n < 10")
    case True
    then have "show_nat n = [] @ [char_of (48 + n)]" by (subst show_nat.simps) simp
    then show ?thesis using True by (simp only: num_of_digits_snoc) (simp add: num_of_digits_def)
  next
    case False
    then have "show_nat n = show_nat (n div 10) @ [char_of (48 + n mod 10)]"
      by (subst show_nat.simps) simp
    with "1" [OF False] show ?thesis by simp
  qed
qed

lemma show_nat_digits: "list_all is_digit (show_nat n)"
proof (induction n rule: show_nat.induct)
  case (1 n)
  have "is_digit (char_of (48 + n mod 10))" "n < 10 \<Longrightarrow> is_digit (char_of (48 + n))"
    by (simp_all add: is_digit_def)
  then show ?case using "1" by (subst show_nat.simps) simp
qed

lemma show_nat_not_Nil [simp]: "show_nat n \<noteq> []"
  by (subst show_nat.simps) auto

lemma show_nat_inject [simp]: "show_nat m = show_nat n \<longleftrightarrow> m = n"
  by (metis num_of_digits_show_nat)

lemma digit_not_minus: "is_digit c \<Longrightarrow> c \<noteq> CHR ''-''"
  by (auto simp: is_digit_def code_def)

lemma show_nat_not_minus: "show_nat n \<noteq> CHR ''-'' # s"
  using show_nat_digits [of n] by (auto dest: digit_not_minus)

lemma show_int_inject [simp]: "show_int i = show_int j \<longleftrightarrow> i = j"
  using show_nat_not_minus show_nat_not_minus [symmetric] by (auto simp: show_int_def)

section \<open>Numbers to strings\<close>

definition is_integer :: "rat \<Rightarrow> bool" where
  "is_integer q \<longleftrightarrow> of_int \<lfloor>q\<rfloor> = q"

text \<open>The least \<open>k\<close> below the fuel such that \<open>q * 10 ^ k\<close> is an integer.\<close>

fun dec_scale :: "nat \<Rightarrow> rat \<Rightarrow> nat option" where
  "dec_scale 0 q = None"
| "dec_scale (Suc f) q =
     (if is_integer q then Some 0 else map_option Suc (dec_scale f (q * 10)))"

text \<open>The layout of \<open>Number::toString\<close> for digits \<open>ds\<close> (no trailing zero) and the exponent
  \<open>n\<close> such that the value is \<open>0.ds * 10 ^ n\<close>.\<close>

definition layout_digits :: "string \<Rightarrow> int \<Rightarrow> string" where
  "layout_digits ds n =
     (let k = int (length ds) in
      if k \<le> n \<and> n \<le> 21 then ds @ replicate (nat (n - k)) (CHR ''0'')
      else if 0 < n \<and> n \<le> 21 then take (nat n) ds @ ''.'' @ drop (nat n) ds
      else if -6 < n \<and> n \<le> 0 then ''0.'' @ replicate (nat (- n)) (CHR ''0'') @ ds
      else take 1 ds @ (if k = 1 then [] else ''.'' @ drop 1 ds) @ ''e''
             @ (if n - 1 < 0 then ''-'' else ''+'') @ show_nat (nat \<bar>n - 1\<bar>))"

definition strip_zeros :: "string \<Rightarrow> string" where
  "strip_zeros s = rev (dropWhile (\<lambda>c. c = CHR ''0'') (rev s))"

definition pos_to_string :: "rat \<Rightarrow> string" where
  "pos_to_string q =
     (let k = (case dec_scale 400 q of None \<Rightarrow> 17 | Some k \<Rightarrow> k);
          ds = show_nat (nat \<lfloor>q * 10 ^ k\<rfloor>)
      in layout_digits (strip_zeros ds) (int (length ds) - int k))"

fun num_to_string :: "jsnum \<Rightarrow> string" where
  "num_to_string NaN = ''NaN''"
| "num_to_string PosInf = ''Infinity''"
| "num_to_string NegInf = ''-Infinity''"
| "num_to_string (Fin q) =
     (if is_integer q \<and> \<bar>q\<bar> < 10 ^ 21 then show_int \<lfloor>q\<rfloor>
      else if q < 0 then ''-'' @ pos_to_string (- q) else pos_to_string q)"

lemma num_to_string_int:
  "\<bar>i\<bar> < 10 ^ 21 \<Longrightarrow> num_to_string (Fin (of_int i)) = show_int i"
proof -
  assume "\<bar>i\<bar> < 10 ^ 21"
  then have "(of_int \<bar>i\<bar> :: rat) < of_int (10 ^ 21)" by (rule of_int_less_iff [THEN iffD2])
  then show ?thesis by (simp add: is_integer_def)
qed

text \<open>\<open>String(v)\<close>; array elements that are nullish print as the empty string.\<close>

fun to_str :: "jsval \<Rightarrow> string" where
  "to_str JUndef = ''undefined''"
| "to_str JNull = ''null''"
| "to_str (JBool b) = (if b then ''true'' else ''false'')"
| "to_str (JNum n) = num_to_string n"
| "to_str (JStr s) = s"
| "to_str (JArr xs) = join '','' (map (\<lambda>x. if nullish x then [] else to_str x) xs)"
| "to_str (JObj ps) = ''[object Object]''"

text \<open>\<open>Object.entries(v)\<close>: arrays and strings have their indices as keys.\<close>

fun js_entries :: "jsval \<Rightarrow> props" where
  "js_entries (JObj ps) = ps"
| "js_entries (JArr xs) = zip (map show_nat [0..<length xs]) xs"
| "js_entries (JStr s) = zip (map show_nat [0..<length s]) (map (\<lambda>c. JStr [c]) s)"
| "js_entries _ = []"

section \<open>Strings to numbers\<close>

text \<open>An optional exponent part, read from the front of the string.\<close>

definition parse_exp :: "string \<Rightarrow> int \<times> string" where
  "parse_exp s =
     (case s of [] \<Rightarrow> (0, s)
      | c # r \<Rightarrow>
          if c \<noteq> CHR ''e'' \<and> c \<noteq> CHR ''E'' then (0, s)
          else let neg = (case r of [] \<Rightarrow> False | d # _ \<Rightarrow> d = CHR ''-'');
                   r' = (case r of [] \<Rightarrow> [] | d # t \<Rightarrow> if d = CHR ''-'' \<or> d = CHR ''+'' then t else r);
                   ds = takeWhile is_digit r'
               in if ds = [] then (0, s)
                  else ((if neg then - int (num_of_digits ds) else int (num_of_digits ds)),
                        dropWhile is_digit r'))"

text \<open>The longest unsigned decimal literal at the front of the string, with its rest.\<close>

definition parse_decimal :: "string \<Rightarrow> (rat \<times> string) option" where
  "parse_decimal s =
     (let ip = takeWhile is_digit s; r1 = dropWhile is_digit s;
          fr = (case r1 of [] \<Rightarrow> [] | c # r \<Rightarrow> if c = CHR ''.'' then takeWhile is_digit r else []);
          r2 = (case r1 of [] \<Rightarrow> [] | c # r \<Rightarrow> if c = CHR ''.'' then dropWhile is_digit r else r1)
      in if ip = [] \<and> fr = [] then None
         else let m = of_nat (num_of_digits (ip @ fr)) / 10 ^ length fr; (e, r3) = parse_exp r2
              in Some (if 0 \<le> e then m * 10 ^ nat e else m / 10 ^ nat (- e), r3))"

definition signed :: "string \<Rightarrow> bool \<times> string" where
  "signed s = (case s of [] \<Rightarrow> (False, s)
     | c # r \<Rightarrow> if c = CHR ''-'' then (True, r) else if c = CHR ''+'' then (False, r) else (False, s))"

definition radix_digit :: "nat \<Rightarrow> char \<Rightarrow> nat option" where
  "radix_digit b c =
     (let n = code (lower_char c);
          d = (if is_digit c then n - 48 else if 97 \<le> n \<and> n \<le> 122 then n - 87 else 99)
      in if d < b then Some d else None)"

fun radix_num :: "nat \<Rightarrow> nat \<Rightarrow> string \<Rightarrow> jsnum" where
  "radix_num b acc [] = Fin (of_nat acc)"
| "radix_num b acc (c # s) =
     (case radix_digit b c of None \<Rightarrow> NaN | Some d \<Rightarrow> radix_num b (b * acc + d) s)"

definition str_to_num :: "string \<Rightarrow> jsnum" where
  "str_to_num s =
     (let t = trim s; lt = to_lower (take 2 t) in
      if t = [] then Fin 0
      else if lt = ''0x'' \<and> length t > 2 then radix_num 16 0 (drop 2 t)
      else if lt = ''0o'' \<and> length t > 2 then radix_num 8 0 (drop 2 t)
      else if lt = ''0b'' \<and> length t > 2 then radix_num 2 0 (drop 2 t)
      else let (neg, u) = signed t in
        if u = ''Infinity'' then (if neg then NegInf else PosInf)
        else case parse_decimal u of
               Some (q, []) \<Rightarrow> Fin (if neg then - q else q)
             | _ \<Rightarrow> NaN)"

definition parse_float :: "string \<Rightarrow> jsnum" where
  "parse_float s =
     (let (neg, u) = signed (trim_start s) in
      if starts_with u ''Infinity'' then (if neg then NegInf else PosInf)
      else case parse_decimal u of
             None \<Rightarrow> NaN
           | Some (q, _) \<Rightarrow> Fin (if neg then - q else q))"

definition parse_int10 :: "string \<Rightarrow> jsnum" where
  "parse_int10 s =
     (let (neg, u) = signed (trim_start s); ds = takeWhile is_digit u
      in if ds = [] then NaN
         else Fin (if neg then - of_nat (num_of_digits ds) else of_nat (num_of_digits ds)))"

text \<open>\<open>Number(v)\<close>\<close>

fun to_num :: "jsval \<Rightarrow> jsnum" where
  "to_num JUndef = NaN"
| "to_num JNull = Fin 0"
| "to_num (JBool b) = Fin (if b then 1 else 0)"
| "to_num (JNum n) = n"
| "to_num (JStr s) = str_to_num s"
| "to_num (JArr xs) = str_to_num (to_str (JArr xs))"
| "to_num (JObj ps) = NaN"

fun is_finite :: "jsnum \<Rightarrow> bool" where
  "is_finite (Fin q) = True"
| "is_finite _ = False"

text \<open>\<open>Math.trunc\<close>\<close>

fun num_trunc :: "jsnum \<Rightarrow> jsnum" where
  "num_trunc (Fin q) = Fin (of_int (if q < 0 then \<lceil>q\<rceil> else \<lfloor>q\<rfloor>))"
| "num_trunc n = n"

lemma takeWhile_show_nat [simp]: "takeWhile is_digit (show_nat n) = show_nat n"
  using show_nat_digits [of n] by (simp add: list_all_iff takeWhile_eq_all_conv)

lemma dropWhile_show_nat [simp]: "dropWhile is_digit (show_nat n) = []"
  using show_nat_digits [of n] by (simp add: list_all_iff)

lemma digit_not_ws: "is_digit c \<Longrightarrow> \<not> is_ws c"
  by (auto simp: is_digit_def is_ws_def)

lemma show_nat_ends: "is_digit (hd (show_nat n))" "is_digit (last (show_nat n))"
  using show_nat_digits [of n] by (simp_all add: list_all_iff)

lemma signed_show_int:
  "signed (show_int i) = (i < 0, show_nat (nat \<bar>i\<bar>))"
proof (cases "i < 0")
  case True
  then show ?thesis by (simp add: signed_def show_int_def)
next
  case False
  obtain c r where cr: "show_nat (nat i) = c # r" by (cases "show_nat (nat i)") auto
  then have "is_digit c" using show_nat_ends(1) [of "nat i"] by simp
  then have "c \<noteq> CHR ''-''" "c \<noteq> CHR ''+''" by (auto simp: is_digit_def code_def)
  with False cr show ?thesis by (simp add: signed_def show_int_def)
qed

text \<open>A version number sent as a decimal header reads back as the same number.\<close>

lemma parse_int10_show_int: "parse_int10 (show_int i) = Fin (of_int i)"
proof -
  have "trim_start (show_int i) = show_int i"
    using digit_not_ws [OF show_nat_ends(1) [of "nat i"]]
    by (cases "show_nat (nat i)") (auto simp: trim_start_def show_int_def is_ws_def code_def)
  then show ?thesis by (simp add: parse_int10_def signed_show_int Let_def)
qed

end
