(* ===== verification/JS_Num.thy ===== *)
theory JS_Num
  imports JS_Text
begin

text \<open>
  Arithmetic and comparison of JavaScript numbers and values: \<open>+ - * /\<close>, \<open>Math.min\<close>,
  \<open>Math.max\<close>, \<open>Math.round\<close>, \<open>Math.floor\<close>, \<open>toFixed\<close>, and \<open>+\<close>, \<open><\<close>, \<open>>=\<close> on values that
  need not be numbers. As in theory JS_Base a number is an exact rational, an infinity or NaN:
  a quotient by zero has the sign of its dividend.
\<close>

section \<open>Numbers\<close>

fun num_add :: "jsnum \<Rightarrow> jsnum \<Rightarrow> jsnum" where
  "num_add (Fin a) (Fin b) = Fin (a + b)"
| "num_add NaN _ = NaN"
| "num_add _ NaN = NaN"
| "num_add PosInf NegInf = NaN"
| "num_add NegInf PosInf = NaN"
| "num_add PosInf _ = PosInf"
| "num_add _ PosInf = PosInf"
| "num_add NegInf _ = NegInf"
| "num_add _ NegInf = NegInf"

fun num_neg :: "jsnum \<Rightarrow> jsnum" where
  "num_neg (Fin a) = Fin (- a)"
| "num_neg NaN = NaN"
| "num_neg PosInf = NegInf"
| "num_neg NegInf = PosInf"

definition num_sub :: "jsnum \<Rightarrow> jsnum \<Rightarrow> jsnum" where
  "num_sub a b = num_add a (num_neg b)"

fun num_pos :: "jsnum \<Rightarrow> bool" where
  "num_pos (Fin a) = (0 < a)"
| "num_pos PosInf = True"
| "num_pos _ = False"

fun num_mul :: "jsnum \<Rightarrow> jsnum \<Rightarrow> jsnum" where
  "num_mul (Fin a) (Fin b) = Fin (a * b)"
| "num_mul NaN _ = NaN"
| "num_mul _ NaN = NaN"
| "num_mul (Fin a) y = (if a = 0 then NaN else if (0 < a) = (y = PosInf) then PosInf else NegInf)"
| "num_mul x (Fin b) = (if b = 0 then NaN else if (0 < b) = (x = PosInf) then PosInf else NegInf)"
| "num_mul x y = (if x = y then PosInf else NegInf)"

fun num_div :: "jsnum \<Rightarrow> jsnum \<Rightarrow> jsnum" where
  "num_div (Fin a) (Fin b) =
     (if b \<noteq> 0 then Fin (a / b) else if a = 0 then NaN else if 0 < a then PosInf else NegInf)"
| "num_div (Fin a) PosInf = Fin 0"
| "num_div (Fin a) NegInf = Fin 0"
| "num_div PosInf (Fin b) = (if 0 \<le> b then PosInf else NegInf)"
| "num_div NegInf (Fin b) = (if 0 \<le> b then NegInf else PosInf)"
| "num_div _ _ = NaN"

fun num_round :: "jsnum \<Rightarrow> jsnum" where
  "num_round (Fin a) = Fin (of_int \<lfloor>a + 1 / 2\<rfloor>)"
| "num_round n = n"

fun num_floor :: "jsnum \<Rightarrow> jsnum" where
  "num_floor (Fin a) = Fin (of_int \<lfloor>a\<rfloor>)"
| "num_floor n = n"

text \<open>\<open>a < b\<close> and \<open>a >= b\<close>: both are false when NaN is compared.\<close>

fun num_less :: "jsnum \<Rightarrow> jsnum \<Rightarrow> bool" where
  "num_less (Fin a) (Fin b) = (a < b)"
| "num_less NegInf (Fin b) = True"
| "num_less NegInf PosInf = True"
| "num_less (Fin a) PosInf = True"
| "num_less _ _ = False"

definition num_le :: "jsnum \<Rightarrow> jsnum \<Rightarrow> bool" where
  "num_le a b \<longleftrightarrow> num_less a b \<or> (a = b \<and> a \<noteq> NaN)"

definition num_max :: "jsnum \<Rightarrow> jsnum \<Rightarrow> jsnum" where
  "num_max a b = (if a = NaN \<or> b = NaN then NaN else if num_less a b then b else a)"

definition num_min :: "jsnum \<Rightarrow> jsnum \<Rightarrow> jsnum" where
  "num_min a b = (if a = NaN \<or> b = NaN then NaN else if num_less b a then b else a)"

text \<open>\<open>Number.isFinite(n) ? n : d\<close>\<close>

definition finite_or :: "jsnum \<Rightarrow> jsnum \<Rightarrow> jsnum" where
  "finite_or d n = (if is_finite n then n else d)"

text \<open>\<open>n.toFixed(d)\<close>\<close>

definition fixed_digits :: "nat \<Rightarrow> rat \<Rightarrow> string" where
  "fixed_digits d q =
     (let m = show_nat (nat \<lfloor>q * 10 ^ d + 1 / 2\<rfloor>);
          m' = replicate (d + 1 - length m) (CHR ''0'') @ m
      in if d = 0 then m
         else take (length m' - d) m' @ ''.'' @ drop (length m' - d) m')"

fun to_fixed :: "nat \<Rightarrow> jsnum \<Rightarrow> string" where
  "to_fixed d (Fin q) =
     (if 10 ^ 21 \<le> \<bar>q\<bar> then num_to_string (Fin q)
      else if q < 0 then ''-'' @ fixed_digits d (- q) else fixed_digits d q)"
| "to_fixed d n = num_to_string n"

lemma num_max_Fin [simp]: "num_max (Fin a) (Fin b) = Fin (max a b)"
  by (simp add: num_max_def max_def)

lemma num_min_Fin [simp]: "num_min (Fin a) (Fin b) = Fin (min a b)"
  by (auto simp: num_min_def min_def)

lemma num_le_Fin [simp]: "num_le (Fin a) (Fin b) \<longleftrightarrow> a \<le> b"
  by (auto simp: num_le_def)

lemma num_sub_Fin [simp]: "num_sub (Fin a) (Fin b) = Fin (a - b)"
  by (simp add: num_sub_def)

lemma finite_or_cases: "(\<exists>x. finite_or (Fin d) n = Fin x \<and> (n = Fin x \<or> \<not> is_finite n \<and> x = d))"
  by (cases n) (simp_all add: finite_or_def)

lemma num_pos_div: "num_pos (Fin b) \<Longrightarrow> num_div (Fin a) (Fin b) = Fin (a / b)"
  by simp

section \<open>Values\<close>

text \<open>Objects and arrays become strings before \<open>+\<close> and comparisons look at them.\<close>

fun to_prim :: "jsval \<Rightarrow> jsval" where
  "to_prim (JArr xs) = JStr (to_str (JArr xs))"
| "to_prim (JObj ps) = JStr (to_str (JObj ps))"
| "to_prim v = v"

definition js_add :: "jsval \<Rightarrow> jsval \<Rightarrow> jsval" where
  "js_add a b =
     (if is_str (to_prim a) \<or> is_str (to_prim b)
      then JStr (to_str (to_prim a) @ to_str (to_prim b))
      else JNum (num_add (to_num a) (to_num b)))"

definition js_mul :: "jsval \<Rightarrow> jsval \<Rightarrow> jsval" where
  "js_mul a b = JNum (num_mul (to_num a) (to_num b))"

definition js_div :: "jsval \<Rightarrow> jsval \<Rightarrow> jsval" where
  "js_div a b = JNum (num_div (to_num a) (to_num b))"

definition js_sub :: "jsval \<Rightarrow> jsval \<Rightarrow> jsval" where
  "js_sub a b = JNum (num_sub (to_num a) (to_num b))"

fun str_less :: "string \<Rightarrow> string \<Rightarrow> bool" where
  "str_less [] [] = False"
| "str_less [] (d # t) = True"
| "str_less (c # s) [] = False"
| "str_less (c # s) (d # t) = (code c < code d \<or> c = d \<and> str_less s t)"

text \<open>\<open>a < b\<close> and \<open>a >= b\<close>: two strings are compared by code units, anything else as numbers.\<close>

definition js_less :: "jsval \<Rightarrow> jsval \<Rightarrow> bool" where
  "js_less a b =
     (if is_str (to_prim a) \<and> is_str (to_prim b) then str_less (str_of (to_prim a)) (str_of (to_prim b))
      else num_less (to_num (to_prim a)) (to_num (to_prim b)))"

definition js_ge :: "jsval \<Rightarrow> jsval \<Rightarrow> bool" where
  "js_ge a b =
     (if is_str (to_prim a) \<and> is_str (to_prim b) then \<not> str_less (str_of (to_prim a)) (str_of (to_prim b))
      else num_le (to_num (to_prim b)) (to_num (to_prim a)))"

lemma js_num_ops [js_simps]:
  "js_add (JNum m) (JNum n) = JNum (num_add m n)"
  "js_sub (JNum m) (JNum n) = JNum (num_sub m n)"
  "js_mul (JNum m) (JNum n) = JNum (num_mul m n)"
  "js_div (JNum m) (JNum n) = JNum (num_div m n)"
  "js_less (JNum m) (JNum n) = num_less m n"
  "js_ge (JNum m) (JNum n) = num_le n m"
  by (simp_all add: js_add_def js_sub_def js_mul_def js_div_def js_less_def js_ge_def)

text \<open>\<open>v == null ? d : Number(v)\<close> (and \<open>Number(v ?? 0)\<close>), \<open>String(v ?? d)\<close>,
  \<open>v ? String(v) : undefined\<close>, \<open>Array.isArray(v) ? v : []\<close>.\<close>

definition number_or :: "jsval \<Rightarrow> jsval \<Rightarrow> jsval" where
  "number_or d v = (if nullish v then d else JNum (to_num v))"

definition string_or :: "string \<Rightarrow> jsval \<Rightarrow> jsval" where
  "string_or d v = JStr (to_str (coalesce v (JStr d)))"

definition string_if :: "jsval \<Rightarrow> jsval" where
  "string_if v = (if truthy v then JStr (to_str v) else JUndef)"

definition array_or_empty :: "jsval \<Rightarrow> jsval" where
  "array_or_empty v = (if is_array v then v else JArr [])"

definition object_if :: "jsval \<Rightarrow> jsval" where
  "object_if v = (if is_object v then v else JUndef)"

lemma array_or_empty_cases: "array_or_empty v = JArr (arr_elems v)"
  by (cases v) (simp_all add: array_or_empty_def)

end
