(* ===== verification/JS_IO.thy ===== *)
theory JS_IO
  imports JS_Num
begin

text \<open>
  Asynchronous code as a monad. A computation is given the network (a function from the
  requests made so far and the next request to the outcome of that \<open>fetch\<close>) and the list of
  requests made so far; it returns a value or a thrown error, and the extended list. The
  network is the environment: a theorem that holds for every network holds whatever the
  gateway, Keycloak or the next server answer, and in whatever order they change their mind.

  Console output is not modelled. Reading a response body never fails; whether the body is
  JSON, and which value it denotes, is part of the response.
\<close>

section \<open>Errors, requests and responses\<close>

text \<open>A thrown value: the gateway client's own error class, or any other \<open>Error\<close> with its
  message and the \<open>status\<close> some callers attach to it.\<close>

datatype exn =
    GatewayAdminError string "int option" jsval
  | JsError string "int option"

fun exn_message :: "exn \<Rightarrow> string" where
  "exn_message (GatewayAdminError m _ _) = m"
| "exn_message (JsError m _) = m"

abbreviation type_error :: exn where
  "type_error \<equiv> JsError ''TypeError'' None"

abbreviation syntax_error :: exn where
  "syntax_error \<equiv> JsError ''SyntaxError'' None"

type_synonym header_list = "(string \<times> string) list"

text \<open>The body of a request: \<open>JSON.stringify\<close> of a value, or a text.\<close>

datatype req_body = NoBody | JsonBody jsval | TextBody string

record http_req =
  rq_url :: string
  rq_method :: string
  rq_headers :: header_list
  rq_body :: req_body

record http_resp =
  rs_status :: int
  rs_text :: string
  rs_json :: "jsval option"
  rs_headers :: header_list

text \<open>\<open>response.ok\<close>\<close>

definition resp_ok :: "http_resp \<Rightarrow> bool" where
  "resp_ok r \<longleftrightarrow> 200 \<le> rs_status r \<and> rs_status r \<le> 299"

text \<open>A \<open>fetch\<close> rejects with an error message, or resolves to a response.\<close>

datatype fetch_result = FetchFail string | FetchOk http_resp

type_synonym net = "http_req list \<Rightarrow> http_req \<Rightarrow> fetch_result"

type_synonym 'a io = "net \<Rightarrow> http_req list \<Rightarrow> (exn + 'a) \<times> http_req list"

section \<open>The monad\<close>

definition io_return :: "'a \<Rightarrow> 'a io" where
  [js_simps]: "io_return x = (\<lambda>net h. (Inr x, h))"

definition io_throw :: "exn \<Rightarrow> 'a io" where
  [js_simps]: "io_throw e = (\<lambda>net h. (Inl e, h))"

definition io_bind :: "'a io \<Rightarrow> ('a \<Rightarrow> 'b io) \<Rightarrow> 'b io" where
  [js_simps]: "io_bind m f = (\<lambda>net h. case m net h of
     (Inl e, h') \<Rightarrow> (Inl e, h') | (Inr x, h') \<Rightarrow> f x net h')"

text \<open>\<open>try { m } catch (e) { k e }\<close>\<close>

definition io_catch :: "'a io \<Rightarrow> (exn \<Rightarrow> 'a io) \<Rightarrow> 'a io" where
  [js_simps]: "io_catch m k = (\<lambda>net h. case m net h of
     (Inl e, h') \<Rightarrow> k e net h' | (Inr x, h') \<Rightarrow> (Inr x, h'))"

definition io_fetch :: "http_req \<Rightarrow> http_resp io" where
  [js_simps]: "io_fetch r = (\<lambda>net h. case net h r of
     FetchFail msg \<Rightarrow> (Inl (JsError msg None), h @ [r]) | FetchOk rs \<Rightarrow> (Inr rs, h @ [r]))"

definition io_of_sum :: "exn + 'a \<Rightarrow> 'a io" where
  [js_simps]: "io_of_sum s = (case s of Inl e \<Rightarrow> io_throw e | Inr x \<Rightarrow> io_return x)"

text \<open>\<open>await response.json()\<close>, and the same with \<open>.catch(() => ({}))\<close>.\<close>

definition resp_json :: "http_resp \<Rightarrow> jsval io" where
  [js_simps]: "resp_json r = (case rs_json r of None \<Rightarrow> io_throw syntax_error | Some v \<Rightarrow> io_return v)"

definition resp_json_or_empty :: "http_resp \<Rightarrow> jsval" where
  [js_simps]: "resp_json_or_empty r = (case rs_json r of None \<Rightarrow> JObj [] | Some v \<Rightarrow> v)"

text \<open>\<open>v.k\<close>, which raises when \<open>v\<close> is nullish.\<close>

definition read_prop :: "jsval \<Rightarrow> string \<Rightarrow> jsval io" where
  [js_simps]: "read_prop v k = (if nullish v then io_throw type_error else io_return (get_prop v k))"

text \<open>\<open>v.toString()\<close>\<close>

definition method_to_string :: "jsval \<Rightarrow> string io" where
  [js_simps]: "method_to_string v = (if nullish v then io_throw type_error else io_return (to_str v))"

text \<open>Running a computation from an empty history.\<close>

definition io_result :: "'a io \<Rightarrow> net \<Rightarrow> exn + 'a" where
  "io_result m net = fst (m net [])"

definition io_requests :: "'a io \<Rightarrow> net \<Rightarrow> http_req list" where
  "io_requests m net = snd (m net [])"

lemma io_bind_return_left: "io_bind (io_return x) f = f x"
  by (simp add: js_simps)

lemma io_bind_throw_left: "io_bind (io_throw e) f = io_throw e"
  by (simp add: js_simps)

lemma io_bind_return_right: "io_bind m io_return = m"
  by (auto simp: js_simps fun_eq_iff split: prod.splits sum.splits)

lemma io_bind_assoc: "io_bind (io_bind m f) g = io_bind m (\<lambda>x. io_bind (f x) g)"
  by (auto simp: io_bind_def fun_eq_iff split: prod.splits sum.splits)

lemma io_catch_return: "io_catch (io_return x) k = io_return x"
  by (simp add: js_simps)

lemma io_catch_throw: "io_catch (io_throw e) k = k e"
  by (simp add: js_simps)

lemmas io_monad_simps [simp] =
  io_bind_return_left io_bind_throw_left io_bind_return_right io_catch_return io_catch_throw

text \<open>\<open>Promise.all\<close>: every computation runs to its end (here in list order); if one rejected,
  so does the whole.\<close>

fun io_all :: "'a io list \<Rightarrow> 'a list io" where
  "io_all [] = io_return []"
| "io_all (m # ms) = (\<lambda>net h. case m net h of (r, h1) \<Rightarrow>
     (case io_all ms net h1 of (rs, h2) \<Rightarrow>
       (case r of
          Inl err \<Rightarrow> (Inl err, h2)
        | Inr x \<Rightarrow> (case rs of Inl err \<Rightarrow> (Inl err, h2) | Inr xs \<Rightarrow> (Inr (x # xs), h2)))))"

definition io_both :: "'a io \<Rightarrow> 'b io \<Rightarrow> ('a \<times> 'b) io" where
  "io_both m n = (\<lambda>net h. case m net h of (r, h1) \<Rightarrow>
     (case n net h1 of (s, h2) \<Rightarrow>
       (case r of
          Inl err \<Rightarrow> (Inl err, h2)
        | Inr x \<Rightarrow> (case s of Inl err \<Rightarrow> (Inl err, h2) | Inr y \<Rightarrow> (Inr (x, y), h2)))))"

text \<open>\<open>v.map(f)\<close> over the elements of an array, for an \<open>f\<close> that reads a property of its argument.\<close>

definition map_items :: "(jsval \<Rightarrow> jsval) \<Rightarrow> jsval \<Rightarrow> jsval io" where
  "map_items f v =
     (if list_ex nullish (arr_elems v) then io_throw type_error else io_return (JArr (map f (arr_elems v))))"

section \<open>What a computation sends\<close>

text \<open>
  \<open>issues P m\<close>: whatever the network does and whatever was sent before, every request
  that \<open>m\<close> itself makes satisfies \<open>P\<close>, and \<open>m\<close> does not rewrite the history.
\<close>

definition issues :: "(http_req \<Rightarrow> bool) \<Rightarrow> 'a io \<Rightarrow> bool" where
  "issues P m \<longleftrightarrow> (\<forall>net h. \<exists>new. snd (m net h) = h @ new \<and> list_all P new)"

named_theorems issues_rules \<open>compositional rules for issues\<close>

lemma issues_return [issues_rules]: "issues P (io_return x)"
  by (simp add: issues_def js_simps)

lemma issues_throw [issues_rules]: "issues P (io_throw e)"
  by (simp add: issues_def js_simps)

lemma issues_fetch [issues_rules]: "P r \<Longrightarrow> issues P (io_fetch r)"
  by (auto simp: issues_def io_fetch_def split: fetch_result.splits)

lemma issues_run:
  assumes "issues P m" and "m net h = (x, h')"
  shows "\<exists>new. h' = h @ new \<and> list_all P new"
  using assms(1) [unfolded issues_def, rule_format, of net h] assms(2) by simp

lemma issues_bind [issues_rules]:
  assumes m: "issues P m" and f: "\<And>x. issues P (f x)"
  shows "issues P (io_bind m f)"
  unfolding issues_def
proof (intro allI)
  fix net h
  obtain r h' where run: "m net h = (r, h')" by (cases "m net h")
  obtain n1 where n1: "h' = h @ n1" "list_all P n1" using issues_run [OF m run] by blast
  show "\<exists>new. snd (io_bind m f net h) = h @ new \<and> list_all P new"
  proof (cases r)
    case (Inl e)
    with run n1 show ?thesis by (simp add: io_bind_def)
  next
    case (Inr x)
    obtain y h'' where run': "f x net h' = (y, h'')" by (cases "f x net h'")
    obtain n2 where "h'' = h' @ n2" "list_all P n2" using issues_run [OF f run'] by blast
    with run run' n1 Inr show ?thesis by (simp add: io_bind_def)
  qed
qed

lemma issues_catch [issues_rules]:
  assumes m: "issues P m" and k: "\<And>e. issues P (k e)"
  shows "issues P (io_catch m k)"
  unfolding issues_def
proof (intro allI)
  fix net h
  obtain r h' where run: "m net h = (r, h')" by (cases "m net h")
  obtain n1 where n1: "h' = h @ n1" "list_all P n1" using issues_run [OF m run] by blast
  show "\<exists>new. snd (io_catch m k net h) = h @ new \<and> list_all P new"
  proof (cases r)
    case (Inr x)
    with run n1 show ?thesis by (simp add: io_catch_def)
  next
    case (Inl e)
    obtain y h'' where run': "k e net h' = (y, h'')" by (cases "k e net h'")
    obtain n2 where "h'' = h' @ n2" "list_all P n2" using issues_run [OF k run'] by blast
    with run run' n1 Inl show ?thesis by (simp add: io_catch_def)
  qed
qed

lemma issues_json [issues_rules]: "issues P (resp_json r)"
  by (auto simp: resp_json_def intro: issues_rules split: option.splits)

lemma issues_read_prop [issues_rules]: "issues P (read_prop v k)"
  by (simp add: read_prop_def issues_rules)

lemma issues_method_to_string [issues_rules]: "issues P (method_to_string v)"
  by (simp add: method_to_string_def issues_rules)

lemma issues_of_sum [issues_rules]: "issues P (io_of_sum s)"
  by (auto simp: io_of_sum_def intro: issues_rules split: sum.splits)

lemma issues_if [issues_rules]:
  "(c \<Longrightarrow> issues P a) \<Longrightarrow> (\<not> c \<Longrightarrow> issues P b) \<Longrightarrow> issues P (if c then a else b)"
  by simp

lemma issues_option [issues_rules]:
  "(x = None \<Longrightarrow> issues P a) \<Longrightarrow> (\<And>y. x = Some y \<Longrightarrow> issues P (b y)) \<Longrightarrow>
   issues P (case x of None \<Rightarrow> a | Some y \<Rightarrow> b y)"
  by (simp split: option.splits)

lemma issues_all [issues_rules]:
  "(\<And>m. m \<in> set ms \<Longrightarrow> issues P m) \<Longrightarrow> issues P (io_all ms)"
proof (induction ms)
  case Nil
  then show ?case by (simp add: issues_rules)
next
  case (Cons m ms)
  show ?case
    unfolding issues_def
  proof (intro allI)
    fix net h
    obtain r h1 where m: "m net h = (r, h1)" by (cases "m net h")
    obtain rs h2 where ms: "io_all ms net h1 = (rs, h2)" by (cases "io_all ms net h1")
    have i: "issues P m" "issues P (io_all ms)" using Cons by auto
    obtain n1 where "h1 = h @ n1" "list_all P n1" using issues_run [OF i(1) m] by blast
    moreover obtain n2 where "h2 = h1 @ n2" "list_all P n2" using issues_run [OF i(2) ms] by blast
    ultimately show "\<exists>new. snd (io_all (m # ms) net h) = h @ new \<and> list_all P new"
      using m ms by (auto split: sum.splits)
  qed
qed

lemma issues_both [issues_rules]:
  assumes m: "issues P m" and n: "issues P n"
  shows "issues P (io_both m n)"
  unfolding issues_def
proof (intro allI)
  fix net h
  obtain r h1 where rm: "m net h = (r, h1)" by (cases "m net h")
  obtain s h2 where rn: "n net h1 = (s, h2)" by (cases "n net h1")
  obtain n1 where "h1 = h @ n1" "list_all P n1" using issues_run [OF m rm] by blast
  moreover obtain n2 where "h2 = h1 @ n2" "list_all P n2" using issues_run [OF n rn] by blast
  ultimately show "\<exists>new. snd (io_both m n net h) = h @ new \<and> list_all P new"
    using rm rn by (auto simp: io_both_def split: sum.splits)
qed

lemma issues_map_items [issues_rules]: "issues P (map_items f v)"
  unfolding map_items_def by (intro issues_rules)

lemma issues_mono: "issues P m \<Longrightarrow> (\<And>r. P r \<Longrightarrow> Q r) \<Longrightarrow> issues Q m"
  unfolding issues_def by (metis list.pred_mono_strong)

lemma issues_requests: "issues P m \<Longrightarrow> list_all P (io_requests m net)"
  unfolding io_requests_def issues_def by (metis append_Nil)

section \<open>What a computation returns\<close>

text \<open>\<open>returns P E m\<close>: a value returned satisfies \<open>P\<close>, an error thrown satisfies \<open>E\<close>.\<close>

definition returns :: "('a \<Rightarrow> bool) \<Rightarrow> (exn \<Rightarrow> bool) \<Rightarrow> 'a io \<Rightarrow> bool" where
  "returns P E m \<longleftrightarrow> (\<forall>net h. case fst (m net h) of Inl e \<Rightarrow> E e | Inr x \<Rightarrow> P x)"

text \<open>A computation that never throws.\<close>

abbreviation total_io :: "'a io \<Rightarrow> bool" where
  "total_io m \<equiv> returns (\<lambda>_. True) (\<lambda>_. False) m"

named_theorems returns_rules \<open>compositional rules for returns\<close>

lemma returns_return [returns_rules]: "P x \<Longrightarrow> returns P E (io_return x)"
  by (simp add: returns_def js_simps)

lemma returns_throw [returns_rules]: "E e \<Longrightarrow> returns P E (io_throw e)"
  by (simp add: returns_def js_simps)

lemma returns_value: "returns P E m \<Longrightarrow> m net h = (Inr x, h') \<Longrightarrow> P x"
  unfolding returns_def by (metis fst_conv sum.case(2))

lemma returns_error: "returns P E m \<Longrightarrow> m net h = (Inl e, h') \<Longrightarrow> E e"
  unfolding returns_def by (metis fst_conv sum.case(1))

lemma returnsI:
  assumes "\<And>net h x h'. m net h = (Inr x, h') \<Longrightarrow> P x"
    and "\<And>net h e h'. m net h = (Inl e, h') \<Longrightarrow> E e"
  shows "returns P E m"
  unfolding returns_def
proof (intro allI)
  fix net h
  obtain r h' where "m net h = (r, h')" by (cases "m net h")
  then show "case fst (m net h) of Inl e \<Rightarrow> E e | Inr x \<Rightarrow> P x"
    using assms by (cases r) auto
qed

lemma returns_catch [returns_rules]:
  assumes m: "returns P E m" and k: "\<And>e. E e \<Longrightarrow> returns P E' (k e)"
  shows "returns P E' (io_catch m k)"
  by (rule returnsI)
    (auto simp: io_catch_def split: prod.splits sum.splits
      dest: returns_value [OF m] returns_error [OF m] returns_value [OF k] returns_error [OF k])

lemma returns_bind [returns_rules]:
  assumes m: "returns Q E m" and f: "\<And>x. Q x \<Longrightarrow> returns P E (f x)"
  shows "returns P E (io_bind m f)"
  by (rule returnsI)
    (auto simp: io_bind_def split: prod.splits sum.splits
      dest: returns_value [OF m] returns_error [OF m] returns_value [OF f] returns_error [OF f])

lemma returns_if [returns_rules]:
  "(c \<Longrightarrow> returns P E a) \<Longrightarrow> (\<not> c \<Longrightarrow> returns P E b) \<Longrightarrow> returns P E (if c then a else b)"
  by simp

lemma returns_option [returns_rules]:
  "(x = None \<Longrightarrow> returns P E a) \<Longrightarrow> (\<And>y. x = Some y \<Longrightarrow> returns P E (b y)) \<Longrightarrow>
   returns P E (case x of None \<Rightarrow> a | Some y \<Rightarrow> b y)"
  by (simp split: option.splits)

lemma returns_any: "returns (\<lambda>_. True) (\<lambda>_. True) m"
  by (simp add: returns_def split: sum.splits)

lemma returns_mono:
  "returns P E m \<Longrightarrow> (\<And>x. P x \<Longrightarrow> P' x) \<Longrightarrow> (\<And>e. E e \<Longrightarrow> E' e) \<Longrightarrow> returns P' E' m"
  unfolding returns_def by (metis sum.case_eq_if)

lemma returns_result_total: "total_io m \<Longrightarrow> \<exists>x. io_result m net = Inr x"
  unfolding returns_def io_result_def by (metis obj_sumE sum.case)

end
