(* ===== verification/URI.thy ===== *)
theory URI
  imports JS_Text
begin

text \<open>
  Percent encoding (\<open>encodeURIComponent\<close>), the form encoder the auth routes share
  (\<open>formEncode\<close> of app/api/auth/callback, refresh and refresh-server) and base64url as
  lib/auth/oidc.ts computes it. Each encoder has a decoder as its specification, and a round
  trip that shows no input can inject a separator.
\<close>

section \<open>Percent encoding\<close>

definition hex_digit :: "nat \<Rightarrow> char" where
  "hex_digit n = (if n < 10 then char_of (48 + n) else char_of (55 + n))"

definition pct_byte :: "nat \<Rightarrow> string" where
  "pct_byte b = [CHR ''%'', hex_digit (b div 16), hex_digit (b mod 16)]"

definition unreserved :: "char \<Rightarrow> bool" where
  "unreserved c \<longleftrightarrow>
     (65 \<le> code c \<and> code c \<le> 90) \<or> (97 \<le> code c \<and> code c \<le> 122) \<or> is_digit c
     \<or> code c \<in> {45, 95, 46, 33, 126, 42, 39, 40, 41}"

text \<open>A code unit below 256 is one or two bytes in UTF-8.\<close>

definition encode_char :: "char \<Rightarrow> string" where
  "encode_char c =
     (if unreserved c then [c]
      else if code c < 128 then pct_byte (code c)
      else pct_byte (192 + code c div 64) @ pct_byte (128 + code c mod 64))"

definition encodeURIComponent :: "string \<Rightarrow> string" where
  "encodeURIComponent s = concat (map encode_char s)"

definition hex_val :: "char \<Rightarrow> nat" where
  "hex_val c = (if is_digit c then code c - 48 else if 97 \<le> code c then code c - 87 else code c - 55)"

text \<open>The decoder the receiving side applies (specification).\<close>

fun decodeURIComponent :: "string \<Rightarrow> string" where
  "decodeURIComponent [] = []"
| "decodeURIComponent (c # s) =
     (if c \<noteq> CHR ''%'' then c # decodeURIComponent s
      else case s of
        h # l # s' \<Rightarrow>
          let b = 16 * hex_val h + hex_val l in
          if b < 128 then char_of b # decodeURIComponent s'
          else (case s' of
              p # h2 # l2 # s'' \<Rightarrow>
                char_of (64 * (b mod 32) + (16 * hex_val h2 + hex_val l2) mod 64) # decodeURIComponent s''
            | _ \<Rightarrow> [])
      | _ \<Rightarrow> [])"

lemma code_char_of [simp]: "n < 256 \<Longrightarrow> code (char_of n) = n"
  by (simp add: code_def of_char_of)

lemma char_of_code [simp]: "char_of (code c) = c"
  by (simp add: code_def)

lemma hex_val_hex_digit [simp]: "n < 16 \<Longrightarrow> hex_val (hex_digit n) = n"
  by (auto simp: hex_val_def hex_digit_def is_digit_def)

lemma pct_not_unreserved: "\<not> unreserved (CHR ''%'')"
  by (simp add: unreserved_def is_digit_def code_def)

lemma decode_pct_byte:
  "b < 128 \<Longrightarrow> decodeURIComponent (pct_byte b @ s) = char_of b # decodeURIComponent s"
  by (simp add: pct_byte_def)

lemma decode_pct_pair:
  assumes "128 \<le> b" "b < 256" "c < 256"
  shows "decodeURIComponent (pct_byte b @ pct_byte c @ s) =
    char_of (64 * (b mod 32) + c mod 64) # decodeURIComponent s"
  using assms by (simp add: pct_byte_def Let_def)

lemma add_mod_eq: "k mod m = 0 \<Longrightarrow> r < m \<Longrightarrow> (k + r) mod m = (r::nat)"
  by (subst mod_add_eq [symmetric]) simp

lemma utf8_bounds:
  assumes "n < (256::nat)"
  shows "n div 64 < 4" "192 + n div 64 < 256" "128 + n mod 64 < 256"
proof -
  show "n div 64 < 4" using assms by (simp add: div_less_iff_less_mult)
  then show "192 + n div 64 < 256" by simp
  show "128 + n mod 64 < 256" using mod_less_divisor [of 64 n] by linarith
qed

lemma utf8_pair:
  assumes "n < (256::nat)"
  shows "64 * ((192 + n div 64) mod 32) + (128 + n mod 64) mod 64 = n"
proof -
  have "(192 + n div 64) mod 32 = n div 64"
    using utf8_bounds(1) [OF assms] by (intro add_mod_eq) simp_all
  moreover have "(128 + n mod 64) mod 64 = n mod 64" by (intro add_mod_eq) simp_all
  ultimately show ?thesis by simp
qed

lemma decode_encode_char:
  "decodeURIComponent (encode_char c @ s) = c # decodeURIComponent s"
proof (cases "unreserved c")
  case True
  then have "c \<noteq> CHR ''%''" using pct_not_unreserved by auto
  with True show ?thesis by (simp add: encode_char_def)
next
  case u: False
  show ?thesis
  proof (cases "code c < 128")
    case True
    with u show ?thesis by (simp add: encode_char_def decode_pct_byte)
  next
    case False
    have lt: "code c < 256" by simp
    have "decodeURIComponent (encode_char c @ s) =
      char_of (64 * ((192 + code c div 64) mod 32) + (128 + code c mod 64) mod 64) # decodeURIComponent s"
      using u False utf8_bounds [OF lt] by (simp add: encode_char_def decode_pct_pair)
    also have "64 * ((192 + code c div 64) mod 32) + (128 + code c mod 64) mod 64 = code c"
      using lt by (rule utf8_pair)
    finally show ?thesis by simp
  qed
qed

lemma decode_encode [simp]: "decodeURIComponent (encodeURIComponent s) = s"
proof (induction s)
  case (Cons c s)
  then show ?case by (simp add: encodeURIComponent_def decode_encode_char)
qed (simp add: encodeURIComponent_def)

text \<open>Where \<open>decodeURIComponent\<close> does not raise: every percent sign starts an escape, and the
  escaped bytes are UTF-8 (of a character below 256, as everywhere in this development).\<close>

definition is_hex :: "char \<Rightarrow> bool" where
  "is_hex c \<longleftrightarrow> is_digit c \<or> (65 \<le> code c \<and> code c \<le> 70) \<or> (97 \<le> code c \<and> code c \<le> 102)"

fun uri_wellformed :: "string \<Rightarrow> bool" where
  "uri_wellformed [] = True"
| "uri_wellformed (c # s) =
     (if c \<noteq> CHR ''%'' then uri_wellformed s
      else case s of
        h # l # s' \<Rightarrow>
          is_hex h \<and> is_hex l \<and>
          (let b = 16 * hex_val h + hex_val l in
           if b < 128 then uri_wellformed s'
           else (b = 194 \<or> b = 195) \<and>
             (case s' of
                p # h2 # l2 # s'' \<Rightarrow>
                  p = CHR ''%'' \<and> is_hex h2 \<and> is_hex l2 \<and>
                  128 \<le> 16 * hex_val h2 + hex_val l2 \<and> 16 * hex_val h2 + hex_val l2 < 192 \<and>
                  uri_wellformed s''
              | _ \<Rightarrow> False))
      | _ \<Rightarrow> False)"

lemma is_hex_digit: "n < 16 \<Longrightarrow> is_hex (hex_digit n)"
  by (auto simp: is_hex_def hex_digit_def is_digit_def)

lemma wellformed_encode_char: "uri_wellformed (encode_char c @ s) = uri_wellformed s"
proof (cases "unreserved c")
  case True
  then have "c \<noteq> CHR ''%''" using pct_not_unreserved by auto
  with True show ?thesis by (simp add: encode_char_def)
next
  case u: False
  have lt: "code c < 256" by simp
  show ?thesis
  proof (cases "code c < 128")
    case True
    with u show ?thesis by (simp add: encode_char_def pct_byte_def is_hex_digit)
  next
    case False
    then have "2 \<le> code c div 64" using div_le_mono [of 128 "code c" 64] by simp
    then have "192 + code c div 64 = 194 \<or> 192 + code c div 64 = 195" using utf8_bounds(1) [OF lt] by linarith
    moreover have "16 * ((192 + code c div 64) div 16) + (192 + code c div 64) mod 16 = 192 + code c div 64"
      "16 * ((128 + code c mod 64) div 16) + (128 + code c mod 64) mod 16 = 128 + code c mod 64" by simp_all
    moreover have "code c mod 64 < 64" by simp
    ultimately show ?thesis
      using u False utf8_bounds [OF lt] by (auto simp: encode_char_def pct_byte_def is_hex_digit Let_def)
  qed
qed

lemma wellformed_encode [simp]: "uri_wellformed (encodeURIComponent s)"
  by (induction s) (simp_all add: encodeURIComponent_def wellformed_encode_char)

lemma encodeURIComponent_inject [simp]:
  "encodeURIComponent s = encodeURIComponent t \<longleftrightarrow> s = t"
  by (metis decode_encode)

text \<open>The alphabet of the encoder: letters, digits, \<open>-_.!~*'()\<close> and the percent sign.\<close>

definition uri_char :: "char \<Rightarrow> bool" where
  "uri_char c \<longleftrightarrow> unreserved c \<or> c = CHR ''%''"

lemma uri_char_hex_digit: "n < 16 \<Longrightarrow> uri_char (hex_digit n)"
  by (auto simp: uri_char_def unreserved_def hex_digit_def is_digit_def)

lemma uri_char_pct_byte: "b < 256 \<Longrightarrow> list_all uri_char (pct_byte b)"
  by (simp add: pct_byte_def uri_char_hex_digit) (simp add: uri_char_def)

lemma uri_char_encode_char: "list_all uri_char (encode_char c)"
proof -
  have "code c < 256" by simp
  then show ?thesis
    using utf8_bounds [of "code c"]
    by (auto simp: encode_char_def uri_char_pct_byte) (simp add: uri_char_def)
qed

lemma uri_char_encode: "list_all uri_char (encodeURIComponent s)"
proof (induction s)
  case (Cons c s)
  then show ?case using uri_char_encode_char [of c] by (simp add: encodeURIComponent_def)
qed (simp add: encodeURIComponent_def)

lemma encode_no_sep: "\<not> uri_char c \<Longrightarrow> c \<notin> set (encodeURIComponent s)"
  using uri_char_encode [of s] by (auto simp: list_all_iff)

lemma not_uri_chars:
  "\<not> uri_char (CHR ''&'')" "\<not> uri_char (CHR ''='')" "\<not> uri_char (CHR '';'')"
  "\<not> uri_char (CHR ''/'')" "\<not> uri_char (CHR ''?'')" "\<not> uri_char (CHR '' '')"
  by (simp_all add: uri_char_def unreserved_def is_digit_def code_def)

section \<open>Form bodies\<close>

definition formEncode :: "(string \<times> string) list \<Rightarrow> string" where
  "formEncode data =
     join ''&'' (map (\<lambda>(k, v). encodeURIComponent k @ ''='' @ encodeURIComponent v) data)"

text \<open>How the receiver reads a form body (specification).\<close>

definition form_pair :: "string \<Rightarrow> string \<times> string" where
  "form_pair w = (decodeURIComponent (takeWhile (\<lambda>c. c \<noteq> CHR ''='') w),
                  decodeURIComponent (tl (dropWhile (\<lambda>c. c \<noteq> CHR ''='') w)))"

definition form_decode :: "string \<Rightarrow> (string \<times> string) list" where
  "form_decode s = map form_pair (split_on (CHR ''&'') s)"

lemma form_pair_encode:
  "form_pair (encodeURIComponent k @ ''='' @ encodeURIComponent v) = (k, v)"
proof -
  have ne: "\<And>c. c \<in> set (encodeURIComponent k) \<Longrightarrow> c \<noteq> CHR ''=''"
    using encode_no_sep not_uri_chars(2) by metis
  show ?thesis
    using ne by (simp add: form_pair_def takeWhile_append2 dropWhile_append2)
qed

lemma form_decode_encode: "data \<noteq> [] \<Longrightarrow> form_decode (formEncode data) = data"
proof -
  assume ne: "data \<noteq> []"
  define ws where
    "ws = map (\<lambda>(k, v). encodeURIComponent k @ ''='' @ encodeURIComponent v) data"
  have "CHR ''&'' \<notin> set w" if "w \<in> set ws" for w
    using that encode_no_sep [OF not_uri_chars(1)] by (auto simp: ws_def)
  then have "split_on (CHR ''&'') (join ''&'' ws) = ws"
    using ne by (intro split_on_join) (simp_all add: ws_def)
  moreover have "map form_pair ws = data"
    unfolding ws_def map_map
    by (rule map_idI) (auto simp: form_pair_encode simp del: append.simps)
  ultimately show ?thesis by (simp add: form_decode_def formEncode_def ws_def)
qed

section \<open>Base64url\<close>

type_synonym byte_list = "nat list"

definition bytes_ok :: "byte_list \<Rightarrow> bool" where
  "bytes_ok bs \<longleftrightarrow> list_all (\<lambda>b. b < 256) bs"

text \<open>The six-bit groups of a byte sequence, the last one filled with zero bits.\<close>

fun sextets :: "byte_list \<Rightarrow> nat list" where
  "sextets [] = []"
| "sextets [a] = [a div 4, (a mod 4) * 16]"
| "sextets [a, b] = [a div 4, (a mod 4) * 16 + b div 16, (b mod 16) * 4]"
| "sextets (a # b # c # s) =
     [a div 4, (a mod 4) * 16 + b div 16, (b mod 16) * 4 + c div 64, c mod 64] @ sextets s"

text \<open>\<open>btoa\<close>: the standard alphabet, with \<open>=\<close> padding to a multiple of four characters.\<close>

definition b64_char :: "nat \<Rightarrow> char" where
  "b64_char n =
     (if n < 26 then char_of (65 + n) else if n < 52 then char_of (71 + n)
      else if n < 62 then char_of (n - 4) else if n = 62 then CHR ''+'' else CHR ''/'')"

definition btoa :: "byte_list \<Rightarrow> string" where
  "btoa bs = (let s = map b64_char (sextets bs)
              in s @ replicate ((4 - length s mod 4) mod 4) (CHR ''=''))"

definition url_safe :: "char \<Rightarrow> char" where
  "url_safe c = (if c = CHR ''+'' then CHR ''-'' else if c = CHR ''/'' then CHR ''_'' else c)"

text \<open>\<open>btoa(...).replace(/\+/g, '-').replace(/\//g, '_').replace(/=+$/, '')\<close>\<close>

definition base64UrlEncode :: "byte_list \<Rightarrow> string" where
  "base64UrlEncode bs =
     rev (dropWhile (\<lambda>c. c = CHR ''='') (rev (map url_safe (btoa bs))))"

text \<open>The reading of base64url (specification).\<close>

definition b64url_val :: "char \<Rightarrow> nat" where
  "b64url_val c =
     (if 65 \<le> code c \<and> code c \<le> 90 then code c - 65
      else if 97 \<le> code c \<and> code c \<le> 122 then code c - 71
      else if is_digit c then code c + 4
      else if c = CHR ''-'' then 62 else 63)"

fun bytes_of :: "nat list \<Rightarrow> byte_list" where
  "bytes_of (w # x # y # z # s) =
     [w * 4 + x div 16, (x mod 16) * 16 + y div 4, (y mod 4) * 64 + z] @ bytes_of s"
| "bytes_of [w, x, y] = [w * 4 + x div 16, (x mod 16) * 16 + y div 4]"
| "bytes_of [w, x] = [w * 4 + x div 16]"
| "bytes_of _ = []"

definition base64UrlDecode :: "string \<Rightarrow> byte_list" where
  "base64UrlDecode s = bytes_of (map b64url_val s)"

lemma sextets_lt: "bytes_ok bs \<Longrightarrow> list_all (\<lambda>n. n < 64) (sextets bs)"
  by (induction bs rule: sextets.induct) (auto simp: bytes_ok_def)

lemma div_mod_digit:
  assumes "y < (k::nat)"
  shows "(x * k + y) div k = x" "(x * k + y) mod k = y"
  using assms by simp_all

lemma byte_div: "b < 256 \<Longrightarrow> b div 16 < (16::nat)" "c < 256 \<Longrightarrow> c div 64 < (4::nat)"
  by (simp_all add: div_less_iff_less_mult)

lemma bytes_of_sextets: "bytes_ok bs \<Longrightarrow> bytes_of (sextets bs) = bs"
proof (induction bs rule: sextets.induct)
  case (4 a b c s)
  then have "bytes_of (sextets s) = s" and "b div 16 < 16" and "c div 64 < 4"
    by (auto simp: bytes_ok_def byte_div)
  then show ?case by (simp add: div_mod_digit del: add_mult_distrib2)
next
  case (3 a b)
  then have "b div 16 < 16" by (auto simp: bytes_ok_def byte_div)
  then show ?case by (simp add: div_mod_digit)
qed simp_all

lemma b64_char_cases:
  "n < 64 \<Longrightarrow> url_safe (b64_char n) \<noteq> CHR ''='' \<and> b64url_val (url_safe (b64_char n)) = n"
proof -
  assume n: "n < 64"
  have "list_all (\<lambda>n. url_safe (b64_char n) \<noteq> CHR ''='' \<and> b64url_val (url_safe (b64_char n)) = n)
          [0..<64]"
    by code_simp
  then show ?thesis using n by (auto simp: list_all_iff)
qed

lemma base64UrlEncode_sextets:
  assumes "bytes_ok bs"
  shows "base64UrlEncode bs = map (url_safe \<circ> b64_char) (sextets bs)"
proof -
  let ?s = "map (url_safe \<circ> b64_char) (sextets bs)"
  have ne: "\<And>c. c \<in> set ?s \<Longrightarrow> c \<noteq> CHR ''=''"
    using sextets_lt [OF assms] b64_char_cases by (auto simp: list_all_iff)
  have strip: "dropWhile (\<lambda>c. c = CHR ''='') (replicate k (CHR ''='') @ rev ?s) = rev ?s" for k
  proof (induction k)
    case 0
    have "rev ?s \<noteq> [] \<Longrightarrow> hd (rev ?s) \<noteq> CHR ''=''"
      using ne hd_in_set [of "rev ?s"] by (metis set_rev)
    then show ?case by (simp add: dropWhile_eq_self_iff comp_def) blast
  qed simp
  have safe: "url_safe (CHR ''='') = CHR ''=''" by (simp add: url_safe_def)
  show ?thesis
    using strip by (simp add: base64UrlEncode_def btoa_def Let_def safe)
qed

lemma base64Url_roundtrip: "bytes_ok bs \<Longrightarrow> base64UrlDecode (base64UrlEncode bs) = bs"
proof -
  assume ok: "bytes_ok bs"
  have "map (b64url_val \<circ> url_safe \<circ> b64_char) (sextets bs) = sextets bs"
    using sextets_lt [OF ok] b64_char_cases by (intro map_idI) (auto simp: list_all_iff)
  then show ?thesis
    using ok by (simp add: base64UrlDecode_def base64UrlEncode_sextets bytes_of_sextets comp_assoc)
qed

lemma length_sextets: "length (sextets bs) = (4 * length bs + 2) div 3"
  by (induction bs rule: sextets.induct) auto

lemma length_base64UrlEncode: "bytes_ok bs \<Longrightarrow> length (base64UrlEncode bs) = (4 * length bs + 2) div 3"
  by (simp add: base64UrlEncode_sextets length_sextets)

end
