(* ===== verification/Server_Env.thy ===== *)
theory Server_Env
  imports JS_IO URI
begin

text \<open>
  The server side of the Next.js application: the environment variables it reads, the
  request a route handler receives, the response it returns, and the error-to-response
  mapping every proxy route ends with.
\<close>

section \<open>Environment variables\<close>

record env =
  GATEWAY_BASE_URL :: "string option"
  GATEWAY_ADMIN_API_KEY :: "string option"
  GATEWAY_ADMIN_URL :: "string option"
  NEXTAUTH_URL :: "string option"
  NODE_ENV :: "string option"
  KEYCLOAK_ISSUER_INTERNAL :: "string option"
  KEYCLOAK_ISSUER_PUBLIC :: "string option"
  KEYCLOAK_CLIENT_ID :: "string option"

text \<open>An environment variable is truthy when it is set and not empty.\<close>

definition env_set :: "string option \<Rightarrow> bool" where
  "env_set v \<longleftrightarrow> (case v of None \<Rightarrow> False | Some s \<Rightarrow> s \<noteq> [])"

definition env_or :: "string option \<Rightarrow> string \<Rightarrow> string" where
  "env_or v d = (case v of None \<Rightarrow> d | Some s \<Rightarrow> if s = [] then d else s)"

definition production :: "env \<Rightarrow> bool" where
  "production e \<longleftrightarrow> NODE_ENV e = Some ''production''"

lemma env_set_Some: "env_set v \<Longrightarrow> \<exists>s. v = Some s \<and> s \<noteq> []"
  by (cases v) (auto simp: env_set_def)

section \<open>Requests and responses of route handlers\<close>

text \<open>Header names are lower case; the query is \<open>new URL(request.url).searchParams\<close>; the body
  is the value \<open>request.json()\<close> resolves to, or \<open>None\<close> where it rejects.\<close>

record server_req =
  sq_query :: "(string \<times> string) list"
  sq_headers :: header_list
  sq_cookies :: "(string \<times> string) list"
  sq_body :: "jsval option"

record server_resp =
  sr_status :: int
  sr_body :: "jsval option"
  sr_cookies :: "string list"

definition json_response :: "jsval \<Rightarrow> int \<Rightarrow> server_resp" where
  "json_response v st = \<lparr>sr_status = st, sr_body = Some v, sr_cookies = []\<rparr>"

definition request_json :: "server_req \<Rightarrow> jsval io" where
  [js_simps]: "request_json q =
     (case sq_body q of None \<Rightarrow> io_throw syntax_error | Some v \<Rightarrow> io_return v)"

definition request_json_or_empty :: "server_req \<Rightarrow> jsval" where
  "request_json_or_empty q = (case sq_body q of None \<Rightarrow> JObj [] | Some v \<Rightarrow> v)"

definition search_param :: "server_req \<Rightarrow> string \<Rightarrow> string option" where
  "search_param q k = map_of (sq_query q) k"

definition error_json :: "string \<Rightarrow> int \<Rightarrow> server_resp" where
  "error_json msg st = json_response (JObj [(''error'', JStr msg)]) st"

text \<open>
  The \<open>catch\<close> block of the proxy routes: a gateway error keeps its message, details and
  status (\<open>statusCode || 500\<close>); anything else is a 500 with the route's own message.
\<close>

fun route_error :: "string \<Rightarrow> exn \<Rightarrow> server_resp" where
  "route_error msg (GatewayAdminError m st d) =
     json_response (JObj [(''error'', JStr m), (''details'', d)])
       (case st of None \<Rightarrow> 500 | Some c \<Rightarrow> if c = 0 then 500 else c)"
| "route_error msg (JsError _ _) = error_json msg 500"

lemma issues_request_json [issues_rules]: "issues P (request_json q)"
  by (auto simp: request_json_def intro: issues_rules split: option.splits)

end
