(* ===== verification/Gateway_Client.thy ===== *)
theory Gateway_Client
  imports Server_Env
begin

text \<open>
  lib/server/gateway-admin-client.ts, the transport: \<open>gatewayAdminFetch\<close> (choice between the
  user's Bearer token and the admin API key, one refresh-and-retry on 401, error mapping),
  \<open>getAdminAuthToken\<close>, and the two guards lib/server/require-admin-bearer.ts and
  require-tenant-auth.ts.
\<close>

section \<open>Authentication of the caller\<close>

definition MOCK_SESSION_SENTINEL :: string where
  "MOCK_SESSION_SENTINEL = ''__mock_session__''"

definition getAdminAuthToken :: "server_req \<Rightarrow> string option" where
  "getAdminAuthToken q =
     (if map_of (sq_cookies q) ''is_mock_session'' = Some ''1'' then Some MOCK_SESSION_SENTINEL
      else case map_of (sq_cookies q) ''admin_access_token'' of
        Some (c # t) \<Rightarrow> Some (c # t)
      | _ \<Rightarrow>
        (case map_of (sq_headers q) ''authorization'' of
           Some h \<Rightarrow> if starts_with h ''Bearer '' then Some (trim (drop 7 h)) else None
         | None \<Rightarrow> None))"

definition requireAdminBearer :: "server_req \<Rightarrow> server_resp + string" where
  "requireAdminBearer q =
     (case getAdminAuthToken q of
        None \<Rightarrow> Inl (error_json ''Authentication required'' 401)
      | Some t \<Rightarrow> if t = [] then Inl (error_json ''Authentication required'' 401) else Inr t)"

definition requireTenantAuth :: "server_req \<Rightarrow> server_resp + string" where
  "requireTenantAuth q =
     (case getAdminAuthToken q of
        None \<Rightarrow> Inl (error_json ''Authentication required'' 401)
      | Some t \<Rightarrow> if t = [] then Inl (error_json ''Authentication required'' 401) else Inr t)"

section \<open>gatewayAdminFetch\<close>

record gw_opts =
  go_token :: "string option"
  go_method :: string
  go_headers :: header_list
  go_body :: req_body

abbreviation gw_get :: "string option \<Rightarrow> gw_opts" where
  "gw_get tok \<equiv> \<lparr>go_token = tok, go_method = ''GET'', go_headers = [], go_body = NoBody\<rparr>"

abbreviation gw_send :: "string \<Rightarrow> req_body \<Rightarrow> string option \<Rightarrow> gw_opts" where
  "gw_send m b tok \<equiv> \<lparr>go_token = tok, go_method = m, go_headers = [], go_body = b\<rparr>"

abbreviation gw_send_version :: "string \<Rightarrow> string \<Rightarrow> req_body \<Rightarrow> string option \<Rightarrow> gw_opts" where
  "gw_send_version m v b tok \<equiv>
     \<lparr>go_token = tok, go_method = m, go_headers = [(''If-Match-Version'', v)], go_body = b\<rparr>"

definition useBearer :: "string option \<Rightarrow> bool" where
  "useBearer t = (case t of None \<Rightarrow> False | Some s \<Rightarrow> s \<noteq> [] \<and> s \<noteq> MOCK_SESSION_SENTINEL)"

definition auth_header :: "env \<Rightarrow> string option \<Rightarrow> string \<times> string" where
  "auth_header e tok =
     (if useBearer tok then (''Authorization'', ''Bearer '' @ the tok)
      else (''X-API-Key'', the (GATEWAY_ADMIN_API_KEY e)))"

definition gateway_request :: "env \<Rightarrow> string \<Rightarrow> gw_opts \<Rightarrow> string \<times> string \<Rightarrow> http_req" where
  "gateway_request e path opts auth =
     \<lparr>rq_url = the (GATEWAY_BASE_URL e) @ path, rq_method = go_method opts,
      rq_headers = spread [(''Content-Type'', ''application/json''), auth] (go_headers opts),
      rq_body = go_body opts\<rparr>"

text \<open>The call to the application's own refresh endpoint: no cookie is forwarded.\<close>

definition refresh_request :: "env \<Rightarrow> http_req" where
  "refresh_request e =
     \<lparr>rq_url = (if env_set (NEXTAUTH_URL e)
                then the (NEXTAUTH_URL e) @ ''/api/auth/refresh-server''
                else ''/api/auth/refresh-server''),
      rq_method = ''POST'', rq_headers = [(''Content-Type'', ''application/json'')],
      rq_body = NoBody\<rparr>"

text \<open>What is returned once the response is settled: \<open>null\<close> for 204, else the promise of
  \<open>res.json()\<close>, which the \<open>try\<close> blocks do not await.\<close>

datatype settled = NoContent | JsonOf http_resp

definition gateway_error :: "http_resp \<Rightarrow> exn" where
  "gateway_error r =
     GatewayAdminError (''Gateway error '' @ show_int (rs_status r) @ '': '' @ rs_text r)
       (Some (rs_status r))
       (JObj [(''status'', jint (rs_status r)), (''response'', JStr (rs_text r))])"

definition settle :: "http_resp \<Rightarrow> settled io" where
  "settle r =
     (if \<not> resp_ok r then io_throw (gateway_error r)
      else if rs_status r = 204 then io_return NoContent
      else io_return (JsonOf r))"

text \<open>The refresh-and-retry block of a 401: \<open>None\<close> falls through to the original response.\<close>

definition refresh_and_retry :: "env \<Rightarrow> string \<Rightarrow> gw_opts \<Rightarrow> settled option io" where
  "refresh_and_retry e path opts =
     io_catch
       (io_bind (io_fetch (refresh_request e)) (\<lambda>rr.
          if resp_ok rr then
            io_bind (resp_json rr) (\<lambda>d.
            io_bind (read_prop d ''ok'') (\<lambda>okv.
            let tok = get_prop d ''access_token'' in
            if truthy okv \<and> truthy tok then
              io_bind (io_fetch (gateway_request e path opts
                         (''Authorization'', ''Bearer '' @ to_str tok))) (\<lambda>r2.
              io_bind (settle r2) (\<lambda>s. io_return (Some s)))
            else io_return None))
          else io_return None))
       (\<lambda>_. io_return None)"

definition backend_unreachable :: "env \<Rightarrow> string \<Rightarrow> exn" where
  "backend_unreachable e path =
     GatewayAdminError ''Backend unreachable. Check GATEWAY_BASE_URL or Docker port mapping.''
       (Some 503)
       (JObj [(''baseUrl'', JStr (the (GATEWAY_BASE_URL e))), (''path'', JStr path),
              (''error'', JStr ''ECONNREFUSED'')])"

definition gatewayAdminFetch :: "env \<Rightarrow> string \<Rightarrow> gw_opts \<Rightarrow> jsval io" where
  "gatewayAdminFetch e path opts =
     (if \<not> env_set (GATEWAY_BASE_URL e) then
        io_throw (GatewayAdminError ''Missing GATEWAY_BASE_URL'' (Some 500) JUndef)
      else if \<not> useBearer (go_token opts) \<and> \<not> env_set (GATEWAY_ADMIN_API_KEY e) then
        io_throw (GatewayAdminError ''Missing GATEWAY_ADMIN_API_KEY'' (Some 500) JUndef)
      else
        io_bind
          (io_catch
             (io_bind (io_fetch (gateway_request e path opts (auth_header e (go_token opts)))) (\<lambda>res.
                if rs_status res = 401 \<and> useBearer (go_token opts) then
                  io_bind (refresh_and_retry e path opts) (\<lambda>o'.
                    case o' of Some s \<Rightarrow> io_return s | None \<Rightarrow> settle res)
                else settle res))
             (\<lambda>err. if str_includes (exn_message err) ''ECONNREFUSED''
                    then io_throw (backend_unreachable e path) else io_throw err))
          (\<lambda>s. case s of NoContent \<Rightarrow> io_return JNull | JsonOf r \<Rightarrow> resp_json r))"

section \<open>Which credentials leave the server\<close>

text \<open>A request without the admin API key, and one without a Bearer token.\<close>

definition no_api_key :: "http_req \<Rightarrow> bool" where
  "no_api_key r \<longleftrightarrow> map_of (rq_headers r) ''X-API-Key'' = None"

definition no_bearer :: "http_req \<Rightarrow> bool" where
  "no_bearer r \<longleftrightarrow> map_of (rq_headers r) ''Authorization'' = None"

text \<open>The calls of the client pass no header but the version check.\<close>

definition plain_headers :: "gw_opts \<Rightarrow> bool" where
  "plain_headers o' \<longleftrightarrow> set (map fst (go_headers o')) \<subseteq> {''If-Match-Version''}"

lemma map_of_spread_other: "k \<notin> fst ` set b \<Longrightarrow> map_of (spread a b) k = map_of a k"
  by (induction b arbitrary: a) auto

lemma gateway_request_auth:
  assumes "plain_headers opts"
  shows "map_of (rq_headers (gateway_request e path opts (n, v))) ''X-API-Key'' =
           (if n = ''X-API-Key'' then Some v else None)"
    and "map_of (rq_headers (gateway_request e path opts (n, v))) ''Authorization'' =
           (if n = ''Authorization'' then Some v else None)"
proof -
  have "''X-API-Key'' \<notin> fst ` set (go_headers opts)" "''Authorization'' \<notin> fst ` set (go_headers opts)"
    using assms by (auto simp: plain_headers_def)
  then show "map_of (rq_headers (gateway_request e path opts (n, v))) ''X-API-Key'' =
           (if n = ''X-API-Key'' then Some v else None)"
    and "map_of (rq_headers (gateway_request e path opts (n, v))) ''Authorization'' =
           (if n = ''Authorization'' then Some v else None)"
    by (auto simp: gateway_request_def map_of_spread_other)
qed

lemma refresh_request_plain: "no_api_key (refresh_request e)" "no_bearer (refresh_request e)"
  by (simp_all add: no_api_key_def no_bearer_def refresh_request_def)

lemma issues_settle [issues_rules]: "issues P (settle r)"
  by (simp add: settle_def issues_rules)

lemma issues_refresh_and_retry:
  assumes "P (refresh_request e)"
    and "\<And>t. P (gateway_request e path opts (''Authorization'', ''Bearer '' @ t))"
  shows "issues P (refresh_and_retry e path opts)"
  unfolding refresh_and_retry_def Let_def
  using assms by (intro issues_rules) auto

text \<open>The general form: what the first request, the refresh and the retry satisfy is what
  every request of the call satisfies.\<close>

lemma issues_gatewayAdminFetch:
  assumes "useBearer (go_token opts) \<or> env_set (GATEWAY_ADMIN_API_KEY e) \<Longrightarrow>
           P (gateway_request e path opts (auth_header e (go_token opts)))"
    and "useBearer (go_token opts) \<Longrightarrow> P (refresh_request e)"
    and "\<And>t. useBearer (go_token opts) \<Longrightarrow>
           P (gateway_request e path opts (''Authorization'', ''Bearer '' @ t))"
  shows "issues P (gatewayAdminFetch e path opts)"
  unfolding gatewayAdminFetch_def
  using assms
  by (auto intro!: issues_rules issues_refresh_and_retry split: settled.splits)

lemma bearer_never_sends_api_key:
  assumes "useBearer (go_token opts)" and "plain_headers opts"
  shows "issues no_api_key (gatewayAdminFetch e path opts)"
  using assms
  by (intro issues_gatewayAdminFetch)
     (simp_all add: auth_header_def no_api_key_def gateway_request_auth
        refresh_request_plain [unfolded no_api_key_def])

lemma api_key_sends_no_bearer:
  assumes "\<not> useBearer (go_token opts)" and "plain_headers opts"
  shows "issues (\<lambda>r. no_bearer r \<and> map_of (rq_headers r) ''X-API-Key'' = GATEWAY_ADMIN_API_KEY e)
           (gatewayAdminFetch e path opts)"
  using assms env_set_Some [of "GATEWAY_ADMIN_API_KEY e"]
  by (intro issues_gatewayAdminFetch)
     (auto simp: auth_header_def no_bearer_def gateway_request_auth)

text \<open>The credentials a call with token \<open>tok\<close> may use.\<close>

definition authorised :: "env \<Rightarrow> string option \<Rightarrow> http_req \<Rightarrow> bool" where
  "authorised e tok r \<longleftrightarrow>
     (if useBearer tok then no_api_key r
      else no_bearer r \<and> map_of (rq_headers r) ''X-API-Key'' = GATEWAY_ADMIN_API_KEY e)"

lemma issues_gw:
  "plain_headers opts \<Longrightarrow> issues (authorised e (go_token opts)) (gatewayAdminFetch e path opts)"
  unfolding authorised_def [abs_def]
  using bearer_never_sends_api_key [of opts e path] api_key_sends_no_bearer [of opts e path]
  by (cases "useBearer (go_token opts)") simp_all

lemma plain_headers_calls [simp]:
  "plain_headers (gw_get tok)" "plain_headers (gw_send m b tok)" "plain_headers (gw_send_version m v b tok)"
  by (simp_all add: plain_headers_def)

lemma issues_gw_calls [issues_rules]:
  "issues (authorised e tok) (gatewayAdminFetch e path (gw_get tok))"
  "issues (authorised e tok) (gatewayAdminFetch e path (gw_send m b tok))"
  "issues (authorised e tok) (gatewayAdminFetch e path (gw_send_version m v b tok))"
  using issues_gw [of "gw_get tok"] issues_gw [of "gw_send m b tok"]
    issues_gw [of "gw_send_version m v b tok"] by simp_all

section \<open>Outcomes\<close>

text \<open>The configuration that lets a call reach the network.\<close>

definition callable :: "env \<Rightarrow> string option \<Rightarrow> bool" where
  "callable e tok \<longleftrightarrow>
     env_set (GATEWAY_BASE_URL e) \<and> (useBearer tok \<or> env_set (GATEWAY_ADMIN_API_KEY e))"

abbreviation first_request :: "env \<Rightarrow> string \<Rightarrow> gw_opts \<Rightarrow> http_req" where
  "first_request e path opts \<equiv> gateway_request e path opts (auth_header e (go_token opts))"

abbreviation retry_request :: "env \<Rightarrow> string \<Rightarrow> gw_opts \<Rightarrow> string \<Rightarrow> http_req" where
  "retry_request e path opts t \<equiv>
     gateway_request e path opts (''Authorization'', ''Bearer '' @ t)"

text \<open>What a settled response becomes for the caller.\<close>

definition settled_value :: "settled \<Rightarrow> jsval io" where
  "settled_value s = (case s of NoContent \<Rightarrow> io_return JNull | JsonOf r \<Rightarrow> resp_json r)"

definition response_value :: "http_resp \<Rightarrow> exn + jsval" where
  "response_value r =
     (if \<not> resp_ok r then Inl (gateway_error r)
      else if rs_status r = 204 then Inr JNull
      else case rs_json r of None \<Rightarrow> Inl syntax_error | Some v \<Rightarrow> Inr v)"

definition unreachable_if :: "env \<Rightarrow> string \<Rightarrow> exn + jsval \<Rightarrow> exn + jsval" where
  "unreachable_if e path res =
     (case res of
        Inl (GatewayAdminError m st d) \<Rightarrow>
          if str_includes m ''ECONNREFUSED'' then Inl (backend_unreachable e path) else res
      | _ \<Rightarrow> res)"

lemma settle_run: "settle r net h =
   (if \<not> resp_ok r then (Inl (gateway_error r), h)
    else if rs_status r = 204 then (Inr NoContent, h) else (Inr (JsonOf r), h))"
  by (simp add: settle_def js_simps)

lemma gw_run:
  assumes "callable e (go_token opts)"
  shows "gatewayAdminFetch e path opts =
     io_bind
       (io_catch
          (io_bind (io_fetch (first_request e path opts)) (\<lambda>res.
             if rs_status res = 401 \<and> useBearer (go_token opts) then
               io_bind (refresh_and_retry e path opts) (\<lambda>o'.
                 case o' of Some s \<Rightarrow> io_return s | None \<Rightarrow> settle res)
             else settle res))
          (\<lambda>err. if str_includes (exn_message err) ''ECONNREFUSED''
                 then io_throw (backend_unreachable e path) else io_throw err))
       settled_value"
  using assms by (auto simp: gatewayAdminFetch_def callable_def settled_value_def [abs_def])

lemma settle_then_value:
  "io_bind (io_catch (settle r) (\<lambda>err. if str_includes (exn_message err) ''ECONNREFUSED''
                 then io_throw (backend_unreachable e path) else io_throw err)) settled_value net h =
   (unreachable_if e path (response_value r), h)"
  by (auto simp: settle_def response_value_def settled_value_def unreachable_if_def gateway_error_def
      js_simps split: option.splits)

lemma gw_outcome:
  assumes "callable e (go_token opts)"
    and "net h (first_request e path opts) = FetchOk res"
    and "rs_status res \<noteq> 401 \<or> \<not> useBearer (go_token opts)"
  shows "gatewayAdminFetch e path opts net h =
           (unreachable_if e path (response_value res), h @ [first_request e path opts])"
proof -
  have "gatewayAdminFetch e path opts net h =
    io_bind (io_catch (settle res) (\<lambda>err. if str_includes (exn_message err) ''ECONNREFUSED''
                 then io_throw (backend_unreachable e path) else io_throw err)) settled_value net
      (h @ [first_request e path opts])"
    unfolding gw_run [OF assms(1)] using assms(2,3)
    by (auto simp: io_bind_def io_catch_def io_fetch_def)
  then show ?thesis by (simp add: settle_then_value)
qed

text \<open>A JSON success is the parsed body.\<close>

lemma gw_success:
  assumes "callable e (go_token opts)"
    and "net h (first_request e path opts) = FetchOk \<lparr>rs_status = 200, rs_text = txt, rs_json = Some v, rs_headers = []\<rparr>"
  shows "gatewayAdminFetch e path opts net h = (Inr v, h @ [first_request e path opts])"
  using gw_outcome [OF assms(1), of net h] assms(2)
  by (simp add: response_value_def resp_ok_def unreachable_if_def)


text \<open>A call that is configured starts with its request.\<close>

lemma gw_first:
  assumes "callable e (go_token opts)"
  shows "\<exists>rest. snd (gatewayAdminFetch e path opts net h) = h @ first_request e path opts # rest"
proof (cases "net h (first_request e path opts)")
  case (FetchFail m)
  then show ?thesis
    by (auto simp: gw_run [OF assms] io_bind_def io_catch_def io_fetch_def io_throw_def)
next
  case (FetchOk res)
  have i: "issues (\<lambda>_. True) (io_bind (io_catch
        (if rs_status res = 401 \<and> useBearer (go_token opts) then
           io_bind (refresh_and_retry e path opts) (\<lambda>o'. case o' of Some s \<Rightarrow> io_return s | None \<Rightarrow> settle res)
         else settle res)
        (\<lambda>err. if str_includes (exn_message err) ''ECONNREFUSED''
               then io_throw (backend_unreachable e path) else io_throw err)) settled_value)"
    by (auto simp: settled_value_def intro!: issues_rules issues_refresh_and_retry split: settled.splits)
  let ?h = "h @ [first_request e path opts]"
  obtain new where "snd (io_bind (io_catch
        (if rs_status res = 401 \<and> useBearer (go_token opts) then
           io_bind (refresh_and_retry e path opts) (\<lambda>o'. case o' of Some s \<Rightarrow> io_return s | None \<Rightarrow> settle res)
         else settle res)
        (\<lambda>err. if str_includes (exn_message err) ''ECONNREFUSED''
               then io_throw (backend_unreachable e path) else io_throw err)) settled_value net ?h) = ?h @ new"
    using i unfolding issues_def by blast
  moreover have "gatewayAdminFetch e path opts net h = io_bind (io_catch
        (if rs_status res = 401 \<and> useBearer (go_token opts) then
           io_bind (refresh_and_retry e path opts) (\<lambda>o'. case o' of Some s \<Rightarrow> io_return s | None \<Rightarrow> settle res)
         else settle res)
        (\<lambda>err. if str_includes (exn_message err) ''ECONNREFUSED''
               then io_throw (backend_unreachable e path) else io_throw err)) settled_value net ?h"
    by (simp add: gw_run [OF assms] io_bind_def io_catch_def io_fetch_def FetchOk)
  ultimately show ?thesis by auto
qed

text \<open>A gateway answering 409 to an update sent with the API key.\<close>

definition demo_env :: env where
  "demo_env = \<lparr>GATEWAY_BASE_URL = Some ''http://gw'', GATEWAY_ADMIN_API_KEY = Some ''k'',
     GATEWAY_ADMIN_URL = None, NEXTAUTH_URL = Some ''http://ui'', NODE_ENV = Some ''production'',
     KEYCLOAK_ISSUER_INTERNAL = None, KEYCLOAK_ISSUER_PUBLIC = None, KEYCLOAK_CLIENT_ID = None\<rparr>"

lemma demo_env_base [simp]: "GATEWAY_BASE_URL demo_env = Some ''http://gw''"
  by (simp add: demo_env_def)

lemma callable_demo [simp]: "callable demo_env tok"
  by (simp add: callable_def demo_env_def env_set_def)


text \<open>The refresh exchange succeeds with a new token.\<close>

definition refreshed_with :: "http_resp \<Rightarrow> string \<Rightarrow> bool" where
  "refreshed_with rr t \<longleftrightarrow> resp_ok rr \<and> t \<noteq> [] \<and>
     (\<exists>d. rs_json rr = Some d \<and> truthy (get_prop d ''ok'') \<and> get_prop d ''access_token'' = JStr t)"

lemma refreshed_data:
  assumes "refreshed_with rr t"
  obtains d where "rs_json rr = Some d" "\<not> nullish d" "truthy (get_prop d ''ok'')"
    "get_prop d ''access_token'' = JStr t" "resp_ok rr" "t \<noteq> []"
proof -
  obtain d where d: "rs_json rr = Some d" "truthy (get_prop d ''ok'')" "get_prop d ''access_token'' = JStr t"
    using assms by (auto simp: refreshed_with_def)
  then have "\<not> nullish d" by (auto simp: nullish_def get_prop_simps)
  with d show thesis using that assms by (auto simp: refreshed_with_def)
qed

lemma refresh_and_retry_run:
  assumes "net h (refresh_request e) = FetchOk rr" and rw: "refreshed_with rr t"
    and "net (h @ [refresh_request e]) (retry_request e path opts t) = FetchOk r2"
  shows "refresh_and_retry e path opts net h =
    (if \<not> resp_ok r2 then Inr None else if rs_status r2 = 204 then Inr (Some NoContent)
     else Inr (Some (JsonOf r2)), h @ [refresh_request e, retry_request e path opts t])"
proof -
  obtain d where "rs_json rr = Some d" "\<not> nullish d" "truthy (get_prop d ''ok'')"
    "get_prop d ''access_token'' = JStr t" "resp_ok rr" "t \<noteq> []"
    using refreshed_data [OF rw] by blast
  then show ?thesis
    using assms(1,3)
    by (simp add: refresh_and_retry_def io_bind_def io_catch_def io_fetch_def resp_json_def
        read_prop_def io_return_def settle_run Let_def)
qed

text \<open>
  Recovery from an expired token: when the gateway answers 401 and the refresh endpoint
  returns a new token, the request is repeated once with that token and the caller gets the
  answer to the repeated request; if the repeated request fails as well, the caller gets the
  error of the first 401, whatever the second status was.
\<close>

theorem gatewayAdminFetch_retry:
  assumes "callable e (go_token opts)" and "useBearer (go_token opts)"
    and "net [] (first_request e path opts) = FetchOk res" and "rs_status res = 401"
    and "net [first_request e path opts] (refresh_request e) = FetchOk rr" and "refreshed_with rr t"
    and "net [first_request e path opts, refresh_request e] (retry_request e path opts t) = FetchOk r2"
  shows "gatewayAdminFetch e path opts net [] =
           ((if resp_ok r2 then response_value r2 else unreachable_if e path (Inl (gateway_error res))),
            [first_request e path opts, refresh_request e, retry_request e path opts t])"
proof -
  have not_ok: "\<not> resp_ok res" using assms(4) by (simp add: resp_ok_def)
  have rr: "refresh_and_retry e path opts net [first_request e path opts] =
    (if \<not> resp_ok r2 then Inr None else if rs_status r2 = 204 then Inr (Some NoContent)
     else Inr (Some (JsonOf r2)),
     [first_request e path opts, refresh_request e, retry_request e path opts t])"
    using refresh_and_retry_run [of net "[first_request e path opts]", OF assms(5,6)] assms(7) by simp
  show ?thesis
    unfolding gw_run [OF assms(1)] using assms(2,3,4) not_ok rr
    by (auto simp: io_bind_def io_catch_def io_fetch_def settle_run settled_value_def
        response_value_def unreachable_if_def gateway_error_def io_return_def io_throw_def
        resp_json_def split: option.splits)
qed

text \<open>An expired token, a refresh, and a version conflict on the repeated request: the caller
  sees the 401.\<close>

definition demo_net :: net where
  "demo_net h r =
     (if h = [] then FetchOk \<lparr>rs_status = 401, rs_text = ''exp'', rs_json = None, rs_headers = []\<rparr>
      else if length h = 1 then
        FetchOk \<lparr>rs_status = 200, rs_text = [],
          rs_json = Some (JObj [(''ok'', JBool True), (''access_token'', JStr ''new'')]), rs_headers = []\<rparr>
      else FetchOk \<lparr>rs_status = 409, rs_text = ''conflict'', rs_json = None, rs_headers = []\<rparr>)"

theorem gatewayAdminFetch_retry_witness:
  "fst (gatewayAdminFetch demo_env ''/admin/models'' (gw_get (Some ''old'')) demo_net []) =
     Inl (GatewayAdminError ''Gateway error 401: exp'' (Some 401)
       (JObj [(''status'', jint 401), (''response'', JStr ''exp'')]))"
proof -
  let ?o = "gw_get (Some ''old'')"
  let ?res = "\<lparr>rs_status = 401, rs_text = ''exp'', rs_json = None, rs_headers = []\<rparr>"
  let ?rr = "\<lparr>rs_status = 200, rs_text = [],
          rs_json = Some (JObj [(''ok'', JBool True), (''access_token'', JStr ''new'')]), rs_headers = []\<rparr>"
  let ?r2 = "\<lparr>rs_status = 409, rs_text = ''conflict'', rs_json = None, rs_headers = []\<rparr>"
  have u: "useBearer (go_token ?o)" by (simp add: useBearer_def MOCK_SESSION_SENTINEL_def)
  have m: "show_int 401 = ''401''" by code_simp
  have i: "\<not> str_includes ''Gateway error 401: exp'' ''ECONNREFUSED''" by code_simp
  have "gatewayAdminFetch demo_env ''/admin/models'' ?o demo_net [] =
      ((if resp_ok ?r2 then response_value ?r2
        else unreachable_if demo_env ''/admin/models'' (Inl (gateway_error ?res))),
       [first_request demo_env ''/admin/models'' ?o, refresh_request demo_env,
        retry_request demo_env ''/admin/models'' ?o ''new''])"
    by (rule gatewayAdminFetch_retry [where rr = ?rr])
       (use u in \<open>simp_all add: demo_net_def refreshed_with_def resp_ok_def get_prop_simps\<close>)
  then show ?thesis using m i by (simp add: resp_ok_def gateway_error_def unreachable_if_def)
qed

text \<open>
  A gateway call is bounded: it sends nothing when it is not configured, at most one
  request with the API key, and with a Bearer token at most three, of which the second is
  the refresh and the third the repetition of the first.
\<close>

theorem gatewayAdminFetch_requests:
  "io_requests (gatewayAdminFetch e path opts) net \<in>
     (if \<not> callable e (go_token opts) then {[]}
      else if \<not> useBearer (go_token opts) then {[first_request e path opts]}
      else {[first_request e path opts], [first_request e path opts, refresh_request e]} \<union>
           {[first_request e path opts, refresh_request e, retry_request e path opts t] | t. True})"
proof (cases "callable e (go_token opts)")
  case False
  then show ?thesis
    by (auto simp: io_requests_def gatewayAdminFetch_def callable_def io_throw_def)
next
  case True
  have rr: "snd (refresh_and_retry e path opts net h) \<in>
     {h @ [refresh_request e]} \<union> {h @ [refresh_request e, retry_request e path opts t] | t. True}" for h
    by (auto simp: refresh_and_retry_def js_simps settle_run Let_def
        split: fetch_result.splits option.splits prod.splits sum.splits)
  have tl: "snd (settled_value s net h) = h" for s h
    by (auto simp: settled_value_def js_simps split: settled.splits option.splits)
  show ?thesis
  proof (cases "net [] (first_request e path opts)")
    case (FetchFail m)
    then show ?thesis using True
      by (auto simp: io_requests_def gw_run io_bind_def io_catch_def io_fetch_def io_throw_def)
  next
    case (FetchOk res)
    show ?thesis
    proof (cases "rs_status res = 401 \<and> useBearer (go_token opts)")
      case no: False
      then show ?thesis
        using True FetchOk tl
        by (auto simp: io_requests_def gw_run io_bind_def io_catch_def io_fetch_def io_throw_def
            settle_run split: sum.splits prod.splits)
    next
      case yes: True
      obtain o' h' where run: "refresh_and_retry e path opts net [first_request e path opts] = (o', h')"
        by (cases "refresh_and_retry e path opts net [first_request e path opts]")
      have "io_requests (gatewayAdminFetch e path opts) net = h'"
        using True FetchOk yes run tl
        by (auto simp: io_requests_def gw_run io_bind_def io_catch_def io_fetch_def io_throw_def
            io_return_def settle_run split: sum.splits option.splits prod.splits)
      then show ?thesis using True yes rr [of "[first_request e path opts]"] run by auto
    qed
  qed
qed

end
