(* ===== verification/Model_Patch.thy ===== *)
theory Model_Patch
  imports JS_IO
begin

text \<open>
  lib/server/admin-model-patch.ts: the body of PATCH /admin/models/:id. The function copies a
  fixed set of fields under the names the gateway stores (Go field names for Provider, Type,
  Enabled, Pricing and Mock), normalises numbers and strings, and drops everything else. It
  raises only where it dereferences a nullish element of \<open>observable.fields\<close>, or a nullish
  input. One definition per paragraph of the source function.
\<close>

section \<open>Reading a field under either spelling\<close>

definition isPresent :: "jsval \<Rightarrow> string \<Rightarrow> string \<Rightarrow> bool" where
  "isPresent obj snake pascal \<longleftrightarrow> has_own obj snake \<or> has_own obj pascal"

definition either_prop :: "jsval \<Rightarrow> string \<Rightarrow> string \<Rightarrow> jsval" where
  "either_prop obj a b = coalesce (get_prop obj a) (get_prop obj b)"

definition numFrom :: "jsval \<Rightarrow> string \<Rightarrow> string \<Rightarrow> jsnum option" where
  "numFrom obj snake pascal =
     (if \<not> isPresent obj snake pascal then None
      else let v = either_prop obj snake pascal in
        if v = JNull \<or> v = JUndef \<or> v = JStr [] then None
        else let n = to_num v in if is_finite n then Some n else None)"

definition intFrom :: "jsval \<Rightarrow> string \<Rightarrow> string \<Rightarrow> jsnum option" where
  "intFrom obj snake pascal =
     (case numFrom obj snake pascal of None \<Rightarrow> None | Some n \<Rightarrow> Some (num_trunc n))"

section \<open>buildAdminModelPatchPayload\<close>

definition set_num :: "string \<Rightarrow> jsnum option \<Rightarrow> props \<Rightarrow> props" where
  "set_num k n out = (case n of None \<Rightarrow> out | Some x \<Rightarrow> obj_set k (JNum x) out)"

definition patch_enabled :: "jsval \<Rightarrow> props \<Rightarrow> props" where
  "patch_enabled input out =
     (let v = either_prop input ''Enabled'' ''enabled''
      in set_if (v \<noteq> JUndef) ''Enabled'' (JBool (truthy v)) out)"

definition patch_copy :: "jsval \<Rightarrow> string \<Rightarrow> string \<Rightarrow> props \<Rightarrow> props" where
  "patch_copy input from to' out =
     (let v = get_prop input from in set_if (v \<noteq> JUndef) to' v out)"

definition patch_finite :: "jsval \<Rightarrow> string \<Rightarrow> props \<Rightarrow> props" where
  "patch_finite input k out =
     (let v = get_prop input k; n = to_num v
      in set_if (v \<noteq> JUndef \<and> is_finite n) k (JNum n) out)"

text \<open>\<open>typeof v === 'string' ? v.trim() : ''\<close>\<close>

definition trimmed :: "jsval \<Rightarrow> string" where
  "trimmed v = trim (str_of v)"

definition patch_nonempty :: "jsval \<Rightarrow> string \<Rightarrow> props \<Rightarrow> props" where
  "patch_nonempty input k out =
     (let v = get_prop input k
      in set_if (v \<noteq> JUndef \<and> trimmed v \<noteq> []) k (JStr (trimmed v)) out)"

definition patch_base_url :: "jsval \<Rightarrow> props \<Rightarrow> props" where
  "patch_base_url input out =
     (let v = get_prop input ''base_url''
      in set_if (v \<noteq> JUndef) ''base_url'' (JStr (trimmed v)) out)"

definition execution_payload :: "jsval \<Rightarrow> props" where
  "execution_payload ex =
     (let endpoint = either_prop ex ''endpoint'' ''Endpoint'';
          protocol = either_prop ex ''protocol'' ''Protocol''
      in set_if (is_str protocol \<and> trimmed protocol \<noteq> []) ''protocol'' (JStr (trimmed protocol))
           (set_if (is_str endpoint \<and> trimmed endpoint \<noteq> []) ''endpoint'' (JStr (trimmed endpoint)) []))"

definition patch_execution :: "jsval \<Rightarrow> props \<Rightarrow> props" where
  "patch_execution input out =
     (let ex = get_prop input ''execution''; payload = execution_payload ex
      in set_if (is_object ex \<and> payload \<noteq> []) ''execution'' (JObj payload) out)"

definition map_field :: "jsval \<Rightarrow> props" where
  "map_field field =
     [(''path'', JStr (trim (to_str (coalesce (get_prop field ''path'') (JStr []))))),
      (''type'', JStr (to_str (coalesce (get_prop field ''type'') (JStr [])))),
      (''role'', JStr (to_str (coalesce (get_prop field ''role'') (JStr []))))]"

definition field_path :: "props \<Rightarrow> string" where
  "field_path f = str_of (get_prop (JObj f) ''path'')"

definition patch_observable :: "jsval \<Rightarrow> props \<Rightarrow> exn + props" where
  "patch_observable input out =
     (let ob = get_prop input ''observable''; fields = arr_elems (get_prop ob ''fields'') in
      if \<not> is_object ob then Inr out
      else if list_ex nullish fields then Inl type_error
      else Inr (obj_set ''observable''
             (JObj [(''fields'', JArr (map JObj (filter (\<lambda>f. field_path f \<noteq> []) (map map_field fields))))])
             out))"

definition pricing_payload :: "jsval \<Rightarrow> props" where
  "pricing_payload p =
     set_num ''CompletionPer1M'' (numFrom p ''completion_per_1m'' ''CompletionPer1M'')
       (set_num ''PromptPer1M'' (numFrom p ''prompt_per_1m'' ''PromptPer1M'') [])"

definition patch_pricing :: "jsval \<Rightarrow> props \<Rightarrow> props" where
  "patch_pricing input out =
     (let p = get_prop input ''pricing'' in
      set_if (is_object p \<and> pricing_payload p \<noteq> []) ''Pricing'' (JObj (pricing_payload p)) out)"

text \<open>\<open>String(m.a ?? m.b ?? '')\<close>\<close>

definition mock_text :: "jsval \<Rightarrow> string \<Rightarrow> string \<Rightarrow> jsval" where
  "mock_text m a b = JStr (to_str (coalesce (either_prop m a b) (JStr [])))"

definition mock_payload :: "jsval \<Rightarrow> props" where
  "mock_payload m =
     set_if (isPresent m ''fixed_response'' ''FixedResponse'') ''FixedResponse''
       (mock_text m ''fixed_response'' ''FixedResponse'')
     (set_if (isPresent m ''error_message'' ''ErrorMessage'') ''ErrorMessage''
       (mock_text m ''error_message'' ''ErrorMessage'')
     (set_num ''ErrorStatus'' (intFrom m ''error_status'' ''ErrorStatus'')
     (set_num ''ErrorRate'' (numFrom m ''error_rate'' ''ErrorRate'')
     (set_num ''DelayMaxMs'' (intFrom m ''delay_max_ms'' ''DelayMaxMs'')
     (set_num ''DelayMinMs'' (intFrom m ''delay_min_ms'' ''DelayMinMs'')
     (set_if (isPresent m ''enabled'' ''Enabled'') ''Enabled''
       (JBool (truthy (either_prop m ''enabled'' ''Enabled''))) []))))))"

definition patch_mock :: "jsval \<Rightarrow> props \<Rightarrow> props" where
  "patch_mock input out =
     (let m = get_prop input ''mock'' in
      set_if (is_object m \<and> mock_payload m \<noteq> []) ''Mock'' (JObj (mock_payload m)) out)"

definition patch_scalars :: "jsval \<Rightarrow> props" where
  "patch_scalars input =
     patch_execution input
     (patch_base_url input
     (patch_nonempty input ''name''
     (patch_nonempty input ''provider_model_id''
     (patch_finite input ''markup_percentage''
     (patch_finite input ''infrastructure_monthly_usd''
     (patch_copy input ''type'' ''Type''
     (patch_copy input ''provider'' ''Provider''
     (patch_enabled input []))))))))"

definition buildAdminModelPatchPayload :: "jsval \<Rightarrow> exn + props" where
  "buildAdminModelPatchPayload input =
     (if nullish input then Inl type_error
      else case patch_observable input (patch_scalars input) of
        Inl err \<Rightarrow> Inl err
      | Inr out \<Rightarrow> Inr (patch_mock input (patch_pricing input out)))"

section \<open>Properties\<close>

lemmas patch_defs =
  patch_enabled_def patch_copy_def patch_finite_def patch_nonempty_def patch_base_url_def
  patch_execution_def patch_pricing_def patch_mock_def Let_def

definition canonical_model_keys :: "string set" where
  "canonical_model_keys =
     {''Enabled'', ''Provider'', ''Type'', ''infrastructure_monthly_usd'', ''markup_percentage'',
      ''provider_model_id'', ''name'', ''base_url'', ''execution'', ''observable'', ''Pricing'', ''Mock''}"

lemma keys_set_if_subset: "fst ` set ps \<subseteq> K \<Longrightarrow> k \<in> K \<Longrightarrow> fst ` set (set_if c k v ps) \<subseteq> K"
  by (simp add: keys_set_if)

lemma keys_set_num_subset: "fst ` set ps \<subseteq> K \<Longrightarrow> k \<in> K \<Longrightarrow> fst ` set (set_num k n ps) \<subseteq> K"
  by (simp add: set_num_def split: option.splits)

lemmas keys_rules = keys_set_if_subset keys_set_num_subset

lemma keys_patch_scalars: "fst ` set (patch_scalars input) \<subseteq> canonical_model_keys"
  unfolding patch_scalars_def patch_defs
  by (intro keys_rules) (simp_all add: canonical_model_keys_def)

lemma build_success:
  "buildAdminModelPatchPayload input = Inr out \<Longrightarrow>
     \<exists>mid. patch_observable input (patch_scalars input) = Inr mid \<and>
           out = patch_mock input (patch_pricing input mid)"
  by (auto simp: buildAdminModelPatchPayload_def split: if_splits sum.splits)

lemma patch_observable_keys:
  "patch_observable input ps = Inr out \<Longrightarrow> fst ` set out \<subseteq> insert ''observable'' (fst ` set ps)"
proof -
  assume "patch_observable input ps = Inr out"
  then have "out = ps \<or> (\<exists>v. out = obj_set ''observable'' v ps)"
    by (auto simp: patch_observable_def Let_def split: if_splits)
  then show ?thesis by (elim disjE exE) (simp_all, blast)
qed

lemma numFrom_finite: "numFrom obj a b = Some n \<Longrightarrow> is_finite n"
  by (auto simp: numFrom_def Let_def split: if_splits)

lemma intFrom_integer: "intFrom obj a b = Some n \<Longrightarrow> \<exists>i. n = Fin (of_int i)"
proof -
  assume "intFrom obj a b = Some n"
  then obtain m where m: "numFrom obj a b = Some m" and n: "n = num_trunc m"
    by (auto simp: intFrom_def split: option.splits)
  then show ?thesis using numFrom_finite [OF m] by (cases m) auto
qed

lemma map_of_set_num [simp]:
  "map_of (set_num k n ps) = (case n of None \<Rightarrow> map_of ps | Some x \<Rightarrow> (map_of ps)(k \<mapsto> JNum x))"
  by (simp add: set_num_def split: option.splits)



text \<open>
  Building the PATCH body fails exactly on a nullish body and on an \<open>observable\<close> object
  whose \<open>fields\<close> array has a nullish element; every other input yields a body.
\<close>

theorem model_patch_error_iff:
  "(\<exists>err. buildAdminModelPatchPayload input = Inl err) \<longleftrightarrow>
     nullish input \<or>
     (is_object (get_prop input ''observable'') \<and>
      list_ex nullish (arr_elems (get_prop (get_prop input ''observable'') ''fields'')))"
  by (auto simp: buildAdminModelPatchPayload_def patch_observable_def Let_def split: if_splits)

lemma mock_payload_lookup:
  "map_of (mock_payload m) ''DelayMinMs'' = map_option JNum (intFrom m ''delay_min_ms'' ''DelayMinMs'')"
  "map_of (mock_payload m) ''DelayMaxMs'' = map_option JNum (intFrom m ''delay_max_ms'' ''DelayMaxMs'')"
  "map_of (mock_payload m) ''ErrorStatus'' = map_option JNum (intFrom m ''error_status'' ''ErrorStatus'')"
  "map_of (mock_payload m) ''ErrorRate'' = map_option JNum (numFrom m ''error_rate'' ''ErrorRate'')"
  by (simp_all add: mock_payload_def split: option.splits)

lemma pricing_payload_lookup:
  "map_of (pricing_payload p) ''PromptPer1M'' = map_option JNum (numFrom p ''prompt_per_1m'' ''PromptPer1M'')"
  "map_of (pricing_payload p) ''CompletionPer1M'' =
     map_option JNum (numFrom p ''completion_per_1m'' ''CompletionPer1M'')"
  by (simp_all add: pricing_payload_def split: option.splits)

lemma build_lookup:
  assumes "buildAdminModelPatchPayload input = Inr out"
  shows "\<And>m. map_of out ''Mock'' = Some m \<Longrightarrow> m = JObj (mock_payload (get_prop input ''mock''))"
    and "\<And>p. map_of out ''Pricing'' = Some p \<Longrightarrow> p = JObj (pricing_payload (get_prop input ''pricing''))"
proof -
  obtain mid where mid: "patch_observable input (patch_scalars input) = Inr mid"
    and out: "out = patch_mock input (patch_pricing input mid)"
    using build_success [OF assms] by blast
  have "fst ` set mid \<subseteq> insert ''observable'' (fst ` set (patch_scalars input))"
    by (rule patch_observable_keys [OF mid])
  moreover have "fst ` set (patch_scalars input) \<subseteq> canonical_model_keys - {''Mock'', ''Pricing''}"
    unfolding patch_scalars_def patch_defs
    by (intro keys_rules) (simp_all add: canonical_model_keys_def)
  ultimately have "map_of mid ''Mock'' = None" "map_of mid ''Pricing'' = None"
    by (auto simp: map_of_eq_None_iff)
  then show "\<And>m. map_of out ''Mock'' = Some m \<Longrightarrow> m = JObj (mock_payload (get_prop input ''mock''))"
    and "\<And>p. map_of out ''Pricing'' = Some p \<Longrightarrow> p = JObj (pricing_payload (get_prop input ''pricing''))"
    unfolding out by (auto simp: patch_mock_def patch_pricing_def Let_def split: if_splits)
qed

text \<open>
  Every price the PATCH body carries is a finite number, and the mock delays and the mock
  error status are whole numbers: strings and fractions of the client are converted, and a
  value that is not a number is left out rather than sent.
\<close>

theorem model_patch_numbers:
  assumes "buildAdminModelPatchPayload input = Inr out"
  shows "(\<forall>p k v. map_of out ''Pricing'' = Some p \<longrightarrow> k \<in> {''PromptPer1M'', ''CompletionPer1M''} \<longrightarrow>
            get_prop p k = v \<longrightarrow> v = JUndef \<or> (\<exists>q. v = JNum (Fin q))) \<and>
         (\<forall>m k v. map_of out ''Mock'' = Some m \<longrightarrow>
            k \<in> {''DelayMinMs'', ''DelayMaxMs'', ''ErrorStatus''} \<longrightarrow>
            get_prop m k = v \<longrightarrow> v = JUndef \<or> (\<exists>i. v = jint i))"
proof -
  have fin: "\<exists>q. n = Fin q" if "numFrom obj a b = Some n" for obj a b n
    using numFrom_finite [OF that] by (cases n) auto
  show ?thesis
    by (auto dest!: build_lookup [OF assms] fin intFrom_integer
          simp: js_simps pricing_payload_lookup mock_payload_lookup split: option.splits)
qed

text \<open>A mock delay given as a fractional string, and a price given as a string.\<close>

theorem model_patch_numbers_witness:
  "\<exists>out. buildAdminModelPatchPayload
      (JObj [(''pricing'', JObj [(''prompt_per_1m'', jint 2)]),
             (''mock'', JObj [(''delay_min_ms'', JNum (Fin (5/2)))])]) = Inr out \<and>
     (\<forall>v. get_prop (JObj [(''DelayMinMs'', jint 2)]) ''DelayMinMs'' = v \<longrightarrow> v = JUndef \<or> (\<exists>i. v = jint i)) \<and>
     map_of out ''Mock'' = Some (JObj [(''DelayMinMs'', jint 2)])"
proof -
  let ?in = "JObj [(''pricing'', JObj [(''prompt_per_1m'', jint 2)]),
             (''mock'', JObj [(''delay_min_ms'', JNum (Fin (5/2)))])]"
  have fl: "\<lfloor>5/2 :: rat\<rfloor> = 2" by (simp add: floor_eq_iff)
  obtain out where o: "buildAdminModelPatchPayload ?in = Inr out"
    by (simp add: buildAdminModelPatchPayload_def patch_observable_def js_simps)
  have m: "map_of out ''Mock'' = Some (JObj [(''DelayMinMs'', jint 2)])"
    using o fl
    by (auto simp: buildAdminModelPatchPayload_def patch_observable_def js_simps patch_mock_def
        mock_payload_def isPresent_def set_num_def numFrom_def intFrom_def either_prop_def Let_def)
  from model_patch_numbers [OF o] m o show ?thesis by blast
qed

text \<open>\<open>spelled m1 m2 s p\<close>: the first object has under \<open>s\<close> what the second has under \<open>p\<close>.\<close>

definition spelled :: "jsval \<Rightarrow> jsval \<Rightarrow> string \<Rightarrow> string \<Rightarrow> bool" where
  "spelled m1 m2 s p \<longleftrightarrow> has_own m1 s \<and> \<not> has_own m1 p \<and> has_own m2 p \<and> \<not> has_own m2 s \<and>
     get_prop m1 s = get_prop m2 p"

lemma spelled_reads:
  assumes "spelled m1 m2 s p"
  shows "isPresent m1 s p = isPresent m2 s p"
    and "truthy (either_prop m1 s p) = truthy (either_prop m2 s p)"
    and "numFrom m1 s p = numFrom m2 s p"
    and "intFrom m1 s p = intFrom m2 s p"
    and "mock_text m1 s p = mock_text m2 s p"
proof -
  have u: "get_prop m1 p = JUndef" "get_prop m2 s = JUndef"
    using assms get_prop_not_own by (auto simp: spelled_def)
  show ip: "isPresent m1 s p = isPresent m2 s p"
    using assms by (simp add: spelled_def isPresent_def)
  show "truthy (either_prop m1 s p) = truthy (either_prop m2 s p)"
    and "mock_text m1 s p = mock_text m2 s p"
    using assms u by (auto simp: spelled_def either_prop_def mock_text_def coalesce_def nullish_def)
  show nf: "numFrom m1 s p = numFrom m2 s p"
    using assms u ip by (auto simp: spelled_def numFrom_def either_prop_def coalesce_def nullish_def)
  then show "intFrom m1 s p = intFrom m2 s p" by (simp add: intFrom_def)
qed

lemma pricing_payload_spelling:
  "pricing_payload (JObj [(''prompt_per_1m'', a), (''completion_per_1m'', b)]) =
   pricing_payload (JObj [(''PromptPer1M'', a), (''CompletionPer1M'', b)])"
proof -
  let ?m1 = "JObj [(''prompt_per_1m'', a), (''completion_per_1m'', b)]"
  let ?m2 = "JObj [(''PromptPer1M'', a), (''CompletionPer1M'', b)]"
  have "spelled ?m1 ?m2 ''prompt_per_1m'' ''PromptPer1M''"
    "spelled ?m1 ?m2 ''completion_per_1m'' ''CompletionPer1M''"
    by (simp_all add: spelled_def get_prop_simps has_own_simps)
  then show ?thesis by (simp add: pricing_payload_def spelled_reads)
qed

lemma mock_payload_spelling:
  "mock_payload
       (JObj [(''enabled'', a), (''delay_min_ms'', b), (''delay_max_ms'', c), (''error_rate'', d),
              (''error_status'', f), (''error_message'', g), (''fixed_response'', h)]) =
   mock_payload
       (JObj [(''Enabled'', a), (''DelayMinMs'', b), (''DelayMaxMs'', c), (''ErrorRate'', d),
              (''ErrorStatus'', f), (''ErrorMessage'', g), (''FixedResponse'', h)])"
    (is "mock_payload ?m1 = mock_payload ?m2")
proof -
  have "spelled ?m1 ?m2 ''enabled'' ''Enabled''" "spelled ?m1 ?m2 ''delay_min_ms'' ''DelayMinMs''"
    "spelled ?m1 ?m2 ''delay_max_ms'' ''DelayMaxMs''" "spelled ?m1 ?m2 ''error_rate'' ''ErrorRate''"
    "spelled ?m1 ?m2 ''error_status'' ''ErrorStatus''" "spelled ?m1 ?m2 ''error_message'' ''ErrorMessage''"
    "spelled ?m1 ?m2 ''fixed_response'' ''FixedResponse''"
    by (simp_all add: spelled_def get_prop_simps has_own_simps)
  then show ?thesis by (simp only: mock_payload_def spelled_reads)
qed

text \<open>
  The two spellings of prices and of the mock fields are interchangeable: a client that
  sends the gateway's own Go names gets the same PATCH body as one that sends snake_case.
\<close>

theorem model_patch_spelling_irrelevant:
  "buildAdminModelPatchPayload (JObj (obj_set ''pricing''
       (JObj [(''prompt_per_1m'', a), (''completion_per_1m'', b)]) ps)) =
   buildAdminModelPatchPayload (JObj (obj_set ''pricing''
       (JObj [(''PromptPer1M'', a), (''CompletionPer1M'', b)]) ps)) \<and>
   buildAdminModelPatchPayload (JObj (obj_set ''mock''
       (JObj [(''enabled'', a), (''delay_min_ms'', b), (''delay_max_ms'', c), (''error_rate'', d),
              (''error_status'', f), (''error_message'', g), (''fixed_response'', h)]) ps)) =
   buildAdminModelPatchPayload (JObj (obj_set ''mock''
       (JObj [(''Enabled'', a), (''DelayMinMs'', b), (''DelayMaxMs'', c), (''ErrorRate'', d),
              (''ErrorStatus'', f), (''ErrorMessage'', g), (''FixedResponse'', h)]) ps))"
  by (simp add: buildAdminModelPatchPayload_def patch_observable_def patch_scalars_def patch_defs
      get_prop_obj_set either_prop_def nullish_def pricing_payload_spelling mock_payload_spelling)

end
