(* ===== verification/Provider_Config.thy ===== *)
theory Provider_Config
  imports JS_IO
begin

text \<open>
  Provider configuration: features/providers/api/provider-config-canonical.ts (canonical keys
  of a provider patch), features/providers/lib/from-global-config.ts (the view model of a
  provider entry and the provider list), catalog-provider-ids.ts, provider-display.ts and
  provider-mutation-version.ts.

  \<open>localeCompare\<close> depends on the locale data of the browser; the sorted lists take the
  comparison as a parameter, and what is used of it (a total preorder) is a hypothesis.
\<close>

section \<open>Canonical patches\<close>

definition SNAKE_TO_PASCAL :: "(string \<times> string) list" where
  "SNAKE_TO_PASCAL =
     [(''base_url'', ''BaseURL''), (''enabled'', ''Enabled''), (''type'', ''Type''),
      (''api_key_env'', ''APIKeyEnv''), (''api_version'', ''ApiVersion''),
      (''organization'', ''Organization''), (''project'', ''Project''),
      (''timeout_ms'', ''TimeoutMs''), (''max_retries'', ''MaxRetries''),
      (''has_api_key'', ''HasAPIKey''), (''api_key_source'', ''APIKeySource''),
      (''last_credential_update'', ''LastCredentialUpdate'')]"

text \<open>The two passes of the function, for an alias table.\<close>

fun alias_pass :: "(string \<rightharpoonup> string) \<Rightarrow> props \<Rightarrow> props \<Rightarrow> props" where
  "alias_pass tbl [] result = result"
| "alias_pass tbl ((k, v) # ps) result =
     (if v = JUndef then alias_pass tbl ps result
      else case tbl k of
        Some pascal \<Rightarrow> alias_pass tbl ps (obj_set pascal v result)
      | None \<Rightarrow> alias_pass tbl ps result)"

fun explicit_pass :: "(string \<rightharpoonup> string) \<Rightarrow> props \<Rightarrow> props \<Rightarrow> props" where
  "explicit_pass tbl [] result = result"
| "explicit_pass tbl ((k, v) # ps) result =
     (if v = JUndef then explicit_pass tbl ps result
      else if tbl k \<noteq> None then explicit_pass tbl ps result
      else explicit_pass tbl ps (obj_set k v result))"

definition canonicalizeProviderPatchForGlobalConfig :: "props \<Rightarrow> props" where
  "canonicalizeProviderPatchForGlobalConfig patch =
     explicit_pass (map_of SNAKE_TO_PASCAL) patch (alias_pass (map_of SNAKE_TO_PASCAL) patch [])"

section \<open>What an alias table guarantees\<close>

lemma alias_pass_Cons:
  "alias_pass tbl ((k, v) # ps) r =
     alias_pass tbl ps (if v = JUndef \<or> tbl k = None then r else obj_set (the (tbl k)) v r)"
  by (auto split: option.splits)

lemma explicit_pass_Cons:
  "explicit_pass tbl ((k, v) # ps) r =
     explicit_pass tbl ps (if v = JUndef \<or> tbl k \<noteq> None then r else obj_set k v r)"
  by auto

lemmas pass_Cons = alias_pass_Cons explicit_pass_Cons

locale alias_table =
  fixes tbl :: "string \<rightharpoonup> string"
  assumes target_not_alias: "tbl k = Some p \<Longrightarrow> tbl p = None"
    and tbl_inj: "tbl k = Some p \<Longrightarrow> tbl k' = Some p \<Longrightarrow> k = k'"
begin

lemma alias_pass_keys:
  "fst ` set (alias_pass tbl ps r) \<subseteq> fst ` set r \<union> ran tbl"
proof (induction ps arbitrary: r)
  case (Cons p ps)
  obtain k v where p: "p = (k, v)" by (cases p)
  let ?r = "if v = JUndef \<or> tbl k = None then r else obj_set (the (tbl k)) v r"
  have "fst ` set ?r \<subseteq> fst ` set r \<union> ran tbl" by (cases "tbl k") (simp_all add: ranI subset_insertI2)
  then show ?case using Cons.IH [of ?r] unfolding p alias_pass_Cons by blast
qed simp

lemma explicit_pass_keys:
  "fst ` set (explicit_pass tbl ps r) \<subseteq> fst ` set r \<union> - dom tbl"
proof (induction ps arbitrary: r)
  case (Cons p ps)
  obtain k v where p: "p = (k, v)" by (cases p)
  let ?r = "if v = JUndef \<or> tbl k \<noteq> None then r else obj_set k v r"
  have "fst ` set ?r \<subseteq> fst ` set r \<union> - dom tbl" by (simp add: subset_insertI2 domIff)
  then show ?case using Cons.IH [of ?r] unfolding p explicit_pass_Cons by blast
qed simp

text \<open>No alias survives canonicalisation.\<close>

lemma no_alias_left:
  "fst ` set (explicit_pass tbl ps (alias_pass tbl qs [])) \<inter> dom tbl = {}"
proof -
  have "ran tbl \<subseteq> - dom tbl" using target_not_alias by (auto simp: ran_def dom_def)
  then show ?thesis
    using explicit_pass_keys [of ps "alias_pass tbl qs []"] alias_pass_keys [of qs "[]"] by auto
qed

lemma alias_pass_other:
  "(\<And>k. k \<in> fst ` set ps \<Longrightarrow> tbl k \<noteq> Some p) \<Longrightarrow> map_of (alias_pass tbl ps r) p = map_of r p"
proof (induction ps arbitrary: r)
  case (Cons q ps)
  obtain k v where q: "q = (k, v)" by (cases q)
  have "tbl k \<noteq> Some p" using Cons.prems q by simp
  then have "tbl k = None \<or> the (tbl k) \<noteq> p" by auto
  then show ?case using Cons unfolding q alias_pass_Cons by auto
qed simp

lemma alias_pass_lookup:
  assumes "tbl s = Some p" and "distinct (map fst ps)"
  shows "map_of (alias_pass tbl ps r) p =
    (case map_of ps s of Some v \<Rightarrow> if v = JUndef then map_of r p else Some v | None \<Rightarrow> map_of r p)"
  using assms(2)
proof (induction ps arbitrary: r)
  case (Cons q ps)
  obtain k v where q: "q = (k, v)" by (cases q)
  show ?case
  proof (cases "k = s")
    case True
    have "tbl k' \<noteq> Some p" if "k' \<in> fst ` set ps" for k'
      using that Cons.prems q True assms(1) tbl_inj by auto
    then have "map_of (alias_pass tbl ps r') p = map_of r' p" for r' by (rule alias_pass_other)
    then show ?thesis using True assms(1) unfolding q alias_pass_Cons by simp
  next
    case False
    then have "tbl k = None \<or> the (tbl k) \<noteq> p" using tbl_inj assms(1) by force
    then show ?thesis using Cons False unfolding q alias_pass_Cons by (auto split: option.splits)
  qed
qed simp

lemma explicit_pass_lookup:
  assumes "tbl p = None" and "distinct (map fst ps)"
  shows "map_of (explicit_pass tbl ps r) p =
    (case map_of ps p of Some v \<Rightarrow> if v = JUndef then map_of r p else Some v | None \<Rightarrow> map_of r p)"
  using assms(2)
proof (induction ps arbitrary: r)
  case (Cons q ps)
  obtain k v where q: "q = (k, v)" by (cases q)
  have "k = p \<Longrightarrow> map_of ps p = None" using Cons.prems q by (auto simp: map_of_eq_None_iff)
  then show ?case using Cons assms(1) unfolding q explicit_pass_Cons by (auto split: option.splits)
qed simp

lemma explicit_pass_alias_key:
  "tbl p \<noteq> None \<Longrightarrow> map_of (explicit_pass tbl ps r) p = map_of r p"
proof (induction ps arbitrary: r)
  case (Cons q ps)
  obtain k v where q: "q = (k, v)" by (cases q)
  show ?case using Cons unfolding q explicit_pass_Cons by auto
qed simp

text \<open>A key with an alias reads the explicit value first, then the alias.\<close>

lemma canonical_lookup:
  assumes "tbl s = Some p" and "distinct (map fst ps)"
  shows "map_of (explicit_pass tbl ps (alias_pass tbl ps [])) p =
    (case map_of ps p of
       Some v \<Rightarrow> if v \<noteq> JUndef then Some v
                 else (case map_of ps s of Some w \<Rightarrow> if w = JUndef then None else Some w | None \<Rightarrow> None)
     | None \<Rightarrow> (case map_of ps s of Some w \<Rightarrow> if w = JUndef then None else Some w | None \<Rightarrow> None))"
  using assms target_not_alias [OF assms(1)]
  by (simp add: explicit_pass_lookup alias_pass_lookup split: option.splits)

text \<open>A patch that is already canonical is left as it is.\<close>

lemma alias_pass_id: "fst ` set ps \<inter> dom tbl = {} \<Longrightarrow> alias_pass tbl ps r = r"
proof (induction ps arbitrary: r)
  case (Cons q ps)
  obtain k v where q: "q = (k, v)" by (cases q)
  have "tbl k = None" using Cons.prems q by (simp add: domIff)
  then show ?case using Cons unfolding q alias_pass_Cons by auto
qed simp

lemma explicit_pass_id:
  assumes "fst ` set ps \<inter> dom tbl = {}" and "distinct (map fst (r @ ps))" and "JUndef \<notin> snd ` set ps"
  shows "explicit_pass tbl ps r = r @ ps"
  using assms
proof (induction ps arbitrary: r)
  case (Cons q ps)
  obtain k v where q: "q = (k, v)" by (cases q)
  have "tbl k = None" "v \<noteq> JUndef" "k \<notin> fst ` set r" using Cons.prems q by (auto simp: domIff)
  then have "explicit_pass tbl (q # ps) r = explicit_pass tbl ps (r @ [(k, v)])"
    unfolding q explicit_pass_Cons by (simp add: obj_set_fresh)
  also have "\<dots> = (r @ [(k, v)]) @ ps" using Cons.prems q by (intro Cons.IH) auto
  finally show ?case using q by simp
qed simp

lemma passes_distinct:
  "distinct (map fst r) \<Longrightarrow> distinct (map fst (alias_pass tbl ps r))"
  "distinct (map fst r) \<Longrightarrow> distinct (map fst (explicit_pass tbl ps r))"
proof (induction ps arbitrary: r)
  case (Cons q ps)
  obtain k v where q: "q = (k, v)" by (cases q)
  {
    case 1
    then show ?case using Cons.IH(1) unfolding q alias_pass_Cons by (simp add: distinct_obj_set)
  next
    case 2
    then show ?case using Cons.IH(2) unfolding q explicit_pass_Cons by (simp add: distinct_obj_set)
  }
qed simp_all

lemma obj_set_defined: "JUndef \<notin> snd ` set r \<Longrightarrow> v \<noteq> JUndef \<Longrightarrow> JUndef \<notin> snd ` set (obj_set k v r)"
proof (induction r)
  case (Cons q r)
  then show ?case by (cases q) (simp add: image_iff)
qed simp

lemma passes_defined:
  "JUndef \<notin> snd ` set r \<Longrightarrow> JUndef \<notin> snd ` set (alias_pass tbl ps r)"
  "JUndef \<notin> snd ` set r \<Longrightarrow> JUndef \<notin> snd ` set (explicit_pass tbl ps r)"
proof (induction ps arbitrary: r)
  case (Cons q ps)
  obtain k v where q: "q = (k, v)" by (cases q)
  {
    case 1
    then show ?case using Cons.IH(1) unfolding q alias_pass_Cons by (simp add: obj_set_defined)
  next
    case 2
    then show ?case using Cons.IH(2) unfolding q explicit_pass_Cons by (simp add: obj_set_defined)
  }
qed simp_all

lemma canonical_idem:
  fixes ps :: props
  defines "c \<equiv> (\<lambda>ps. explicit_pass tbl ps (alias_pass tbl ps []))"
  shows "c (c ps) = c ps"
proof -
  have k: "fst ` set (c ps) \<inter> dom tbl = {}" unfolding c_def by (rule no_alias_left)
  have d: "distinct (map fst ([] @ c ps))" unfolding c_def by (simp add: passes_distinct)
  have u: "JUndef \<notin> snd ` set (c ps)" unfolding c_def by (simp add: passes_defined)
  show ?thesis using explicit_pass_id [OF k d u] alias_pass_id [OF k] by (simp add: c_def)
qed

end

lemma snake_targets:
  "list_all (\<lambda>p. map_of SNAKE_TO_PASCAL (snd p) = None) SNAKE_TO_PASCAL"
  by code_simp

lemma snake_targets_distinct: "distinct (map snd SNAKE_TO_PASCAL)"
  by code_simp

interpretation snake: alias_table "map_of SNAKE_TO_PASCAL"
proof unfold_locales
  fix k p
  assume "map_of SNAKE_TO_PASCAL k = Some p"
  then have kp: "(k, p) \<in> set SNAKE_TO_PASCAL" by (rule map_of_SomeD)
  then show "map_of SNAKE_TO_PASCAL p = None" using snake_targets by (auto simp: list_all_iff)
  fix k'
  assume "map_of SNAKE_TO_PASCAL k' = Some p"
  then have "(k', p) \<in> set SNAKE_TO_PASCAL" by (rule map_of_SomeD)
  with kp show "k = k'" using snake_targets_distinct by (fastforce simp: distinct_map inj_on_def)
qed

text \<open>
  A canonical provider patch holds no snake_case alias, never an undefined value, and
  canonicalising it again changes nothing, so repeated saves cannot accumulate twin fields.
\<close>

theorem canonical_patch_stable:
  "fst ` set (canonicalizeProviderPatchForGlobalConfig patch) \<inter> fst ` set SNAKE_TO_PASCAL = {} \<and>
   JUndef \<notin> snd ` set (canonicalizeProviderPatchForGlobalConfig patch) \<and>
   canonicalizeProviderPatchForGlobalConfig (canonicalizeProviderPatchForGlobalConfig patch) =
     canonicalizeProviderPatchForGlobalConfig patch"
  using snake.no_alias_left [of patch patch] snake.canonical_idem [of patch]
  by (simp add: canonicalizeProviderPatchForGlobalConfig_def dom_map_of_conv_image_fst
      snake.passes_defined)

text \<open>
  Precedence in a canonical patch: the Go spelling the caller wrote wins over its
  snake_case alias, the alias is used when the Go spelling is absent or undefined, and every
  key that is not an alias or the target of one keeps its value.
\<close>

theorem canonical_patch_precedence:
  assumes "distinct (map fst patch)" and "(snake_key, pascal) \<in> set SNAKE_TO_PASCAL"
    and "k \<notin> fst ` set SNAKE_TO_PASCAL" and "k \<notin> snd ` set SNAKE_TO_PASCAL"
  shows "get_prop (JObj (canonicalizeProviderPatchForGlobalConfig patch)) pascal =
           (if get_prop (JObj patch) pascal \<noteq> JUndef then get_prop (JObj patch) pascal
            else get_prop (JObj patch) snake_key)
    \<and> get_prop (JObj (canonicalizeProviderPatchForGlobalConfig patch)) k = get_prop (JObj patch) k"
proof -
  have "distinct (map fst SNAKE_TO_PASCAL)" by code_simp
  then have t: "map_of SNAKE_TO_PASCAL snake_key = Some pascal" using assms(2) by simp
  have kn: "map_of SNAKE_TO_PASCAL k = None" using assms(3) by (simp add: map_of_eq_None_iff)
  have "k \<notin> ran (map_of SNAKE_TO_PASCAL)"
    using assms(4) map_of_SomeD by (fastforce simp: ran_def image_iff)
  then have "map_of (alias_pass (map_of SNAKE_TO_PASCAL) patch []) k = None"
    using snake.alias_pass_keys [of patch "[]"] by (auto simp: map_of_eq_None_iff)
  then show ?thesis
    using snake.canonical_lookup [OF t assms(1)] snake.explicit_pass_lookup [OF kn assms(1)]
    by (auto simp: canonicalizeProviderPatchForGlobalConfig_def get_prop_simps split: option.splits)
qed

text \<open>Precedence on a patch that spells the base URL twice.\<close>

theorem canonical_patch_precedence_witness:
  "get_prop (JObj (canonicalizeProviderPatchForGlobalConfig
      [(''base_url'', JStr ''http://a''), (''BaseURL'', JStr ''http://b'')])) ''BaseURL'' = JStr ''http://b''"
proof -
  have d: "distinct (map fst [(''base_url'', JStr ''http://a''), (''BaseURL'', JStr ''http://b'')])" by simp
  have k: "(''base_url'', ''BaseURL'') \<in> set SNAKE_TO_PASCAL" by (simp add: SNAKE_TO_PASCAL_def)
  have n: "''notes'' \<notin> fst ` set SNAKE_TO_PASCAL" "''notes'' \<notin> snd ` set SNAKE_TO_PASCAL"
    by (simp_all add: SNAKE_TO_PASCAL_def)
  show ?thesis using canonical_patch_precedence [OF d k n] by (simp add: get_prop_simps)
qed

section \<open>The view model of a provider\<close>

datatype key_source = SrcEnv | SrcStored | SrcMissing

datatype provider_status = Ready | MissingCredentials | Disabled

record provider_vm =
  pv_id :: string
  pv_type :: string
  pv_enabled :: bool
  pv_has_api_key :: bool
  pv_api_key_source :: key_source
  pv_base_url :: "string option"
  pv_status :: provider_status
  pv_api_version :: "string option"
  pv_organization :: "string option"
  pv_project :: "string option"
  pv_timeout_ms :: "jsnum option"
  pv_max_retries :: "jsnum option"
  pv_last_credential_update :: "string option"
  pv_version :: jsval
  pv_aws_access_key_id :: "string option"
  pv_aws_region :: "string option"
  pv_aws_secret_configured :: "bool option"

definition asRecord :: "jsval \<Rightarrow> jsval" where
  "asRecord raw = (if is_object raw then raw else JObj [])"

fun getStr :: "jsval \<Rightarrow> string list \<Rightarrow> string option" where
  "getStr pc [] = None"
| "getStr pc (k # ks) =
     (let v = get_prop pc k in if is_str v \<and> str_of v \<noteq> [] then Some (str_of v) else getStr pc ks)"

fun getNum :: "jsval \<Rightarrow> string list \<Rightarrow> jsnum option" where
  "getNum pc [] = None"
| "getNum pc (k # ks) =
     (case get_prop pc k of JNum n \<Rightarrow> if n \<noteq> NaN then Some n else getNum pc ks | _ \<Rightarrow> getNum pc ks)"

definition getEnabled :: "jsval \<Rightarrow> bool" where
  "getEnabled pc =
     (let v = coalesce (get_prop pc ''Enabled'') (get_prop pc ''enabled'')
      in if nullish v then True else truthy v)"

definition normalizeApiKeySource :: "jsval \<Rightarrow> key_source" where
  "normalizeApiKeySource raw =
     (let s = (if is_str raw then to_lower (str_of raw) else []) in
      if s = ''env'' \<or> s = ''environment'' then SrcEnv
      else if s = ''stored'' \<or> s = ''global_config'' \<or> s = ''global config'' then SrcStored
      else SrcMissing)"

definition deriveStatus :: "bool \<Rightarrow> bool \<Rightarrow> key_source \<Rightarrow> provider_status" where
  "deriveStatus enabled hasApiKey src =
     (if \<not> enabled then Disabled
      else if \<not> hasApiKey \<and> src = SrcMissing then MissingCredentials
      else if \<not> hasApiKey then MissingCredentials
      else Ready)"

definition opt_trim_nonempty :: "string option \<Rightarrow> bool" where
  "opt_trim_nonempty s = (case s of None \<Rightarrow> False | Some t \<Rightarrow> trim t \<noteq> [])"

definition isAwsBedrockReady :: "string \<Rightarrow> string option \<Rightarrow> string option \<Rightarrow> bool" where
  "isAwsBedrockReady ty ak region \<longleftrightarrow>
     ty = ''aws_bedrock'' \<and> opt_trim_nonempty ak \<and> opt_trim_nonempty region"

definition providerEntryToViewModel :: "string \<Rightarrow> jsval \<Rightarrow> jsval \<Rightarrow> provider_vm" where
  "providerEntryToViewModel id' entry documentVersion =
     (let pc = asRecord entry;
          enabled = getEnabled pc;
          ty = (case getStr pc [''Type'', ''type''] of Some t \<Rightarrow> t | None \<Rightarrow> id');
          ak = getStr pc [''AwsAccessKeyID'', ''aws_access_key_id''];
          region = getStr pc [''AwsRegion'', ''aws_region''];
          secretInMap = opt_trim_nonempty (getStr pc [''AwsSecretAccessKey'', ''aws_secret_access_key'']);
          bedrock = (ty = ''aws_bedrock'' \<or> id' = ''bedrock'');
          ready = isAwsBedrockReady ''aws_bedrock'' ak region;
          apiKeyEnv = getStr pc [''APIKeyEnv'', ''api_key_env''];
          hasMeta = coalesce (get_prop pc ''HasAPIKey'') (get_prop pc ''has_api_key'');
          hasApiKey = (if bedrock then ready
                       else case hasMeta of JBool b \<Rightarrow> b | _ \<Rightarrow> apiKeyEnv \<noteq> None);
          src0 = normalizeApiKeySource (coalesce (get_prop pc ''APIKeySource'') (get_prop pc ''api_key_source''));
          src = (if bedrock then (if ready then SrcStored else SrcMissing)
                 else if src0 = SrcMissing \<and> apiKeyEnv \<noteq> None then SrcEnv else src0)
      in \<lparr>pv_id = id', pv_type = (if bedrock then ''aws_bedrock'' else ty), pv_enabled = enabled,
          pv_has_api_key = hasApiKey, pv_api_key_source = src,
          pv_base_url = getStr pc [''BaseURL'', ''base_url''],
          pv_status = deriveStatus enabled hasApiKey src,
          pv_api_version = getStr pc [''ApiVersion'', ''api_version''],
          pv_organization = getStr pc [''Organization'', ''organization''],
          pv_project = getStr pc [''Project'', ''project''],
          pv_timeout_ms = getNum pc [''TimeoutMs'', ''timeout_ms''],
          pv_max_retries = getNum pc [''MaxRetries'', ''max_retries''],
          pv_last_credential_update = getStr pc [''LastCredentialUpdate'', ''last_credential_update''],
          pv_version = documentVersion,
          pv_aws_access_key_id = (if bedrock then ak else None),
          pv_aws_region = (if bedrock then region else None),
          pv_aws_secret_configured = (if bedrock then Some (secretInMap \<or> ready) else None)\<rparr>)"

section \<open>Sorted provider lists\<close>

text \<open>\<open>Array.prototype.sort\<close> is stable: with a total preorder the result is determined, and
  insertion from the right computes it.\<close>

fun insert_by :: "('a \<Rightarrow> 'a \<Rightarrow> bool) \<Rightarrow> 'a \<Rightarrow> 'a list \<Rightarrow> 'a list" where
  "insert_by leq x [] = [x]"
| "insert_by leq x (y # ys) = (if leq x y then x # y # ys else y # insert_by leq x ys)"

definition sort_by :: "('a \<Rightarrow> 'a \<Rightarrow> bool) \<Rightarrow> 'a list \<Rightarrow> 'a list" where
  "sort_by leq xs = foldr (insert_by leq) xs []"

lemma mset_insert_by: "set (insert_by leq x ys) = insert x (set ys)"
  "length (insert_by leq x ys) = Suc (length ys)"
  "distinct (map f (insert_by leq x ys)) \<longleftrightarrow> f x \<notin> f ` set ys \<and> distinct (map f ys)"
  by (induction ys) auto

lemma sort_by_set [simp]: "set (sort_by leq xs) = set xs" "length (sort_by leq xs) = length xs"
  "distinct (map f (sort_by leq xs)) \<longleftrightarrow> distinct (map f xs)"
  by (induction xs) (auto simp: sort_by_def mset_insert_by)

lemma sorted_insert_by:
  assumes tot: "\<And>a b. leq a b \<or> leq b a" and tr: "\<And>a b c. leq a b \<Longrightarrow> leq b c \<Longrightarrow> leq a c"
  shows "sorted_wrt leq ys \<Longrightarrow> sorted_wrt leq (insert_by leq x ys)"
proof (induction ys)
  case (Cons y ys)
  show ?case
  proof (cases "leq x y")
    case True
    with Cons.prems show ?thesis by (auto intro: tr)
  next
    case False
    then have "leq y x" using tot by blast
    with Cons False show ?thesis by (auto simp: mset_insert_by)
  qed
qed simp

lemma sorted_sort_by:
  assumes "\<And>a b. leq a b \<or> leq b a" and "\<And>a b c. leq a b \<Longrightarrow> leq b c \<Longrightarrow> leq a c"
  shows "sorted_wrt leq (sort_by leq xs)"
  by (induction xs) (simp_all add: sort_by_def sorted_insert_by [OF assms])

record GlobalConfig =
  gc_version :: jsval
  gc_config :: jsval

definition provider_entries :: "GlobalConfig \<Rightarrow> props" where
  "provider_entries gc =
     (let raw = get_prop (gc_config gc) ''providers'' in if is_object raw then js_entries raw else [])"

definition vm_list :: "GlobalConfig \<Rightarrow> provider_vm list" where
  "vm_list gc =
     (let list' = map (\<lambda>p. providerEntryToViewModel (fst p) (snd p) (gc_version gc)) (provider_entries gc)
      in if ''bedrock'' \<in> set (map pv_id list') then list'
         else list' @ [providerEntryToViewModel ''bedrock'' (JObj []) (gc_version gc)])"

definition providersFromGlobalConfig ::
  "(string \<Rightarrow> string \<Rightarrow> bool) \<Rightarrow> GlobalConfig option \<Rightarrow> provider_vm list" where
  "providersFromGlobalConfig locale_le globalConfig =
     (case globalConfig of
        None \<Rightarrow> []
      | Some gc \<Rightarrow>
          if \<not> truthy (gc_config gc) then []
          else sort_by (\<lambda>a b. locale_le (pv_id a) (pv_id b)) (vm_list gc))"

definition catalogProviderIdsForModels ::
  "(string \<Rightarrow> string \<Rightarrow> bool) \<Rightarrow> string list option \<Rightarrow> string list" where
  "catalogProviderIdsForModels locale_le runtimeProviders =
     (let ids = remdups (rev (case runtimeProviders of None \<Rightarrow> [] | Some ps \<Rightarrow> ps));
          ids' = rev ids
      in sort_by locale_le (if ''bedrock'' \<in> set ids' then ids' else ids' @ [''bedrock'']))"

text \<open>\<open>charAt(0).toUpperCase()\<close> on the Latin-1 range, without the two letters whose capital is
  outside it.\<close>

definition providerDisplayTitle :: "string \<Rightarrow> string" where
  "providerDisplayTitle id' =
     (if id' = ''bedrock'' then ''AWS Bedrock''
      else case id' of [] \<Rightarrow> ''Provider''
        | c # r \<Rightarrow>
            (if (97 \<le> code c \<and> code c \<le> 122) \<or> (224 \<le> code c \<and> code c \<le> 254 \<and> code c \<noteq> 247)
             then [char_of (code c - 32)] else if code c = 223 then ''SS'' else [c]) @ r)"

definition providerDetailHeading :: "string \<Rightarrow> string" where
  "providerDetailHeading id' =
     (if id' = ''bedrock'' then ''AWS Bedrock Provider'' else providerDisplayTitle id' @ '' Provider'')"

definition isAwsBedrockProvider :: "string \<Rightarrow> string \<Rightarrow> bool" where
  "isAwsBedrockProvider id' ty \<longleftrightarrow> ty = ''aws_bedrock'' \<or> id' = ''bedrock''"

text \<open>\<open>cached\<close> is \<open>queryClient.getQueryData(['globalConfig'])\<close>.\<close>

definition getVersionForProviderMutation :: "jsval \<Rightarrow> jsnum \<Rightarrow> jsnum" where
  "getVersionForProviderMutation cached fallback =
     (case get_prop cached ''version'' of JNum n \<Rightarrow> n | _ \<Rightarrow> fallback)"

lemma vm_id [simp]: "pv_id (providerEntryToViewModel i v ver) = i"
  by (simp add: providerEntryToViewModel_def Let_def)

lemma vm_status: "pv_status (providerEntryToViewModel i v ver) =
    (if \<not> pv_enabled (providerEntryToViewModel i v ver) then Disabled
     else if pv_has_api_key (providerEntryToViewModel i v ver) then Ready else MissingCredentials)"
  by (simp add: providerEntryToViewModel_def Let_def deriveStatus_def)

lemma vm_list_ids:
  "set (map pv_id (vm_list gc)) = insert ''bedrock'' (fst ` set (provider_entries gc))"
proof -
  have "pv_id ` (\<lambda>p. providerEntryToViewModel (fst p) (snd p) (gc_version gc)) ` A = fst ` A" for A
    by (simp add: image_image)
  then show ?thesis by (auto simp: vm_list_def Let_def)
qed

lemma vm_list_views: "p \<in> set (vm_list gc) \<Longrightarrow> \<exists>v. p = providerEntryToViewModel (pv_id p) v (gc_version gc)"
  by (auto simp: vm_list_def Let_def split: if_splits)

text \<open>
  The provider list of a loaded global config shows every configured provider and always
  AWS Bedrock, is sorted by id, and a provider is shown Ready exactly when it is enabled and
  has credentials, Disabled exactly when it is not enabled; without a config it is empty.
\<close>

theorem provider_list_correct:
  assumes "\<forall>a b. locale_le a b \<or> locale_le b a"
    and "\<forall>a b c. locale_le a b \<longrightarrow> locale_le b c \<longrightarrow> locale_le a c"
    and "truthy (gc_config gc)"
  shows "set (map pv_id (providersFromGlobalConfig locale_le (Some gc))) =
           insert ''bedrock'' (fst ` set (provider_entries gc)) \<and>
         sorted_wrt (\<lambda>a b. locale_le (pv_id a) (pv_id b)) (providersFromGlobalConfig locale_le (Some gc)) \<and>
         (\<forall>p. p \<in> set (providersFromGlobalConfig locale_le (Some gc)) \<longrightarrow>
            (pv_status p = Ready \<longleftrightarrow> pv_enabled p \<and> pv_has_api_key p) \<and>
            (pv_status p = Disabled \<longleftrightarrow> \<not> pv_enabled p))"
proof -
  let ?l = "providersFromGlobalConfig locale_le (Some gc)"
  have l: "?l = sort_by (\<lambda>a b. locale_le (pv_id a) (pv_id b)) (vm_list gc)"
    using assms(3) by (simp add: providersFromGlobalConfig_def)
  have "sorted_wrt (\<lambda>a b. locale_le (pv_id a) (pv_id b)) ?l"
    unfolding l by (rule sorted_sort_by) (use assms in blast)+
  moreover have "set (map pv_id ?l) = set (map pv_id (vm_list gc))" unfolding l by simp
  moreover have "(pv_status p = Ready \<longleftrightarrow> pv_enabled p \<and> pv_has_api_key p) \<and>
            (pv_status p = Disabled \<longleftrightarrow> \<not> pv_enabled p)" if "p \<in> set ?l" for p
  proof -
    from that obtain v where p: "p = providerEntryToViewModel (pv_id p) v (gc_version gc)"
      unfolding l using vm_list_views by auto
    show ?thesis by (subst (1 2 3 4 5) p) (simp add: vm_status)
  qed
  ultimately show ?thesis using vm_list_ids [of gc] by auto
qed

text \<open>A config with one provider, and a comparison by length of the ids.\<close>

theorem provider_list_correct_witness:
  "set (map pv_id (providersFromGlobalConfig (\<lambda>a b. length a \<le> length b)
      (Some \<lparr>gc_version = jint 7, gc_config = JObj [(''providers'', JObj [(''openai'', JObj [])])]\<rparr>))) =
   {''bedrock'', ''openai''}"
proof -
  let ?gc = "\<lparr>gc_version = jint 7, gc_config = JObj [(''providers'', JObj [(''openai'', JObj [])])]\<rparr>"
  let ?le = "\<lambda>a b :: string. length a \<le> length b"
  have t: "truthy (gc_config ?gc)" by simp
  have tot: "\<forall>a b. ?le a b \<or> ?le b a" by (simp add: linear)
  have tr: "\<forall>a b c. ?le a b \<longrightarrow> ?le b c \<longrightarrow> ?le a c" by simp
  have "fst ` set (provider_entries ?gc) = {''openai''}"
    by (simp add: provider_entries_def get_prop_simps)
  then show ?thesis using provider_list_correct [OF tot tr t] by simp
qed

end
