(* ===== verification/Gateway_Api.thy ===== *)
theory Gateway_Api
  imports Gateway_Client Model_Patch Provider_Config
begin

text \<open>
  lib/server/gateway-admin-client.ts, the operations: one definition per exported function
  over \<open>gatewayAdminFetch\<close>. A \<open>version\<close> argument is the value the route passes on
  (\<open>version.toString()\<close> raises on a nullish one); bodies are the values given to
  \<open>JSON.stringify\<close>.
\<close>

section \<open>Dashboard and benchmarks\<close>

definition getVersion :: "env \<Rightarrow> jsval io" where
  "getVersion e = gatewayAdminFetch e ''/admin/version'' (gw_get None)"

definition getTenants :: "env \<Rightarrow> string option \<Rightarrow> jsval io" where
  "getTenants e tok = gatewayAdminFetch e ''/admin/tenants'' (gw_get tok)"

definition getModels :: "env \<Rightarrow> string option \<Rightarrow> jsval io" where
  "getModels e tok = gatewayAdminFetch e ''/admin/models'' (gw_get tok)"

definition getProviders :: "env \<Rightarrow> string option \<Rightarrow> jsval io" where
  "getProviders e tok = gatewayAdminFetch e ''/admin/providers'' (gw_get tok)"

definition getSystemHealth :: "env \<Rightarrow> string option \<Rightarrow> jsval io" where
  "getSystemHealth e tok = gatewayAdminFetch e ''/admin/health/system'' (gw_get tok)"

definition getRouteGroups :: "env \<Rightarrow> jsval io" where
  "getRouteGroups e = gatewayAdminFetch e ''/admin/route-groups'' (gw_get None)"

definition getFeatures :: "env \<Rightarrow> jsval io" where
  "getFeatures e = gatewayAdminFetch e ''/admin/features'' (gw_get None)"

definition getModelBenchmarks :: "env \<Rightarrow> jsnum \<Rightarrow> string option \<Rightarrow> jsval io" where
  "getModelBenchmarks e windowHours tok =
     gatewayAdminFetch e (''/admin/benchmarks/models?window_hours='' @ num_to_string windowHours)
       (gw_get tok)"

definition deleteModelBenchmarks :: "env \<Rightarrow> string option \<Rightarrow> jsval io" where
  "deleteModelBenchmarks e tok =
     gatewayAdminFetch e ''/admin/benchmarks/models'' (gw_send ''DELETE'' NoBody tok)"

definition getBenchmarks :: "env \<Rightarrow> string option \<Rightarrow> jsval io" where
  "getBenchmarks e tok = gatewayAdminFetch e ''/admin/benchmarks'' (gw_get tok)"

definition getBenchmark :: "env \<Rightarrow> string \<Rightarrow> string option \<Rightarrow> jsval io" where
  "getBenchmark e benchmarkId tok =
     gatewayAdminFetch e (''/admin/benchmarks/'' @ benchmarkId) (gw_get tok)"

definition getBenchmarkSummary :: "env \<Rightarrow> string option \<Rightarrow> jsval io" where
  "getBenchmarkSummary e tok = gatewayAdminFetch e ''/admin/benchmarks/summary'' (gw_get tok)"

definition createBenchmark :: "env \<Rightarrow> jsval \<Rightarrow> string option \<Rightarrow> jsval io" where
  "createBenchmark e request tok =
     gatewayAdminFetch e ''/admin/benchmarks'' (gw_send ''POST'' (JsonBody request) tok)"

section \<open>Models\<close>

definition createModel :: "env \<Rightarrow> jsval \<Rightarrow> jsval \<Rightarrow> string option \<Rightarrow> jsval io" where
  "createModel e model version tok =
     io_bind (method_to_string version) (\<lambda>v.
       gatewayAdminFetch e ''/admin/models'' (gw_send_version ''POST'' v (JsonBody model) tok))"

definition updateModel :: "env \<Rightarrow> string \<Rightarrow> jsval \<Rightarrow> jsval \<Rightarrow> string option \<Rightarrow> jsval io" where
  "updateModel e modelId model version tok =
     io_bind (io_of_sum (buildAdminModelPatchPayload model)) (\<lambda>patch.
     io_bind (method_to_string version) (\<lambda>v.
       gatewayAdminFetch e (''/admin/models/'' @ modelId)
         (gw_send_version ''PATCH'' v (JsonBody (JObj patch)) tok)))"

definition deleteModel :: "env \<Rightarrow> string \<Rightarrow> jsval \<Rightarrow> string option \<Rightarrow> jsval io" where
  "deleteModel e modelId version tok =
     io_bind (method_to_string version) (\<lambda>v.
       gatewayAdminFetch e (''/admin/models/'' @ modelId) (gw_send_version ''DELETE'' v NoBody tok))"

section \<open>Tenants\<close>

definition tenant_path :: "string \<Rightarrow> string \<Rightarrow> string" where
  "tenant_path tenantId rest = ''/admin/tenants/'' @ tenantId @ rest"

definition getTenantConfig :: "env \<Rightarrow> string \<Rightarrow> string option \<Rightarrow> jsval io" where
  "getTenantConfig e tenantId tok = gatewayAdminFetch e (tenant_path tenantId ''/config'') (gw_get tok)"

definition createTenant :: "env \<Rightarrow> jsval \<Rightarrow> string \<Rightarrow> string option \<Rightarrow> jsval io" where
  "createTenant e tenantId environment tok =
     gatewayAdminFetch e ''/admin/tenants''
       (gw_send ''POST''
          (JsonBody (JObj [(''tenant_id'', tenantId), (''environment'', JStr environment)])) tok)"

definition patchTenantConfig :: "env \<Rightarrow> string \<Rightarrow> jsval \<Rightarrow> jsval \<Rightarrow> string option \<Rightarrow> jsval io" where
  "patchTenantConfig e tenantId config version tok =
     io_bind (method_to_string version) (\<lambda>v.
       gatewayAdminFetch e (tenant_path tenantId ''/config'')
         (gw_send_version ''PATCH'' v (JsonBody (JObj [(''budgets'', config)])) tok))"

definition patchTenantConfigGeneric ::
  "env \<Rightarrow> string \<Rightarrow> jsval \<Rightarrow> jsval \<Rightarrow> string option \<Rightarrow> jsval io" where
  "patchTenantConfigGeneric e tenantId patch version tok =
     io_bind (method_to_string version) (\<lambda>v.
       gatewayAdminFetch e (tenant_path tenantId ''/config'')
         (gw_send_version ''PATCH'' v (JsonBody patch) tok))"

definition deleteTenant :: "env \<Rightarrow> string \<Rightarrow> string option \<Rightarrow> jsval io" where
  "deleteTenant e tenantId tok =
     gatewayAdminFetch e (tenant_path tenantId []) (gw_send ''DELETE'' NoBody tok)"

definition getTenantApiKeys :: "env \<Rightarrow> string \<Rightarrow> string option \<Rightarrow> jsval io" where
  "getTenantApiKeys e tenantId tok =
     gatewayAdminFetch e (tenant_path tenantId ''/api-keys'') (gw_get tok)"

definition month_param :: "string option \<Rightarrow> string" where
  "month_param month = (case month of Some (c # m) \<Rightarrow> ''?month='' @ c # m | _ \<Rightarrow> [])"

definition getTenantUsage :: "env \<Rightarrow> string \<Rightarrow> string option \<Rightarrow> string option \<Rightarrow> jsval io" where
  "getTenantUsage e tenantId month tok =
     gatewayAdminFetch e (tenant_path tenantId (''/usage'' @ month_param month)) (gw_get tok)"

definition getTenantUsageSummary :: "env \<Rightarrow> string \<Rightarrow> string option \<Rightarrow> string option \<Rightarrow> jsval io" where
  "getTenantUsageSummary e tenantId month tok =
     gatewayAdminFetch e (tenant_path tenantId (''/usage/summary'' @ month_param month)) (gw_get tok)"

definition getTenantBudgetStatus :: "env \<Rightarrow> string \<Rightarrow> string option \<Rightarrow> jsval io" where
  "getTenantBudgetStatus e tenantId tok =
     gatewayAdminFetch e (tenant_path tenantId ''/budgets/status'') (gw_get tok)"

definition createTenantApiKey :: "env \<Rightarrow> string \<Rightarrow> jsval \<Rightarrow> string option \<Rightarrow> jsval io" where
  "createTenantApiKey e tenantId data tok =
     gatewayAdminFetch e (tenant_path tenantId ''/api-keys'') (gw_send ''POST'' (JsonBody data) tok)"

definition rotateTenantApiKey :: "env \<Rightarrow> string \<Rightarrow> string \<Rightarrow> string option \<Rightarrow> jsval io" where
  "rotateTenantApiKey e tenantId keyId tok =
     gatewayAdminFetch e (tenant_path tenantId (''/api-keys/'' @ keyId @ ''/rotate''))
       (gw_send ''POST'' NoBody tok)"

definition revokeTenantApiKey :: "env \<Rightarrow> string \<Rightarrow> string \<Rightarrow> string option \<Rightarrow> jsval io" where
  "revokeTenantApiKey e tenantId keyId tok =
     gatewayAdminFetch e (tenant_path tenantId (''/api-keys/'' @ keyId @ ''/revoke''))
       (gw_send ''POST'' NoBody tok)"

definition testTenantPiiConnection :: "env \<Rightarrow> string \<Rightarrow> jsval \<Rightarrow> string option \<Rightarrow> jsval io" where
  "testTenantPiiConnection e tenantId payload tok =
     gatewayAdminFetch e (tenant_path tenantId ''/pii/test-connection'')
       (gw_send ''POST'' (JsonBody payload) tok)"

section \<open>Route groups in a tenant's config\<close>

text \<open>\<open>config.config?.selection?.route_groups || {}\<close>\<close>

definition route_groups_of :: "jsval \<Rightarrow> jsval" where
  "route_groups_of config =
     js_or (get_prop (get_prop (get_prop config ''config'') ''selection'') ''route_groups'') (JObj [])"

text \<open>\<open>config.version || 1\<close>\<close>

definition version_of :: "jsval \<Rightarrow> jsval" where
  "version_of config = js_or (get_prop config ''version'') (jint 1)"

definition route_groups_patch :: "props \<Rightarrow> jsval" where
  "route_groups_patch rgs = JObj [(''selection'', JObj [(''route_groups'', JObj rgs)])]"

definition getRouteGroupsFromTenantConfig :: "env \<Rightarrow> string \<Rightarrow> string option \<Rightarrow> jsval list io" where
  "getRouteGroupsFromTenantConfig e tenantId tok =
     io_bind (getTenantConfig e tenantId tok) (\<lambda>config.
     io_bind (read_prop config ''config'') (\<lambda>_.
       io_return (map (\<lambda>p. JObj [(''id'', JStr (fst p)), (''models'', snd p)])
         (js_entries (route_groups_of config)))))"

definition createRouteGroupInTenantConfig ::
  "env \<Rightarrow> string \<Rightarrow> string \<Rightarrow> jsval \<Rightarrow> string option \<Rightarrow> jsval io" where
  "createRouteGroupInTenantConfig e tenantId routeGroupId models tok =
     io_bind (getTenantConfig e tenantId tok) (\<lambda>config.
     io_bind (read_prop config ''config'') (\<lambda>_.
       patchTenantConfigGeneric e tenantId
         (route_groups_patch
            (obj_set routeGroupId models (spread [] (js_entries (route_groups_of config)))))
         (version_of config) tok))"

definition updateRouteGroupInTenantConfig ::
  "env \<Rightarrow> string \<Rightarrow> string \<Rightarrow> jsval \<Rightarrow> string option \<Rightarrow> jsval io" where
  "updateRouteGroupInTenantConfig e tenantId routeGroupId models tok =
     io_bind (getTenantConfig e tenantId tok) (\<lambda>config.
     io_bind (read_prop config ''config'') (\<lambda>_.
       patchTenantConfigGeneric e tenantId
         (route_groups_patch
            (obj_set routeGroupId models (spread [] (js_entries (route_groups_of config)))))
         (version_of config) tok))"

definition deleteRouteGroupFromTenantConfig ::
  "env \<Rightarrow> string \<Rightarrow> string \<Rightarrow> string option \<Rightarrow> jsval io" where
  "deleteRouteGroupFromTenantConfig e tenantId routeGroupId tok =
     gatewayAdminFetch e
       (''/admin/tenants/'' @ encodeURIComponent tenantId @ ''/route-groups/''
          @ encodeURIComponent routeGroupId)
       (gw_send ''DELETE'' NoBody tok)"

section \<open>Global config and providers\<close>

definition getGlobalConfig :: "env \<Rightarrow> string option \<Rightarrow> jsval io" where
  "getGlobalConfig e tok = gatewayAdminFetch e ''/admin/config/global'' (gw_get tok)"

definition patchGlobalConfig :: "env \<Rightarrow> jsval \<Rightarrow> jsval \<Rightarrow> string option \<Rightarrow> jsval io" where
  "patchGlobalConfig e config version tok =
     io_bind (method_to_string version) (\<lambda>v.
       gatewayAdminFetch e ''/admin/config/global'' (gw_send_version ''PATCH'' v (JsonBody config) tok))"

definition getGlobalConfigChanges :: "env \<Rightarrow> jsnum \<Rightarrow> jsnum \<Rightarrow> string option \<Rightarrow> jsval io" where
  "getGlobalConfigChanges e limit offset tok =
     gatewayAdminFetch e
       (''/admin/config/global/changes?limit='' @ num_to_string limit @ ''&offset=''
          @ num_to_string offset) (gw_get tok)"

definition getProvidersConfig :: "env \<Rightarrow> jsval io" where
  "getProvidersConfig e =
     io_bind (getGlobalConfig e None) (\<lambda>gc.
     io_bind (read_prop gc ''config'') (\<lambda>c.
       io_return (js_or (get_prop c ''providers'') (JObj []))))"

definition getConversationDialog ::
  "env \<Rightarrow> string \<Rightarrow> string \<Rightarrow> string \<Rightarrow> string option \<Rightarrow> jsval io" where
  "getConversationDialog e conversationId workflowId tenantId tok =
     gatewayAdminFetch e
       (''/admin/conversations/'' @ encodeURIComponent conversationId @ ''/dialog?workflow_id=''
          @ encodeURIComponent workflowId @ ''&tenant_id='' @ encodeURIComponent tenantId)
       (gw_get tok)"

definition provider_patch_body :: "string \<Rightarrow> props \<Rightarrow> jsval" where
  "provider_patch_body providerId patch =
     JObj [(''providers'', JObj [(providerId, JObj patch)])]"

definition patchProviderConfig ::
  "env \<Rightarrow> string \<Rightarrow> props \<Rightarrow> jsval \<Rightarrow> string option \<Rightarrow> jsval io" where
  "patchProviderConfig e providerId patch version tok =
     io_bind (method_to_string version) (\<lambda>v.
       gatewayAdminFetch e ''/admin/config/global''
         (gw_send_version ''PATCH'' v
            (JsonBody (provider_patch_body providerId (canonicalizeProviderPatchForGlobalConfig patch))) tok))"

text \<open>\<open>now\<close> is \<open>new Date().toISOString()\<close>. The \<open>in\<close> test raises on a primitive; the callers pass
  an object.\<close>

definition updateProviderCredentials ::
  "env \<Rightarrow> string \<Rightarrow> string \<Rightarrow> jsval \<Rightarrow> jsval \<Rightarrow> string option \<Rightarrow> jsval io" where
  "updateProviderCredentials e now providerId credentials version tok =
     (if \<not> is_object credentials then io_throw type_error
      else
        let providerPatch =
          (if has_own credentials ''aws_access_key_id'' then
             canonicalizeProviderPatchForGlobalConfig
               [(''type'', JStr ''aws_bedrock''),
                (''aws_access_key_id'', get_prop credentials ''aws_access_key_id''),
                (''aws_secret_access_key'', get_prop credentials ''aws_secret_access_key''),
                (''aws_region'', get_prop credentials ''aws_region'')]
           else
             canonicalizeProviderPatchForGlobalConfig
               [(''credentials'', credentials),
                (''has_api_key'', JBool (truthy (get_prop credentials ''api_key''))),
                (''api_key_source'', JStr ''global_config''),
                (''last_credential_update'', JStr now)])
        in io_bind (method_to_string version) (\<lambda>v.
             gatewayAdminFetch e ''/admin/config/global''
               (gw_send_version ''PATCH'' v
                  (JsonBody (provider_patch_body providerId providerPatch)) tok)))"

end
