(* ===== verification/Oidc.thy ===== *)
theory Oidc
  imports URI JS_IO
begin

text \<open>
  lib/auth/oidc.ts (PKCE, the authorization URL, the reading of a JWT payload) and
  lib/auth/roles.ts (from claims to the one role the user interface shows). Random bytes,
  the SHA-256 digest of WebCrypto and \<open>JSON.parse\<close> are arguments.
\<close>

section \<open>Random strings and PKCE\<close>

text \<open>\<open>bytes\<close> is what \<open>getRandomValues\<close> (or \<open>Math.random\<close>) fills the array with.\<close>

definition randomString :: "byte_list \<Rightarrow> string" where
  "randomString bytes = base64UrlEncode bytes"

text \<open>\<open>TextEncoder\<close>\<close>

definition utf8 :: "string \<Rightarrow> byte_list" where
  "utf8 s = concat (map (\<lambda>c. if code c < 128 then [code c]
                             else [192 + code c div 64, 128 + code c mod 64]) s)"

type_synonym digest = "byte_list \<Rightarrow> byte_list"

definition sha256 :: "digest option \<Rightarrow> string \<Rightarrow> exn + byte_list" where
  "sha256 subtle input =
     (case subtle of
        None \<Rightarrow> Inl (JsError ''SHA-256 not available in this environment'' None)
      | Some d \<Rightarrow> Inr (d (utf8 input)))"

record pkce =
  verifier :: string
  challenge :: string

definition generatePkce :: "digest option \<Rightarrow> byte_list \<Rightarrow> exn + pkce" where
  "generatePkce subtle bytes =
     (let v = randomString bytes in
      case sha256 subtle v of
        Inl err \<Rightarrow> Inl err
      | Inr h \<Rightarrow> Inr \<lparr>verifier = v, challenge = base64UrlEncode h\<rparr>)"

section \<open>The authorization URL\<close>

text \<open>The serialisation of \<open>URLSearchParams\<close>.\<close>

definition form_safe :: "char \<Rightarrow> bool" where
  "form_safe c \<longleftrightarrow>
     (65 \<le> code c \<and> code c \<le> 90) \<or> (97 \<le> code c \<and> code c \<le> 122) \<or> is_digit c
     \<or> code c \<in> {42, 45, 46, 95}"

definition param_char :: "char \<Rightarrow> string" where
  "param_char c =
     (if form_safe c then [c]
      else if c = CHR '' '' then ''+''
      else concat (map pct_byte (utf8 [c])))"

definition param_encode :: "string \<Rightarrow> string" where
  "param_encode s = concat (map param_char s)"

definition params_to_string :: "(string \<times> string) list \<Rightarrow> string" where
  "params_to_string ps = join ''&'' (map (\<lambda>(k, v). param_encode k @ ''='' @ param_encode v) ps)"

text \<open>How the authorization server reads it (specification).\<close>

definition plus_to_space :: "char \<Rightarrow> char" where
  "plus_to_space c = (if c = CHR ''+'' then CHR '' '' else c)"

definition param_decode :: "string \<Rightarrow> string" where
  "param_decode s = decodeURIComponent (map plus_to_space s)"

definition param_pair :: "string \<Rightarrow> string \<times> string" where
  "param_pair w = (param_decode (takeWhile (\<lambda>c. c \<noteq> CHR ''='') w),
                   param_decode (tl (dropWhile (\<lambda>c. c \<noteq> CHR ''='') w)))"

definition params_parse :: "string \<Rightarrow> (string \<times> string) list" where
  "params_parse s = map param_pair (split_on (CHR ''&'') s)"

record auth_params =
  ap_issuer :: string
  ap_clientId :: string
  ap_redirectUri :: string
  ap_scope :: "string option"
  ap_state :: string
  ap_nonce :: string
  ap_codeChallenge :: string

text \<open>\<open>s.replace(/\/$/, '')\<close>\<close>

definition strip_slash :: "string \<Rightarrow> string" where
  "strip_slash s = (if s \<noteq> [] \<and> last s = CHR ''/'' then butlast s else s)"

definition or_string :: "string option \<Rightarrow> string \<Rightarrow> string" where
  "or_string v d = (case v of Some (c # s) \<Rightarrow> c # s | _ \<Rightarrow> d)"

definition auth_query :: "auth_params \<Rightarrow> (string \<times> string) list" where
  "auth_query p =
     [(''client_id'', ap_clientId p), (''redirect_uri'', ap_redirectUri p),
      (''response_type'', ''code''),
      (''scope'', or_string (ap_scope p) ''openid profile email''),
      (''state'', ap_state p), (''nonce'', ap_nonce p),
      (''code_challenge'', ap_codeChallenge p), (''code_challenge_method'', ''S256'')]"

definition buildAuthUrl :: "auth_params \<Rightarrow> string" where
  "buildAuthUrl p =
     strip_slash (ap_issuer p) @ ''/protocol/openid-connect/auth'' @ ''?'' @
     params_to_string (auth_query p)"

section \<open>The payload of a JWT\<close>

text \<open>\<open>atob\<close>: ASCII white space is dropped, up to two \<open>=\<close> complete a length that is a
  multiple of four; a length of one modulo four or a foreign character raises.\<close>

definition b64_val :: "char \<Rightarrow> nat option" where
  "b64_val c =
     (if 65 \<le> code c \<and> code c \<le> 90 then Some (code c - 65)
      else if 97 \<le> code c \<and> code c \<le> 122 then Some (code c - 71)
      else if is_digit c then Some (code c + 4)
      else if c = CHR ''+'' then Some 62
      else if c = CHR ''/'' then Some 63 else None)"

definition drop_pad :: "string \<Rightarrow> string" where
  "drop_pad s =
     (if length s mod 4 = 0 \<and> s \<noteq> [] \<and> last s = CHR ''='' then
        (if last (butlast s) = CHR ''='' then butlast (butlast s) else butlast s)
      else s)"

definition atob :: "string \<Rightarrow> byte_list option" where
  "atob s =
     (let t = drop_pad (filter (\<lambda>c. code c \<notin> {9, 10, 12, 13, 32}) s) in
      if length t mod 4 = 1 \<or> (\<exists>c \<in> set t. b64_val c = None) then None
      else Some (bytes_of (map (the \<circ> b64_val) t)))"

definition url_unsafe :: "char \<Rightarrow> char" where
  "url_unsafe c = (if c = CHR ''-'' then CHR ''+'' else if c = CHR ''_'' then CHR ''/'' else c)"

type_synonym json_parser = "string \<Rightarrow> jsval option"

text \<open>The result of the decoder is \<open>null\<close> whenever anything in it raises.\<close>

definition decodeJwtPayload :: "json_parser \<Rightarrow> string \<Rightarrow> jsval" where
  "decodeJwtPayload parse token =
     (let parts = split_on (CHR ''.'') token in
      if length parts < 2 then JNull
      else case atob (map url_unsafe (parts ! 1)) of
        None \<Rightarrow> JNull
      | Some bs \<Rightarrow> (case parse (map char_of bs) of None \<Rightarrow> JNull | Some v \<Rightarrow> v))"

section \<open>Roles\<close>

datatype CanonicalRole = Admin | Audit | LocalAdmin | Finance | PlainUser

definition extractRolesFromClaims :: "jsval \<Rightarrow> jsval list option" where
  "extractRolesFromClaims claims =
     (if \<not> is_object claims then None
      else if is_array (get_prop claims ''roles'') then Some (arr_elems (get_prop claims ''roles''))
      else let realmRoles = get_prop (get_prop claims ''realm_access'') ''roles'' in
           if is_array realmRoles then Some (arr_elems realmRoles) else None)"

text \<open>The claims are not validated: an element that is not a string has no \<open>toLowerCase\<close>.\<close>

definition deriveCanonicalRole :: "jsval list option \<Rightarrow> exn + CanonicalRole option" where
  "deriveCanonicalRole roles =
     (case roles of
        None \<Rightarrow> Inr None
      | Some rs \<Rightarrow>
          if rs = [] then Inr None
          else if \<not> list_all is_str rs then Inl type_error
          else
            let S = set (map (\<lambda>r. to_lower (str_of r)) rs) in
            Inr (if ''admin'' \<in> S \<or> ''platform_admin'' \<in> S then Some Admin
                 else if ''audit'' \<in> S then Some Audit
                 else if ''local_admin'' \<in> S then Some LocalAdmin
                 else if ''finance'' \<in> S \<or> ''financial'' \<in> S then Some Finance
                 else if ''user'' \<in> S then Some PlainUser
                 else None))"

fun getDisplayRole :: "CanonicalRole option \<Rightarrow> string option" where
  "getDisplayRole (Some Admin) = Some ''Admin''"
| "getDisplayRole (Some Audit) = Some ''Audit''"
| "getDisplayRole (Some LocalAdmin) = Some ''Local Admin''"
| "getDisplayRole (Some Finance) = Some ''Finance''"
| "getDisplayRole (Some PlainUser) = Some ''User''"
| "getDisplayRole None = None"

section \<open>PKCE is what RFC 7636 asks for\<close>

text \<open>The characters of a code verifier: letters, digits, \<open>-\<close> and \<open>_\<close>.\<close>

definition pkce_char :: "char \<Rightarrow> bool" where
  "pkce_char c \<longleftrightarrow>
     (65 \<le> code c \<and> code c \<le> 90) \<or> (97 \<le> code c \<and> code c \<le> 122) \<or> is_digit c
     \<or> c = CHR ''-'' \<or> c = CHR ''_''"

lemma b64_val_code: "b64_val c = Some n \<Longrightarrow> code c \<notin> {9, 10, 12, 13, 32, 61}"
  by (auto simp: b64_val_def is_digit_def code_def split: if_splits)

lemma b64_val_char: "n < 64 \<Longrightarrow> b64_val (b64_char n) = Some n"
  by (auto simp: b64_val_def b64_char_def is_digit_def code_def [of "CHR ''+''"] code_def [of "CHR ''/''"])

lemma url_unsafe_safe: "b64_val c \<noteq> None \<Longrightarrow> url_unsafe (url_safe c) = c"
  by (auto simp: b64_val_def url_unsafe_def url_safe_def is_digit_def code_def)

lemma pkce_char_safe: "b64_val c \<noteq> None \<Longrightarrow> pkce_char (url_safe c)"
  by (auto simp: b64_val_def url_safe_def pkce_char_def split: if_splits)

lemma b64_chars_url:
  assumes "n < 64"
  shows "pkce_char (url_safe (b64_char n))"
    and "b64_val (url_unsafe (url_safe (b64_char n))) = Some n"
  using b64_val_char [OF assms] by (simp_all add: pkce_char_safe url_unsafe_safe)

lemma pkce_chars_encode:
  assumes "bytes_ok bs"
  shows "list_all pkce_char (base64UrlEncode bs)"
  using sextets_lt [OF assms] b64_chars_url(1)
  by (auto simp: base64UrlEncode_sextets [OF assms] list_all_iff)

lemma utf8_ascii: "list_all (\<lambda>c. code c < 128) s \<Longrightarrow> utf8 s = map code s"
  by (induction s) (auto simp: utf8_def)

lemma pkce_char_ascii: "pkce_char c \<Longrightarrow> code c < 128"
  by (auto simp: pkce_char_def is_digit_def code_def)



section \<open>The authorization URL cannot be tampered with\<close>

lemma form_safe_facts:
  assumes "form_safe c"
  shows "c \<noteq> CHR ''%''" "c \<noteq> CHR ''+''" "c \<noteq> CHR ''&''" "c \<noteq> CHR ''=''"
  using assms by (auto simp: form_safe_def is_digit_def code_def)

lemma plus_to_space_id: "c \<noteq> CHR ''+'' \<Longrightarrow> plus_to_space c = c"
  by (simp add: plus_to_space_def)

lemma uri_char_param:
  "uri_char c \<Longrightarrow> c \<noteq> CHR ''+'' \<and> c \<noteq> CHR ''&'' \<and> c \<noteq> CHR ''=''"
  by (auto simp: uri_char_def unreserved_def is_digit_def code_def)

lemma plus_to_space_pct: "b < 256 \<Longrightarrow> map plus_to_space (pct_byte b) = pct_byte b"
  using uri_char_pct_byte [of b] by (intro map_idI plus_to_space_id) (auto simp: list_all_iff uri_char_param)

lemma decode_param_char:
  "decodeURIComponent (map plus_to_space (param_char c) @ s) = c # decodeURIComponent s"
proof -
  have lt: "code c < 256" by simp
  consider (safe) "form_safe c" | (space) "\<not> form_safe c" "c = CHR '' ''"
    | (ascii) "\<not> form_safe c" "c \<noteq> CHR '' ''" "code c < 128"
    | (wide) "\<not> form_safe c" "c \<noteq> CHR '' ''" "\<not> code c < 128" by blast
  then show ?thesis
  proof cases
    case safe
    then show ?thesis using form_safe_facts [OF safe] by (simp add: param_char_def plus_to_space_id)
  next
    case space
    then show ?thesis by (simp add: param_char_def plus_to_space_def)
  next
    case ascii
    then show ?thesis by (simp add: param_char_def utf8_def plus_to_space_pct decode_pct_byte)
  next
    case wide
    then have "decodeURIComponent (map plus_to_space (param_char c) @ s) =
        char_of (64 * ((192 + code c div 64) mod 32) + (128 + code c mod 64) mod 64)
          # decodeURIComponent s"
      using utf8_bounds [OF lt]
      by (simp add: param_char_def utf8_def plus_to_space_pct decode_pct_pair)
    then show ?thesis using utf8_pair [OF lt] by simp
  qed
qed

lemma param_decode_encode [simp]: "param_decode (param_encode s) = s"
  by (induction s) (simp_all add: param_decode_def param_encode_def decode_param_char)

lemma param_char_no_sep: "x \<in> set (param_char c) \<Longrightarrow> x \<noteq> CHR ''&'' \<and> x \<noteq> CHR ''=''"
proof -
  assume x: "x \<in> set (param_char c)"
  have "code c < 256" by simp
  note b = utf8_bounds [OF this]
  have pct: "y \<in> set (pct_byte k) \<Longrightarrow> k < 256 \<Longrightarrow> y \<noteq> CHR ''&'' \<and> y \<noteq> CHR ''=''" for y k
    using uri_char_pct_byte [of k] by (auto simp: list_all_iff uri_char_param)
  show ?thesis
    using x b form_safe_facts [of c]
    by (auto simp: param_char_def utf8_def dest: pct split: if_splits)
qed

lemma param_encode_no_sep: "x \<in> set (param_encode s) \<Longrightarrow> x \<noteq> CHR ''&'' \<and> x \<noteq> CHR ''=''"
  using param_char_no_sep by (auto simp: param_encode_def)

lemma param_pair_encode: "param_pair (param_encode k @ ''='' @ param_encode v) = (k, v)"
  using param_encode_no_sep [of _ k]
  by (simp add: param_pair_def takeWhile_append2 dropWhile_append2)

lemma params_parse_to_string: "ps \<noteq> [] \<Longrightarrow> params_parse (params_to_string ps) = ps"
proof -
  assume ne: "ps \<noteq> []"
  let ?ws = "map (\<lambda>(k, v). param_encode k @ ''='' @ param_encode v) ps"
  have "split_on (CHR ''&'') (join ''&'' ?ws) = ?ws"
    using ne by (intro split_on_join) (auto dest: param_encode_no_sep)
  moreover have "map param_pair ?ws = ps"
    unfolding map_map by (rule map_idI) (auto simp: param_pair_encode simp del: append.simps)
  ultimately show ?thesis by (simp add: params_parse_def params_to_string_def)
qed

text \<open>Whatever the client id, redirect URI, state and nonce contain, the query of the
  authorization URL reads back as exactly the eight intended parameters, PKCE method \<open>S256\<close>
  included: no value can add, drop or change a parameter.\<close>

theorem auth_url_roundtrip:
  "\<exists>qs. buildAuthUrl p = strip_slash (ap_issuer p) @ ''/protocol/openid-connect/auth?'' @ qs
      \<and> params_parse qs = auth_query p"
  by (rule exI [of _ "params_to_string (auth_query p)"])
     (simp add: buildAuthUrl_def params_parse_to_string auth_query_def)

section \<open>Reading back a token\<close>

lemma atob_encoded:
  assumes "bytes_ok bs"
  shows "atob (map url_unsafe (base64UrlEncode bs)) = Some bs"
proof -
  let ?t = "map (url_unsafe \<circ> url_safe \<circ> b64_char) (sextets bs)"
  have lt: "\<And>n. n \<in> set (sextets bs) \<Longrightarrow> n < 64"
    using sextets_lt [OF assms] by (auto simp: list_all_iff)
  have t: "map url_unsafe (base64UrlEncode bs) = ?t"
    by (simp add: base64UrlEncode_sextets [OF assms] comp_assoc)
  have code_t: "code c \<notin> {9, 10, 12, 13, 32, 61}" if c_in: "c \<in> set ?t" for c
  proof -
    obtain n where "n < 64" "c = url_unsafe (url_safe (b64_char n))"
      using c_in lt unfolding set_map comp_def by blast
    then show ?thesis using b64_val_code [OF b64_chars_url(2)] by blast
  qed
  have keep: "filter (\<lambda>c. code c \<notin> {9, 10, 12, 13, 32}) ?t = ?t"
    by (rule filter_True) (use code_t in \<open>auto simp del: set_map\<close>)
  have "?t \<noteq> [] \<Longrightarrow> last ?t \<noteq> CHR ''=''"
    using code_t [OF last_in_set] by (auto simp: code_def)
  then have pad: "drop_pad ?t = ?t" by (auto simp: drop_pad_def)
  have vals: "map (the \<circ> b64_val) ?t = sextets bs"
    unfolding map_map using lt b64_chars_url(2) by (intro map_idI) simp
  have all: "\<forall>c \<in> set ?t. b64_val c \<noteq> None" using lt b64_chars_url(2) by auto
  have "(4 * length bs + 2) div 3 mod 4 \<noteq> 1" by presburger
  then have "length ?t mod 4 \<noteq> 1" by (simp add: length_sextets)
  with all keep pad have "atob ?t = Some (bytes_of (map (the \<circ> b64_val) ?t))"
    unfolding atob_def Let_def by auto
  then show ?thesis using t vals bytes_of_sextets [OF assms] by simp
qed

lemma no_dot_encode: "bytes_ok bs \<Longrightarrow> CHR ''.'' \<notin> set (base64UrlEncode bs)"
  using pkce_chars_encode [of bs] by (auto simp: list_all_iff pkce_char_def is_digit_def code_def)

text \<open>Decoding a signed token gives the value of its payload: for a header without dots,
  a payload in base64url without padding and any signature, \<open>decodeJwtPayload\<close> returns what
  \<open>JSON.parse\<close> makes of the payload bytes, each byte read as one character.\<close>

theorem jwt_payload_roundtrip:
  assumes "CHR ''.'' \<notin> set hdr" and "bytes_ok bs" and "parse (map char_of bs) = Some v"
  shows "decodeJwtPayload parse (hdr @ ''.'' @ base64UrlEncode bs @ ''.'' @ sig) = v"
proof -
  have "split_on (CHR ''.'') (hdr @ ''.'' @ base64UrlEncode bs @ ''.'' @ sig) =
      hdr # base64UrlEncode bs # split_on (CHR ''.'') sig"
    using assms(1) no_dot_encode [OF assms(2)] by (simp add: split_on_append)
  then show ?thesis using assms by (simp add: decodeJwtPayload_def atob_encoded)
qed

theorem jwt_payload_roundtrip_witness:
  "decodeJwtPayload (\<lambda>s. if s = ''42'' then Some (jint 42) else None)
     (''eyJ'' @ ''.'' @ base64UrlEncode [52, 50] @ ''.'' @ ''sig'') = jint 42"
  by (rule jwt_payload_roundtrip) (simp_all add: bytes_ok_def, code_simp)

section \<open>The role the user interface shows\<close>

text \<open>The roles by decreasing privilege, each with the names that grant it.\<close>

definition role_names :: "(CanonicalRole \<times> string list) list" where
  "role_names =
     [(Admin, [''admin'', ''platform_admin'']), (Audit, [''audit'']), (LocalAdmin, [''local_admin'']),
      (Finance, [''finance'', ''financial'']), (PlainUser, [''user''])]"

definition grants :: "jsval list \<Rightarrow> CanonicalRole \<times> string list \<Rightarrow> bool" where
  "grants rs p \<longleftrightarrow> list_ex (\<lambda>r. to_lower (str_of r) \<in> set (snd p)) rs"

text \<open>The role derived from a list of role names is the first of admin, audit, local admin,
  finance, user that some name of the list grants, letter case aside; it is none when no name
  grants one. An element that is not a string raises.\<close>

theorem canonical_role_is_highest:
  "deriveCanonicalRole (Some rs) =
     (if list_all is_str rs then Inr (map_option fst (find (grants rs) role_names))
      else Inl type_error)"
proof (cases "rs = []")
  case False
  have "grants rs (r, ns) \<longleftrightarrow> (\<exists>n \<in> set ns. n \<in> set (map (\<lambda>r. to_lower (str_of r)) rs))" for r ns
    by (auto simp: grants_def list_ex_iff)
  then show ?thesis
    using False by (simp add: deriveCanonicalRole_def role_names_def Let_def del: set_map)
qed (simp add: deriveCanonicalRole_def role_names_def grants_def)

end
