(* ===== verification/IO_Stateless.thy ===== *)
theory IO_Stateless
  imports Gateway_Client
begin

text \<open>
  Computations against a server whose answer to a request depends on that request alone. Every
  computation built from \<open>fetch\<close> and the combinators of JS_IO then has a result that does not
  depend on what was sent before, and results compose like ordinary function values: \<open>against\<close>
  turns a chain of awaited calls into an equation.
\<close>

type_synonym server = "http_req \<Rightarrow> fetch_result"

definition stateless :: "'a io \<Rightarrow> bool" where
  "stateless m \<longleftrightarrow> (\<forall>g h. fst (m (\<lambda>_. g) h) = fst (m (\<lambda>_. g) []))"

text \<open>The result of a computation against such a server.\<close>

definition against :: "'a io \<Rightarrow> server \<Rightarrow> exn + 'a" where
  "against m g = fst (m (\<lambda>_. g) [])"

named_theorems stateless_rules \<open>compositional rules for stateless\<close>
named_theorems against_simps \<open>results of the combinators against a stateless server\<close>

lemma stateless_run: "stateless m \<Longrightarrow> fst (m (\<lambda>_. g) h) = against m g"
  by (simp add: stateless_def against_def)

lemma against_return [against_simps]: "against (io_return x) g = Inr x"
  by (simp add: against_def io_return_def)

lemma against_throw [against_simps]: "against (io_throw e) g = Inl e"
  by (simp add: against_def io_throw_def)

lemma against_fetch [against_simps]:
  "against (io_fetch r) g = (case g r of FetchFail msg \<Rightarrow> Inl (JsError msg None) | FetchOk rs \<Rightarrow> Inr rs)"
  by (simp add: against_def io_fetch_def split: fetch_result.splits)

lemma stateless_return [stateless_rules]: "stateless (io_return x)"
  by (simp add: stateless_def io_return_def)

lemma stateless_throw [stateless_rules]: "stateless (io_throw e)"
  by (simp add: stateless_def io_throw_def)

lemma stateless_fetch [stateless_rules]: "stateless (io_fetch r)"
  by (simp add: stateless_def io_fetch_def split: fetch_result.splits)

text \<open>The common step of the composition lemmas: run the first computation, then look at its result.\<close>

lemma bind_result:
  assumes "\<And>x. stateless (f x)"
  shows "fst (io_bind m f (\<lambda>_. g) h) =
    (case fst (m (\<lambda>_. g) h) of Inl e \<Rightarrow> Inl e | Inr x \<Rightarrow> against (f x) g)"
  using stateless_run [OF assms] by (simp add: io_bind_def split: prod.splits sum.splits)

lemma catch_result:
  assumes "\<And>e. stateless (k e)"
  shows "fst (io_catch m k (\<lambda>_. g) h) =
    (case fst (m (\<lambda>_. g) h) of Inl e \<Rightarrow> against (k e) g | Inr x \<Rightarrow> Inr x)"
  using stateless_run [OF assms] by (simp add: io_catch_def split: prod.splits sum.splits)

lemma both_result:
  assumes "stateless n"
  shows "fst (io_both m n (\<lambda>_. g) h) =
    (case fst (m (\<lambda>_. g) h) of Inl e \<Rightarrow> Inl e
     | Inr x \<Rightarrow> (case against n g of Inl e \<Rightarrow> Inl e | Inr y \<Rightarrow> Inr (x, y)))"
proof -
  obtain r h1 where m: "m (\<lambda>_. g) h = (r, h1)" by (cases "m (\<lambda>_. g) h")
  obtain s h2 where n: "n (\<lambda>_. g) h1 = (s, h2)" by (cases "n (\<lambda>_. g) h1")
  from n have "against n g = s" using stateless_run [OF assms, of g h1] by simp
  with m n show ?thesis by (simp add: io_both_def split: sum.splits)
qed

lemma stateless_bind [stateless_rules]:
  assumes "stateless m" and "\<And>x. stateless (f x)"
  shows "stateless (io_bind m f)"
  unfolding stateless_def by (simp only: bind_result [OF assms(2)] stateless_run [OF assms(1)]) simp

lemma stateless_catch [stateless_rules]:
  assumes "stateless m" and "\<And>e. stateless (k e)"
  shows "stateless (io_catch m k)"
  unfolding stateless_def by (simp only: catch_result [OF assms(2)] stateless_run [OF assms(1)]) simp

lemma stateless_both [stateless_rules]:
  assumes "stateless m" and "stateless n"
  shows "stateless (io_both m n)"
  unfolding stateless_def by (simp only: both_result [OF assms(2)] stateless_run [OF assms(1)]) simp

lemma against_bind [against_simps]:
  assumes "\<And>x. stateless (f x)"
  shows "against (io_bind m f) g = (case against m g of Inl e \<Rightarrow> Inl e | Inr x \<Rightarrow> against (f x) g)"
  unfolding against_def [of "io_bind m f"] against_def [of m] by (rule bind_result [OF assms])

lemma against_catch [against_simps]:
  assumes "\<And>e. stateless (k e)"
  shows "against (io_catch m k) g = (case against m g of Inl e \<Rightarrow> against (k e) g | Inr x \<Rightarrow> Inr x)"
  unfolding against_def [of "io_catch m k"] against_def [of m] by (rule catch_result [OF assms])

lemma against_both [against_simps]:
  assumes "stateless n"
  shows "against (io_both m n) g =
     (case against m g of Inl e \<Rightarrow> Inl e
      | Inr x \<Rightarrow> (case against n g of Inl e \<Rightarrow> Inl e | Inr y \<Rightarrow> Inr (x, y)))"
  unfolding against_def [of "io_both m n"] against_def [of m] by (rule both_result [OF assms])

text \<open>\<open>Promise.all\<close> over a list.\<close>

fun sum_all :: "(exn + 'a) list \<Rightarrow> exn + 'a list" where
  "sum_all [] = Inr []"
| "sum_all (r # rs) =
     (case r of Inl e \<Rightarrow> Inl e
      | Inr x \<Rightarrow> (case sum_all rs of Inl e \<Rightarrow> Inl e | Inr xs \<Rightarrow> Inr (x # xs)))"

lemma all_is_both: "io_all (m # ms) = io_bind (io_both m (io_all ms)) (\<lambda>(x, xs). io_return (x # xs))"
  by (rule ext, rule ext) (auto simp: io_both_def io_bind_def io_return_def split: prod.splits sum.splits)

lemma stateless_all [stateless_rules]: "(\<And>m. m \<in> set ms \<Longrightarrow> stateless m) \<Longrightarrow> stateless (io_all ms)"
  by (induction ms) (auto simp: all_is_both simp del: io_all.simps(2) intro!: stateless_rules split: prod.splits)

lemma stateless_all_map [stateless_rules]: "(\<And>x. stateless (f x)) \<Longrightarrow> stateless (io_all (map f xs))"
  by (rule stateless_all) auto

lemma against_all [against_simps]:
  "(\<And>m. m \<in> set ms \<Longrightarrow> stateless m) \<Longrightarrow> against (io_all ms) g = sum_all (map (\<lambda>m. against m g) ms)"
proof (induction ms)
  case (Cons m ms)
  then have s: "stateless (io_all ms)" by (auto intro: stateless_rules)
  have "against (io_all (m # ms)) g =
      (case against (io_both m (io_all ms)) g of Inl e \<Rightarrow> Inl e | Inr (x, xs) \<Rightarrow> Inr (x # xs))"
    unfolding all_is_both
    by (subst against_bind) (auto simp: against_return intro: stateless_rules split: prod.splits sum.splits)
  then show ?case
    using Cons by (simp add: against_both [OF s] split: sum.splits)
qed (simp add: against_return)

lemma sum_all_Inr_iff: "sum_all (rs :: (exn + 'a) list) = Inr xs \<longleftrightarrow> rs = map Inr xs"
proof -
  have "sum_all (map Inr ys) = Inr ys" for ys :: "'a list"
    by (induction ys) simp_all
  moreover have "sum_all rs = Inr xs \<Longrightarrow> rs = map Inr xs"
    by (induction rs arbitrary: xs) (auto split: sum.splits)
  ultimately show ?thesis by blast
qed

lemma stateless_json [stateless_rules]: "stateless (resp_json r)"
  by (auto simp: resp_json_def intro: stateless_rules split: option.splits)

lemma stateless_read_prop [stateless_rules]: "stateless (read_prop v k)"
  by (simp add: read_prop_def stateless_rules)

lemma stateless_of_sum [stateless_rules]: "stateless (io_of_sum s)"
  by (auto simp: io_of_sum_def intro: stateless_rules split: sum.splits)

lemma stateless_if [stateless_rules]:
  "(c \<Longrightarrow> stateless a) \<Longrightarrow> (\<not> c \<Longrightarrow> stateless b) \<Longrightarrow> stateless (if c then a else b)"
  by simp

lemma stateless_map_items [stateless_rules]: "stateless (map_items f v)"
  by (simp add: map_items_def stateless_rules)

lemma stateless_settle: "stateless (settle r)"
  by (simp add: settle_def stateless_rules)

lemma stateless_refresh: "stateless (refresh_and_retry e path opts)"
  unfolding refresh_and_retry_def Let_def by (intro stateless_rules stateless_settle)

lemma stateless_gateway [stateless_rules]: "stateless (gatewayAdminFetch e path opts)"
  unfolding gatewayAdminFetch_def
  by (intro stateless_rules stateless_refresh)
     (auto intro: stateless_rules stateless_settle split: option.splits settled.splits)

lemma against_read_prop [against_simps]:
  "against (read_prop v k) g = (if nullish v then Inl type_error else Inr (get_prop v k))"
  by (simp add: read_prop_def against_simps)

lemma against_of_sum [against_simps]: "against (io_of_sum s) g = s"
  by (simp add: io_of_sum_def against_simps split: sum.splits)

lemma against_if [against_simps]: "against (if c then a else b) g = (if c then against a g else against b g)"
  by simp

lemma against_map_items [against_simps]:
  "against (map_items f v) g =
     (if list_ex nullish (arr_elems v) then Inl type_error else Inr (JArr (map f (arr_elems v))))"
  by (simp add: map_items_def against_simps)

text \<open>A successful reply of the server is the value of the call.\<close>

lemma against_gateway_ok:
  assumes "callable e (go_token opts)"
    and "g (first_request e path opts) = FetchOk \<lparr>rs_status = 200, rs_text = txt, rs_json = Some v, rs_headers = []\<rparr>"
  shows "against (gatewayAdminFetch e path opts) g = Inr v"
  using gw_success [OF assms(1), of "\<lambda>_. g" "[]" path "txt" v] assms(2) by (simp add: against_def)

end
