(* ===== verification/Routes_Base.thy ===== *)
theory Routes_Base
  imports Gateway_Api Oidc IO_Stateless
begin

text \<open>
  What the proxy routes under app/api share: the try/catch frame, the authentication guard,
  array searches, and three interface locales. \<open>proxy_route\<close> is the frame alone (the route
  always answers); \<open>forwarding_route\<close> adds which credentials the route may use;
  \<open>guarded_route\<close> adds the authentication guard, and gives the second. Every route of the
  route theories that proxies the admin API is an interpretation of one of them.
\<close>

section \<open>The frame of a route\<close>

definition handle_with :: "(exn \<Rightarrow> server_resp) \<Rightarrow> server_resp io \<Rightarrow> server_resp io" where
  "handle_with fail m = io_catch m (\<lambda>err. io_return (fail err))"

abbreviation handle :: "string \<Rightarrow> server_resp io \<Rightarrow> server_resp io" where
  "handle msg \<equiv> handle_with (route_error msg)"

text \<open>\<open>if ('response' in auth) return auth.response\<close>\<close>

definition with_auth :: "server_resp + string \<Rightarrow> (string \<Rightarrow> server_resp io) \<Rightarrow> server_resp io" where
  "with_auth g k = (case g of Inl r \<Rightarrow> io_return r | Inr t \<Rightarrow> k t)"

definition respond :: "jsval \<Rightarrow> server_resp io" where
  "respond v = io_return (json_response v 200)"

definition bad_request :: "string \<Rightarrow> server_resp io" where
  "bad_request msg = io_return (error_json msg 400)"

text \<open>\<open>new NextResponse(null, { status: 204 })\<close>\<close>

definition no_content :: "server_resp io" where
  "no_content = io_return \<lparr>sr_status = 204, sr_body = None, sr_cookies = []\<rparr>"

text \<open>\<open>(v.data || [])\<close>, and a value used as an array: \<open>.find\<close> raises on anything else.\<close>

definition data_or_empty :: "jsval \<Rightarrow> jsval io" where
  "data_or_empty v = io_bind (read_prop v ''data'') (\<lambda>d. io_return (js_or d (JArr [])))"

definition as_array :: "jsval \<Rightarrow> jsval list io" where
  "as_array v = (case v of JArr xs \<Rightarrow> io_return xs | _ \<Rightarrow> io_throw type_error)"

text \<open>\<open>xs.find(x => key(x) === s)\<close>: reading a property of a nullish element raises.\<close>

fun find_by :: "(jsval \<Rightarrow> jsval) \<Rightarrow> jsval \<Rightarrow> jsval list \<Rightarrow> jsval option io" where
  "find_by key s [] = io_return None"
| "find_by key s (x # xs) =
     (if nullish x then io_throw type_error
      else if key x = s then io_return (Some x) else find_by key s xs)"

lemma issues_route_parts [issues_rules]:
  "issues P (respond v)" "issues P (bad_request msg)" "issues P no_content"
  by (simp_all add: respond_def bad_request_def no_content_def issues_rules)

lemma issues_data [issues_rules]: "issues P (data_or_empty v)"
  by (simp add: data_or_empty_def issues_rules)

lemma issues_as_array [issues_rules]: "issues P (as_array v)"
  by (auto simp: as_array_def intro: issues_rules split: jsval.splits)

lemma issues_find_by [issues_rules]: "issues P (find_by key s xs)"
  by (induction xs) (auto intro: issues_rules)

lemma issues_handle: "issues P m \<Longrightarrow> issues P (handle_with fail m)"
  by (simp add: handle_with_def issues_rules)

lemma with_auth_handle: "with_auth g (\<lambda>t. handle_with fail (k t)) = handle_with fail (with_auth g k)"
  by (cases g) (simp_all add: with_auth_def handle_with_def)

section \<open>Forwarding a query string\<close>

text \<open>A filter of the query: forwarded when it is not empty, or always with a default.\<close>

datatype filter_param = Optional string | WithDefault string string

definition get_or_empty :: "server_req \<Rightarrow> string \<Rightarrow> string" where
  "get_or_empty q k = or_string (search_param q k) []"

fun qs_set :: "server_req \<Rightarrow> filter_param \<Rightarrow> (string \<times> string) list" where
  "qs_set q (Optional k) = (if get_or_empty q k \<noteq> [] then [(k, get_or_empty q k)] else [])"
| "qs_set q (WithDefault k d) = [(k, or_string (search_param q k) d)]"

definition qs_params :: "server_req \<Rightarrow> filter_param list \<Rightarrow> (string \<times> string) list" where
  "qs_params q fs = concat (map (qs_set q) fs)"


text \<open>\<open>parseInt(searchParams.get(k) || d, 10)\<close>\<close>

definition int_param :: "server_req \<Rightarrow> string \<Rightarrow> string \<Rightarrow> jsnum" where
  "int_param q k d = parse_int10 (case search_param q k of Some (c # s) \<Rightarrow> c # s | _ \<Rightarrow> d)"

text \<open>\<open>query ? `${path}?${query}` : path\<close>\<close>

definition with_query :: "string \<Rightarrow> (string \<times> string) list \<Rightarrow> string" where
  "with_query path ps = (if params_to_string ps = [] then path else path @ ''?'' @ params_to_string ps)"

section \<open>Credentials of the client operations\<close>

text \<open>\<open>io_of_sum\<close> and version conversions send nothing, so every operation inherits the
  credentials of its gateway calls.\<close>

lemma issues_api_reads [issues_rules]:
  "issues (authorised e tok) (getTenants e tok)"
  "issues (authorised e tok) (getModels e tok)"
  "issues (authorised e tok) (getProviders e tok)"
  "issues (authorised e tok) (getSystemHealth e tok)"
  "issues (authorised e tok) (getGlobalConfig e tok)"
  "issues (authorised e tok) (getGlobalConfigChanges e limit offset tok)"
  "issues (authorised e tok) (getTenantConfig e tenantId tok)"
  "issues (authorised e tok) (getTenantApiKeys e tenantId tok)"
  "issues (authorised e tok) (getTenantUsage e tenantId month tok)"
  "issues (authorised e tok) (getTenantUsageSummary e tenantId month tok)"
  "issues (authorised e tok) (getTenantBudgetStatus e tenantId tok)"
  "issues (authorised e tok) (getBenchmarks e tok)"
  "issues (authorised e tok) (getBenchmark e benchmarkId tok)"
  "issues (authorised e tok) (getBenchmarkSummary e tok)"
  "issues (authorised e tok) (getModelBenchmarks e hours tok)"
  "issues (authorised e tok) (getConversationDialog e c w t tok)"
  by (simp_all add: getTenants_def getModels_def getProviders_def getSystemHealth_def
      getGlobalConfig_def getGlobalConfigChanges_def getTenantConfig_def getTenantApiKeys_def
      getTenantUsage_def getTenantUsageSummary_def getTenantBudgetStatus_def getBenchmarks_def
      getBenchmark_def getBenchmarkSummary_def getModelBenchmarks_def getConversationDialog_def
      issues_gw_calls)

lemma issues_api_writes [issues_rules]:
  "issues (authorised e tok) (createTenant e tid environment tok)"
  "issues (authorised e tok) (deleteTenant e tenantId tok)"
  "issues (authorised e tok) (createTenantApiKey e tenantId data tok)"
  "issues (authorised e tok) (rotateTenantApiKey e tenantId keyId tok)"
  "issues (authorised e tok) (revokeTenantApiKey e tenantId keyId tok)"
  "issues (authorised e tok) (testTenantPiiConnection e tenantId payload tok)"
  "issues (authorised e tok) (deleteRouteGroupFromTenantConfig e tenantId rg tok)"
  "issues (authorised e tok) (createBenchmark e request tok)"
  "issues (authorised e tok) (deleteModelBenchmarks e tok)"
  by (simp_all add: createTenant_def deleteTenant_def createTenantApiKey_def rotateTenantApiKey_def
      revokeTenantApiKey_def testTenantPiiConnection_def deleteRouteGroupFromTenantConfig_def
      createBenchmark_def deleteModelBenchmarks_def issues_gw_calls)

lemma issues_api_versioned [issues_rules]:
  "issues (authorised e tok) (createModel e model version tok)"
  "issues (authorised e tok) (updateModel e modelId model version tok)"
  "issues (authorised e tok) (deleteModel e modelId version tok)"
  "issues (authorised e tok) (patchTenantConfig e tenantId config version tok)"
  "issues (authorised e tok) (patchTenantConfigGeneric e tenantId patch version tok)"
  "issues (authorised e tok) (patchGlobalConfig e config version tok)"
  "issues (authorised e tok) (patchProviderConfig e providerId ppatch version tok)"
  "issues (authorised e tok) (updateProviderCredentials e now providerId credentials version tok)"
  by (auto simp: createModel_def updateModel_def deleteModel_def patchTenantConfig_def
      patchTenantConfigGeneric_def patchGlobalConfig_def patchProviderConfig_def
      updateProviderCredentials_def Let_def intro!: issues_rules)

lemma issues_api_route_groups [issues_rules]:
  "issues (authorised e tok) (getRouteGroupsFromTenantConfig e tenantId tok)"
  "issues (authorised e tok) (createRouteGroupInTenantConfig e tenantId rg models tok)"
  "issues (authorised e tok) (updateRouteGroupInTenantConfig e tenantId rg models tok)"
  by (auto simp: getRouteGroupsFromTenantConfig_def createRouteGroupInTenantConfig_def
      updateRouteGroupInTenantConfig_def intro!: issues_rules)

section \<open>Interfaces of the routes\<close>

text \<open>A route that answers every request, whatever the gateway does.\<close>

named_theorems route_answers \<open>the interpreted routes always answer\<close>
named_theorems route_forwards \<open>the credentials of the requests of the interpreted routes\<close>
named_theorems route_rejects \<open>what the interpreted routes answer without a token\<close>

locale proxy_route =
  fixes route :: "env \<Rightarrow> server_req \<Rightarrow> server_resp io"
    and fail :: "exn \<Rightarrow> server_resp"
    and body :: "env \<Rightarrow> server_req \<Rightarrow> server_resp io"
  assumes framed: "route e q = handle_with fail (body e q)"
begin

lemma always_answers [route_answers]: "\<exists>r h'. route e q net h = (Inr r, h')"
  unfolding framed handle_with_def
  by (cases "body e q net h") (auto simp: io_catch_def io_return_def split: sum.splits)

text \<open>An error is answered by the response the route makes of it.\<close>

lemma error_response:
  "body e q net h = (Inl err, h') \<Longrightarrow> route e q net h = (Inr (fail err), h')"
  unfolding framed handle_with_def by (simp add: io_catch_def io_return_def)

lemma success_response:
  "body e q net h = (Inr r, h') \<Longrightarrow> route e q net h = (Inr r, h')"
  unfolding framed handle_with_def by (simp add: io_catch_def)

end

text \<open>A route that forwards whatever token the request carries.\<close>

locale forwarding_route = proxy_route +
  assumes body_credentials: "issues (authorised e (getAdminAuthToken q)) (body e q)"
begin

lemma forwards: "issues (authorised e (getAdminAuthToken q)) (route e q)"
  unfolding framed by (rule issues_handle [OF body_credentials])

lemma forwards_requests [route_forwards]: "list_all (authorised e (getAdminAuthToken q)) (io_requests (route e q) net)"
  by (rule issues_requests [OF forwards])

text \<open>The admin API key never goes out with a request of a signed-in user.\<close>

lemma never_api_key:
  assumes "getAdminAuthToken q = Some t" and "useBearer (Some t)"
  shows "list_all no_api_key (io_requests (route e q) net)"
  using forwards_requests [of e q net] assms by (simp add: authorised_def list_all_iff)

end

text \<open>A route behind one of the two guards.\<close>

locale guarded_route =
  fixes route :: "env \<Rightarrow> server_req \<Rightarrow> server_resp io"
    and fail :: "exn \<Rightarrow> server_resp"
    and guard :: "server_req \<Rightarrow> server_resp + string"
    and action :: "env \<Rightarrow> server_req \<Rightarrow> string \<Rightarrow> server_resp io"
  assumes guarded: "route e q = handle_with fail (with_auth (guard q) (action e q))"
    and guard_accepts: "guard q = Inr t \<Longrightarrow> getAdminAuthToken q = Some t \<and> t \<noteq> []"
    and guard_rejects: "guard q = Inl r \<Longrightarrow> r = error_json ''Authentication required'' 401"
    and guard_total: "getAdminAuthToken q = Some t \<Longrightarrow> t \<noteq> [] \<Longrightarrow> guard q = Inr t"
    and action_credentials: "issues (authorised e (Some t)) (action e q t)"

sublocale guarded_route \<subseteq> forwarding_route route fail "\<lambda>e q. with_auth (guard q) (action e q)"
proof unfold_locales
  fix e q
  show "route e q = handle_with fail (with_auth (guard q) (action e q))" by (rule guarded)
  show "issues (authorised e (getAdminAuthToken q)) (with_auth (guard q) (action e q))"
    using guard_accepts [of q] action_credentials [of e _ q]
    by (cases "guard q") (simp_all add: with_auth_def issues_rules)
qed

context guarded_route
begin

text \<open>Without a token the route answers 401 and sends nothing.\<close>

lemma rejects [route_rejects]:
  assumes "getAdminAuthToken q = None \<or> getAdminAuthToken q = Some []"
  shows "route e q net h = (Inr (error_json ''Authentication required'' 401), h)"
proof -
  obtain r where "guard q = Inl r" using assms guard_accepts [of q] by (cases "guard q") auto
  then show ?thesis
    using guard_rejects [of q r] unfolding guarded handle_with_def
    by (simp add: with_auth_def io_catch_def io_return_def)
qed

end

lemma guard_facts:
  "requireTenantAuth q = Inr t \<Longrightarrow> getAdminAuthToken q = Some t \<and> t \<noteq> []"
  "requireAdminBearer q = Inr t \<Longrightarrow> getAdminAuthToken q = Some t \<and> t \<noteq> []"
  "requireTenantAuth q = Inl r \<Longrightarrow> r = error_json ''Authentication required'' 401"
  "requireAdminBearer q = Inl r \<Longrightarrow> r = error_json ''Authentication required'' 401"
  "getAdminAuthToken q = Some t \<Longrightarrow> t \<noteq> [] \<Longrightarrow> requireTenantAuth q = Inr t"
  "getAdminAuthToken q = Some t \<Longrightarrow> t \<noteq> [] \<Longrightarrow> requireAdminBearer q = Inr t"
  by (auto simp: requireTenantAuth_def requireAdminBearer_def split: option.splits if_splits)

lemmas admin_guard_facts = guard_facts(2,4,6)

lemma issues_with_auth:
  assumes "\<And>t. g = Inr t \<Longrightarrow> issues P (k t)"
  shows "issues P (with_auth g k)"
  using assms by (cases g) (simp_all add: with_auth_def issues_rules)

section \<open>Routes against a stateless gateway\<close>

lemma stateless_route_parts [stateless_rules]:
  "stateless (data_or_empty v)" "stateless (respond v)" "stateless (bad_request msg)" "stateless no_content"
  by (simp_all add: data_or_empty_def respond_def bad_request_def no_content_def stateless_rules)

lemma stateless_as_array [stateless_rules]: "stateless (as_array v)"
  by (auto simp: as_array_def intro: stateless_rules split: jsval.splits)

lemma against_route_parts [against_simps]:
  "against (data_or_empty v) g =
     (if nullish v then Inl type_error else Inr (js_or (get_prop v ''data'') (JArr [])))"
  "against (as_array v) g = (case v of JArr xs \<Rightarrow> Inr xs | _ \<Rightarrow> Inl type_error)"
  "against (respond v) g = Inr (json_response v 200)"
  by (simp_all add: data_or_empty_def as_array_def respond_def against_simps stateless_rules split: jsval.splits)

end
