(* ===== verification/Tenant_Routes.thy ===== *)
theory Tenant_Routes
  imports Routes_Base
begin

text \<open>
  app/api/tenants/** and app/api/route-groups/**: one definition per HTTP method of a route
  file, named after the route and the method. Path parameters are arguments.
\<close>

section \<open>Tenants behind requireTenantAuth\<close>

definition tenant_GET_action :: "string \<Rightarrow> env \<Rightarrow> server_req \<Rightarrow> string \<Rightarrow> server_resp io" where
  "tenant_GET_action tenantId e q t = io_bind (getTenantConfig e tenantId (Some t)) respond"

definition tenant_GET :: "string \<Rightarrow> env \<Rightarrow> server_req \<Rightarrow> server_resp io" where
  "tenant_GET tenantId e q =
     handle ''Failed to fetch tenant config'' (with_auth (requireTenantAuth q) (tenant_GET_action tenantId e q))"

definition tenant_DELETE_action :: "string \<Rightarrow> env \<Rightarrow> server_req \<Rightarrow> string \<Rightarrow> server_resp io" where
  "tenant_DELETE_action tenantId e q t =
     io_bind (deleteTenant e tenantId (Some t)) (\<lambda>_.
       io_return \<lparr>sr_status = 204, sr_body = None, sr_cookies = []\<rparr>)"

definition tenant_DELETE :: "string \<Rightarrow> env \<Rightarrow> server_req \<Rightarrow> server_resp io" where
  "tenant_DELETE tenantId e q =
     handle ''Failed to delete tenant'' (with_auth (requireTenantAuth q) (tenant_DELETE_action tenantId e q))"

definition tenant_api_keys_GET_action :: "string \<Rightarrow> env \<Rightarrow> server_req \<Rightarrow> string \<Rightarrow> server_resp io" where
  "tenant_api_keys_GET_action tenantId e q t = io_bind (getTenantApiKeys e tenantId (Some t)) respond"

definition tenant_api_keys_GET :: "string \<Rightarrow> env \<Rightarrow> server_req \<Rightarrow> server_resp io" where
  "tenant_api_keys_GET tenantId e q =
     handle ''Failed to fetch tenant API keys''
       (with_auth (requireTenantAuth q) (tenant_api_keys_GET_action tenantId e q))"

definition tenant_usage_GET_action :: "string \<Rightarrow> env \<Rightarrow> server_req \<Rightarrow> string \<Rightarrow> server_resp io" where
  "tenant_usage_GET_action tenantId e q t =
     io_bind (getTenantUsage e tenantId (search_param q ''month'') (Some t)) respond"

definition tenant_usage_GET :: "string \<Rightarrow> env \<Rightarrow> server_req \<Rightarrow> server_resp io" where
  "tenant_usage_GET tenantId e q =
     handle ''Failed to fetch tenant usage''
       (with_auth (requireTenantAuth q) (tenant_usage_GET_action tenantId e q))"

definition tenant_budget_status_GET_action :: "string \<Rightarrow> env \<Rightarrow> server_req \<Rightarrow> string \<Rightarrow> server_resp io" where
  "tenant_budget_status_GET_action tenantId e q t =
     io_bind (getTenantBudgetStatus e tenantId (Some t)) respond"

definition tenant_budget_status_GET :: "string \<Rightarrow> env \<Rightarrow> server_req \<Rightarrow> server_resp io" where
  "tenant_budget_status_GET tenantId e q =
     handle ''Failed to fetch tenant budget status''
       (with_auth (requireTenantAuth q) (tenant_budget_status_GET_action tenantId e q))"

section \<open>Tenants without a guard\<close>

definition tenants_GET_body :: "env \<Rightarrow> server_req \<Rightarrow> server_resp io" where
  "tenants_GET_body e q =
      io_bind (getTenants e (getAdminAuthToken q)) (\<lambda>result.
      io_bind (data_or_empty result) respond)"

definition tenants_GET :: "env \<Rightarrow> server_req \<Rightarrow> server_resp io" where
  "tenants_GET e q = handle ''Failed to fetch tenants'' (tenants_GET_body e q)"

definition valid_environment :: "jsval \<Rightarrow> bool" where
  "valid_environment v \<longleftrightarrow> truthy v \<and> to_str v \<in> {''DEV'', ''STAGING'', ''PROD''}"

definition tenants_POST_body :: "env \<Rightarrow> server_req \<Rightarrow> server_resp io" where
  "tenants_POST_body e q =
      io_bind (request_json q) (\<lambda>body.
      io_bind (read_prop body ''tenant_id'') (\<lambda>tenant_id.
      let environment = get_prop body ''environment'' in
      if \<not> truthy tenant_id then bad_request ''tenant_id is required''
      else if \<not> valid_environment environment then bad_request ''environment is required''
      else io_bind (createTenant e tenant_id (to_str environment) (getAdminAuthToken q)) (\<lambda>result.
             io_return (json_response result 201))))"

definition tenants_POST :: "env \<Rightarrow> server_req \<Rightarrow> server_resp io" where
  "tenants_POST e q = handle ''Failed to create tenant'' (tenants_POST_body e q)"

definition version_required :: string where
  "version_required = ''version is required for optimistic concurrency control''"

definition tenant_budget_PATCH_body :: "string \<Rightarrow> env \<Rightarrow> server_req \<Rightarrow> server_resp io" where
  "tenant_budget_PATCH_body tenantId e q =
      io_bind (request_json q) (\<lambda>body.
      io_bind (read_prop body ''monthly_usd'') (\<lambda>monthly_usd.
      let timezone = get_prop body ''timezone''; version = get_prop body ''version'';
          config = set_if (timezone \<noteq> JUndef) ''timezone'' timezone
                     (set_if (monthly_usd \<noteq> JUndef) ''monthly_usd'' monthly_usd [])
      in if version = JUndef then bad_request version_required
         else io_bind (patchTenantConfig e tenantId (JObj config) version (getAdminAuthToken q)) respond))"

definition tenant_budget_PATCH :: "string \<Rightarrow> env \<Rightarrow> server_req \<Rightarrow> server_resp io" where
  "tenant_budget_PATCH tenantId e q = handle ''Failed to update tenant budget'' (tenant_budget_PATCH_body tenantId e q)"

definition tenant_config_PATCH_body :: "string \<Rightarrow> env \<Rightarrow> server_req \<Rightarrow> server_resp io" where
  "tenant_config_PATCH_body tenantId e q =
      io_bind (request_json q) (\<lambda>body.
      io_bind (read_prop body ''version'') (\<lambda>version.
      let patch = get_prop body ''patch'' in
      if version = JUndef then bad_request version_required
      else if \<not> is_object patch then bad_request ''patch is required and must be an object''
      else io_bind (patchTenantConfigGeneric e tenantId patch version (getAdminAuthToken q)) respond))"

definition tenant_config_PATCH :: "string \<Rightarrow> env \<Rightarrow> server_req \<Rightarrow> server_resp io" where
  "tenant_config_PATCH tenantId e q = handle ''Failed to update tenant config'' (tenant_config_PATCH_body tenantId e q)"

definition api_key_create_POST_body :: "string \<Rightarrow> env \<Rightarrow> server_req \<Rightarrow> server_resp io" where
  "api_key_create_POST_body tenantId e q =
      io_bind (request_json q) (\<lambda>body.
      io_bind (createTenantApiKey e tenantId body (getAdminAuthToken q)) (\<lambda>result.
      io_bind (read_prop result ''api_key'') (\<lambda>_. respond result)))"

definition api_key_create_POST :: "string \<Rightarrow> env \<Rightarrow> server_req \<Rightarrow> server_resp io" where
  "api_key_create_POST tenantId e q = handle ''Failed to create API key'' (api_key_create_POST_body tenantId e q)"

definition api_key_rotate_POST_body :: "string \<Rightarrow> string \<Rightarrow> env \<Rightarrow> server_req \<Rightarrow> server_resp io" where
  "api_key_rotate_POST_body tenantId keyId e q =
      io_bind (rotateTenantApiKey e tenantId keyId (getAdminAuthToken q)) respond"

definition api_key_rotate_POST :: "string \<Rightarrow> string \<Rightarrow> env \<Rightarrow> server_req \<Rightarrow> server_resp io" where
  "api_key_rotate_POST tenantId keyId e q = handle ''Failed to rotate API key'' (api_key_rotate_POST_body tenantId keyId e q)"

definition api_key_revoke_POST_body :: "string \<Rightarrow> string \<Rightarrow> env \<Rightarrow> server_req \<Rightarrow> server_resp io" where
  "api_key_revoke_POST_body tenantId keyId e q =
      io_bind (revokeTenantApiKey e tenantId keyId (getAdminAuthToken q)) respond"

definition api_key_revoke_POST :: "string \<Rightarrow> string \<Rightarrow> env \<Rightarrow> server_req \<Rightarrow> server_resp io" where
  "api_key_revoke_POST tenantId keyId e q = handle ''Failed to revoke API key'' (api_key_revoke_POST_body tenantId keyId e q)"

definition pii_test_POST_body :: "string \<Rightarrow> env \<Rightarrow> server_req \<Rightarrow> server_resp io" where
  "pii_test_POST_body tenantId e q =
      io_bind (request_json q) (\<lambda>raw.
      let body = js_or raw (JObj []);
          request_url = get_prop body ''request_url''; response_url = get_prop body ''response_url'';
          timeout_ms = get_prop body ''timeout_ms''; api_key = get_prop body ''api_key''
      in if \<not> truthy request_url \<or> \<not> truthy response_url \<or> \<not> is_number timeout_ms
         then bad_request ''Missing or invalid payload''
         else io_bind (testTenantPiiConnection e tenantId
                (JObj ([(''request_url'', request_url), (''response_url'', response_url),
                        (''timeout_ms'', timeout_ms)]
                       @ (if truthy api_key then [(''api_key'', api_key)] else [])))
                (getAdminAuthToken q)) respond)"

definition pii_test_POST :: "string \<Rightarrow> env \<Rightarrow> server_req \<Rightarrow> server_resp io" where
  "pii_test_POST tenantId e q = handle ''Failed to test PII connection'' (pii_test_POST_body tenantId e q)"

section \<open>Route groups behind requireAdminBearer\<close>

definition route_groups_GET_action :: "env \<Rightarrow> server_req \<Rightarrow> string \<Rightarrow> server_resp io" where
  "route_groups_GET_action e q t =
     (case search_param q ''tenantId'' of
        Some (c # tid) \<Rightarrow>
          io_bind (getRouteGroupsFromTenantConfig e (c # tid) (Some t)) (\<lambda>rgs.
            respond (JObj [(''data'', JArr rgs)]))
      | _ \<Rightarrow> bad_request ''tenantId is required'')"

definition route_groups_GET :: "env \<Rightarrow> server_req \<Rightarrow> server_resp io" where
  "route_groups_GET e q = handle ''Failed to fetch route groups''
     (with_auth (requireAdminBearer q) (route_groups_GET_action e q))"

definition route_groups_POST_action :: "env \<Rightarrow> server_req \<Rightarrow> string \<Rightarrow> server_resp io" where
  "route_groups_POST_action e q t =
     io_bind (request_json q) (\<lambda>body.
     io_bind (read_prop body ''tenantId'') (\<lambda>tenantId.
     if \<not> truthy tenantId then bad_request ''tenantId is required''
     else if \<not> truthy (get_prop body ''id'') then bad_request ''Missing required field: id''
     else io_bind (createRouteGroupInTenantConfig e (to_str tenantId) (to_str (get_prop body ''id''))
            (js_or (get_prop body ''models'') (JArr [])) (Some t)) (\<lambda>result.
            io_return (json_response result 201))))"

definition route_groups_POST :: "env \<Rightarrow> server_req \<Rightarrow> server_resp io" where
  "route_groups_POST e q = handle ''Failed to create route group''
     (with_auth (requireAdminBearer q) (route_groups_POST_action e q))"

definition requireTenantId :: "server_req \<Rightarrow> server_resp + string" where
  "requireTenantId q =
     (case search_param q ''tenantId'' of
        Some (c # tid) \<Rightarrow> Inr (c # tid)
      | _ \<Rightarrow> Inl (error_json ''tenantId is required'' 400))"

definition route_group_GET_action :: "string \<Rightarrow> env \<Rightarrow> server_req \<Rightarrow> string \<Rightarrow> server_resp io" where
  "route_group_GET_action routeGroupId e q t =
     (case requireTenantId q of
        Inl r \<Rightarrow> io_return r
      | Inr tenantId \<Rightarrow>
          io_bind (getRouteGroupsFromTenantConfig e tenantId (Some t)) (\<lambda>rgs.
          io_bind (find_by (\<lambda>rg. get_prop rg ''id'') (JStr routeGroupId) rgs) (\<lambda>found.
          case found of
            None \<Rightarrow> io_return (error_json (''Route group '' @ routeGroupId @ '' not found'') 404)
          | Some rg \<Rightarrow>
              io_bind (getTenantConfig e tenantId (Some t)) (\<lambda>tenantConfig.
              io_bind (read_prop tenantConfig ''version'') (\<lambda>_.
                respond (JObj [(''data'',
                  JObj (obj_set ''version'' (version_of tenantConfig) (spread [] (own_props rg))))]))))))"

definition route_group_GET :: "string \<Rightarrow> env \<Rightarrow> server_req \<Rightarrow> server_resp io" where
  "route_group_GET routeGroupId e q = handle ''Failed to fetch route group''
     (with_auth (requireAdminBearer q) (route_group_GET_action routeGroupId e q))"

definition route_group_PATCH_action :: "string \<Rightarrow> env \<Rightarrow> server_req \<Rightarrow> string \<Rightarrow> server_resp io" where
  "route_group_PATCH_action routeGroupId e q t =
     (case requireTenantId q of
        Inl r \<Rightarrow> io_return r
      | Inr tenantId \<Rightarrow>
          io_bind (request_json q) (\<lambda>body.
          io_bind (read_prop body ''models'') (\<lambda>models.
          io_bind (updateRouteGroupInTenantConfig e tenantId routeGroupId
            (js_or models (JArr [])) (Some t)) respond)))"

definition route_group_PATCH :: "string \<Rightarrow> env \<Rightarrow> server_req \<Rightarrow> server_resp io" where
  "route_group_PATCH routeGroupId e q = handle ''Failed to update route group''
     (with_auth (requireAdminBearer q) (route_group_PATCH_action routeGroupId e q))"

definition route_group_DELETE_action :: "string \<Rightarrow> env \<Rightarrow> server_req \<Rightarrow> string \<Rightarrow> server_resp io" where
  "route_group_DELETE_action routeGroupId e q t =
     (case requireTenantId q of
        Inl r \<Rightarrow> io_return r
      | Inr tenantId \<Rightarrow>
          io_bind (deleteRouteGroupFromTenantConfig e tenantId routeGroupId (Some t)) (\<lambda>_.
            respond (JObj [(''message'', JStr ''Route group deleted successfully'')])))"

definition route_group_DELETE :: "string \<Rightarrow> env \<Rightarrow> server_req \<Rightarrow> server_resp io" where
  "route_group_DELETE routeGroupId e q = handle ''Failed to delete route group''
     (with_auth (requireAdminBearer q) (route_group_DELETE_action routeGroupId e q))"

section \<open>The routes meet their interfaces\<close>

lemma issues_sum_case [issues_rules]:
  "(\<And>r. s = Inl r \<Longrightarrow> issues P (a r)) \<Longrightarrow> (\<And>t. s = Inr t \<Longrightarrow> issues P (b t)) \<Longrightarrow>
   issues P (case s of Inl r \<Rightarrow> a r | Inr t \<Rightarrow> b t)"
  by (cases s) simp_all

lemma issues_list_case [issues_rules]:
  "issues P a \<Longrightarrow> (\<And>c s. issues P (b c s)) \<Longrightarrow> issues P (case xs of [] \<Rightarrow> a | c # s \<Rightarrow> b c s)"
  by (cases xs) simp_all

interpretation tenant_GET: guarded_route "tenant_GET tenantId" "route_error ''Failed to fetch tenant config''"
  requireTenantAuth "tenant_GET_action tenantId" for tenantId
  by unfold_locales
     (auto simp: tenant_GET_def tenant_GET_action_def dest: guard_facts intro: issues_rules guard_facts)

interpretation tenant_DELETE: guarded_route "tenant_DELETE tenantId" "route_error ''Failed to delete tenant''"
  requireTenantAuth "tenant_DELETE_action tenantId" for tenantId
  by unfold_locales
     (auto simp: tenant_DELETE_def tenant_DELETE_action_def dest: guard_facts intro: issues_rules guard_facts)

interpretation tenant_api_keys_GET: guarded_route "tenant_api_keys_GET tenantId"
  "route_error ''Failed to fetch tenant API keys''" requireTenantAuth "tenant_api_keys_GET_action tenantId" for tenantId
  by unfold_locales
     (auto simp: tenant_api_keys_GET_def tenant_api_keys_GET_action_def
       dest: guard_facts intro: issues_rules guard_facts)

interpretation tenant_usage_GET: guarded_route "tenant_usage_GET tenantId"
  "route_error ''Failed to fetch tenant usage''" requireTenantAuth "tenant_usage_GET_action tenantId" for tenantId
  by unfold_locales
     (auto simp: tenant_usage_GET_def tenant_usage_GET_action_def
       dest: guard_facts intro: issues_rules guard_facts)

interpretation tenant_budget_status_GET: guarded_route "tenant_budget_status_GET tenantId"
  "route_error ''Failed to fetch tenant budget status''" requireTenantAuth "tenant_budget_status_GET_action tenantId"
  for tenantId
  by unfold_locales
     (auto simp: tenant_budget_status_GET_def tenant_budget_status_GET_action_def
       dest: guard_facts intro: issues_rules guard_facts)

interpretation route_groups_GET: guarded_route route_groups_GET "route_error ''Failed to fetch route groups''"
  requireAdminBearer route_groups_GET_action
  by unfold_locales
     (auto simp: route_groups_GET_def route_groups_GET_action_def
       dest: guard_facts intro!: issues_rules intro: guard_facts)

interpretation route_groups_POST: guarded_route route_groups_POST "route_error ''Failed to create route group''"
  requireAdminBearer route_groups_POST_action
  by unfold_locales
     (auto simp: route_groups_POST_def route_groups_POST_action_def
       dest: guard_facts intro!: issues_rules intro: guard_facts)

interpretation route_group_GET: guarded_route "route_group_GET routeGroupId"
  "route_error ''Failed to fetch route group''" requireAdminBearer "route_group_GET_action routeGroupId"
  for routeGroupId
  by unfold_locales
     (auto simp: route_group_GET_def route_group_GET_action_def
       dest: guard_facts intro!: issues_rules intro: guard_facts)

interpretation route_group_PATCH: guarded_route "route_group_PATCH routeGroupId"
  "route_error ''Failed to update route group''" requireAdminBearer "route_group_PATCH_action routeGroupId"
  for routeGroupId
  by unfold_locales
     (auto simp: route_group_PATCH_def route_group_PATCH_action_def
       dest: guard_facts intro!: issues_rules intro: guard_facts)

interpretation route_group_DELETE: guarded_route "route_group_DELETE routeGroupId"
  "route_error ''Failed to delete route group''" requireAdminBearer "route_group_DELETE_action routeGroupId"
  for routeGroupId
  by unfold_locales
     (auto simp: route_group_DELETE_def route_group_DELETE_action_def
       dest: guard_facts intro!: issues_rules intro: guard_facts)

interpretation tenants_GET: forwarding_route tenants_GET "route_error ''Failed to fetch tenants''" tenants_GET_body
  by unfold_locales (auto simp: tenants_GET_def tenants_GET_body_def Let_def intro!: issues_rules)

interpretation tenants_POST: forwarding_route tenants_POST "route_error ''Failed to create tenant''" tenants_POST_body
  by unfold_locales (auto simp: tenants_POST_def tenants_POST_body_def Let_def intro!: issues_rules)

interpretation tenant_budget_PATCH: forwarding_route "tenant_budget_PATCH tenantId" "route_error ''Failed to update tenant budget''" "tenant_budget_PATCH_body tenantId" for tenantId
  by unfold_locales (auto simp: tenant_budget_PATCH_def tenant_budget_PATCH_body_def Let_def intro!: issues_rules)

interpretation tenant_config_PATCH: forwarding_route "tenant_config_PATCH tenantId" "route_error ''Failed to update tenant config''" "tenant_config_PATCH_body tenantId" for tenantId
  by unfold_locales (auto simp: tenant_config_PATCH_def tenant_config_PATCH_body_def Let_def intro!: issues_rules)

interpretation api_key_create_POST: forwarding_route "api_key_create_POST tenantId" "route_error ''Failed to create API key''" "api_key_create_POST_body tenantId" for tenantId
  by unfold_locales (auto simp: api_key_create_POST_def api_key_create_POST_body_def Let_def intro!: issues_rules)

interpretation api_key_rotate_POST: forwarding_route "api_key_rotate_POST tenantId keyId" "route_error ''Failed to rotate API key''" "api_key_rotate_POST_body tenantId keyId" for tenantId keyId
  by unfold_locales (auto simp: api_key_rotate_POST_def api_key_rotate_POST_body_def Let_def intro!: issues_rules)

interpretation api_key_revoke_POST: forwarding_route "api_key_revoke_POST tenantId keyId" "route_error ''Failed to revoke API key''" "api_key_revoke_POST_body tenantId keyId" for tenantId keyId
  by unfold_locales (auto simp: api_key_revoke_POST_def api_key_revoke_POST_body_def Let_def intro!: issues_rules)

interpretation pii_test_POST: forwarding_route "pii_test_POST tenantId" "route_error ''Failed to test PII connection''" "pii_test_POST_body tenantId" for tenantId
  by unfold_locales (auto simp: pii_test_POST_def pii_test_POST_body_def Let_def intro!: issues_rules)

end
