(* ===== verification/Model_Routes.thy ===== *)
theory Model_Routes
  imports Tenant_Routes
begin

text \<open>
  app/api/models/**, app/api/providers/** and app/api/global-config/**: one definition per
  HTTP method. The model routes are behind requireAdminBearer; the provider and global config
  routes only forward whatever token the request has.
\<close>

section \<open>Models\<close>

definition models_GET_action :: "env \<Rightarrow> server_req \<Rightarrow> string \<Rightarrow> server_resp io" where
  "models_GET_action e q t =
     io_bind (getModels e (Some t)) (\<lambda>result.
     io_bind (data_or_empty result) (\<lambda>d. respond (JObj [(''data'', d)])))"

definition models_GET :: "env \<Rightarrow> server_req \<Rightarrow> server_resp io" where
  "models_GET e q = handle ''Failed to fetch models''
     (with_auth (requireAdminBearer q) (models_GET_action e q))"

text \<open>The native model id that a Bedrock model gets after creation.\<close>

definition bedrock_pid :: "jsval \<Rightarrow> string" where
  "bedrock_pid body =
     (let p = get_prop body ''provider_model_id'' in
      if is_str p \<and> trim (str_of p) \<noteq> [] then trim (str_of p) else trim (to_str (get_prop body ''id'')))"

definition bedrock_followup :: "env \<Rightarrow> jsval \<Rightarrow> jsval \<Rightarrow> string \<Rightarrow> unit io" where
  "bedrock_followup e body result t =
     (if get_prop body ''provider'' = JStr ''bedrock'' then
        io_bind (read_prop result ''version'') (\<lambda>newVersion.
        let pid = bedrock_pid body in
        if pid \<noteq> [] \<and> \<not> nullish newVersion then
          io_catch
            (io_bind (updateModel e (to_str (get_prop body ''id''))
                        (JObj [(''provider_model_id'', JStr pid)]) newVersion (Some t))
               (\<lambda>_. io_return ()))
            (\<lambda>_. io_return ())
        else io_return ())
      else io_return ())"

definition models_POST_action :: "env \<Rightarrow> server_req \<Rightarrow> string \<Rightarrow> server_resp io" where
  "models_POST_action e q t =
     io_bind (request_json q) (\<lambda>body.
     io_bind (read_prop body ''id'') (\<lambda>mid.
     if \<not> truthy mid \<or> \<not> truthy (get_prop body ''provider'')
     then bad_request ''Missing required fields: id and provider''
     else
       io_bind (getGlobalConfig e (Some t)) (\<lambda>globalConfig.
       io_bind (read_prop globalConfig ''version'') (\<lambda>_.
       io_bind (createModel e body (version_of globalConfig) (Some t)) (\<lambda>result.
       io_bind (bedrock_followup e body result t) (\<lambda>_.
         io_return (json_response result 201)))))))"

definition models_POST :: "env \<Rightarrow> server_req \<Rightarrow> server_resp io" where
  "models_POST e q = handle ''Failed to create model''
     (with_auth (requireAdminBearer q) (models_POST_action e q))"

text \<open>\<open>String(m.Name ?? m.name ?? '')\<close>\<close>

definition config_model_name :: "jsval \<Rightarrow> jsval" where
  "config_model_name m =
     JStr (to_str (coalesce (coalesce (get_prop m ''Name'') (get_prop m ''name'')) (JStr [])))"

definition model_GET_action :: "string \<Rightarrow> env \<Rightarrow> server_req \<Rightarrow> string \<Rightarrow> server_resp io" where
  "model_GET_action modelId e q t =
     io_bind (getModels e (Some t)) (\<lambda>result.
     io_bind (data_or_empty result) (\<lambda>d.
     io_bind (as_array d) (\<lambda>models.
     io_bind (find_by (\<lambda>m. get_prop m ''id'') (JStr modelId) models) (\<lambda>found.
     case found of
       None \<Rightarrow> io_return (error_json (''Model '' @ modelId @ '' not found'') 404)
     | Some model \<Rightarrow>
         io_bind (getGlobalConfig e (Some t)) (\<lambda>globalConfig.
         io_bind (read_prop globalConfig ''version'') (\<lambda>_.
         io_bind (find_by config_model_name (JStr modelId)
           (arr_elems (get_prop (get_prop globalConfig ''config'') ''models''))) (\<lambda>globalEntry.
         respond (JObj [(''data'',
           JObj (obj_set ''version'' (version_of globalConfig)
             (obj_set ''Enabled''
               (case globalEntry of Some g \<Rightarrow> get_prop g ''Enabled'' | None \<Rightarrow> get_prop model ''Enabled'')
               (spread [] (js_entries model)))))]))))))))"

definition model_GET :: "string \<Rightarrow> env \<Rightarrow> server_req \<Rightarrow> server_resp io" where
  "model_GET modelId e q = handle ''Failed to fetch model''
     (with_auth (requireAdminBearer q) (model_GET_action modelId e q))"

definition model_PATCH_action :: "string \<Rightarrow> env \<Rightarrow> server_req \<Rightarrow> string \<Rightarrow> server_resp io" where
  "model_PATCH_action modelId e q t =
     io_bind (request_json q) (\<lambda>body.
     io_bind (getGlobalConfig e (Some t)) (\<lambda>globalConfig.
     io_bind (read_prop globalConfig ''version'') (\<lambda>_.
     io_bind (updateModel e modelId body (version_of globalConfig) (Some t)) respond)))"

definition model_PATCH :: "string \<Rightarrow> env \<Rightarrow> server_req \<Rightarrow> server_resp io" where
  "model_PATCH modelId e q = handle ''Failed to update model''
     (with_auth (requireAdminBearer q) (model_PATCH_action modelId e q))"

definition model_DELETE_action :: "string \<Rightarrow> env \<Rightarrow> server_req \<Rightarrow> string \<Rightarrow> server_resp io" where
  "model_DELETE_action modelId e q t =
     io_bind (getGlobalConfig e (Some t)) (\<lambda>globalConfig.
     io_bind (read_prop globalConfig ''version'') (\<lambda>_.
     io_bind (deleteModel e modelId (version_of globalConfig) (Some t)) (\<lambda>_.
       respond (JObj [(''message'', JStr ''Model deleted successfully'')]))))"

definition model_DELETE :: "string \<Rightarrow> env \<Rightarrow> server_req \<Rightarrow> server_resp io" where
  "model_DELETE modelId e q = handle ''Failed to delete model''
     (with_auth (requireAdminBearer q) (model_DELETE_action modelId e q))"

section \<open>Providers\<close>

definition providers_GET_body :: "env \<Rightarrow> server_req \<Rightarrow> server_resp io" where
  "providers_GET_body e q =
      io_bind (getProviders e (getAdminAuthToken q)) (\<lambda>result.
      io_bind (data_or_empty result) (\<lambda>d. respond (JObj [(''data'', d)])))"

definition providers_GET :: "env \<Rightarrow> server_req \<Rightarrow> server_resp io" where
  "providers_GET e q = handle ''Failed to fetch providers'' (providers_GET_body e q)"

text \<open>The version a provider is shown with: that of the global config, 1 if it cannot be read.\<close>

definition provider_version :: "env \<Rightarrow> string option \<Rightarrow> jsval io" where
  "provider_version e tok =
     io_catch
       (io_bind (getGlobalConfig e tok) (\<lambda>gc.
          io_return (if is_number (get_prop gc ''version'') then get_prop gc ''version'' else jint 1)))
       (\<lambda>_. io_return (jint 1))"

definition provider_GET_body :: "string \<Rightarrow> env \<Rightarrow> server_req \<Rightarrow> server_resp io" where
  "provider_GET_body providerId e q =
      io_bind (getProviders e (getAdminAuthToken q)) (\<lambda>result.
      io_bind (data_or_empty result) (\<lambda>d.
      io_bind (as_array d) (\<lambda>providers.
      io_bind (find_by (\<lambda>p. get_prop p ''id'') (JStr providerId) providers) (\<lambda>found.
      case found of
        None \<Rightarrow> io_return (error_json (''Provider '' @ providerId @ '' not found'') 404)
      | Some provider \<Rightarrow>
          io_bind (provider_version e (getAdminAuthToken q)) (\<lambda>version.
            respond (JObj [(''data'', provider), (''version'', version)]))))))"

definition provider_GET :: "string \<Rightarrow> env \<Rightarrow> server_req \<Rightarrow> server_resp io" where
  "provider_GET providerId e q = handle ''Failed to fetch provider'' (provider_GET_body providerId e q)"

text \<open>\<open>{ ...config }\<close> with the three credential keys deleted.\<close>

definition safe_config :: "jsval \<Rightarrow> props" where
  "safe_config config =
     obj_del ''api_secret'' (obj_del ''api_key'' (obj_del ''credentials''
       (spread [] (js_entries config))))"

definition provider_PATCH_body :: "string \<Rightarrow> env \<Rightarrow> server_req \<Rightarrow> server_resp io" where
  "provider_PATCH_body providerId e q =
      io_bind (request_json q) (\<lambda>body.
      io_bind (read_prop body ''config'') (\<lambda>config.
      let version = get_prop body ''version'' in
      if \<not> truthy config \<or> \<not> is_number version
      then bad_request ''Missing required fields: config and version''
      else io_bind (patchProviderConfig e providerId (safe_config config) version (getAdminAuthToken q))
             respond))"

definition provider_PATCH :: "string \<Rightarrow> env \<Rightarrow> server_req \<Rightarrow> server_resp io" where
  "provider_PATCH providerId e q = handle ''Failed to update provider'' (provider_PATCH_body providerId e q)"

definition credentials_reply :: "jsval \<Rightarrow> server_resp io" where
  "credentials_reply result =
     io_bind (read_prop result ''version'') (\<lambda>v.
       respond (JObj [(''message'', JStr ''Credentials updated successfully''),
                      (''has_api_key'', JBool True), (''api_key_source'', JStr ''global_config''),
                      (''version'', v)]))"

definition trimmed_str :: "jsval \<Rightarrow> string" where
  "trimmed_str v = (if is_str v then trim (str_of v) else [])"

definition credentials_POST_body :: "string \<Rightarrow> string \<Rightarrow> env \<Rightarrow> server_req \<Rightarrow> server_resp io" where
  "credentials_POST_body now providerId e q =
      io_bind (request_json q) (\<lambda>body.
      io_bind (read_prop body ''credentials'') (\<lambda>credentials.
      let version = get_prop body ''version'' in
      if \<not> truthy credentials \<or> \<not> is_number version
      then bad_request ''Missing required fields: credentials and version''
      else if providerId = ''bedrock'' then
        let ak = trimmed_str (get_prop credentials ''aws_access_key_id'');
            sk = trimmed_str (get_prop credentials ''aws_secret_access_key'');
            region = trimmed_str (get_prop credentials ''aws_region'')
        in if ak = [] then bad_request ''AWS Access Key ID is required''
           else if sk = [] then bad_request ''AWS Secret Access Key is required''
           else if region = [] then bad_request ''AWS Region is required''
           else io_bind (updateProviderCredentials e now providerId
                  (JObj [(''aws_access_key_id'', JStr ak), (''aws_secret_access_key'', JStr sk),
                         (''aws_region'', JStr region)]) version (getAdminAuthToken q))
                  credentials_reply
      else
        let api_key = get_prop credentials ''api_key'' in
        if \<not> truthy api_key then bad_request ''API key is required''
        else if \<not> is_str api_key then io_throw type_error
        else if trim (str_of api_key) = [] then bad_request ''API key is required''
        else io_bind (updateProviderCredentials e now providerId credentials version (getAdminAuthToken q))
               credentials_reply))"

definition credentials_POST :: "string \<Rightarrow> string \<Rightarrow> env \<Rightarrow> server_req \<Rightarrow> server_resp io" where
  "credentials_POST now providerId e q = handle ''Failed to update credentials'' (credentials_POST_body now providerId e q)"

section \<open>Global config\<close>

definition global_config_GET_body :: "env \<Rightarrow> server_req \<Rightarrow> server_resp io" where
  "global_config_GET_body e q =
      io_bind (getGlobalConfig e (getAdminAuthToken q)) respond"

definition global_config_GET :: "env \<Rightarrow> server_req \<Rightarrow> server_resp io" where
  "global_config_GET e q = handle ''Failed to fetch global config'' (global_config_GET_body e q)"

definition global_config_PATCH_body :: "env \<Rightarrow> server_req \<Rightarrow> server_resp io" where
  "global_config_PATCH_body e q =
      io_bind (request_json q) (\<lambda>body.
      io_bind (read_prop body ''config'') (\<lambda>config.
      let version = get_prop body ''version'' in
      if \<not> truthy config \<or> \<not> is_number version
      then bad_request ''Missing required fields: config and version''
      else io_bind (patchGlobalConfig e config version (getAdminAuthToken q)) respond))"

definition global_config_PATCH :: "env \<Rightarrow> server_req \<Rightarrow> server_resp io" where
  "global_config_PATCH e q = handle ''Failed to update global config'' (global_config_PATCH_body e q)"

definition global_config_changes_GET_body :: "env \<Rightarrow> server_req \<Rightarrow> server_resp io" where
  "global_config_changes_GET_body e q =
      io_bind (getGlobalConfigChanges e (int_param q ''limit'' ''50'') (int_param q ''offset'' ''0'')
        (getAdminAuthToken q)) respond"

definition global_config_changes_GET :: "env \<Rightarrow> server_req \<Rightarrow> server_resp io" where
  "global_config_changes_GET e q = handle ''Failed to fetch global config changes'' (global_config_changes_GET_body e q)"

section \<open>The routes meet their interfaces\<close>

lemma issues_bedrock_followup [issues_rules]:
  "issues (authorised e (Some t)) (bedrock_followup e body result t)"
  unfolding bedrock_followup_def Let_def by (auto intro!: issues_rules)

interpretation models_GET: guarded_route models_GET "route_error ''Failed to fetch models''"
  requireAdminBearer models_GET_action
  by unfold_locales
     (auto simp: models_GET_def models_GET_action_def dest: guard_facts
       intro!: issues_rules intro: guard_facts)

interpretation models_POST: guarded_route models_POST "route_error ''Failed to create model''"
  requireAdminBearer models_POST_action
  by unfold_locales
     (auto simp: models_POST_def models_POST_action_def dest: guard_facts
       intro!: issues_rules intro: guard_facts)

interpretation model_GET: guarded_route "model_GET modelId" "route_error ''Failed to fetch model''"
  requireAdminBearer "model_GET_action modelId" for modelId
  by unfold_locales
     (auto simp: model_GET_def model_GET_action_def dest: guard_facts
       intro!: issues_rules intro: guard_facts)

interpretation model_PATCH: guarded_route "model_PATCH modelId" "route_error ''Failed to update model''"
  requireAdminBearer "model_PATCH_action modelId" for modelId
  by unfold_locales
     (auto simp: model_PATCH_def model_PATCH_action_def dest: guard_facts
       intro!: issues_rules intro: guard_facts)

interpretation model_DELETE: guarded_route "model_DELETE modelId" "route_error ''Failed to delete model''"
  requireAdminBearer "model_DELETE_action modelId" for modelId
  by unfold_locales
     (auto simp: model_DELETE_def model_DELETE_action_def dest: guard_facts
       intro!: issues_rules intro: guard_facts)

lemma issues_provider_version [issues_rules]: "issues (authorised e tok) (provider_version e tok)"
  unfolding provider_version_def by (intro issues_rules)

lemma issues_credentials_reply [issues_rules]: "issues P (credentials_reply r)"
  unfolding credentials_reply_def by (intro issues_rules)

interpretation providers_GET: forwarding_route providers_GET "route_error ''Failed to fetch providers''" providers_GET_body
  by unfold_locales (auto simp: providers_GET_def providers_GET_body_def Let_def intro!: issues_rules)

interpretation provider_GET: forwarding_route "provider_GET providerId" "route_error ''Failed to fetch provider''" "provider_GET_body providerId" for providerId
  by unfold_locales (auto simp: provider_GET_def provider_GET_body_def Let_def intro!: issues_rules)

interpretation provider_PATCH: forwarding_route "provider_PATCH providerId" "route_error ''Failed to update provider''" "provider_PATCH_body providerId" for providerId
  by unfold_locales (auto simp: provider_PATCH_def provider_PATCH_body_def Let_def intro!: issues_rules)

interpretation credentials_POST: forwarding_route "credentials_POST now providerId" "route_error ''Failed to update credentials''" "credentials_POST_body now providerId" for now providerId
  by unfold_locales (auto simp: credentials_POST_def credentials_POST_body_def Let_def intro!: issues_rules)

interpretation global_config_GET: forwarding_route global_config_GET "route_error ''Failed to fetch global config''" global_config_GET_body
  by unfold_locales (auto simp: global_config_GET_def global_config_GET_body_def Let_def intro!: issues_rules)

interpretation global_config_PATCH: forwarding_route global_config_PATCH "route_error ''Failed to update global config''" global_config_PATCH_body
  by unfold_locales (auto simp: global_config_PATCH_def global_config_PATCH_body_def Let_def intro!: issues_rules)

interpretation global_config_changes_GET: forwarding_route global_config_changes_GET "route_error ''Failed to fetch global config changes''" global_config_changes_GET_body
  by unfold_locales (auto simp: global_config_changes_GET_def global_config_changes_GET_body_def Let_def intro!: issues_rules)

end
