(* ===== verification/Route_Properties.thy ===== *)
theory Route_Properties
  imports Model_Routes
begin

text \<open>
  What single proxy routes do: optimistic concurrency and merging of route groups and models,
  the filter of the provider update, and how path parameters reach the gateway's URL.
\<close>

section \<open>Route groups\<close>

text \<open>The gateway as a store of tenant configs: it answers the first read of the config.\<close>

definition answers_config :: "env \<Rightarrow> string \<Rightarrow> string option \<Rightarrow> jsval \<Rightarrow> net \<Rightarrow> bool" where
  "answers_config e tenantId tok config net \<longleftrightarrow>
     net [] (first_request e (tenant_path tenantId ''/config'') (gw_get tok)) =
       FetchOk \<lparr>rs_status = 200, rs_text = [], rs_json = Some config, rs_headers = []\<rparr>"

lemma getTenantConfig_ok:
  "callable e tok \<Longrightarrow> answers_config e tenantId tok config net \<Longrightarrow>
   getTenantConfig e tenantId tok net [] =
     (Inr config, [first_request e (tenant_path tenantId ''/config'') (gw_get tok)])"
  unfolding getTenantConfig_def answers_config_def
  using gw_success [of e "gw_get tok" net "[]"] by simp

text \<open>C6. Creating or replacing a route group reads the tenant's config and then sends a PATCH that
  is checked against the version just read: the groups it sends are all the groups that were
  there, with the one group set to the given models and no other added, changed or lost.\<close>

theorem route_group_write_keeps_others:
  assumes "callable e tok" and "answers_config e tenantId tok config net"
    and "get_prop config ''version'' = jint v" and "0 < v" and "v < 10 ^ 21"
    and "route_groups_of config = JObj groups" and "distinct (map fst groups)"
  shows "\<exists>new rest. io_requests (createRouteGroupInTenantConfig e tenantId rg models tok) net =
      first_request e (tenant_path tenantId ''/config'') (gw_get tok) #
      first_request e (tenant_path tenantId ''/config'')
        (gw_send_version ''PATCH'' (show_int v)
          (JsonBody (JObj [(''selection'', JObj [(''route_groups'', JObj new)])])) tok) # rest
    \<and> map_of new = (map_of groups)(rg \<mapsto> models)
    \<and> updateRouteGroupInTenantConfig e tenantId rg models tok = createRouteGroupInTenantConfig e tenantId rg models tok"
proof -
  let ?new = "obj_set rg models (spread [] groups)"
  let ?get = "first_request e (tenant_path tenantId ''/config'') (gw_get tok)"
  let ?opts = "gw_send_version ''PATCH'' (show_int v) (JsonBody (route_groups_patch ?new)) tok"
  have ver: "version_of config = jint v"
    using assms(3,4) by (simp add: version_of_def js_or_def)
  have nn: "\<not> nullish config" using assms(3) by (auto simp: nullish_def get_prop_simps)
  have str: "to_str (jint v) = show_int v"
    using num_to_string_int [of v] assms(4,5) by (simp del: num_to_string.simps)
  have "createRouteGroupInTenantConfig e tenantId rg models tok net [] =
      gatewayAdminFetch e (tenant_path tenantId ''/config'') ?opts net [?get]"
    using getTenantConfig_ok [OF assms(1,2)] assms(6) nn str
    by (simp add: createRouteGroupInTenantConfig_def io_bind_def read_prop_def io_return_def ver
        patchTenantConfigGeneric_def method_to_string_def nullish_def)
  moreover obtain rest where "snd (gatewayAdminFetch e (tenant_path tenantId ''/config'') ?opts net [?get]) =
      [?get] @ first_request e (tenant_path tenantId ''/config'') ?opts # rest"
    using gw_first [of e ?opts "tenant_path tenantId ''/config''" net "[?get]"] assms(1) by auto
  ultimately have "io_requests (createRouteGroupInTenantConfig e tenantId rg models tok) net =
      ?get # first_request e (tenant_path tenantId ''/config'') ?opts # rest"
    by (simp add: io_requests_def)
  moreover have "map_of ?new = (map_of groups)(rg \<mapsto> models)"
    using assms(7) by (simp add: map_of_spread)
  moreover have "updateRouteGroupInTenantConfig e tenantId rg models tok =
      createRouteGroupInTenantConfig e tenantId rg models tok"
    by (simp add: updateRouteGroupInTenantConfig_def createRouteGroupInTenantConfig_def)
  ultimately show ?thesis unfolding route_groups_patch_def by blast
qed

definition demo_config :: jsval where
  "demo_config = JObj [(''version'', jint 7), (''config'', JObj [(''selection'',
     JObj [(''route_groups'', JObj [(''fast'', JArr [JStr ''m1'']), (''cheap'', JArr [])])])])]"

definition demo_config_net :: net where
  "demo_config_net h r = FetchOk \<lparr>rs_status = 200, rs_text = [], rs_json = Some demo_config, rs_headers = []\<rparr>"

theorem route_group_write_keeps_others_witness:
  "\<exists>new rest. io_requests (createRouteGroupInTenantConfig demo_env ''acme'' ''fast'' (JArr []) (Some ''tok'')) demo_config_net =
      first_request demo_env (tenant_path ''acme'' ''/config'') (gw_get (Some ''tok'')) #
      first_request demo_env (tenant_path ''acme'' ''/config'')
        (gw_send_version ''PATCH'' (show_int 7)
          (JsonBody (JObj [(''selection'', JObj [(''route_groups'', JObj new)])])) (Some ''tok'')) # rest
    \<and> map_of new ''cheap'' = Some (JArr [])"
proof -
  have "answers_config demo_env ''acme'' (Some ''tok'') demo_config demo_config_net"
    by (simp add: answers_config_def demo_config_net_def)
  then show ?thesis
    using route_group_write_keeps_others [of demo_env "Some ''tok''" "''acme''" demo_config demo_config_net 7
        "[(''fast'', JArr [JStr ''m1'']), (''cheap'', JArr [])]" "''fast''" "JArr []"]
    by (auto simp: demo_config_def get_prop_simps route_groups_of_def js_or_def)
qed

section \<open>Models\<close>

text \<open>Updating a model sends the version of the global config just read (1 when it has none or
  0): the PATCH never carries a version chosen by the browser, and its body is the canonical
  patch of the request body. When the patch is not valid, or the config cannot be read, no PATCH
  is sent.\<close>

theorem model_update_uses_latest_version:
  assumes "callable e (Some t)"
    and "net [] (first_request e ''/admin/config/global'' (gw_get (Some t))) =
           FetchOk \<lparr>rs_status = 200, rs_text = [], rs_json = Some gc, rs_headers = []\<rparr>"
    and "\<not> nullish gc" and "getAdminAuthToken q = Some t" and "t \<noteq> []" and "sq_body q = Some body"
  shows "case buildAdminModelPatchPayload body of
      Inl err \<Rightarrow> model_PATCH modelId e q net [] =
        (Inr (route_error ''Failed to update model'' err),
         [first_request e ''/admin/config/global'' (gw_get (Some t))])
    | Inr patch \<Rightarrow> \<exists>rest. io_requests (model_PATCH modelId e q) net =
        first_request e ''/admin/config/global'' (gw_get (Some t)) #
        first_request e (''/admin/models/'' @ modelId)
          (gw_send_version ''PATCH'' (to_str (js_or (get_prop gc ''version'') (jint 1)))
            (JsonBody (JObj patch)) (Some t)) # rest"
proof -
  let ?get = "first_request e ''/admin/config/global'' (gw_get (Some t))"
  have gc: "getGlobalConfig e (Some t) net [] = (Inr gc, [?get])"
    unfolding getGlobalConfig_def using gw_success [of e "gw_get (Some t)" net "[]"] assms(1,2) by simp
  have guard: "requireAdminBearer q = Inr t" using assms(4,5) by (rule guard_facts(6))
  have nn: "\<not> nullish (version_of gc)"
    by (auto simp: version_of_def js_or_def nullish_def)
  have run: "model_PATCH modelId e q net [] =
      handle ''Failed to update model''
        (\<lambda>net h. io_bind (updateModel e modelId body (version_of gc) (Some t)) respond net [?get]) net []"
    using gc assms(3,6)
    by (simp add: model_PATCH_def guard with_auth_def model_PATCH_action_def request_json_def handle_with_def
        io_catch_def io_bind_def read_prop_def io_return_def)
  show ?thesis
  proof (cases "buildAdminModelPatchPayload body")
    case (Inl err)
    then show ?thesis
      by (simp add: run updateModel_def io_of_sum_def handle_with_def io_catch_def io_throw_def io_return_def
          io_bind_def)
  next
    case (Inr patch)
    let ?opts = "gw_send_version ''PATCH'' (to_str (version_of gc)) (JsonBody (JObj patch)) (Some t)"
    obtain rest where "snd (gatewayAdminFetch e (''/admin/models/'' @ modelId) ?opts net [?get]) =
        ?get # first_request e (''/admin/models/'' @ modelId) ?opts # rest"
      using gw_first [of e ?opts "''/admin/models/'' @ modelId" net "[?get]"] assms(1) by auto
    then have "io_requests (model_PATCH modelId e q) net =
        ?get # first_request e (''/admin/models/'' @ modelId) ?opts # rest"
      using Inr nn
      by (auto simp: io_requests_def run updateModel_def io_of_sum_def method_to_string_def handle_with_def
          io_catch_def io_bind_def io_return_def respond_def split: sum.splits prod.splits)
    then show ?thesis using Inr by (auto simp: version_of_def)
  qed
qed

definition demo_patch_req :: server_req where
  "demo_patch_req = \<lparr>sq_query = [], sq_headers = [], sq_cookies = [(''admin_access_token'', ''tok'')],
     sq_body = Some (JObj [(''provider'', JStr ''openai'')])\<rparr>"

theorem model_update_uses_latest_version_witness:
  "\<exists>rest. io_requests (model_PATCH ''gpt'' demo_env demo_patch_req) demo_config_net =
      first_request demo_env ''/admin/config/global'' (gw_get (Some ''tok'')) #
      first_request demo_env ''/admin/models/gpt''
        (gw_send_version ''PATCH'' ''7'' (JsonBody (JObj [(''Provider'', JStr ''openai'')])) (Some ''tok'')) # rest"
proof -
  have b: "buildAdminModelPatchPayload (JObj [(''provider'', JStr ''openai'')]) = Inr [(''Provider'', JStr ''openai'')]"
    by code_simp
  have v: "to_str (jint 7) = ''7''" by code_simp
  have a: "getAdminAuthToken demo_patch_req = Some ''tok''"
    by (simp add: getAdminAuthToken_def demo_patch_req_def)
  show ?thesis
    using model_update_uses_latest_version [of demo_env "''tok''" demo_config_net demo_config demo_patch_req
        "JObj [(''provider'', JStr ''openai'')]" "''gpt''"] a b v
    by (simp add: demo_config_net_def demo_config_def nullish_def demo_patch_req_def get_prop_simps js_or_def)
qed

section \<open>Providers\<close>

lemma snake_no_credentials:
  "list_all (\<lambda>p. fst p \<notin> {''credentials'', ''api_key'', ''api_secret''}
     \<and> snd p \<notin> {''credentials'', ''api_key'', ''api_secret''}) SNAKE_TO_PASCAL"
  by code_simp

text \<open>The provider update drops the three fields \<open>credentials\<close>, \<open>api_key\<close> and \<open>api_secret\<close> and
  nothing else: every other defined field that is no alias is forwarded unchanged, credential
  fields such as \<open>aws_secret_access_key\<close> included, although the comment says that any
  credential-related field is removed.\<close>

theorem provider_patch_filter:
  assumes "callable e (getAdminAuthToken q)" and "sq_body q = Some body"
    and "get_prop body ''config'' = JObj ps" and "distinct (map fst ps)"
    and "get_prop body ''version'' = jint v" and "\<bar>v\<bar> < 10 ^ 21"
  shows "\<exists>sent rest. io_requests (provider_PATCH providerId e q) net =
      first_request e ''/admin/config/global''
        (gw_send_version ''PATCH'' (show_int v)
          (JsonBody (JObj [(''providers'', JObj [(providerId, JObj sent)])])) (getAdminAuthToken q)) # rest
    \<and> (\<forall>k \<in> {''credentials'', ''api_key'', ''api_secret''}. map_of sent k = None)
    \<and> (\<forall>k x. k \<notin> {''credentials'', ''api_key'', ''api_secret''} \<and> map_of SNAKE_TO_PASCAL k = None
         \<and> map_of ps k = Some x \<and> x \<noteq> JUndef \<longrightarrow> map_of sent k = Some x)"
proof -
  let ?safe = "safe_config (JObj ps)"
  let ?sent = "canonicalizeProviderPatchForGlobalConfig ?safe"
  let ?opts = "gw_send_version ''PATCH'' (show_int v) (JsonBody (provider_patch_body providerId ?sent)) (getAdminAuthToken q)"
  have nn: "\<not> nullish body" using assms(3) by (auto simp: nullish_def get_prop_simps)
  have str: "to_str (jint v) = show_int v"
    using num_to_string_int [OF assms(6)] by (simp del: num_to_string.simps)
  have safe: "map_of ?safe = (map_of ps)(''credentials'' := None, ''api_key'' := None, ''api_secret'' := None)"
    using assms(4) by (simp add: safe_config_def map_of_spread)
  have dist: "distinct (map fst ?safe)"
    using distinct_spread [of "[]" ps] by (simp add: safe_config_def obj_del_def distinct_delete)
  have look: "map_of ?sent k = (case map_of ?safe k of Some x \<Rightarrow> if x = JUndef then map_of (alias_pass (map_of SNAKE_TO_PASCAL) ?safe []) k else Some x
      | None \<Rightarrow> map_of (alias_pass (map_of SNAKE_TO_PASCAL) ?safe []) k)"
    if "map_of SNAKE_TO_PASCAL k = None" for k
    unfolding canonicalizeProviderPatchForGlobalConfig_def using that dist by (rule snake.explicit_pass_lookup)
  have no_alias: "map_of (alias_pass (map_of SNAKE_TO_PASCAL) ?safe []) k = None" "map_of SNAKE_TO_PASCAL k = None"
    if "k \<in> {''credentials'', ''api_key'', ''api_secret''}" for k
  proof -
    have "k \<notin> snd ` set SNAKE_TO_PASCAL" "k \<notin> fst ` set SNAKE_TO_PASCAL"
      using that snake_no_credentials by (auto simp: list_all_iff)
    then have "k \<notin> ran (map_of SNAKE_TO_PASCAL)" "map_of SNAKE_TO_PASCAL k = None"
      using map_of_SomeD by (fastforce simp: ran_def map_of_eq_None_iff image_iff)+
    then show "map_of (alias_pass (map_of SNAKE_TO_PASCAL) ?safe []) k = None"
      and "map_of SNAKE_TO_PASCAL k = None"
      using snake.alias_pass_keys [of ?safe "[]"] by (auto simp: map_of_eq_None_iff)
  qed
  obtain rest where "snd (gatewayAdminFetch e ''/admin/config/global'' ?opts net []) =
      first_request e ''/admin/config/global'' ?opts # rest"
    using gw_first [of e ?opts "''/admin/config/global''" net "[]"] assms(1) by auto
  then have "io_requests (provider_PATCH providerId e q) net = first_request e ''/admin/config/global'' ?opts # rest"
    using assms(2,3,5) nn str
    by (auto simp: io_requests_def provider_PATCH_def provider_PATCH_body_def request_json_def read_prop_def
        patchProviderConfig_def method_to_string_def nullish_def handle_with_def io_catch_def io_bind_def
        io_return_def respond_def split: sum.splits prod.splits)
  moreover have "map_of ?sent k = None" if "k \<in> {''credentials'', ''api_key'', ''api_secret''}" for k
    using that look [OF no_alias(2) [OF that]] no_alias(1) [OF that] safe by auto
  moreover have "map_of ?sent k = Some x"
    if "k \<notin> {''credentials'', ''api_key'', ''api_secret''}" "map_of SNAKE_TO_PASCAL k = None"
      "map_of ps k = Some x" "x \<noteq> JUndef" for k x
    using that look [OF that(2)] safe by auto
  ultimately show ?thesis
    unfolding provider_patch_body_def by (intro exI [of _ ?sent] exI [of _ rest]) (simp del: split_paired_All)
qed

definition demo_provider_req :: server_req where
  "demo_provider_req = \<lparr>sq_query = [], sq_headers = [], sq_cookies = [],
     sq_body = Some (JObj [(''config'', JObj [(''api_key'', JStr ''k''), (''aws_secret_access_key'', JStr ''s'')]),
                           (''version'', jint 3)])\<rparr>"

theorem provider_patch_filter_witness:
  "\<exists>sent rest. io_requests (provider_PATCH ''bedrock'' demo_env demo_provider_req) demo_config_net =
      first_request demo_env ''/admin/config/global''
        (gw_send_version ''PATCH'' (show_int 3)
          (JsonBody (JObj [(''providers'', JObj [(''bedrock'', JObj sent)])])) (getAdminAuthToken demo_provider_req)) # rest
    \<and> map_of sent ''api_key'' = None \<and> map_of sent ''aws_secret_access_key'' = Some (JStr ''s'')"
proof -
  let ?ps = "[(''api_key'', JStr ''k''), (''aws_secret_access_key'', JStr ''s'')]"
  let ?body = "JObj [(''config'', JObj ?ps), (''version'', jint 3)]"
  have t: "map_of SNAKE_TO_PASCAL ''aws_secret_access_key'' = None" by code_simp
  have "sq_body demo_provider_req = Some ?body" by (simp add: demo_provider_req_def)
  from provider_patch_filter [OF callable_demo this, of ?ps 3 "''bedrock''" demo_config_net]
  obtain sent rest where r: "io_requests (provider_PATCH ''bedrock'' demo_env demo_provider_req) demo_config_net =
      first_request demo_env ''/admin/config/global''
        (gw_send_version ''PATCH'' (show_int 3)
          (JsonBody (JObj [(''providers'', JObj [(''bedrock'', JObj sent)])])) (getAdminAuthToken demo_provider_req)) # rest"
    and n: "\<forall>k \<in> {''credentials'', ''api_key'', ''api_secret''}. map_of sent k = None"
    and k: "\<forall>k x. k \<notin> {''credentials'', ''api_key'', ''api_secret''} \<and> map_of SNAKE_TO_PASCAL k = None
         \<and> map_of ?ps k = Some x \<and> x \<noteq> JUndef \<longrightarrow> map_of sent k = Some x"
    by (auto simp: get_prop_simps)
  have "map_of sent ''aws_secret_access_key'' = Some (JStr ''s'')"
    using k [rule_format, of "''aws_secret_access_key''" "JStr ''s''"] t by simp
  then show ?thesis using r n by blast
qed

section \<open>Path parameters\<close>

text \<open>Deleting a route group encodes both path parameters, so two different pairs never name the
  same gateway resource; deleting a tenant does not encode its parameter, so a tenant id that
  contains slashes is sent as the deletion of a route group of another tenant.\<close>

theorem tenant_path_encoding:
  assumes "callable e tok"
  shows "(deleteRouteGroupFromTenantConfig e t g tok = deleteRouteGroupFromTenantConfig e t' g' tok \<longleftrightarrow>
      t = t' \<and> g = g')
   \<and> deleteTenant e (encodeURIComponent t @ ''/route-groups/'' @ encodeURIComponent g) tok =
       deleteRouteGroupFromTenantConfig e t g tok"
proof -
  let ?path = "\<lambda>t g. ''/admin/tenants/'' @ encodeURIComponent t @ ''/route-groups/'' @ encodeURIComponent g"
  let ?o = "gw_send ''DELETE'' NoBody tok"
  have inj: "t = t' \<and> g = g'" if "?path t g = ?path t' g'"
  proof -
    have no: "CHR ''/'' \<notin> set (encodeURIComponent s)" for s by (rule encode_no_sep [OF not_uri_chars(4)])
    have "encodeURIComponent t @ CHR ''/'' # (''route-groups/'' @ encodeURIComponent g) =
        encodeURIComponent t' @ CHR ''/'' # (''route-groups/'' @ encodeURIComponent g')"
      using that by simp
    then have "split_on (CHR ''/'') (encodeURIComponent t @ CHR ''/'' # (''route-groups/'' @ encodeURIComponent g)) =
        split_on (CHR ''/'') (encodeURIComponent t' @ CHR ''/'' # (''route-groups/'' @ encodeURIComponent g'))"
      by (simp only:)
    then have "encodeURIComponent t = encodeURIComponent t'"
      using no by (simp only: split_on_append not_False_eq_True list.inject)
    with that show ?thesis by simp
  qed
  have run: "io_requests (gatewayAdminFetch e p ?o) (\<lambda>_ _. FetchFail []) = [first_request e p ?o]"
    for p
    using assms by (simp add: io_requests_def gw_run io_bind_def io_catch_def io_fetch_def io_throw_def)
  have "t = t' \<and> g = g'"
    if "deleteRouteGroupFromTenantConfig e t g tok = deleteRouteGroupFromTenantConfig e t' g' tok"
  proof -
    have "first_request e (?path t g) ?o = first_request e (?path t' g') ?o"
      using arg_cong [OF that, of "\<lambda>m. io_requests m (\<lambda>_ _. FetchFail [])"] run
      unfolding deleteRouteGroupFromTenantConfig_def by simp
    then have "?path t g = ?path t' g'" by (simp add: gateway_request_def)
    then show ?thesis by (rule inj)
  qed
  moreover have "deleteTenant e (encodeURIComponent t @ ''/route-groups/'' @ encodeURIComponent g) tok =
      deleteRouteGroupFromTenantConfig e t g tok"
    by (simp add: deleteTenant_def tenant_path_def deleteRouteGroupFromTenantConfig_def)
  ultimately show ?thesis by blast
qed

theorem tenant_path_encoding_witness:
  "deleteRouteGroupFromTenantConfig demo_env ''a'' ''b/c'' None \<noteq> deleteRouteGroupFromTenantConfig demo_env ''a/b'' ''c'' None"
  using tenant_path_encoding [of demo_env None "''a''" "''b/c''" "''a/b''" "''c''"] by simp

end
