(* ===== verification/Finops_Routes.thy ===== *)
theory Finops_Routes
  imports Routes_Base "HOL-Library.Multiset"
begin

text \<open>
  app/api/finops/**: reporting routes behind requireAdminBearer that forward filters of the
  query string to the gateway, and the per-tenant usage summaries; lib/finops-fetch.ts, the
  browser side of the request statistics. \<open>billing/report\<close> streams a CSV file and is modelled
  up to its status and error body.
\<close>

section \<open>Forwarding to the gateway\<close>

definition finops_fetch :: "env \<Rightarrow> string \<Rightarrow> (string \<times> string) list \<Rightarrow> string \<Rightarrow> server_resp io" where
  "finops_fetch e path params t =
     io_bind (gatewayAdminFetch e (path @ ''?'' @ params_to_string params) (gw_get (Some t)))
       (\<lambda>data. respond (JObj [(''data'', data)]))"

text \<open>A 404 of the gateway means that the endpoint is missing there: answered 502.\<close>

definition upstream_404 :: "string \<Rightarrow> server_resp io \<Rightarrow> server_resp io" where
  "upstream_404 path m = io_catch m (\<lambda>err. case err of
     GatewayAdminError msg (Some st) d \<Rightarrow>
       if st = 404 then io_return (json_response (JObj
         [(''error'', JStr (''Upstream endpoint not found: '' @ path)), (''details'', d)]) 502)
       else io_throw err
   | _ \<Rightarrow> io_throw err)"

section \<open>The routes\<close>

text \<open>\<open>windowDays ?? (windowHours ? String(Math.max(1, Math.ceil(Number(windowHours) / 24))) : '30')\<close>\<close>

definition ceil_days :: "string \<Rightarrow> string" where
  "ceil_days h = num_to_string (case str_to_num h of
     Fin x \<Rightarrow> Fin (of_int (max 1 \<lceil>x / 24\<rceil>)) | PosInf \<Rightarrow> PosInf | NegInf \<Rightarrow> Fin 1 | NaN \<Rightarrow> NaN)"

definition resolvedWindowDays :: "server_req \<Rightarrow> string" where
  "resolvedWindowDays q =
     (case search_param q ''window_days'' of
        Some d \<Rightarrow> d
      | None \<Rightarrow> if get_or_empty q ''window_hours'' \<noteq> [] then ceil_days (get_or_empty q ''window_hours'')
                else ''30'')"

definition api_keys_usage_params :: "server_req \<Rightarrow> (string \<times> string) list" where
  "api_keys_usage_params q =
     (''window_days'', resolvedWindowDays q) #
     qs_params q [Optional ''window_hours'', Optional ''tenant_id'', Optional ''status'', Optional ''provider'',
       Optional ''model'', Optional ''api_key_name'', WithDefault ''limit'' ''50'', WithDefault ''offset'' ''0'']"

definition api_keys_usage_GET_action :: "env \<Rightarrow> server_req \<Rightarrow> string \<Rightarrow> server_resp io" where
  "api_keys_usage_GET_action e q t =
     upstream_404 ''/admin/api-keys/usage''
       (finops_fetch e ''/admin/api-keys/usage'' (api_keys_usage_params q) t)"

definition api_keys_usage_GET :: "env \<Rightarrow> server_req \<Rightarrow> server_resp io" where
  "api_keys_usage_GET e q =
     with_auth (requireAdminBearer q) (\<lambda>t. handle ''Failed to fetch API keys usage''
       (api_keys_usage_GET_action e q t))"

definition jwt_subs_usage_params :: "server_req \<Rightarrow> (string \<times> string) list" where
  "jwt_subs_usage_params q =
     qs_params q [Optional ''from'', Optional ''to'', Optional ''tenant_id'', Optional ''provider'',
       Optional ''model'', Optional ''status'', Optional ''jwt_sub'', Optional ''sort_by'', Optional ''sort_order'',
       WithDefault ''limit'' ''50'', WithDefault ''offset'' ''0'']"

definition jwt_subs_usage_GET_action :: "env \<Rightarrow> server_req \<Rightarrow> string \<Rightarrow> server_resp io" where
  "jwt_subs_usage_GET_action e q t =
     upstream_404 ''/admin/jwt-subs/usage''
       (finops_fetch e ''/admin/jwt-subs/usage'' (jwt_subs_usage_params q) t)"

definition jwt_subs_usage_GET :: "env \<Rightarrow> server_req \<Rightarrow> server_resp io" where
  "jwt_subs_usage_GET e q =
     with_auth (requireAdminBearer q) (\<lambda>t. handle ''Failed to fetch JWT subs usage''
       (jwt_subs_usage_GET_action e q t))"

definition api_key_usage_GET_action :: "string \<Rightarrow> env \<Rightarrow> server_req \<Rightarrow> string \<Rightarrow> server_resp io" where
  "api_key_usage_GET_action apiKeyId e q t =
     finops_fetch e (''/admin/api-keys/'' @ encodeURIComponent apiKeyId @ ''/usage'')
       (qs_params q [WithDefault ''window_hours'' ''720'', WithDefault ''limit'' ''50'', WithDefault ''offset'' ''0'']) t"

definition api_key_usage_GET :: "string \<Rightarrow> env \<Rightarrow> server_req \<Rightarrow> server_resp io" where
  "api_key_usage_GET apiKeyId e q =
     with_auth (requireAdminBearer q) (\<lambda>t. handle ''Failed to fetch API key drilldown''
       (api_key_usage_GET_action apiKeyId e q t))"

definition jwt_sub_usage_GET_action :: "string \<Rightarrow> env \<Rightarrow> server_req \<Rightarrow> string \<Rightarrow> server_resp io" where
  "jwt_sub_usage_GET_action jwtSub e q t =
     upstream_404 ''/admin/jwt-subs/{jwt_sub}/usage''
       (finops_fetch e (''/admin/jwt-subs/'' @ encodeURIComponent jwtSub @ ''/usage'')
         (qs_params q [Optional ''from'', Optional ''to'', Optional ''tenant_id'', Optional ''group_by'']) t)"

definition jwt_sub_usage_GET :: "string \<Rightarrow> env \<Rightarrow> server_req \<Rightarrow> server_resp io" where
  "jwt_sub_usage_GET jwtSub e q =
     with_auth (requireAdminBearer q) (\<lambda>t. handle ''Failed to fetch JWT sub usage detail''
       (jwt_sub_usage_GET_action jwtSub e q t))"

definition api_keys_requests_GET_action :: "env \<Rightarrow> server_req \<Rightarrow> string \<Rightarrow> server_resp io" where
  "api_keys_requests_GET_action e q t =
     finops_fetch e ''/admin/api-keys/requests''
       (qs_params q [Optional ''from'', Optional ''to'', Optional ''tenant_id'', Optional ''api_key_name'',
         Optional ''model'', Optional ''provider'', Optional ''status'',
         WithDefault ''limit'' ''50'', WithDefault ''offset'' ''0'']) t"

definition api_keys_requests_GET :: "env \<Rightarrow> server_req \<Rightarrow> server_resp io" where
  "api_keys_requests_GET e q =
     with_auth (requireAdminBearer q) (\<lambda>t. handle ''Failed to fetch API keys raw usage requests''
       (api_keys_requests_GET_action e q t))"

definition jwt_subs_requests_GET_action :: "env \<Rightarrow> server_req \<Rightarrow> string \<Rightarrow> server_resp io" where
  "jwt_subs_requests_GET_action e q t =
     finops_fetch e ''/admin/jwt-subs/requests''
       (qs_params q [Optional ''from'', Optional ''to'', Optional ''tenant_id'', Optional ''jwt_sub'',
         Optional ''model'', Optional ''provider'', Optional ''status'',
         WithDefault ''limit'' ''50'', WithDefault ''offset'' ''0'']) t"

definition jwt_subs_requests_GET :: "env \<Rightarrow> server_req \<Rightarrow> server_resp io" where
  "jwt_subs_requests_GET e q =
     with_auth (requireAdminBearer q) (\<lambda>t. handle ''Failed to fetch JWT subs raw usage requests''
       (jwt_subs_requests_GET_action e q t))"

definition traffic_item :: "jsval \<Rightarrow> jsval" where
  "traffic_item item = JObj
     [(''bucket'', JStr (to_str (coalesce (get_prop item ''bucket'') (JStr [])))),
      (''requests'', number_or (jint 0) (get_prop item ''requests'')),
      (''successes'', number_or (jint 0) (get_prop item ''successes'')),
      (''errors'', number_or (jint 0) (get_prop item ''errors''))]"

definition health_item :: "jsval \<Rightarrow> jsval" where
  "health_item item = JObj
     [(''provider'', JStr (to_str (coalesce (get_prop item ''provider'') (JStr [])))),
      (''requests'', number_or (jint 0) (get_prop item ''total_requests'')),
      (''success_rate'', number_or (jint 0) (get_prop item ''success_rate'')),
      (''avg_latency_ms'', number_or (jint 0) (get_prop item ''avg_latency_ms''))]"

definition tenant_request_stats_GET_action :: "env \<Rightarrow> server_req \<Rightarrow> string \<Rightarrow> server_resp io" where
  "tenant_request_stats_GET_action e q t =
     (if get_or_empty q ''tenant_id'' = [] then bad_request ''tenant_id is required''
      else io_bind (gatewayAdminFetch e
        (''/admin/requests/stats?tenant_id='' @ encodeURIComponent (get_or_empty q ''tenant_id'')
          @ ''&window_hours='' @ encodeURIComponent (or_string (search_param q ''window_hours'') ''24'')
          @ ''&bucket='' @ encodeURIComponent (or_string (search_param q ''bucket'') ''hour''))
        (gw_get (Some t))) (\<lambda>data.
      let summary = coalesce (get_prop data ''summary'') (JObj []) in
      io_bind (map_items traffic_item (get_prop data ''traffic_over_time'')) (\<lambda>traffic.
      io_bind (map_items health_item (get_prop data ''provider_health'')) (\<lambda>health.
      respond (JObj [(''data'', JObj
        [(''tenant_id'', JStr (get_or_empty q ''tenant_id'')),
         (''total_requests'', number_or (jint 0) (get_prop summary ''total_requests'')),
         (''success_rate'', number_or JNull (get_prop summary ''success_rate'')),
         (''avg_latency_ms'', number_or JNull (get_prop summary ''avg_latency_ms'')),
         (''errors'', number_or JNull (get_prop summary ''errors'')),
         (''traffic_over_time'', traffic), (''provider_health'', health)])])))))"

definition tenant_request_stats_GET :: "env \<Rightarrow> server_req \<Rightarrow> server_resp io" where
  "tenant_request_stats_GET e q =
     with_auth (requireAdminBearer q) (\<lambda>t. handle ''Failed to fetch tenant request stats''
       (tenant_request_stats_GET_action e q t))"

section \<open>Interfaces\<close>

lemma issues_finops_fetch [issues_rules]: "issues (authorised e (Some t)) (finops_fetch e path ps t)"
  unfolding finops_fetch_def by (intro issues_rules)

lemma issues_upstream [issues_rules]: "issues P m \<Longrightarrow> issues P (upstream_404 path m)"
  unfolding upstream_404_def
  by (intro issues_catch) (auto intro: issues_rules split: exn.splits option.splits)

interpretation api_keys_usage_GET: guarded_route api_keys_usage_GET "route_error ''Failed to fetch API keys usage''"
  requireAdminBearer api_keys_usage_GET_action
  by unfold_locales (auto simp: api_keys_usage_GET_def with_auth_handle api_keys_usage_GET_action_def [abs_def]
      dest: admin_guard_facts intro!: issues_rules intro: admin_guard_facts)

interpretation jwt_subs_usage_GET: guarded_route jwt_subs_usage_GET "route_error ''Failed to fetch JWT subs usage''"
  requireAdminBearer jwt_subs_usage_GET_action
  by unfold_locales (auto simp: jwt_subs_usage_GET_def with_auth_handle jwt_subs_usage_GET_action_def [abs_def]
      dest: admin_guard_facts intro!: issues_rules intro: admin_guard_facts)

interpretation api_key_usage_GET: guarded_route "api_key_usage_GET apiKeyId"
  "route_error ''Failed to fetch API key drilldown''" requireAdminBearer "api_key_usage_GET_action apiKeyId" for apiKeyId
  by unfold_locales (auto simp: api_key_usage_GET_def with_auth_handle api_key_usage_GET_action_def [abs_def]
      dest: admin_guard_facts intro!: issues_rules intro: admin_guard_facts)

interpretation jwt_sub_usage_GET: guarded_route "jwt_sub_usage_GET jwtSub"
  "route_error ''Failed to fetch JWT sub usage detail''" requireAdminBearer "jwt_sub_usage_GET_action jwtSub" for jwtSub
  by unfold_locales (auto simp: jwt_sub_usage_GET_def with_auth_handle jwt_sub_usage_GET_action_def [abs_def]
      dest: admin_guard_facts intro!: issues_rules intro: admin_guard_facts)

interpretation api_keys_requests_GET: guarded_route api_keys_requests_GET
  "route_error ''Failed to fetch API keys raw usage requests''" requireAdminBearer api_keys_requests_GET_action
  by unfold_locales (auto simp: api_keys_requests_GET_def with_auth_handle api_keys_requests_GET_action_def [abs_def]
      dest: admin_guard_facts intro!: issues_rules intro: admin_guard_facts)

interpretation jwt_subs_requests_GET: guarded_route jwt_subs_requests_GET
  "route_error ''Failed to fetch JWT subs raw usage requests''" requireAdminBearer jwt_subs_requests_GET_action
  by unfold_locales (auto simp: jwt_subs_requests_GET_def with_auth_handle jwt_subs_requests_GET_action_def [abs_def]
      dest: admin_guard_facts intro!: issues_rules intro: admin_guard_facts)

interpretation tenant_request_stats_GET: guarded_route tenant_request_stats_GET
  "route_error ''Failed to fetch tenant request stats''" requireAdminBearer tenant_request_stats_GET_action
  by unfold_locales (auto simp: tenant_request_stats_GET_def with_auth_handle
      tenant_request_stats_GET_action_def [abs_def] Let_def
      dest: admin_guard_facts intro!: issues_rules intro: admin_guard_facts)

section \<open>Usage summaries of all tenants\<close>

definition usage_model :: "jsval \<Rightarrow> jsval \<Rightarrow> jsval" where
  "usage_model name entry = JObj
     [(''model'', name), (''cost_usd'', number_or (jint 0) (get_prop entry ''cost_usd'')),
      (''requests'', number_or (jint 0) (get_prop entry ''requests''))]"

definition usage_models :: "jsval \<Rightarrow> jsval io" where
  "usage_models payload =
     (if is_array payload then
        map_items (\<lambda>m. usage_model (JStr (to_str (coalesce (get_prop m ''model'') (JStr [])))) m) payload
      else if is_object payload then
        io_return (JArr (map (\<lambda>p. usage_model (JStr (fst p)) (snd p)) (js_entries payload)))
      else io_return (JArr []))"

definition summary_row :: "jsval \<Rightarrow> jsval \<Rightarrow> jsval \<Rightarrow> jsval \<Rightarrow> jsval" where
  "summary_row tid cost reqs models = JObj
     [(''tenant_id'', tid), (''total_cost_usd'', cost), (''total_requests'', reqs), (''models'', models)]"

definition auth_failure :: "exn \<Rightarrow> bool" where
  "auth_failure err =
     (case err of GatewayAdminError _ (Some st) _ \<Rightarrow> st = 401 \<or> st = 403 | _ \<Rightarrow> False)"

definition usage_summary :: "env \<Rightarrow> string \<Rightarrow> string \<Rightarrow> jsval \<Rightarrow> jsval io" where
  "usage_summary e month t tenant =
     io_catch
       (io_bind (read_prop tenant ''tenant_id'') (\<lambda>tid.
        io_bind (getTenantUsageSummary e (to_str tid) (Some month) (Some t)) (\<lambda>d.
        io_bind (usage_models (get_prop d ''models'')) (\<lambda>models.
          io_return (summary_row tid
            (number_or (jint 0) (coalesce (get_prop d ''total_cost_usd'') (get_prop d ''cost_usd'')))
            (number_or (jint 0) (coalesce (get_prop d ''total_requests'') (get_prop d ''requests'')))
            models)))))
       (\<lambda>err. if auth_failure err then io_throw err
              else io_bind (read_prop tenant ''tenant_id'') (\<lambda>tid.
                io_return (summary_row tid (jint 0) (jint 0) (JArr []))))"

definition usage_summaries_GET_action :: "env \<Rightarrow> server_req \<Rightarrow> string \<Rightarrow> server_resp io" where
  "usage_summaries_GET_action e q t =
     (if get_or_empty q ''month'' = [] then bad_request ''Missing required query param: month (YYYY-MM)''
      else io_bind (getTenants e (Some t)) (\<lambda>resp.
        io_bind (io_all (map (usage_summary e (get_or_empty q ''month'') t)
          (arr_elems (get_prop resp ''data'')))) (\<lambda>summaries.
        respond (JObj [(''data'', JArr summaries)]))))"

definition usage_summaries_GET :: "env \<Rightarrow> server_req \<Rightarrow> server_resp io" where
  "usage_summaries_GET e q =
     with_auth (requireAdminBearer q) (\<lambda>t. handle ''Failed to fetch usage summaries''
       (usage_summaries_GET_action e q t))"

lemma issues_usage_summary [issues_rules]:
  "issues (authorised e (Some t)) (usage_summary e month t tenant)"
  unfolding usage_summary_def usage_models_def by (intro issues_rules)

interpretation usage_summaries_GET: guarded_route usage_summaries_GET
  "route_error ''Failed to fetch usage summaries''" requireAdminBearer usage_summaries_GET_action
  by unfold_locales (auto simp: usage_summaries_GET_def with_auth_handle usage_summaries_GET_action_def [abs_def]
      dest: admin_guard_facts intro!: issues_rules intro: admin_guard_facts)

section \<open>The browser side of the statistics\<close>

record stats_row =
  sr_tenant_id :: string
  sr_total_requests :: jsnum
  sr_successful_requests :: jsnum
  sr_success_rate :: "jsnum option"
  sr_avg_latency_ms :: "jsnum option"

definition num_of :: "jsval \<Rightarrow> jsnum" where
  "num_of v = to_num (coalesce v (jint 0))"

definition parseTenantStatsPayload :: "string \<Rightarrow> jsval \<Rightarrow> exn + stats_row" where
  "parseTenantStatsPayload tenantId payload =
     (let row = coalesce (get_prop payload ''data'') (JObj []);
          traffic = arr_elems (get_prop row ''traffic_over_time'')
      in if list_ex nullish traffic then Inl type_error
         else
           let reqs = foldl (\<lambda>a i. num_add a (num_of (get_prop i ''requests''))) (Fin 0) traffic;
               succ = foldl (\<lambda>a i. num_add a (num_of (get_prop i ''successes''))) (Fin 0) traffic;
               total = (if num_pos reqs then reqs else num_of (get_prop row ''total_requests''));
               ok = (if num_pos reqs then succ
                     else num_round (num_mul (num_of (get_prop row ''total_requests''))
                                             (num_of (get_prop row ''success_rate''))))
           in Inr \<lparr>sr_tenant_id = tenantId, sr_total_requests = total, sr_successful_requests = ok,
                sr_success_rate = (if num_pos total then Some (num_div ok total) else None),
                sr_avg_latency_ms = (let v = get_prop row ''avg_latency_ms'' in
                  if nullish v then None else Some (to_num v))\<rparr>)"

definition assertFinopsUnauthorized :: "http_resp \<Rightarrow> unit io" where
  "assertFinopsUnauthorized resp =
     (if rs_status resp \<noteq> 401 \<and> rs_status resp \<noteq> 403 then io_return ()
      else
        let err = get_prop (resp_json_or_empty resp) ''error'';
            msg = (if is_str err then str_of err
                   else if is_object err \<and> is_str (get_prop err ''message'') then str_of (get_prop err ''message'')
                   else if rs_status resp = 403 then ''Access denied'' else ''Unauthorized'')
        in io_throw (JsError msg (Some (rs_status resp))))"

definition stats_request :: "jsnum \<Rightarrow> string \<Rightarrow> http_req" where
  "stats_request windowHours tenantId =
     \<lparr>rq_url = ''/api/finops/tenant-request-stats?tenant_id='' @ encodeURIComponent tenantId
        @ ''&window_hours='' @ encodeURIComponent (num_to_string windowHours) @ ''&bucket=hour'',
      rq_method = ''GET'', rq_headers = [], rq_body = NoBody\<rparr>"

fun stats_loop ::
  "jsnum \<Rightarrow> string list \<Rightarrow> stats_row list \<Rightarrow> string list \<Rightarrow> (stats_row list \<times> string list) io" where
  "stats_loop windowHours [] rows forbidden = io_return (rows, forbidden)"
| "stats_loop windowHours (tenantId # ids) rows forbidden =
     io_bind (io_fetch (stats_request windowHours tenantId)) (\<lambda>resp.
     if rs_status resp = 401 \<or> rs_status resp = 403
     then stats_loop windowHours ids rows (forbidden @ [tenantId])
     else if \<not> resp_ok resp then
       io_bind (read_prop (resp_json_or_empty resp) ''error'') (\<lambda>err.
       io_throw (JsError (if is_str err then str_of err
         else ''Request failed ('' @ show_int (rs_status resp) @ '')'') None))
     else
       io_bind (resp_json resp) (\<lambda>data.
       io_bind (io_of_sum (parseTenantStatsPayload tenantId data)) (\<lambda>row.
         stats_loop windowHours ids (rows @ [row]) forbidden)))"

definition fetchTenantRequestStatsBatch :: "string list \<Rightarrow> jsnum \<Rightarrow> (stats_row list \<times> string list) io" where
  "fetchTenantRequestStatsBatch tenantIds windowHours = stats_loop windowHours tenantIds [] []"

section \<open>Properties\<close>

lemma parse_tenant_id: "parseTenantStatsPayload i v = Inr r \<Longrightarrow> sr_tenant_id r = i"
  by (auto simp: parseTenantStatsPayload_def Let_def split: if_splits)

lemma stats_loop_result:
  "stats_loop w ids rows forb net h = (Inr (rows', forb'), h') \<Longrightarrow>
   \<exists>new newf. rows' = rows @ new \<and> forb' = forb @ newf \<and> h' = h @ map (stats_request w) ids
     \<and> mset ids = mset (map sr_tenant_id new) + mset newf"
proof (induction ids arbitrary: rows forb h)
  case Nil
  then show ?case by (simp add: io_return_def)
next
  case (Cons i ids)
  let ?r = "stats_request w i"
  obtain resp where f: "net h ?r = FetchOk resp"
    using Cons.prems by (cases "net h ?r") (auto simp: io_bind_def io_fetch_def)
  show ?case
  proof (cases "rs_status resp = 401 \<or> rs_status resp = 403")
    case True
    then have "stats_loop w ids rows (forb @ [i]) net (h @ [?r]) = (Inr (rows', forb'), h')"
      using Cons.prems f by (simp add: io_bind_def io_fetch_def)
    from Cons.IH [OF this] show ?thesis by force
  next
    case False
    then obtain row where "stats_loop w ids (rows @ [row]) forb net (h @ [?r]) = (Inr (rows', forb'), h')"
      and t: "sr_tenant_id row = i"
      using Cons.prems f
      by (auto simp: js_simps dest: parse_tenant_id split: if_splits option.splits sum.splits)
    from Cons.IH [OF this(1)] t show ?thesis by force
  qed
qed

text \<open>When the batch of per-tenant statistics succeeds, every requested tenant was asked exactly
  once, in order, and each appears exactly once, either as a row or in the list of tenants the
  user may not see: no denied tenant has a row, and none is silently dropped.\<close>

theorem stats_batch_partitions:
  assumes "fetchTenantRequestStatsBatch ids w net [] = (Inr (rows, forbidden), h)"
  shows "mset ids = mset (map sr_tenant_id rows) + mset forbidden \<and> h = map (stats_request w) ids
    \<and> (distinct ids \<longrightarrow> set (map sr_tenant_id rows) \<inter> set forbidden = {})"
proof -
  have m: "mset ids = mset (map sr_tenant_id rows) + mset forbidden" and h: "h = map (stats_request w) ids"
    using stats_loop_result [of w ids "[]" "[]" net "[]" rows forbidden h] assms
    by (auto simp: fetchTenantRequestStatsBatch_def)
  have "mset ids = mset (map sr_tenant_id rows @ forbidden)" using m by simp
  then have "distinct ids \<longleftrightarrow> distinct (map sr_tenant_id rows @ forbidden)" by (rule mset_eq_imp_distinct_iff)
  then show ?thesis using m h by auto
qed

theorem stats_batch_partitions_witness:
  "\<exists>rows h. fetchTenantRequestStatsBatch [''a''] (Fin 24)
      (\<lambda>_ _. FetchOk \<lparr>rs_status = 403, rs_text = [], rs_json = None, rs_headers = []\<rparr>) [] = (Inr (rows, [''a'']), h)
    \<and> h = map (stats_request (Fin 24)) [''a'']"
proof -
  let ?net = "\<lambda>_ _. FetchOk \<lparr>rs_status = 403, rs_text = [], rs_json = None, rs_headers = []\<rparr>"
  have r: "fetchTenantRequestStatsBatch [''a''] (Fin 24) ?net [] = (Inr ([], [''a'']), [stats_request (Fin 24) ''a''])"
    by (simp add: fetchTenantRequestStatsBatch_def js_simps)
  show ?thesis
    by (intro exI [of _ "[]"] exI [of _ "[stats_request (Fin 24) ''a'']"])
       (use stats_batch_partitions [OF r] r in simp)
qed

text \<open>The filters of the API key usage report reach the gateway as they are: whatever values the
  caller's query has, the gateway's query string reads back as exactly the intended parameters
  (nothing can be smuggled in), sent with the caller's own token.\<close>

theorem usage_filters_roundtrip:
  assumes "getAdminAuthToken q = Some t" and "t \<noteq> []" and "callable e (Some t)"
  shows "\<exists>qs rest. io_requests (api_keys_usage_GET e q) net =
      first_request e (''/admin/api-keys/usage?'' @ qs) (gw_get (Some t)) # rest
    \<and> params_parse qs = api_keys_usage_params q"
proof -
  let ?qs = "params_to_string (api_keys_usage_params q)"
  let ?path = "''/admin/api-keys/usage?'' @ ?qs"
  obtain rest where r: "snd (gatewayAdminFetch e ?path (gw_get (Some t)) net []) =
      first_request e ?path (gw_get (Some t)) # rest"
    using gw_first [of e "gw_get (Some t)" ?path net "[]"] assms(3) by auto
  have keep: "snd (handle_with fail (upstream_404 p m) net h) = snd (m net h)" for fail p m h
    by (auto simp: handle_with_def upstream_404_def io_catch_def io_return_def io_throw_def
        split: prod.splits sum.splits exn.splits option.splits)
  have fin: "snd (finops_fetch e ''/admin/api-keys/usage'' (api_keys_usage_params q) t net []) =
      snd (gatewayAdminFetch e ?path (gw_get (Some t)) net [])"
    by (auto simp: finops_fetch_def io_bind_def respond_def io_return_def split: prod.splits sum.splits)
  have "io_requests (api_keys_usage_GET e q) net = first_request e ?path (gw_get (Some t)) # rest"
    using r guard_facts(6) [OF assms(1,2)]
    by (simp add: io_requests_def api_keys_usage_GET_def with_auth_def api_keys_usage_GET_action_def keep fin)
  moreover have "params_parse ?qs = api_keys_usage_params q"
    by (rule params_parse_to_string) (simp add: api_keys_usage_params_def)
  ultimately show ?thesis by blast
qed

theorem usage_filters_roundtrip_witness:
  "\<exists>qs rest. io_requests (api_keys_usage_GET demo_env
       \<lparr>sq_query = [(''tenant_id'', ''a&limit=9'')], sq_headers = [], sq_cookies = [(''admin_access_token'', ''tok'')],
        sq_body = None\<rparr>) (\<lambda>_ _. FetchFail []) =
      first_request demo_env (''/admin/api-keys/usage?'' @ qs) (gw_get (Some ''tok'')) # rest
    \<and> params_parse qs = [(''window_days'', ''30''), (''tenant_id'', ''a&limit=9''), (''limit'', ''50''), (''offset'', ''0'')]"
proof -
  let ?q = "\<lparr>sq_query = [(''tenant_id'', ''a&limit=9'')], sq_headers = [],
     sq_cookies = [(''admin_access_token'', ''tok'')], sq_body = None\<rparr>"
  have "getAdminAuthToken ?q = Some ''tok''" by (simp add: getAdminAuthToken_def)
  from usage_filters_roundtrip [OF this _ callable_demo, of "\<lambda>_ _. FetchFail []"] show ?thesis
    by (simp add: api_keys_usage_params_def resolvedWindowDays_def qs_params_def get_or_empty_def or_string_def
        search_param_def)
qed

end
