(* ===== verification/Auth_Routes.thy ===== *)
theory Auth_Routes
  imports Gateway_Client Oidc
begin

text \<open>
  app/api/auth/**: the code exchange, the two refresh endpoints, the session probe, logout, the
  mock session and the public OIDC configuration. Request and response cookies are the two
  ends of the server's session: a browser jar that stores the \<open>Set-Cookie\<close> headers links them.
  The text of errors raised by the engine is not modelled.
\<close>

section \<open>Shared pieces\<close>

definition default_issuer :: string where
  "default_issuer = ''http://localhost:8080/realms/router''"

definition issuer_internal :: "env \<Rightarrow> string" where
  "issuer_internal e = env_or (KEYCLOAK_ISSUER_INTERNAL e) default_issuer"

definition issuer_public :: "env \<Rightarrow> string" where
  "issuer_public e = env_or (KEYCLOAK_ISSUER_PUBLIC e) default_issuer"

definition client_id :: "env \<Rightarrow> string" where
  "client_id e = env_or (KEYCLOAK_CLIENT_ID e) ''router-ui''"

definition token_request :: "string \<Rightarrow> (string \<times> string) list \<Rightarrow> http_req" where
  "token_request issuer form =
     \<lparr>rq_url = issuer @ ''/protocol/openid-connect/token'', rq_method = ''POST'',
      rq_headers = [(''Content-Type'', ''application/x-www-form-urlencoded'')],
      rq_body = TextBody (formEncode form)\<rparr>"

text \<open>\<open>data?.error_description || data?.error || `HTTP ${res.status}`\<close>\<close>

definition token_error :: "http_resp \<Rightarrow> jsval" where
  "token_error res =
     (let data = resp_json_or_empty res in
      js_or (js_or (get_prop data ''error_description'') (get_prop data ''error''))
        (JStr (''HTTP '' @ show_int (rs_status res))))"

definition session_cookie :: "string \<Rightarrow> string \<Rightarrow> string \<Rightarrow> bool \<Rightarrow> string" where
  "session_cookie name value maxAge secure =
     name @ ''='' @ encodeURIComponent value @ ''; Path=/; HttpOnly; SameSite=Lax; Max-Age='' @ maxAge @
     (if secure then ''; Secure'' else [])"

text \<open>\<open>request.headers.get('origin') || request.headers.get('referer') || ''\<close> decides whether
  the cookie may be sent over plain HTTP.\<close>

definition secure_cookie :: "env \<Rightarrow> server_req \<Rightarrow> bool" where
  "secure_cookie e q \<longleftrightarrow>
     production e \<and>
     \<not> str_includes (or_string (map_of (sq_headers q) ''origin'')
          (or_string (map_of (sq_headers q) ''referer'') [])) ''localhost''"

definition with_cookies :: "jsval \<Rightarrow> string list \<Rightarrow> server_resp" where
  "with_cookies v cs = \<lparr>sr_status = 200, sr_body = Some v, sr_cookies = cs\<rparr>"

definition cookie_value :: "server_req \<Rightarrow> string \<Rightarrow> string option" where
  "cookie_value q name = (case map_of (sq_cookies q) name of Some (c # s) \<Rightarrow> Some (c # s) | _ \<Rightarrow> None)"

section \<open>POST /api/auth/callback\<close>

definition callback_success :: "env \<Rightarrow> server_req \<Rightarrow> jsval \<Rightarrow> server_resp" where
  "callback_success e q data =
     (let accessToken = get_prop data ''access_token''; refreshToken = get_prop data ''refresh_token'';
          expiresIn = get_prop data ''expires_in'';
          refreshExpiresIn = get_prop data ''refresh_expires_in'';
          secure = secure_cookie e q
      in if \<not> truthy accessToken then error_json ''No access token returned'' 502
         else with_cookies
           (JObj [(''access_token'', accessToken), (''id_token'', get_prop data ''id_token''),
                  (''refresh_token'', refreshToken), (''expires_in'', expiresIn),
                  (''refresh_expires_in'', refreshExpiresIn)])
           (session_cookie ''admin_access_token'' (to_str accessToken)
              (to_str (js_or expiresIn (jint 3600))) secure #
            (if truthy refreshToken
             then [session_cookie ''admin_refresh_token'' (to_str refreshToken)
                     (to_str (js_or refreshExpiresIn (jint 604800))) secure]
             else [])))"

definition callback_POST :: "env \<Rightarrow> server_req \<Rightarrow> server_resp io" where
  "callback_POST e q =
     io_catch
       (let body = request_json_or_empty q in
        io_bind (read_prop body ''code'') (\<lambda>code.
        let verifier = get_prop body ''verifier''; client_id = get_prop body ''client_id'';
            redirect_uri = get_prop body ''redirect_uri'' in
        if \<not> truthy code \<or> \<not> truthy verifier \<or> \<not> truthy client_id \<or> \<not> truthy redirect_uri then
          io_return (json_response
            (JObj [(''error'', JStr ''Missing required fields''),
                   (''details'', JObj [(''code'', JBool (truthy code)),
                      (''verifier'', JBool (truthy verifier)),
                      (''client_id'', JBool (truthy client_id)),
                      (''redirect_uri'', JBool (truthy redirect_uri))])]) 400)
        else
          io_bind (io_fetch (token_request (strip_slash (issuer_internal e))
            [(''grant_type'', ''authorization_code''), (''client_id'', to_str client_id),
             (''code'', to_str code), (''redirect_uri'', to_str redirect_uri),
             (''code_verifier'', to_str verifier)])) (\<lambda>res.
          if \<not> resp_ok res then
            io_return (json_response (JObj [(''error'', token_error res)]) (rs_status res))
          else
            io_bind (read_prop (resp_json_or_empty res) ''access_token'') (\<lambda>_.
              io_return (callback_success e q (resp_json_or_empty res))))))
       (\<lambda>err. io_return (json_response
          (JObj [(''error'', JStr ''Unexpected error''), (''details'', JStr (exn_message err))]) 500))"

section \<open>POST /api/auth/refresh\<close>

definition asString :: "jsval \<Rightarrow> jsval" where
  "asString v = (if is_str v then v else JUndef)"

definition asNumber :: "jsval \<Rightarrow> jsval" where
  "asNumber v = (if is_number v then v else JUndef)"

text \<open>\<open>jwt\<close> stands for \<open>JSON.parse(Buffer.from(part, 'base64url').toString('utf8'))\<close>.\<close>

definition refresh_decodeJwtPayload :: "json_parser \<Rightarrow> jsval \<Rightarrow> jsval" where
  "refresh_decodeJwtPayload jwt token =
     (if \<not> is_str token then JNull
      else let parts = split_on (CHR ''.'') (str_of token) in
        if length parts < 2 then JNull
        else case jwt (parts ! 1) of None \<Rightarrow> JNull | Some v \<Rightarrow> v)"

text \<open>The body as the route reads it: anything that is not an object fails inside the \<open>try\<close>
  that logs its keys, and is replaced by \<open>{}\<close>.\<close>

definition refresh_body :: "server_req \<Rightarrow> jsval" where
  "refresh_body q =
     (case sq_body q of Some v \<Rightarrow> if is_object v then v else JObj [] | None \<Rightarrow> JObj [])"

definition matchesClient :: "env \<Rightarrow> jsval \<Rightarrow> bool" where
  "matchesClient e payload \<longleftrightarrow> get_prop payload ''azp'' = JStr (client_id e)"

definition matchesIssuer :: "env \<Rightarrow> jsval \<Rightarrow> bool" where
  "matchesIssuer e payload \<longleftrightarrow>
     get_prop payload ''iss'' = JStr (issuer_internal e) \<or>
     get_prop payload ''iss'' = JStr (issuer_public e)"

definition isSupportedRefreshType :: "jsval \<Rightarrow> bool" where
  "isSupportedRefreshType payload \<longleftrightarrow>
     get_prop payload ''typ'' = JStr ''Refresh'' \<or> get_prop payload ''typ'' = JStr ''Offline''"

definition refresh_failed :: "jsval \<Rightarrow> int \<Rightarrow> server_resp" where
  "refresh_failed message st =
     json_response (JObj [(''ok'', JBool False), (''error'', message)]) st"

definition refresh_mismatch :: "env \<Rightarrow> jsval \<Rightarrow> server_resp" where
  "refresh_mismatch e payload = json_response
     (JObj [(''ok'', JBool False),
            (''error'', JStr ''Refresh token does not match router-ui router realm context''),
            (''debug'', JObj [(''matchesClient'', JBool (matchesClient e payload)),
               (''matchesIssuer'', JBool (matchesIssuer e payload)),
               (''isSupportedRefreshType'', JBool (isSupportedRefreshType payload)),
               (''expectedIssuers'', JArr [JStr (issuer_internal e), JStr (issuer_public e)]),
               (''actualIssuer'', get_prop payload ''iss'')])]) 400"

definition refresh_success :: "env \<Rightarrow> server_req \<Rightarrow> string \<Rightarrow> jsval \<Rightarrow> server_resp" where
  "refresh_success e q refresh_token data =
     (let accessToken = asString (get_prop data ''access_token'');
          newRefreshToken = asString (get_prop data ''refresh_token'');
          expiresIn = asNumber (get_prop data ''expires_in'');
          refreshExpiresIn = asNumber (get_prop data ''refresh_expires_in'');
          secure = secure_cookie e q
      in if \<not> truthy accessToken then refresh_failed (JStr ''No access token returned'') 502
         else with_cookies
           (JObj [(''ok'', JBool True), (''access_token'', accessToken),
                  (''refresh_token'', js_or newRefreshToken (JStr refresh_token)),
                  (''expires_in'', expiresIn), (''refresh_expires_in'', refreshExpiresIn)])
           (session_cookie ''admin_access_token'' (str_of accessToken)
              (to_str (js_or expiresIn (jint 3600))) secure #
            (if truthy newRefreshToken
             then [session_cookie ''admin_refresh_token'' (str_of newRefreshToken)
                     (to_str (js_or refreshExpiresIn (jint 604800))) secure]
             else [])))"

text \<open>\<open>parse_error\<close> is \<open>String(parseError)\<close>, which a development build echoes.\<close>

definition refresh_missing :: "string \<Rightarrow> env \<Rightarrow> server_req \<Rightarrow> server_resp" where
  "refresh_missing parse_error e q = json_response
     (JObj [(''ok'', JBool False), (''error'', JStr ''Missing refresh_token''),
            (''debug'', if production e then JUndef
               else JObj [(''parseError'', JStr parse_error),
                          (''bodyKeys'', JArr (map (JStr \<circ> fst) (js_entries (refresh_body q))))])]) 400"

definition refresh_POST :: "string \<Rightarrow> json_parser \<Rightarrow> env \<Rightarrow> server_req \<Rightarrow> server_resp io" where
  "refresh_POST parse_error jwt e q =
     io_catch
       (let refresh_token = get_prop (refresh_body q) ''refresh_token'';
            payload = refresh_decodeJwtPayload jwt refresh_token in
        if \<not> truthy refresh_token then io_return (refresh_missing parse_error e q)
        else if \<not> isSupportedRefreshType payload \<or> \<not> matchesClient e payload \<or> \<not> matchesIssuer e payload
        then io_return (refresh_mismatch e payload)
        else
          io_bind (io_fetch (token_request (issuer_internal e)
            [(''grant_type'', ''refresh_token''), (''client_id'', client_id e),
             (''refresh_token'', to_str refresh_token)])) (\<lambda>res.
          if \<not> resp_ok res then io_return (refresh_failed (token_error res) (rs_status res))
          else
            io_bind (read_prop (resp_json_or_empty res) ''access_token'') (\<lambda>_.
              io_return (refresh_success e q (to_str refresh_token) (resp_json_or_empty res)))))
       (\<lambda>_. io_return (refresh_failed (JStr ''Unexpected error'') 500))"

section \<open>POST /api/auth/refresh-server\<close>

definition refresh_server_success :: "env \<Rightarrow> string \<Rightarrow> jsval \<Rightarrow> server_resp" where
  "refresh_server_success e refreshToken data =
     (let accessToken = asString (get_prop data ''access_token'');
          newRefreshToken = asString (get_prop data ''refresh_token'');
          expiresIn = (if is_number (get_prop data ''expires_in'') then get_prop data ''expires_in''
                       else jint 3600)
      in if \<not> truthy accessToken then refresh_failed (JStr ''No access token returned'') 502
         else with_cookies
           (JObj [(''ok'', JBool True), (''access_token'', accessToken),
                  (''refresh_token'', js_or newRefreshToken (JStr refreshToken)),
                  (''expires_in'', expiresIn)])
           (session_cookie ''admin_access_token'' (str_of accessToken) (to_str expiresIn) (production e) #
            (if truthy newRefreshToken
             then [session_cookie ''admin_refresh_token'' (str_of newRefreshToken) ''604800'' (production e)]
             else [])))"

definition refresh_server_POST :: "env \<Rightarrow> server_req \<Rightarrow> server_resp io" where
  "refresh_server_POST e q =
     io_catch
       (case cookie_value q ''admin_refresh_token'' of
          None \<Rightarrow> io_return (refresh_failed (JStr ''No refresh token available'') 401)
        | Some refreshToken \<Rightarrow>
            io_bind (io_fetch (token_request (issuer_internal e)
              [(''grant_type'', ''refresh_token''), (''client_id'', client_id e),
               (''refresh_token'', refreshToken)])) (\<lambda>res.
            if \<not> resp_ok res then io_return (refresh_failed (token_error res) (rs_status res))
            else
              io_bind (read_prop (resp_json_or_empty res) ''access_token'') (\<lambda>_.
                io_return (refresh_server_success e refreshToken (resp_json_or_empty res)))))
       (\<lambda>_. io_return (refresh_failed (JStr ''Unexpected error'') 500))"

section \<open>Session, logout, mock and configuration\<close>

text \<open>\<open>exp && exp * 1000 < Date.now()\<close>\<close>

definition expired_claim :: "jsval \<Rightarrow> rat \<Rightarrow> bool" where
  "expired_claim ex now \<longleftrightarrow>
     truthy ex \<and> (case to_num ex of Fin q \<Rightarrow> q * 1000 < now | NegInf \<Rightarrow> True | _ \<Rightarrow> False)"

definition not_authenticated :: server_resp where
  "not_authenticated = json_response (JObj [(''authenticated'', JBool False)]) 200"

definition session_GET :: "json_parser \<Rightarrow> rat \<Rightarrow> server_req \<Rightarrow> server_resp" where
  "session_GET parse now q =
     (case cookie_value q ''admin_access_token'' of
        None \<Rightarrow> not_authenticated
      | Some token \<Rightarrow>
          let claims = decodeJwtPayload parse token;
              email = js_or (get_prop claims ''email'') (JStr []);
              sub = js_or (get_prop claims ''sub'') (JStr ''me'');
              displayName = js_or (js_or (get_prop claims ''preferred_username'') email) sub
          in if expired_claim (get_prop claims ''exp'') now then not_authenticated
             else json_response
               (JObj [(''authenticated'', JBool True),
                      (''user'', JObj [(''id'', sub), (''name'', displayName), (''email'', email)])]) 200)"

definition expired_cookie :: string where
  "expired_cookie = ''Max-Age=0; Expires=Thu, 01 Jan 1970 00:00:00 GMT''"

definition logout_POST :: "env \<Rightarrow> server_resp" where
  "logout_POST e =
     (let flags = ''Path=/; HttpOnly; SameSite=Lax; '' @ expired_cookie @
                  (if production e then ''; Secure'' else [])
      in with_cookies (JObj [(''ok'', JBool True)])
           [''admin_access_token=; '' @ flags, ''admin_refresh_token=; '' @ flags])"

definition mock_POST :: server_resp where
  "mock_POST = with_cookies (JObj [(''ok'', JBool True)])
     [''is_mock_session=1; Path=/; HttpOnly; SameSite=Lax; Max-Age=86400'']"

definition mock_DELETE :: server_resp where
  "mock_DELETE = with_cookies (JObj [(''ok'', JBool True)])
     [''is_mock_session=; Path=/; HttpOnly; SameSite=Lax; '' @ expired_cookie]"

definition config_reply :: "jsval \<Rightarrow> string \<Rightarrow> server_resp" where
  "config_reply issuer clientId = json_response
     (JObj [(''issuer'', issuer), (''clientId'', JStr clientId), (''configured'', JBool True)]) 200"

definition config_request :: "env \<Rightarrow> http_req" where
  "config_request e =
     \<lparr>rq_url = env_or (GATEWAY_ADMIN_URL e) ''http://localhost:8000'' @ ''/admin/config/global'',
      rq_method = ''GET'',
      rq_headers = (''Content-Type'', ''application/json'') #
        (if env_set (GATEWAY_ADMIN_API_KEY e) then [(''X-API-Key'', the (GATEWAY_ADMIN_API_KEY e))] else []),
      rq_body = NoBody\<rparr>"

definition config_GET :: "env \<Rightarrow> server_resp io" where
  "config_GET e =
     (let fallback = config_reply (JStr (issuer_public e)) (client_id e) in
      io_catch
        (io_bind (io_fetch (config_request e)) (\<lambda>res.
           if resp_ok res then
             io_bind (resp_json res) (\<lambda>data.
             let issuer = get_prop (get_prop (get_prop (get_prop data ''config'') ''auth'') ''jwt'') ''issuer'' in
             io_return (if truthy issuer then config_reply issuer ''router-ui'' else fallback))
           else io_return fallback))
        (\<lambda>_. io_return fallback))"

section \<open>The browser's cookie jar\<close>

text \<open>What RFC 6265 makes of a \<open>Set-Cookie\<close> header (specification): name and value up to
  the first semicolon, attributes after it; a \<open>Max-Age\<close> that is not positive deletes.\<close>

type_synonym jar = "(string \<times> string) list"

definition cookie_attrs :: "string \<Rightarrow> string list" where
  "cookie_attrs s = map trim (tl (split_on (CHR '';'') s))"

definition cookie_name :: "string \<Rightarrow> string" where
  "cookie_name s = takeWhile (\<lambda>c. c \<noteq> CHR ''='') (hd (split_on (CHR '';'') s))"

definition cookie_text :: "string \<Rightarrow> string" where
  "cookie_text s = tl (dropWhile (\<lambda>c. c \<noteq> CHR ''='') (hd (split_on (CHR '';'') s)))"

definition cookie_expires :: "string \<Rightarrow> bool" where
  "cookie_expires s =
     list_ex (\<lambda>a. starts_with a ''Max-Age='' \<and>
       (case parse_int10 (drop 8 a) of Fin n \<Rightarrow> n \<le> 0 | _ \<Rightarrow> False)) (cookie_attrs s)"

definition store_cookie :: "jar \<Rightarrow> string \<Rightarrow> jar" where
  "store_cookie j s =
     (if cookie_expires s then obj_del (cookie_name s) j
      else obj_set (cookie_name s) (cookie_text s) j)"

definition store_cookies :: "jar \<Rightarrow> server_resp \<Rightarrow> jar" where
  "store_cookies j r = foldl store_cookie j (sr_cookies r)"

text \<open>The server reads the value of a cookie percent-decoded.\<close>

definition request_with_jar :: "jar \<Rightarrow> server_req" where
  "request_with_jar j =
     \<lparr>sq_query = [], sq_headers = [], sq_cookies = map (\<lambda>(k, v). (k, decodeURIComponent v)) j,
      sq_body = None\<rparr>"

end
