(* ===== verification/Auth_Session_Props.thy ===== *)
theory Auth_Session_Props
  imports Auth_Routes
begin

text \<open>
  What the auth routes guarantee: the cookies they set read back as the tokens they were given
  (through a browser's jar and into \<open>getAdminAuthToken\<close>), logout undoes them, the refresh
  endpoint forwards only tokens of its own client and realm, and two behaviours the comments of
  the code do not promise: the recovery of the gateway client cannot succeed, and the session
  probe accepts a token it cannot decode.
\<close>

section \<open>Cookies\<close>

lemma trim_ws_Cons: "is_ws c \<Longrightarrow> trim (c # s) = trim s"
  by (simp add: trim_def)

lemma trim_space: "s \<noteq> [] \<Longrightarrow> \<not> is_ws (hd s) \<Longrightarrow> \<not> is_ws (last s) \<Longrightarrow> trim (CHR '' '' # s) = s"
  using trim_ws_Cons [of "CHR '' ''" s] trim_id [of s] by (simp add: is_ws_def code_def)

lemma show_int_no_semicolon: "CHR '';'' \<notin> set (show_int k)"
  using show_nat_digits [of "nat k"] show_nat_digits [of "nat (- k)"]
  by (auto simp: show_int_def list_all_iff is_digit_def code_def)

lemma last_show_int: "show_int k \<noteq> []" "\<not> is_ws (last (show_int k))"
  using show_nat_ends digit_not_ws by (auto simp: show_int_def)

lemma session_cookie_parts:
  assumes "CHR '';'' \<notin> set n"
  shows "split_on (CHR '';'') (session_cookie n v m sec) =
    (n @ ''='' @ encodeURIComponent v) # '' Path=/'' # '' HttpOnly'' # '' SameSite=Lax'' #
    split_on (CHR '';'') ('' Max-Age='' @ m @ (if sec then ''; Secure'' else []))"
proof -
  let ?w = "n @ ''='' @ encodeURIComponent v"
  have w: "CHR '';'' \<notin> set ?w"
    using assms encode_no_sep [OF not_uri_chars(3)] by simp
  have "session_cookie n v m sec = ?w @ CHR '';'' # ('' Path=/'' @ CHR '';'' # ('' HttpOnly'' @
      CHR '';'' # ('' SameSite=Lax'' @ CHR '';'' # ('' Max-Age='' @ m @ (if sec then ''; Secure'' else [])))))"
    by (simp add: session_cookie_def)
  moreover have "CHR '';'' \<notin> set '' Path=/''" "CHR '';'' \<notin> set '' HttpOnly''"
    "CHR '';'' \<notin> set '' SameSite=Lax''" by simp_all
  ultimately show ?thesis using w by (simp only: split_on_append not_False_eq_True)
qed

lemma session_cookie_name_value:
  assumes "CHR '';'' \<notin> set n" and "CHR ''='' \<notin> set n"
  shows "cookie_name (session_cookie n v m sec) = n"
    and "decodeURIComponent (cookie_text (session_cookie n v m sec)) = v"
proof -
  have "\<And>c. c \<in> set n \<Longrightarrow> c \<noteq> CHR ''=''" using assms(2) by auto
  then show "cookie_name (session_cookie n v m sec) = n"
    and "decodeURIComponent (cookie_text (session_cookie n v m sec)) = v"
    by (simp_all add: cookie_name_def cookie_text_def session_cookie_parts [OF assms(1)]
        takeWhile_append2 dropWhile_append2)
qed

lemma split_max_age:
  "split_on (CHR '';'') ('' Max-Age='' @ show_int k @ (if sec then ''; Secure'' else [])) =
     ('' Max-Age='' @ show_int k) # (if sec then ['' Secure''] else [])"
proof (cases sec)
  case True
  have "'' Max-Age='' @ show_int k @ ''; Secure'' = ('' Max-Age='' @ show_int k) @ CHR '';'' # '' Secure''"
    by simp
  then have "split_on (CHR '';'') ('' Max-Age='' @ show_int k @ ''; Secure'') =
      ('' Max-Age='' @ show_int k) # split_on (CHR '';'') '' Secure''"
    using show_int_no_semicolon [of k] by (simp only:) (subst split_on_append; simp)
  then show ?thesis using True by (simp add: split_on_no_sep)
next
  case False
  then show ?thesis using show_int_no_semicolon [of k] by (subst split_on_no_sep) simp_all
qed

lemma is_ws_letters [simp]:
  "\<not> is_ws (CHR ''P'')" "\<not> is_ws (CHR ''/'')" "\<not> is_ws (CHR ''H'')" "\<not> is_ws (CHR ''y'')"
  "\<not> is_ws (CHR ''S'')" "\<not> is_ws (CHR ''x'')" "\<not> is_ws (CHR ''M'')" "\<not> is_ws (CHR ''e'')"
  by (simp_all add: is_ws_def code_def)

lemma session_cookie_attrs:
  assumes "CHR '';'' \<notin> set n"
  shows "cookie_attrs (session_cookie n v (show_int k) sec) =
    [''Path=/'', ''HttpOnly'', ''SameSite=Lax'', ''Max-Age='' @ show_int k] @
    (if sec then [''Secure''] else [])"
proof -
  have "trim '' Path=/'' = ''Path=/''" "trim '' HttpOnly'' = ''HttpOnly''"
    "trim '' SameSite=Lax'' = ''SameSite=Lax''" "trim '' Secure'' = ''Secure''"
    by (simp_all add: trim_space)
  moreover have "trim ('' Max-Age='' @ show_int k) = ''Max-Age='' @ show_int k"
    using trim_space [of "''Max-Age='' @ show_int k"] last_show_int [of k] by simp
  ultimately show ?thesis
    unfolding cookie_attrs_def session_cookie_parts [OF assms] split_max_age by simp
qed

lemma session_cookie_stored:
  assumes "CHR '';'' \<notin> set n" and "CHR ''='' \<notin> set n" and "0 < k"
  shows "store_cookie j (session_cookie n v (show_int k) sec) =
    obj_set n (cookie_text (session_cookie n v (show_int k) sec)) j"
proof -
  have "\<not> cookie_expires (session_cookie n v (show_int k) sec)"
    using assms by (simp add: cookie_expires_def session_cookie_attrs parse_int10_show_int)
  then show ?thesis by (simp add: store_cookie_def session_cookie_name_value [OF assms(1,2)])
qed

lemma map_of_decoded: "map_of (map (\<lambda>(k, v). (k, f v)) j) n = map_option f (map_of j n)"
  by (induction j) auto

lemma store_cookie_other: "cookie_name s \<noteq> n \<Longrightarrow> map_of (store_cookie j s) n = map_of j n"
  by (simp add: store_cookie_def)

definition token_cookies :: "string \<Rightarrow> int \<Rightarrow> string list \<Rightarrow> bool" where
  "token_cookies t k cs \<longleftrightarrow>
     (\<exists>sec rest. cs = session_cookie ''admin_access_token'' t (show_int k) sec # rest
        \<and> length rest \<le> 1 \<and> (\<forall>c \<in> set rest. cookie_name c = ''admin_refresh_token''))"

text \<open>A response that stores token \<open>t\<close> makes the next request authenticate as \<open>t\<close>.\<close>

lemma token_cookies_authenticate:
  assumes "token_cookies t k (sr_cookies r)" and "0 < k" and "t \<noteq> []"
    and "map_option decodeURIComponent (map_of j ''is_mock_session'') \<noteq> Some ''1''"
  shows "getAdminAuthToken (request_with_jar (store_cookies j r)) = Some t"
proof -
  from assms(1) obtain sec rest where r: "sr_cookies r =
      session_cookie ''admin_access_token'' t (show_int k) sec # rest"
    and len: "length rest \<le> 1" and names: "\<forall>c \<in> set rest. cookie_name c = ''admin_refresh_token''"
    by (auto simp: token_cookies_def)
  let ?c = "session_cookie ''admin_access_token'' t (show_int k) sec"
  have rest: "rest = [] \<or> (\<exists>c. rest = [c] \<and> cookie_name c = ''admin_refresh_token'')"
    using len names by (cases rest) auto
  have first: "store_cookie j ?c = obj_set ''admin_access_token'' (cookie_text ?c) j"
    using assms(2) by (simp add: session_cookie_stored)
  have jar: "map_of (store_cookies j r) n = map_of (obj_set ''admin_access_token'' (cookie_text ?c) j) n"
    if "n \<noteq> ''admin_refresh_token''" for n
    using rest that by (auto simp: store_cookies_def r first store_cookie_other simp del: map_of_obj_set)
  have val: "decodeURIComponent (cookie_text ?c) = t"
    by (rule session_cookie_name_value) simp_all
  obtain c s where t: "t = c # s" using assms(3) by (cases t) auto
  have "map_of (sq_cookies (request_with_jar (store_cookies j r))) n =
      map_option decodeURIComponent (map_of (store_cookies j r) n)" for n
    by (simp add: request_with_jar_def map_of_decoded)
  then show ?thesis
    using assms(4) jar [of "''is_mock_session''"] jar [of "''admin_access_token''"] val t
    by (auto simp: getAdminAuthToken_def)
qed

section \<open>Signing in\<close>

text \<open>A reply of the token routes either carries no access token or stores it.\<close>

definition stores_its_token :: "server_resp \<Rightarrow> bool" where
  "stores_its_token r \<longleftrightarrow>
     (\<forall>b t k. sr_body r = Some b \<longrightarrow> get_prop b ''access_token'' = JStr t \<longrightarrow>
        get_prop b ''expires_in'' = jint k \<longrightarrow> 0 < k \<longrightarrow> k < 10 ^ 21 \<longrightarrow>
        token_cookies t k (sr_cookies r))"

lemma stores_no_token: "get_prop b ''access_token'' = JUndef \<Longrightarrow> stores_its_token (json_response b st)"
  by (simp add: stores_its_token_def json_response_def)

lemma max_age_int: "0 < k \<Longrightarrow> k < 10 ^ 21 \<Longrightarrow> to_str (js_or (jint k) d) = show_int k"
  using num_to_string_int [of k] by (simp add: js_or_def del: num_to_string.simps)

lemma refresh_cookie_name: "cookie_name (session_cookie ''admin_refresh_token'' v m sec) = ''admin_refresh_token''"
  by (rule session_cookie_name_value) simp_all

lemma callback_success_stores: "stores_its_token (callback_success e q data)"
  unfolding stores_its_token_def callback_success_def Let_def
  by (auto simp: error_json_def json_response_def with_cookies_def get_prop_simps token_cookies_def
      max_age_int refresh_cookie_name)

lemma refresh_success_stores: "stores_its_token (refresh_success e q rt data)"
  unfolding stores_its_token_def refresh_success_def Let_def
  by (auto simp: refresh_failed_def json_response_def with_cookies_def get_prop_simps token_cookies_def
      max_age_int refresh_cookie_name)

lemma returns_fetch [returns_rules]: "returns (\<lambda>_. True) (\<lambda>_. True) (io_fetch r)"
  by (rule returns_any)

lemma callback_stores: "returns stores_its_token (\<lambda>_. False) (callback_POST e q)"
  unfolding callback_POST_def Let_def
  by (intro returns_catch [where E = "\<lambda>_. True"] returns_bind [where Q = "\<lambda>_. True"] returns_if
        returns_return returns_any callback_success_stores stores_no_token)
     (simp_all add: get_prop_simps)

lemma refresh_stores: "returns stores_its_token (\<lambda>_. False) (refresh_POST pe jwt e q)"
  unfolding refresh_POST_def Let_def refresh_failed_def refresh_missing_def refresh_mismatch_def
  by (intro returns_catch [where E = "\<lambda>_. True"] returns_bind [where Q = "\<lambda>_. True"] returns_if
        returns_return returns_any refresh_success_stores stores_no_token)
     (simp_all add: get_prop_simps)

text \<open>C4. End to end: when the code exchange or a refresh answers with an access token \<open>t\<close> and a
  positive lifetime, a browser that stores the \<open>Set-Cookie\<close> headers sends requests that
  \<open>getAdminAuthToken\<close> reads as \<open>t\<close>, whatever characters \<open>t\<close> has and whatever else the jar
  holds (a mock session apart, which takes precedence).\<close>

theorem sign_in_authenticates:
  assumes "callback_POST e q net h = (Inr r, h') \<or> refresh_POST pe jwt e q net h = (Inr r, h')"
    and "sr_body r = Some b" and "get_prop b ''access_token'' = JStr t" and "t \<noteq> []"
    and "get_prop b ''expires_in'' = jint k" and "0 < k" and "k < 10 ^ 21"
    and "map_option decodeURIComponent (map_of j ''is_mock_session'') \<noteq> Some ''1''"
  shows "getAdminAuthToken (request_with_jar (store_cookies j r)) = Some t"
proof -
  have "stores_its_token r"
    using assms(1) returns_value [OF callback_stores] returns_value [OF refresh_stores] by blast
  with assms(2,3,5,6,7) have "token_cookies t k (sr_cookies r)" by (simp add: stores_its_token_def)
  then show ?thesis using assms(4,6,8) by (intro token_cookies_authenticate)
qed

definition demo_login :: server_req where
  "demo_login = \<lparr>sq_query = [], sq_headers = [], sq_cookies = [],
     sq_body = Some (JObj [(''code'', JStr ''c''), (''verifier'', JStr ''v''),
       (''client_id'', JStr ''router-ui''), (''redirect_uri'', JStr ''http://localhost:3000/auth/callback'')])\<rparr>"

definition demo_keycloak :: net where
  "demo_keycloak h r = FetchOk \<lparr>rs_status = 200, rs_text = [],
     rs_json = Some (JObj [(''access_token'', JStr ''a;b=c''), (''expires_in'', jint 300)]), rs_headers = []\<rparr>"

theorem sign_in_authenticates_witness:
  "getAdminAuthToken (request_with_jar (store_cookies []
     (case io_result (callback_POST demo_env demo_login) demo_keycloak of Inr r \<Rightarrow> r))) = Some ''a;b=c''"
proof -
  let ?r = "callback_success demo_env demo_login
    (JObj [(''access_token'', JStr ''a;b=c''), (''expires_in'', jint 300)])"
  have run: "callback_POST demo_env demo_login demo_keycloak [] =
      (Inr ?r, snd (callback_POST demo_env demo_login demo_keycloak []))"
    by (simp add: callback_POST_def demo_login_def demo_keycloak_def request_json_or_empty_def Let_def
        resp_ok_def js_simps)
  then have res: "io_result (callback_POST demo_env demo_login) demo_keycloak = Inr ?r"
    unfolding io_result_def by (metis fst_conv)
  have body: "sr_body ?r = Some (JObj [(''access_token'', JStr ''a;b=c''), (''id_token'', JUndef),
      (''refresh_token'', JUndef), (''expires_in'', jint 300), (''refresh_expires_in'', JUndef)])"
    by (simp add: callback_success_def with_cookies_def get_prop_simps Let_def)
  show ?thesis
    unfolding res
    using sign_in_authenticates [OF disjI1 [OF run] body, of "''a;b=c''" 300 "[]"]
    by (simp add: get_prop_simps)
qed

section \<open>Signing out\<close>

text \<open>A cookie header \<open>name=; flags\<close> with the expiry flags deletes its cookie.\<close>

lemma split_flags:
  "split_on (CHR '';'') ('' Path=/; HttpOnly; SameSite=Lax; Max-Age=0; Expires=Thu, 01 Jan 1970 00:00:00 GMT'' @ s) =
     ['' Path=/'', '' HttpOnly'', '' SameSite=Lax'', '' Max-Age=0''] @
     split_on (CHR '';'') ('' Expires=Thu, 01 Jan 1970 00:00:00 GMT'' @ s)"
  by (simp split: list.splits)

lemma max_age_zero: "parse_int10 ''0'' = Fin 0"
  by code_simp

lemma expired_cookie_deletes:
  assumes "CHR '';'' \<notin> set n" and "CHR ''='' \<notin> set n"
  shows "store_cookie j (n @ ''=; Path=/; HttpOnly; SameSite=Lax; '' @ expired_cookie @ s) = obj_del n j"
proof -
  let ?flags = "'' Path=/; HttpOnly; SameSite=Lax; Max-Age=0; Expires=Thu, 01 Jan 1970 00:00:00 GMT'' @ s"
  let ?c = "n @ ''=; Path=/; HttpOnly; SameSite=Lax; '' @ expired_cookie @ s"
  have "?c = (n @ ''='') @ CHR '';'' # ?flags" by (simp add: expired_cookie_def)
  then have split: "split_on (CHR '';'') ?c = (n @ ''='') # split_on (CHR '';'') ?flags"
    using assms(1) by (simp only:) (subst split_on_append; simp)
  have "\<And>c. c \<in> set n \<Longrightarrow> c \<noteq> CHR ''=''" using assms(2) by auto
  then have "cookie_name ?c = n" by (simp only: cookie_name_def split list.sel) (simp add: takeWhile_append2)
  moreover have "trim '' Max-Age=0'' = ''Max-Age=0''" by (rule trim_space) (simp_all add: is_ws_def code_def)
  then have "cookie_expires ?c"
    unfolding cookie_expires_def cookie_attrs_def split split_flags by (simp add: max_age_zero)
  ultimately show ?thesis by (simp add: store_cookie_def)
qed

text \<open>After \<open>POST /api/auth/logout\<close> the jar holds neither the access nor the refresh token;
  every other cookie is untouched. In particular a mock session survives it: only
  \<open>DELETE /api/auth/mock\<close> ends that one.\<close>

theorem logout_clears_tokens:
  "map_of (store_cookies j (logout_POST e)) =
     (map_of j)(''admin_access_token'' := None, ''admin_refresh_token'' := None)
   \<and> map_of (store_cookies j mock_DELETE) = (map_of j)(''is_mock_session'' := None)"
proof -
  let ?s = "if production e then ''; Secure'' else []"
  have del: "store_cookie j (''admin_access_token'' @ ''=; Path=/; HttpOnly; SameSite=Lax; '' @ expired_cookie @ s) =
        obj_del ''admin_access_token'' j"
    "store_cookie j (''admin_refresh_token'' @ ''=; Path=/; HttpOnly; SameSite=Lax; '' @ expired_cookie @ s) =
        obj_del ''admin_refresh_token'' j"
    "store_cookie j (''is_mock_session'' @ ''=; Path=/; HttpOnly; SameSite=Lax; '' @ expired_cookie @ s) =
        obj_del ''is_mock_session'' j" for j s
    by (rule expired_cookie_deletes; simp)+
  have "sr_cookies (logout_POST e) =
      [''admin_access_token'' @ ''=; Path=/; HttpOnly; SameSite=Lax; '' @ expired_cookie @ ?s,
       ''admin_refresh_token'' @ ''=; Path=/; HttpOnly; SameSite=Lax; '' @ expired_cookie @ ?s]"
    by (simp add: logout_POST_def with_cookies_def Let_def)
  then have "store_cookies j (logout_POST e) = obj_del ''admin_refresh_token'' (obj_del ''admin_access_token'' j)"
    unfolding store_cookies_def by (simp only: foldl.simps del)
  moreover have "sr_cookies mock_DELETE =
      [''is_mock_session'' @ ''=; Path=/; HttpOnly; SameSite=Lax; '' @ expired_cookie @ []]"
    by (simp add: mock_DELETE_def with_cookies_def)
  then have "store_cookies j mock_DELETE = obj_del ''is_mock_session'' j"
    unfolding store_cookies_def by (simp only: foldl.simps del)
  ultimately show ?thesis by (simp add: fun_eq_iff)
qed

section \<open>Refreshing\<close>

lemma refresh_decode_string: "get_prop (refresh_decodeJwtPayload jwt v) k \<noteq> JUndef \<Longrightarrow> is_str v"
  by (auto simp: refresh_decodeJwtPayload_def get_prop_simps split: if_splits)

text \<open>C9. The refresh endpoint contacts Keycloak only with a token string whose payload has type
  Refresh or Offline, the configured client and one of the two configured issuers; then it makes
  exactly one request, to the internal issuer, whose form body reads back as grant type, client
  and that very token. Every other request is answered with status 400 and sends nothing.\<close>

theorem refresh_only_own_tokens:
  "(\<exists>t. get_prop (refresh_body q) ''refresh_token'' = JStr t
      \<and> isSupportedRefreshType (refresh_decodeJwtPayload jwt (JStr t))
      \<and> matchesClient e (refresh_decodeJwtPayload jwt (JStr t))
      \<and> matchesIssuer e (refresh_decodeJwtPayload jwt (JStr t))
      \<and> (\<exists>form. io_requests (refresh_POST pe jwt e q) net = [token_request (issuer_internal e) form]
           \<and> form_decode (formEncode form) =
               [(''grant_type'', ''refresh_token''), (''client_id'', client_id e), (''refresh_token'', t)]))
   \<or> (\<exists>r. refresh_POST pe jwt e q net [] = (Inr r, []) \<and> sr_status r = 400 \<and> sr_cookies r = [])"
proof -
  let ?v = "get_prop (refresh_body q) ''refresh_token''"
  let ?p = "refresh_decodeJwtPayload jwt ?v"
  show ?thesis
  proof (cases "truthy ?v \<and> isSupportedRefreshType ?p \<and> matchesClient e ?p \<and> matchesIssuer e ?p")
    case ok: True
    then have "is_str ?v"
      by (intro refresh_decode_string [of jwt _ "''azp''"]) (simp add: matchesClient_def)
    then obtain t where t: "?v = JStr t" by (cases ?v) auto
    let ?form = "[(''grant_type'', ''refresh_token''), (''client_id'', client_id e), (''refresh_token'', t)]"
    have "io_requests (refresh_POST pe jwt e q) net = [token_request (issuer_internal e) ?form]"
      using ok t
      by (auto simp: io_requests_def refresh_POST_def Let_def js_simps split: fetch_result.splits)
    moreover have "form_decode (formEncode ?form) = ?form" by (rule form_decode_encode) simp
    ultimately show ?thesis using ok [unfolded t] t by blast
  next
    case False
    then show ?thesis
      by (auto simp: refresh_POST_def Let_def io_catch_def io_return_def refresh_missing_def
          refresh_mismatch_def json_response_def)
  qed
qed

text \<open>The two configuration sources disagree: when the gateway's config names an issuer, the
  login page is told client \<open>router-ui\<close>, whatever \<open>KEYCLOAK_CLIENT_ID\<close> is; the refresh endpoint
  then rejects every refresh token issued to that client if the variable is set to another one.\<close>

theorem configured_client_mismatch:
  assumes "\<forall>h. net h (config_request e) = FetchOk \<lparr>rs_status = 200, rs_text = [],
      rs_json = Some (JObj [(''config'', JObj [(''auth'', JObj [(''jwt'', JObj [(''issuer'', JStr iss)])])])]), rs_headers = []\<rparr>"
    and "iss \<noteq> []" and "client_id e \<noteq> ''router-ui''"
    and "get_prop (refresh_decodeJwtPayload jwt (get_prop (refresh_body q) ''refresh_token'')) ''azp'' = JStr ''router-ui''"
  shows "io_result (config_GET e) net = Inr (config_reply (JStr iss) ''router-ui'')
    \<and> (\<exists>r. io_result (refresh_POST pe jwt e q) net = Inr r \<and> sr_status r = 400)"
proof -
  have "io_result (config_GET e) net = Inr (config_reply (JStr iss) ''router-ui'')"
    using assms(1,2) by (simp add: config_GET_def io_result_def Let_def js_simps resp_ok_def)
  moreover have "\<not> matchesClient e (refresh_decodeJwtPayload jwt (get_prop (refresh_body q) ''refresh_token''))"
    using assms(3,4) by (auto simp: matchesClient_def)
  then have "\<exists>r. io_result (refresh_POST pe jwt e q) net = Inr r \<and> sr_status r = 400"
    by (auto simp: io_result_def refresh_POST_def Let_def io_catch_def io_return_def refresh_missing_def
        refresh_mismatch_def json_response_def)
  ultimately show ?thesis by blast
qed

definition other_client_env :: env where
  "other_client_env = demo_env\<lparr>KEYCLOAK_CLIENT_ID := Some ''console''\<rparr>"

theorem configured_client_mismatch_witness:
  "\<exists>net jwt q. io_result (config_GET other_client_env) net = Inr (config_reply (JStr ''http://kc'') ''router-ui'')
    \<and> (\<exists>r. io_result (refresh_POST ''null'' jwt other_client_env q) net = Inr r \<and> sr_status r = 400)"
  using configured_client_mismatch [of
      "\<lambda>h r. FetchOk \<lparr>rs_status = 200, rs_text = [], rs_json = Some (JObj [(''config'', JObj [(''auth'',
         JObj [(''jwt'', JObj [(''issuer'', JStr ''http://kc'')])])])]), rs_headers = []\<rparr>" other_client_env "''http://kc''"
      "\<lambda>_. Some (JObj [(''azp'', JStr ''router-ui'')])"
      "demo_login\<lparr>sq_body := Some (JObj [(''refresh_token'', JStr ''h.p.s'')])\<rparr>" "''null''"]
  by (simp add: other_client_env_def client_id_def env_or_def refresh_body_def get_prop_simps
      refresh_decodeJwtPayload_def) blast

section \<open>The recovery of the gateway client\<close>

text \<open>A request as the application's own server receives it: its cookies are those of its
  \<open>Cookie\<close> header. The response travels back with the value the route returned.\<close>

definition cookie_pair :: "string \<Rightarrow> string \<times> string" where
  "cookie_pair w = (takeWhile (\<lambda>c. c \<noteq> CHR ''='') w,
                    decodeURIComponent (tl (dropWhile (\<lambda>c. c \<noteq> CHR ''='') w)))"

definition received :: "http_req \<Rightarrow> server_req" where
  "received r =
     \<lparr>sq_query = [], sq_headers = rq_headers r,
      sq_cookies = (case map_of (rq_headers r) ''Cookie'' of
        None \<Rightarrow> [] | Some s \<Rightarrow> map (cookie_pair \<circ> trim) (split_on (CHR '';'') s)),
      sq_body = None\<rparr>"

definition sent_back :: "server_resp \<Rightarrow> http_resp" where
  "sent_back r = \<lparr>rs_status = sr_status r, rs_text = [], rs_json = sr_body r, rs_headers = []\<rparr>"

lemma refresh_server_no_cookie:
  "cookie_value q ''admin_refresh_token'' = None \<Longrightarrow>
   refresh_server_POST e q net h = (Inr (refresh_failed (JStr ''No refresh token available'') 401), h)"
  by (simp add: refresh_server_POST_def io_catch_def io_return_def)

lemma refresh_request_no_cookie: "cookie_value (received (refresh_request e)) ''admin_refresh_token'' = None"
  by (simp add: cookie_value_def received_def refresh_request_def)

text \<open>C39. The refresh-and-retry of the gateway client cannot recover: its call to
  \<open>/api/auth/refresh-server\<close> carries no cookie, so the application's own route answers it 401
  \<open>No refresh token available\<close> without asking Keycloak; the caller always gets the original
  401, after exactly those two requests.\<close>

theorem gateway_recovery_fails:
  assumes "callable e (go_token opts)" and "useBearer (go_token opts)"
    and "net [] (first_request e path opts) = FetchOk res" and "rs_status res = 401"
    and "\<forall>h. \<exists>r h'. refresh_server_POST e (received (refresh_request e)) net h = (Inr r, h')
           \<and> net h (refresh_request e) = FetchOk (sent_back r)"
  shows "gatewayAdminFetch e path opts net [] =
    (unreachable_if e path (Inl (gateway_error res)), [first_request e path opts, refresh_request e])"
proof -
  let ?r = "refresh_failed (JStr ''No refresh token available'') 401"
  have "\<exists>r h'. refresh_server_POST e (received (refresh_request e)) net h = (Inr r, h')
      \<and> net h (refresh_request e) = FetchOk (sent_back r)" for h
    using assms(5) by blast
  then have answer: "net h (refresh_request e) = FetchOk (sent_back ?r)" for h
    by (simp add: refresh_server_no_cookie [OF refresh_request_no_cookie])
  have "\<not> resp_ok (sent_back ?r)" by (simp add: resp_ok_def sent_back_def refresh_failed_def json_response_def)
  then have "refresh_and_retry e path opts net h = (Inr None, h @ [refresh_request e])" for h
    using answer by (simp add: refresh_and_retry_def js_simps)
  then show ?thesis
    using assms(2,3,4) settle_then_value [of res e path net]
    by (simp add: gw_run [OF assms(1)] io_fetch_def io_bind_def io_catch_def io_return_def settle_run
        resp_ok_def response_value_def split: if_splits prod.splits)
qed

definition demo_ui :: net where
  "demo_ui h r =
     (if r = refresh_request demo_env
      then FetchOk (sent_back (refresh_failed (JStr ''No refresh token available'') 401))
      else FetchOk \<lparr>rs_status = 401, rs_text = ''expired'', rs_json = None, rs_headers = []\<rparr>)"

theorem gateway_recovery_fails_witness:
  "snd (gatewayAdminFetch demo_env ''/admin/models'' (gw_get (Some ''tok'')) demo_ui []) =
     [first_request demo_env ''/admin/models'' (gw_get (Some ''tok'')), refresh_request demo_env]"
proof -
  let ?o = "gw_get (Some ''tok'')"
  have ne: "first_request demo_env ''/admin/models'' ?o \<noteq> refresh_request demo_env"
    by (simp add: gateway_request_def refresh_request_def)
  have "gatewayAdminFetch demo_env ''/admin/models'' ?o demo_ui [] =
     (unreachable_if demo_env ''/admin/models''
        (Inl (gateway_error \<lparr>rs_status = 401, rs_text = ''expired'', rs_json = None, rs_headers = []\<rparr>)),
      [first_request demo_env ''/admin/models'' ?o, refresh_request demo_env])"
    by (rule gateway_recovery_fails)
       (use ne in \<open>simp_all add: useBearer_def MOCK_SESSION_SENTINEL_def demo_ui_def
          refresh_server_no_cookie [OF refresh_request_no_cookie]\<close>)
  then show ?thesis by simp
qed

section \<open>The session probe\<close>

text \<open>The session probe says \<open>authenticated\<close> exactly when the access cookie is not empty and
  no expiry claim that it can read lies in the past; it always answers with status 200.\<close>

theorem session_probe:
  "\<exists>b. session_GET parse now q = json_response b 200
     \<and> get_prop b ''authenticated'' =
         JBool (\<exists>t. cookie_value q ''admin_access_token'' = Some t
                  \<and> \<not> expired_claim (get_prop (decodeJwtPayload parse t) ''exp'') now)"
  by (auto simp: session_GET_def not_authenticated_def Let_def get_prop_simps split: option.splits)

text \<open>A token that cannot be decoded at all is reported as an authenticated user \<open>me\<close>: the
  decoder returns \<open>null\<close> instead of raising, so the branch for invalid tokens is never taken.\<close>

theorem session_probe_accepts_garbage:
  assumes "cookie_value q ''admin_access_token'' = Some t"
    and "decodeJwtPayload parse t = JNull"
  shows "session_GET parse now q = json_response
    (JObj [(''authenticated'', JBool True),
           (''user'', JObj [(''id'', JStr ''me''), (''name'', JStr ''me''), (''email'', JStr [])])]) 200"
  using assms by (simp add: session_GET_def Let_def get_prop_simps js_or_def expired_claim_def)

theorem session_probe_accepts_garbage_witness:
  "session_GET (\<lambda>_. None) 0 (request_with_jar [(''admin_access_token'', ''garbage'')]) = json_response
    (JObj [(''authenticated'', JBool True),
           (''user'', JObj [(''id'', JStr ''me''), (''name'', JStr ''me''), (''email'', JStr [])])]) 200"
  by (rule session_probe_accepts_garbage [of _ "''garbage''"])
     (simp_all add: cookie_value_def request_with_jar_def decodeJwtPayload_def)

end
