(* ===== verification/Auth_Context.thy ===== *)
theory Auth_Context
  imports Auth_Routes
begin

text \<open>
  The browser's session: lib/auth/session.ts, lib/auth/auth-context.tsx and the callback page
  app/(auth)/auth/callback/page.tsx. An asynchronous function is split at its \<open>await\<close> on the
  network: a start function up to the request, a finish function from the settled fetch on. A
  step relation interleaves them; the session an async function works on is the one it read
  when it started. The session a callback closes over is the current one. \<open>localStorage\<close> keeps
  the session under its own key and the OIDC items as strings.
\<close>

section \<open>Sessions\<close>

text \<open>The stored session is parsed JSON that is not validated, so its fields are values.\<close>

record Session =
  s_user :: jsval
  s_accessToken :: jsval
  s_idToken :: jsval
  s_refreshToken :: jsval
  s_expiresAt :: jsval
  s_refreshExpiresAt :: jsval
  s_isMock :: jsval

type_synonym items = "(string \<times> string) list"

text \<open>\<open>st_ref\<close> is \<open>refreshPromiseRef.current\<close>, an index into the refresh promises created so far
  (pending or resolved); \<open>st_runs\<close> are the refresh calls whose fetch is in flight, with the
  promise each will resolve; \<open>st_restore\<close> is the fetch of the mount effect.\<close>

record auth_state =
  st_session :: "Session option"
  st_stored :: "Session option"
  st_loading :: bool
  st_refreshing :: bool
  st_ref :: "nat option"
  st_promises :: "bool option list"
  st_runs :: "(nat \<times> Session) list"
  st_restore :: "Session option"
  st_items :: items

definition getStoredSession :: "auth_state \<Rightarrow> Session option" where
  "getStoredSession st = st_stored st"

definition setStoredSession :: "Session \<Rightarrow> auth_state \<Rightarrow> auth_state" where
  "setStoredSession s st = st\<lparr>st_stored := Some s\<rparr>"

definition clearSession :: "auth_state \<Rightarrow> auth_state" where
  "clearSession st = st\<lparr>st_stored := None\<rparr>"

definition setSession :: "Session option \<Rightarrow> auth_state \<Rightarrow> auth_state" where
  "setSession s st = st\<lparr>st_session := s\<rparr>"

definition createMockSession :: "rat \<Rightarrow> Session" where
  "createMockSession now =
     \<lparr>s_user = JObj [(''id'', JStr ''mock-user-1''), (''email'', JStr ''dev@aigateway.local''),
                    (''name'', JStr ''Development User''), (''role'', JStr ''admin'')],
      s_accessToken = JStr ''mock-access-token'', s_idToken = JUndef, s_refreshToken = JUndef,
      s_expiresAt = JNum (Fin (now + 24 * 60 * 60 * 1000)), s_refreshExpiresAt = JUndef,
      s_isMock = JBool True\<rparr>"

text \<open>Comparisons of a value with the clock, and \<open>Date.now() + v * 1000\<close>.\<close>

definition later_than :: "jsval \<Rightarrow> rat \<Rightarrow> bool" where
  "later_than v t \<longleftrightarrow> (case to_num v of Fin q \<Rightarrow> t < q | PosInf \<Rightarrow> True | _ \<Rightarrow> False)"

definition not_after :: "jsval \<Rightarrow> rat \<Rightarrow> bool" where
  "not_after v t \<longleftrightarrow> (case to_num v of Fin q \<Rightarrow> q \<le> t | NegInf \<Rightarrow> True | _ \<Rightarrow> False)"

definition seconds_after :: "rat \<Rightarrow> jsval \<Rightarrow> jsval" where
  "seconds_after t v = JNum (case to_num v of Fin q \<Rightarrow> Fin (t + q * 1000) | n \<Rightarrow> n)"

section \<open>The exchange with /api/auth/refresh\<close>

definition refresh_call :: "Session \<Rightarrow> http_req" where
  "refresh_call s =
     \<lparr>rq_url = ''/api/auth/refresh'', rq_method = ''POST'',
      rq_headers = [(''Content-Type'', ''application/json'')],
      rq_body = JsonBody (JObj [(''refresh_token'', s_refreshToken s)])\<rparr>"

definition updated_session :: "rat \<Rightarrow> Session \<Rightarrow> jsval \<Rightarrow> Session" where
  "updated_session now s data =
     s\<lparr>s_accessToken := get_prop data ''access_token'',
       s_refreshToken := js_or (get_prop data ''refresh_token'') (s_refreshToken s),
       s_expiresAt := seconds_after now (js_or (get_prop data ''expires_in'') (jint 3600)),
       s_refreshExpiresAt :=
         (let r = get_prop data ''refresh_expires_in'' in
          if truthy r then seconds_after now r else s_refreshExpiresAt s)\<rparr>"

text \<open>The session after a settled refresh; none when the fetch rejects, the body is no JSON
  (or \<open>null\<close>), or the reply does not say \<open>ok\<close> with an access token.\<close>

definition refreshed_session :: "rat \<Rightarrow> Session \<Rightarrow> fetch_result \<Rightarrow> Session option" where
  "refreshed_session now s fr =
     (case fr of
        FetchFail _ \<Rightarrow> None
      | FetchOk res \<Rightarrow>
          (case rs_json res of
             None \<Rightarrow> None
           | Some data \<Rightarrow>
               if nullish data \<or> \<not> resp_ok res \<or> \<not> truthy (get_prop data ''ok'')
                  \<or> \<not> truthy (get_prop data ''access_token'')
               then None else Some (updated_session now s data)))"

definition replace_session :: "Session option \<Rightarrow> auth_state \<Rightarrow> auth_state" where
  "replace_session s st =
     (case s of
        None \<Rightarrow> setSession None (clearSession st)
      | Some s' \<Rightarrow> setSession (Some s') (setStoredSession s' st))"

section \<open>Restoring the session on mount\<close>

definition restoreSession_start :: "rat \<Rightarrow> auth_state \<Rightarrow> auth_state" where
  "restoreSession_start now st =
     (case getStoredSession st of
        None \<Rightarrow> (replace_session None st)\<lparr>st_loading := False\<rparr>
      | Some s \<Rightarrow>
          if truthy (s_expiresAt s) \<and> later_than (s_expiresAt s) now
          then (setSession (Some s) st)\<lparr>st_loading := False\<rparr>
          else if truthy (s_refreshToken s) \<and>
                  (\<not> truthy (s_refreshExpiresAt s) \<or> later_than (s_refreshExpiresAt s) now)
          then st\<lparr>st_restore := Some s\<rparr>
          else (replace_session None st)\<lparr>st_loading := False\<rparr>)"

definition restoreSession_finish :: "rat \<Rightarrow> Session \<Rightarrow> fetch_result \<Rightarrow> auth_state \<Rightarrow> auth_state" where
  "restoreSession_finish now s fr st =
     (replace_session (refreshed_session now s fr) st)\<lparr>st_loading := False, st_restore := None\<rparr>"

section \<open>Refreshing, one call at a time\<close>

text \<open>\<open>session || getStoredSession()\<close>\<close>

definition currentSession :: "auth_state \<Rightarrow> Session option" where
  "currentSession st = (case st_session st of Some s \<Rightarrow> Some s | None \<Rightarrow> getStoredSession st)"

text \<open>The \<open>finally\<close> block.\<close>

definition refresh_finally :: "auth_state \<Rightarrow> auth_state" where
  "refresh_finally st = st\<lparr>st_refreshing := False, st_ref := None\<rparr>"

text \<open>\<open>runRefresh()\<close> up to its first \<open>await\<close>: without a refresh token it returns \<open>false\<close> at
  once, its \<open>finally\<close> block included, and its promise is already resolved.\<close>

definition runRefresh_start :: "nat \<Rightarrow> auth_state \<Rightarrow> bool option \<times> auth_state" where
  "runRefresh_start p st =
     (let st1 = st\<lparr>st_refreshing := True\<rparr> in
      case currentSession st of
        Some s \<Rightarrow>
          if truthy (s_refreshToken s) then (None, st1\<lparr>st_runs := (p, s) # st_runs st1\<rparr>)
          else (Some False, refresh_finally st1)
      | None \<Rightarrow> (Some False, refresh_finally st1))"

text \<open>The result is the promise the caller awaits.\<close>

definition refreshAccessToken :: "auth_state \<Rightarrow> nat \<times> auth_state" where
  "refreshAccessToken st =
     (case st_ref st of
        Some p \<Rightarrow> (p, st)
      | None \<Rightarrow>
          let p = length (st_promises st);
              (res, st1) = runRefresh_start p st
          in (p, st1\<lparr>st_promises := st_promises st1 @ [res], st_ref := Some p\<rparr>))"

definition runRefresh_finish :: "rat \<Rightarrow> nat \<Rightarrow> Session \<Rightarrow> fetch_result \<Rightarrow> auth_state \<Rightarrow> auth_state" where
  "runRefresh_finish now p s fr st =
     (let new = refreshed_session now s fr;
          st1 = refresh_finally (replace_session new st)
      in st1\<lparr>st_promises := (st_promises st1)[p := Some (new \<noteq> None)],
             st_runs := filter (\<lambda>r. fst r \<noteq> p) (st_runs st1)\<rparr>)"

datatype answer = Now bool | Await nat

definition ensureValidSession :: "rat \<Rightarrow> auth_state \<Rightarrow> answer \<times> auth_state" where
  "ensureValidSession now st =
     (case currentSession st of
        None \<Rightarrow> (Now False, st)
      | Some s \<Rightarrow>
          if \<not> not_after (s_expiresAt s) (now + 60000) then (Now True, st)
          else if truthy (s_refreshExpiresAt s) \<and> not_after (s_refreshExpiresAt s) now
          then (Now False, replace_session None st)
          else map_prod Await id (refreshAccessToken st))"

text \<open>The interval timer of a mounted provider.\<close>

definition tick :: "rat \<Rightarrow> auth_state \<Rightarrow> auth_state" where
  "tick now st =
     (case st_session st of
        None \<Rightarrow> st
      | Some s \<Rightarrow> if not_after (s_expiresAt s) (now + 60000) then snd (ensureValidSession now st) else st)"

section \<open>Login and logout\<close>

definition login_mock :: "rat \<Rightarrow> auth_state \<Rightarrow> auth_state" where
  "login_mock now st =
     (replace_session (Some (createMockSession now)) st)\<lparr>st_loading := False\<rparr>"

definition setItem :: "string \<Rightarrow> string \<Rightarrow> auth_state \<Rightarrow> auth_state" where
  "setItem k v st = st\<lparr>st_items := obj_set k v (st_items st)\<rparr>"

definition removeItem :: "string \<Rightarrow> auth_state \<Rightarrow> auth_state" where
  "removeItem k st = st\<lparr>st_items := obj_del k (st_items st)\<rparr>"

text \<open>The Keycloak branch once the configuration is loaded and read: \<open>rv\<close>, \<open>rs\<close>, \<open>rn\<close> are the random
  bytes of verifier, state and nonce. The result is the URL the browser goes to; an error
  leaves the page where it is.\<close>

definition login_redirect ::
  "jsval \<Rightarrow> string \<Rightarrow> digest option \<Rightarrow> byte_list \<Rightarrow> byte_list \<Rightarrow> byte_list \<Rightarrow> auth_state
   \<Rightarrow> (exn + string) \<times> auth_state" where
  "login_redirect authConfig origin subtle rv rs rn st =
     (let issuer = to_str (js_or (get_prop authConfig ''issuer'') (JStr default_issuer));
          clientId = to_str (js_or (get_prop authConfig ''clientId'') (JStr ''router-ui''));
          redirectUri = origin @ ''/auth/callback''
      in case generatePkce subtle rv of
           Inl err \<Rightarrow> (Inl err, st\<lparr>st_loading := False\<rparr>)
         | Inr p \<Rightarrow>
             let state = randomString rs; nonce = randomString rn;
                 st1 = setItem ''oidc_redirect_uri'' redirectUri
                        (setItem ''oidc_client_id'' clientId
                        (setItem ''oidc_issuer'' issuer
                        (setItem ''oidc_nonce'' nonce
                        (setItem ''oidc_state'' state
                        (setItem ''oidc_pkce_verifier'' (verifier p) st)))))
             in (Inr (buildAuthUrl \<lparr>ap_issuer = issuer, ap_clientId = clientId,
                   ap_redirectUri = redirectUri, ap_scope = Some ''openid profile email offline_access'',
                   ap_state = state, ap_nonce = nonce, ap_codeChallenge = challenge p\<rparr>),
                 st1\<lparr>st_loading := False\<rparr>))"

text \<open>The branch from the settled fetch of \<open>/api/auth/config\<close> on; every error is logged and
  leaves the page in place.\<close>

definition login_keycloak ::
  "fetch_result \<Rightarrow> string \<Rightarrow> digest option \<Rightarrow> byte_list \<Rightarrow> byte_list \<Rightarrow> byte_list \<Rightarrow> auth_state
   \<Rightarrow> (exn + string) \<times> auth_state" where
  "login_keycloak fr origin subtle rv rs rn st =
     (case fr of
        FetchFail m \<Rightarrow> (Inl (JsError m None), st\<lparr>st_loading := False\<rparr>)
      | FetchOk res \<Rightarrow>
          if \<not> resp_ok res then (Inl (JsError ''Failed to load auth config'' None), st\<lparr>st_loading := False\<rparr>)
          else (case rs_json res of
              None \<Rightarrow> (Inl syntax_error, st\<lparr>st_loading := False\<rparr>)
            | Some authConfig \<Rightarrow> login_redirect authConfig origin subtle rv rs rn st))"

text \<open>Logout clears the client session at once, before it talks to the server.\<close>

definition logout_start :: "auth_state \<Rightarrow> auth_state" where
  "logout_start st = replace_session None st"

definition refreshSession :: "auth_state \<Rightarrow> auth_state" where
  "refreshSession st = setSession (getStoredSession st) st"

text \<open>What children see.\<close>

definition isAuthenticated :: "auth_state \<Rightarrow> bool" where
  "isAuthenticated st \<longleftrightarrow> st_session st \<noteq> None"

datatype guard_view = LoadingScreen | Nothing | Children

definition AuthGuard :: "auth_state \<Rightarrow> guard_view" where
  "AuthGuard st =
     (if st_loading st then LoadingScreen else if \<not> isAuthenticated st then Nothing else Children)"

definition AuthGuard_redirects :: "auth_state \<Rightarrow> bool" where
  "AuthGuard_redirects st \<longleftrightarrow> \<not> st_loading st \<and> \<not> isAuthenticated st"

section \<open>The callback page\<close>

datatype callback_decision = Skip | Show string | AlreadyDone | Exchange http_req

definition item :: "string \<Rightarrow> items \<Rightarrow> string option" where
  "item k its = (case map_of its k of Some (c # s) \<Rightarrow> Some (c # s) | _ \<Rightarrow> None)"

definition callback_call :: "string \<Rightarrow> string \<Rightarrow> items \<Rightarrow> http_req" where
  "callback_call authCode redirectUri its =
     \<lparr>rq_url = ''/api/auth/callback'', rq_method = ''POST'',
      rq_headers = [(''Content-Type'', ''application/json'')],
      rq_body = JsonBody (JObj
        [(''code'', JStr authCode), (''verifier'', JStr (or_string (map_of its ''oidc_pkce_verifier'') [])),
         (''issuer'', JStr (or_string (map_of its ''oidc_issuer'') [])),
         (''client_id'', JStr (or_string (map_of its ''oidc_client_id'') ''router-ui'')),
         (''redirect_uri'', JStr redirectUri)])\<rparr>"

definition callback_start :: "bool \<Rightarrow> string option \<Rightarrow> string option \<Rightarrow> items \<Rightarrow> callback_decision" where
  "callback_start exchangeStarted authCode state its =
     (if exchangeStarted then Skip
      else case (authCode, state) of
        (Some (c # cs), Some (d # ds)) \<Rightarrow>
          if item ''oidc_state'' its \<noteq> Some (d # ds)
          then Show ''Invalid login state. Please try again.''
          else if item ''oidc_pkce_verifier'' its = None
          then Show ''Missing PKCE verifier. Please restart the login process.''
          else (case item ''oidc_redirect_uri'' its of
              None \<Rightarrow> Show ''Missing redirect URI. Please restart the login process.''
            | Some redirectUri \<Rightarrow>
                if map_of its (''oidc_exchanged_'' @ d # ds) = Some ''1'' then AlreadyDone
                else Exchange (callback_call (c # cs) redirectUri its))
      | _ \<Rightarrow> Show ''Invalid login response. Missing parameters.'')"

definition claims_of :: "json_parser \<Rightarrow> jsval \<Rightarrow> jsval" where
  "claims_of parse token = (if is_str token then decodeJwtPayload parse (str_of token) else JNull)"

fun role_name :: "CanonicalRole \<Rightarrow> string" where
  "role_name Admin = ''admin''"
| "role_name Audit = ''audit''"
| "role_name LocalAdmin = ''local_admin''"
| "role_name Finance = ''finance''"
| "role_name PlainUser = ''user''"

text \<open>The session built from the tokens; \<open>Inl\<close> where reading the roles raises.\<close>

definition callback_session :: "json_parser \<Rightarrow> rat \<Rightarrow> jsval \<Rightarrow> exn + Session" where
  "callback_session parse now data =
     (let accessToken = get_prop data ''access_token''; idToken = get_prop data ''id_token'';
          claims = (if truthy idToken then claims_of parse idToken else claims_of parse accessToken);
          email = js_or (get_prop claims ''email'') (JStr []);
          sub = js_or (get_prop claims ''sub'') (JStr ''me'');
          displayName = js_or (js_or (get_prop claims ''preferred_username'') email) sub;
          refreshExpiresIn = get_prop data ''refresh_expires_in''
      in case deriveCanonicalRole (extractRolesFromClaims claims) of
           Inl err \<Rightarrow> Inl err
         | Inr role \<Rightarrow> Inr
             \<lparr>s_user = JObj [(''id'', sub), (''name'', displayName), (''email'', email),
                            (''role'', JStr (role_name (case role of None \<Rightarrow> PlainUser | Some r \<Rightarrow> r)))],
              s_accessToken = accessToken, s_idToken = idToken,
              s_refreshToken = get_prop data ''refresh_token'',
              s_expiresAt = (if truthy (get_prop claims ''exp'') then seconds_after 0 (get_prop claims ''exp'')
                             else seconds_after now (js_or (get_prop data ''expires_in'') (jint 3600))),
              s_refreshExpiresAt = (if truthy refreshExpiresIn then seconds_after now refreshExpiresIn
                                    else JUndef),
              s_isMock = JUndef\<rparr>)"

definition oidc_keys :: "string list" where
  "oidc_keys = [''oidc_pkce_verifier'', ''oidc_state'', ''oidc_nonce'', ''oidc_issuer'',
                ''oidc_client_id'', ''oidc_redirect_uri'']"

text \<open>The message shown, or the redirect to the dashboard (\<open>None\<close>).\<close>

definition callback_finish ::
  "json_parser \<Rightarrow> rat \<Rightarrow> string \<Rightarrow> fetch_result \<Rightarrow> auth_state \<Rightarrow> jsval option \<times> auth_state" where
  "callback_finish parse now state fr st =
     (case fr of
        FetchFail _ \<Rightarrow> (Some (JStr ''Failed to complete login.''), st)
      | FetchOk res \<Rightarrow>
          let data = resp_json_or_empty res in
          if \<not> resp_ok res
          then (Some (js_or (get_prop data ''error'') (JStr ''Failed to complete login.'')), st)
          else if \<not> truthy (get_prop data ''access_token'')
          then (Some (JStr ''Failed to receive access token.''), st)
          else case callback_session parse now data of
            Inl err \<Rightarrow> (Some (JStr ''Failed to complete login.''), st)
          | Inr s \<Rightarrow>
              (None, refreshSession
                 (fold removeItem oidc_keys
                    (setItem (''oidc_exchanged_'' @ state) ''1''
                       (setStoredSession s (clearSession st))))))"

end
