(* ===== verification/Auth_Machine.thy ===== *)
theory Auth_Machine
  imports Auth_Context
begin

text \<open>
  The browser session as a state machine: every interleaving of the operations of
  AuthProvider with the settling of their fetches, another tab writing \<open>localStorage\<close>
  included. Shown: at most one refresh is in flight; what a refresh leaves behind; when
  \<open>ensureValidSession\<close> says yes; and three interleavings in which the code does not do what it
  means to (a refresh without a token blocks all later ones, a refresh in flight undoes a
  logout, a failed restore erases a fresh login).
\<close>

section \<open>Steps\<close>

inductive auth_step :: "auth_state \<Rightarrow> auth_state \<Rightarrow> bool" where
  Refresh: "auth_step st (snd (refreshAccessToken st))"
| Ensure: "auth_step st (snd (ensureValidSession now st))"
| Tick: "auth_step st (tick now st)"
| Settle: "(p, s) \<in> set (st_runs st) \<Longrightarrow> auth_step st (runRefresh_finish now p s fr st)"
| Restore: "st_restore st = None \<Longrightarrow> auth_step st (restoreSession_start now st)"
| RestoreSettle: "st_restore st = Some s \<Longrightarrow> auth_step st (restoreSession_finish now s fr st)"
| LoginMock: "auth_step st (login_mock now st)"
| LoginKeycloak: "auth_step st (snd (login_keycloak cfr origin subtle rv rs rn st))"
| Logout: "auth_step st (logout_start st)"
| Reload: "auth_step st (refreshSession st)"
| Callback: "auth_step st (snd (callback_finish parse now state fr st))"
| OtherTab: "auth_step st (st\<lparr>st_stored := x, st_items := its\<rparr>)"

definition init_state :: "Session option \<Rightarrow> items \<Rightarrow> auth_state" where
  "init_state stored its =
     \<lparr>st_session = None, st_stored = stored, st_loading = True, st_refreshing = False, st_ref = None,
      st_promises = [], st_runs = [], st_restore = None, st_items = its\<rparr>"

definition reachable :: "auth_state \<Rightarrow> bool" where
  "reachable st \<longleftrightarrow> (\<exists>stored its. auth_step\<^sup>*\<^sup>* (init_state stored its) st)"

section \<open>The part of the state that refreshes share\<close>

text \<open>Everything but the refresh operations leaves the refresh bookkeeping alone.\<close>

definition same_book :: "auth_state \<Rightarrow> auth_state \<Rightarrow> bool" where
  "same_book st st' \<longleftrightarrow> st_ref st' = st_ref st \<and> st_promises st' = st_promises st
     \<and> st_runs st' = st_runs st \<and> st_refreshing st' = st_refreshing st"

lemma same_book_refl: "same_book st st"
  by (simp add: same_book_def)

lemma same_book_replace: "same_book st (replace_session s st)"
  by (simp add: same_book_def replace_session_def setSession_def clearSession_def setStoredSession_def
      split: option.splits)

lemma fold_removeItem: "\<exists>its. fold removeItem ks st = st\<lparr>st_items := its\<rparr>"
proof (induction ks arbitrary: st)
  case Nil
  have "st = st\<lparr>st_items := st_items st\<rparr>" by simp
  then show ?case by (metis fold_simps(1))
next
  case (Cons k ks)
  obtain its where "fold removeItem ks (removeItem k st) = (removeItem k st)\<lparr>st_items := its\<rparr>"
    using Cons by blast
  then have "fold removeItem (k # ks) st = st\<lparr>st_items := its\<rparr>" by (simp add: removeItem_def)
  then show ?case by blast
qed

lemma same_book_callback: "same_book st (snd (callback_finish parse now state fr st))"
proof -
  have "same_book st (refreshSession (fold removeItem ks (setItem k v (setStoredSession s (clearSession st)))))"
    for ks k v s
  proof -
    obtain its where "fold removeItem ks (setItem k v (setStoredSession s (clearSession st))) =
        (setItem k v (setStoredSession s (clearSession st)))\<lparr>st_items := its\<rparr>"
      using fold_removeItem by blast
    then show ?thesis
      by (simp add: same_book_def refreshSession_def setSession_def setItem_def setStoredSession_def
          clearSession_def)
  qed
  then show ?thesis
    by (auto simp: callback_finish_def Let_def same_book_refl split: fetch_result.splits sum.splits)
qed

lemma same_book_restore: "same_book st (restoreSession_start now st)" "same_book st (restoreSession_finish now s fr st)"
  using same_book_replace [of st None] same_book_replace [of st "refreshed_session now s fr"]
  by (auto simp: restoreSession_start_def restoreSession_finish_def same_book_def setSession_def
      split: option.splits)

lemma same_book_login: "same_book st (login_mock now st)"
    "same_book st (snd (login_keycloak cfr origin subtle rv rs rn st))"
    "same_book st (logout_start st)" "same_book st (refreshSession st)"
  using same_book_replace [of st "Some (createMockSession now)"] same_book_replace [of st None]
  by (auto simp: login_mock_def login_keycloak_def login_redirect_def logout_start_def refreshSession_def
      same_book_def setSession_def setItem_def Let_def split: sum.splits fetch_result.splits option.splits)

section \<open>The invariant\<close>

definition resolved :: "bool option \<Rightarrow> bool" where
  "resolved r \<longleftrightarrow> r \<noteq> None"

lemma resolved_simps [simp]: "resolved (Some b)" "\<not> resolved None"
  by (simp_all add: resolved_def)

definition auth_inv :: "auth_state \<Rightarrow> bool" where
  "auth_inv st \<longleftrightarrow>
     (case st_ref st of
        None \<Rightarrow> st_runs st = [] \<and> list_all resolved (st_promises st) \<and> \<not> st_refreshing st
      | Some p \<Rightarrow> p < length (st_promises st) \<and>
          (\<forall>p' < length (st_promises st). p' \<noteq> p \<longrightarrow> resolved (st_promises st ! p')) \<and>
          (case st_promises st ! p of
             None \<Rightarrow> st_refreshing st \<and> (\<exists>s. st_runs st = [(p, s)])
           | Some b \<Rightarrow> \<not> st_refreshing st \<and> st_runs st = []))"

lemma auth_inv_cong: "same_book st st' \<Longrightarrow> auth_inv st' = auth_inv st"
  by (simp add: same_book_def auth_inv_def cong: option.case_cong)

lemma auth_inv_init: "auth_inv (init_state stored its)"
  by (simp add: auth_inv_def init_state_def)

lemma nth_resolved: "list_all resolved ps \<Longrightarrow> i < length ps \<Longrightarrow> resolved (ps ! i)"
  by (simp add: list_all_length)

lemma auth_inv_refresh: "auth_inv st \<Longrightarrow> auth_inv (snd (refreshAccessToken st))"
  unfolding refreshAccessToken_def
  by (cases "st_ref st")
     (auto simp: auth_inv_def runRefresh_start_def refresh_finally_def Let_def nth_append less_Suc_eq
        dest: nth_resolved split: option.splits)

lemma auth_inv_ensure: "auth_inv st \<Longrightarrow> auth_inv (snd (ensureValidSession now st))"
  using auth_inv_refresh auth_inv_cong [OF same_book_replace]
  by (auto simp: ensureValidSession_def split: option.splits)

lemma auth_inv_settle:
  assumes inv: "auth_inv st" and run: "(p, s) \<in> set (st_runs st)"
  shows "auth_inv (runRefresh_finish now p s fr st)"
proof -
  let ?st = "replace_session (refreshed_session now s fr) st"
  have b: "st_runs ?st = st_runs st" "st_promises ?st = st_promises st"
    using same_book_replace [of st] by (simp_all add: same_book_def)
  from inv run have ref: "st_ref st = Some p" and runs: "st_runs st = [(p, s)]"
    and others: "\<forall>p' < length (st_promises st). p' \<noteq> p \<longrightarrow> resolved (st_promises st ! p')"
    by (auto simp: auth_inv_def split: option.splits)
  have "list_all resolved ((st_promises st)[p := Some c])" for c
    using others by (simp add: list_all_length) (metis nth_list_update_eq nth_list_update_neq resolved_simps(1))
  then show ?thesis
    by (simp add: auth_inv_def runRefresh_finish_def refresh_finally_def Let_def b runs)
qed

lemma auth_inv_step: "auth_step st st' \<Longrightarrow> auth_inv st \<Longrightarrow> auth_inv st'"
proof (induction rule: auth_step.induct)
  case (Refresh st)
  then show ?case by (rule auth_inv_refresh)
next
  case (Ensure st now)
  then show ?case by (rule auth_inv_ensure)
next
  case (Tick st now)
  then show ?case using auth_inv_ensure by (auto simp: tick_def split: option.splits)
next
  case (Settle p s st now fr)
  then show ?case by (intro auth_inv_settle)
next
  case (OtherTab st x its)
  then show ?case by (subst auth_inv_cong [of st]) (simp_all add: same_book_def)
qed (simp_all only: auth_inv_cong [OF same_book_restore(1)]
    auth_inv_cong [OF same_book_restore(2)] auth_inv_cong [OF same_book_login(1)]
    auth_inv_cong [OF same_book_login(2)] auth_inv_cong [OF same_book_login(3)]
    auth_inv_cong [OF same_book_login(4)] auth_inv_cong [OF same_book_callback])

lemma auth_inv_steps: "auth_step\<^sup>*\<^sup>* st st' \<Longrightarrow> auth_inv st \<Longrightarrow> auth_inv st'"
  by (induction rule: rtranclp_induct) (auto intro: auth_inv_step)

lemma reachable_inv: "reachable st \<Longrightarrow> auth_inv st"
  using auth_inv_steps auth_inv_init by (auto simp: reachable_def)


definition demo_session :: Session where
  "demo_session = \<lparr>s_user = JObj [(''role'', JStr ''admin'')], s_accessToken = JStr ''a'', s_idToken = JUndef,
     s_refreshToken = JStr ''r'', s_expiresAt = jint 100000, s_refreshExpiresAt = JUndef, s_isMock = JUndef\<rparr>"

lemma reachable_step: "reachable st \<Longrightarrow> auth_step st st' \<Longrightarrow> reachable st'"
  unfolding reachable_def by (metis rtranclp.rtrancl_into_rtrancl)

lemma reachable_init: "reachable (init_state stored its)"
  unfolding reachable_def by blast

definition demo_refreshing :: auth_state where
  "demo_refreshing = snd (refreshAccessToken (init_state (Some demo_session) []))"

lemma demo_refreshing_reachable: "reachable demo_refreshing"
  unfolding demo_refreshing_def by (rule reachable_step [OF reachable_init Refresh])

lemma demo_refreshing_runs: "st_runs demo_refreshing = [(0, demo_session)]"
  by (simp add: demo_refreshing_def init_state_def refreshAccessToken_def runRefresh_start_def
      currentSession_def getStoredSession_def demo_session_def)


section \<open>What a refresh leaves behind\<close>

lemma replace_session_fields [simp]:
  "st_session (replace_session s st) = s" "st_stored (replace_session s st) = s"
  "st_loading (replace_session s st) = st_loading st" "st_items (replace_session s st) = st_items st"
  by (simp_all add: replace_session_def setSession_def clearSession_def setStoredSession_def
      split: option.splits)

text \<open>When the refresh in flight settles, memory and storage hold the same session: the
  renewed one, or none if the reply was not a success. Its promise resolves accordingly, the
  shared reference is released, and the next call starts a new request if there is a refresh
  token to use.\<close>

theorem refresh_settles:
  assumes "reachable st" and "(p, s) \<in> set (st_runs st)"
  shows "let st' = runRefresh_finish now p s fr st; new = refreshed_session now s fr in
     st_session st' = new \<and> st_stored st' = new \<and> st_promises st' ! p = Some (new \<noteq> None)
     \<and> st_runs st' = [] \<and> st_ref st' = None \<and> \<not> st_refreshing st'
     \<and> (\<forall>s'. new = Some s' \<and> truthy (s_refreshToken s') \<longrightarrow>
          st_runs (snd (refreshAccessToken st')) = [(length (st_promises st), s')])"
proof -
  let ?st = "replace_session (refreshed_session now s fr) st"
  have inv: "auth_inv st" using assms(1) by (rule reachable_inv)
  from inv assms(2) have p: "p < length (st_promises st)" and runs: "st_runs st = [(p, s)]"
    by (auto simp: auth_inv_def split: option.splits)
  have b: "st_runs ?st = st_runs st" "st_promises ?st = st_promises st"
    using same_book_replace [of st] by (simp_all add: same_book_def)
  show ?thesis
    using p runs b
    by (auto simp: Let_def runRefresh_finish_def refresh_finally_def refreshAccessToken_def
        runRefresh_start_def currentSession_def)
qed

theorem refresh_settles_witness:
  "st_session (runRefresh_finish 0 0 demo_session
     (FetchOk \<lparr>rs_status = 200, rs_text = [],
        rs_json = Some (JObj [(''ok'', JBool True), (''access_token'', JStr ''new'')]), rs_headers = []\<rparr>) demo_refreshing) =
   Some (demo_session\<lparr>s_accessToken := JStr ''new'', s_expiresAt := JNum (Fin 3600000)\<rparr>)"
proof -
  let ?fr = "FetchOk \<lparr>rs_status = 200, rs_text = [],
        rs_json = Some (JObj [(''ok'', JBool True), (''access_token'', JStr ''new'')]), rs_headers = []\<rparr>"
  have "st_session (runRefresh_finish 0 0 demo_session ?fr demo_refreshing) =
      refreshed_session 0 demo_session ?fr"
    using refresh_settles [OF demo_refreshing_reachable, of 0 demo_session 0 ?fr]
    by (simp add: demo_refreshing_runs Let_def)
  then show ?thesis
    by (simp add: refreshed_session_def updated_session_def get_prop_simps nullish_def resp_ok_def
        js_or_def seconds_after_def demo_session_def Let_def)
qed

text \<open>\<open>ensureValidSession\<close> answers at once with yes exactly when there is a session that is
  not known to expire within a minute (and then changes nothing); at once with no exactly when
  there is no session, or it is about to expire and its refresh token is known to have expired
  (and then the session is gone from memory and storage); otherwise it awaits the shared refresh.\<close>

theorem ensure_valid_session_answers:
  "(fst (ensureValidSession now st) = Now True \<longleftrightarrow>
      (\<exists>s. currentSession st = Some s \<and> \<not> not_after (s_expiresAt s) (now + 60000)))
   \<and> (fst (ensureValidSession now st) = Now True \<longrightarrow> snd (ensureValidSession now st) = st)
   \<and> (fst (ensureValidSession now st) = Now False \<longrightarrow> currentSession (snd (ensureValidSession now st)) = None)
   \<and> (\<forall>p. fst (ensureValidSession now st) = Await p \<longrightarrow>
          ensureValidSession now st = map_prod Await id (refreshAccessToken st))"
  by (auto simp: ensureValidSession_def currentSession_def getStoredSession_def split: option.splits prod.splits)

theorem ensure_valid_session_answers_witness:
  "fst (ensureValidSession 0 (init_state (Some demo_session) [])) = Now True"
proof -
  have "currentSession (init_state (Some demo_session) []) = Some demo_session
      \<and> \<not> not_after (s_expiresAt demo_session) (0 + 60000)"
    by (simp add: currentSession_def init_state_def getStoredSession_def not_after_def demo_session_def)
  then show ?thesis using ensure_valid_session_answers [of 0 "init_state (Some demo_session) []"] by blast
qed

section \<open>Interleavings that go wrong\<close>

definition stuck :: "nat \<Rightarrow> auth_state \<Rightarrow> bool" where
  "stuck p st \<longleftrightarrow> st_ref st = Some p \<and> p < length (st_promises st) \<and> st_promises st ! p = Some False
     \<and> st_runs st = []"

lemma stuck_cong: "same_book st st' \<Longrightarrow> stuck p st' = stuck p st"
  by (simp add: same_book_def stuck_def)

lemma stuck_refresh: "stuck p st \<Longrightarrow> refreshAccessToken st = (p, st)"
  by (simp add: stuck_def refreshAccessToken_def)

lemma stuck_ensure: "stuck p st \<Longrightarrow> stuck p (snd (ensureValidSession now st))"
  using stuck_cong [OF same_book_replace]
  by (auto simp: ensureValidSession_def stuck_refresh split: option.splits)

lemma stuck_step: "auth_step st st' \<Longrightarrow> stuck p st \<Longrightarrow> stuck p st'"
proof (induction rule: auth_step.induct)
  case (Refresh st)
  then show ?case by (simp add: stuck_refresh)
next
  case (Ensure st now)
  then show ?case by (rule stuck_ensure)
next
  case (Tick st now)
  then show ?case using stuck_ensure by (auto simp: tick_def split: option.splits)
next
  case (Settle p' s st now fr)
  then show ?case by (simp add: stuck_def)
next
  case (OtherTab st x its)
  then show ?case by (simp add: stuck_def)
qed (simp_all only: stuck_cong [OF same_book_restore(1)]
    stuck_cong [OF same_book_restore(2)] stuck_cong [OF same_book_login(1)]
    stuck_cong [OF same_book_login(2)] stuck_cong [OF same_book_login(3)]
    stuck_cong [OF same_book_login(4)] stuck_cong [OF same_book_callback])

lemma stuck_steps: "auth_step\<^sup>*\<^sup>* st st' \<Longrightarrow> stuck p st \<Longrightarrow> stuck p st'"
  by (induction rule: rtranclp_induct) (auto intro: stuck_step)

definition has_refresh_token :: "auth_state \<Rightarrow> bool" where
  "has_refresh_token st \<longleftrightarrow> (case currentSession st of None \<Rightarrow> False | Some s \<Rightarrow> truthy (s_refreshToken s))"

lemma stuck_start:
  assumes "auth_inv st" and "st_ref st = None" and "\<not> has_refresh_token st"
  shows "stuck (fst (refreshAccessToken st)) (snd (refreshAccessToken st))"
  using assms
  by (auto simp: stuck_def refreshAccessToken_def runRefresh_start_def refresh_finally_def auth_inv_def
      has_refresh_token_def Let_def split: option.splits)

text \<open>One call of \<open>refreshAccessToken\<close> without a refresh token blocks every later one: the
  \<open>finally\<close> block clears the shared reference before the already resolved promise is stored
  there, so from then on, whatever happens (a new login with a refresh token included), each
  call returns that same promise of \<open>false\<close> and no refresh request is ever sent.\<close>

theorem refresh_without_token_blocks:
  assumes "reachable st" and "st_ref st = None" and "\<not> has_refresh_token st"
    and "auth_step\<^sup>*\<^sup>* (snd (refreshAccessToken st)) st'"
  shows "refreshAccessToken st' = (fst (refreshAccessToken st), st')
    \<and> st_promises st' ! fst (refreshAccessToken st) = Some False \<and> st_runs st' = []"
proof -
  have "stuck (fst (refreshAccessToken st)) st'"
    using stuck_steps [OF assms(4) stuck_start] reachable_inv assms by blast
  then show ?thesis by (simp add: stuck_refresh) (simp add: stuck_def)
qed

theorem refresh_without_token_blocks_witness:
  "refreshAccessToken ((snd (refreshAccessToken (init_state None [])))\<lparr>st_stored := Some demo_session, st_items := []\<rparr>) =
     (0, (snd (refreshAccessToken (init_state None [])))\<lparr>st_stored := Some demo_session, st_items := []\<rparr>)"
proof -
  have ref: "st_ref (init_state None []) = None" by (simp add: init_state_def)
  have no: "\<not> has_refresh_token (init_state None [])"
    by (simp add: has_refresh_token_def currentSession_def init_state_def getStoredSession_def)
  have p: "fst (refreshAccessToken (init_state None [])) = 0"
    by (simp add: refreshAccessToken_def init_state_def runRefresh_start_def Let_def split: option.splits)
  let ?st = "snd (refreshAccessToken (init_state None []))"
  have "auth_step\<^sup>*\<^sup>* ?st (?st\<lparr>st_stored := Some demo_session, st_items := []\<rparr>)"
    by (rule r_into_rtranclp) (rule OtherTab)
  then show ?thesis
    using refresh_without_token_blocks [OF reachable_init ref no, of "?st\<lparr>st_stored := Some demo_session, st_items := []\<rparr>"]
      p by simp
qed

text \<open>Logging out while a refresh is in flight does not end the session: when the refresh
  succeeds afterwards, the user is signed in again, in memory and in storage.\<close>

theorem refresh_in_flight_undoes_logout:
  assumes "reachable st" and "(p, s) \<in> set (st_runs st)" and "refreshed_session now s fr = Some s'"
  shows "auth_step\<^sup>*\<^sup>* st (runRefresh_finish now p s fr (logout_start st))
    \<and> \<not> isAuthenticated (logout_start st)
    \<and> isAuthenticated (runRefresh_finish now p s fr (logout_start st))
    \<and> getStoredSession (runRefresh_finish now p s fr (logout_start st)) = Some s'"
proof -
  have "st_runs (logout_start st) = st_runs st"
    using same_book_login(3) [of st] by (simp add: same_book_def)
  then have "auth_step (logout_start st) (runRefresh_finish now p s fr (logout_start st))"
    using assms(2) by (intro Settle) simp
  then have "auth_step\<^sup>*\<^sup>* st (runRefresh_finish now p s fr (logout_start st))"
    using Logout [of st] by (meson r_into_rtranclp rtranclp_trans)
  then show ?thesis
    using assms(3)
    by (simp add: isAuthenticated_def logout_start_def runRefresh_finish_def refresh_finally_def Let_def
        getStoredSession_def)
qed

theorem refresh_in_flight_undoes_logout_witness:
  "\<exists>now fr. isAuthenticated (runRefresh_finish now 0 demo_session fr (logout_start demo_refreshing))"
proof -
  let ?fr = "FetchOk \<lparr>rs_status = 200, rs_text = [],
        rs_json = Some (JObj [(''ok'', JBool True), (''access_token'', JStr ''new'')]), rs_headers = []\<rparr>"
  have "\<exists>s'. refreshed_session 0 demo_session ?fr = Some s'"
    by (simp add: refreshed_session_def nullish_def resp_ok_def get_prop_simps)
  then show ?thesis
    using refresh_in_flight_undoes_logout [OF demo_refreshing_reachable, of 0 demo_session 0 ?fr]
    by (auto simp: demo_refreshing_runs)
qed

text \<open>A fresh login is erased when the refresh started on page load, for the session that was
  stored before, settles without success after it.\<close>

theorem failed_restore_erases_login:
  assumes "callback_finish parse now state fr st = (None, st')" and "st_restore st = Some old"
    and "refreshed_session now' old fr' = None"
  shows "isAuthenticated st' \<and> auth_step st' (restoreSession_finish now' old fr' st')
    \<and> \<not> isAuthenticated (restoreSession_finish now' old fr' st')
    \<and> getStoredSession (restoreSession_finish now' old fr' st') = None"
proof -
  from assms(1) obtain s where st': "st' = refreshSession (fold removeItem oidc_keys
      (setItem (''oidc_exchanged_'' @ state) ''1'' (setStoredSession s (clearSession st))))"
    by (auto simp: callback_finish_def Let_def split: fetch_result.splits if_splits sum.splits)
  obtain its where "fold removeItem oidc_keys (setItem (''oidc_exchanged_'' @ state) ''1''
      (setStoredSession s (clearSession st))) =
      (setItem (''oidc_exchanged_'' @ state) ''1'' (setStoredSession s (clearSession st)))\<lparr>st_items := its\<rparr>"
    using fold_removeItem by blast
  then have "st_restore st' = Some old" "isAuthenticated st'"
    using assms(2) by (simp_all add: st' refreshSession_def setSession_def getStoredSession_def setItem_def
        setStoredSession_def clearSession_def isAuthenticated_def)
  then show ?thesis
    using assms(3) RestoreSettle [of st' old now' fr']
    by (simp add: restoreSession_finish_def isAuthenticated_def getStoredSession_def)
qed

theorem failed_restore_erases_login_witness:
  "\<exists>st'. isAuthenticated st' \<and>
     \<not> isAuthenticated (restoreSession_finish 0 demo_session (FetchFail ''offline'') st')"
proof -
  let ?st = "(init_state (Some demo_session) [])\<lparr>st_restore := Some demo_session\<rparr>"
  let ?fr = "FetchOk \<lparr>rs_status = 200, rs_text = [], rs_json = Some (JObj [(''access_token'', JStr ''new'')]), rs_headers = []\<rparr>"
  have "fst (callback_finish (\<lambda>_. None) 0 ''s'' ?fr ?st) = None"
    by (simp add: callback_finish_def resp_json_or_empty_def resp_ok_def get_prop_simps Let_def
        callback_session_def claims_of_def decodeJwtPayload_def extractRolesFromClaims_def
        deriveCanonicalRole_def)
  then show ?thesis
    using failed_restore_erases_login [of "\<lambda>_. None" 0 "''s''" ?fr ?st _ demo_session 0 "FetchFail ''offline''"]
    by (cases "callback_finish (\<lambda>_. None) 0 ''s'' ?fr ?st") (auto simp: refreshed_session_def)
qed

section \<open>Login and its callback\<close>

lemma or_string_item: "item k its = Some v \<Longrightarrow> or_string (map_of its k) d = v"
  by (auto simp: item_def or_string_def split: option.splits list.splits)

lemma item_set_item: "v \<noteq> [] \<Longrightarrow> item k (obj_set k v its) = Some v"
  by (cases v) (simp_all add: item_def)

text \<open>C8. The callback page exchanges a code only for the login this browser started: after
  \<open>login\<close> went to the authorization URL, a callback with a code leads to the token exchange
  exactly when its state is the one in that URL (unless it was exchanged before); the exchange
  then sends that code with the verifier whose challenge the URL carried and with the redirect
  URI the URL named.\<close>

theorem callback_only_for_own_login:
  assumes "login_keycloak fr origin (Some d) rv rs rn st = (Inr url, st1)"
    and "randomString rv \<noteq> []" and "authCode \<noteq> []"
    and "map_of (st_items st) (''oidc_exchanged_'' @ state) \<noteq> Some ''1''"
  shows "\<exists>p cid qs. generatePkce (Some d) rv = Inr p
    \<and> (\<exists>base. url = base @ ''/protocol/openid-connect/auth?'' @ qs)
    \<and> (let ps = params_parse qs in
         map_of ps ''state'' = Some (randomString rs) \<and> map_of ps ''code_challenge'' = Some (challenge p)
       \<and> map_of ps ''redirect_uri'' = Some (origin @ ''/auth/callback'') \<and> map_of ps ''client_id'' = Some cid)
    \<and> ((\<exists>r. callback_start False (Some authCode) (Some state) (st_items st1) = Exchange r) \<longleftrightarrow>
         state = randomString rs \<and> state \<noteq> [])
    \<and> (\<forall>r. callback_start False (Some authCode) (Some state) (st_items st1) = Exchange r \<longrightarrow>
         (\<exists>b. rq_body r = JsonBody b \<and> get_prop b ''code'' = JStr authCode
            \<and> get_prop b ''verifier'' = JStr (verifier p)
            \<and> get_prop b ''redirect_uri'' = JStr (origin @ ''/auth/callback'')))"
proof -
  obtain cfg where login: "login_redirect cfg origin (Some d) rv rs rn st = (Inr url, st1)"
    using assms(1) by (auto simp: login_keycloak_def split: fetch_result.splits if_splits option.splits)
  let ?iss = "to_str (js_or (get_prop cfg ''issuer'') (JStr default_issuer))"
  let ?cid = "to_str (js_or (get_prop cfg ''clientId'') (JStr ''router-ui''))"
  let ?uri = "origin @ ''/auth/callback''"
  obtain p where p: "generatePkce (Some d) rv = Inr p" and v: "verifier p = randomString rv"
    by (auto simp: generatePkce_def sha256_def Let_def)
  let ?ap = "\<lparr>ap_issuer = ?iss, ap_clientId = ?cid, ap_redirectUri = ?uri,
    ap_scope = Some ''openid profile email offline_access'', ap_state = randomString rs,
    ap_nonce = randomString rn, ap_codeChallenge = challenge p\<rparr>"
  have url: "url = strip_slash ?iss @ ''/protocol/openid-connect/auth?'' @ params_to_string (auth_query ?ap)"
    using login p by (auto simp: login_redirect_def Let_def buildAuthUrl_def)
  have parse: "params_parse (params_to_string (auth_query ?ap)) = auth_query ?ap"
    by (rule params_parse_to_string) (simp add: auth_query_def)
  have items: "st_items st1 = obj_set ''oidc_redirect_uri'' ?uri (obj_set ''oidc_client_id'' ?cid
      (obj_set ''oidc_issuer'' ?iss (obj_set ''oidc_nonce'' (randomString rn)
      (obj_set ''oidc_state'' (randomString rs) (obj_set ''oidc_pkce_verifier'' (verifier p) (st_items st))))))"
    using login p by (auto simp: login_redirect_def Let_def setItem_def)
  have its: "item ''oidc_state'' (st_items st1) = (if randomString rs = [] then None else Some (randomString rs))"
    "item ''oidc_pkce_verifier'' (st_items st1) = Some (verifier p)"
    "item ''oidc_redirect_uri'' (st_items st1) = Some ?uri"
    "map_of (st_items st1) (''oidc_exchanged_'' @ state) \<noteq> Some ''1''"
    using assms(2,4) v by (auto simp: items item_def split: list.splits)
  note sent = or_string_item [OF its(2)]
  obtain c cs where code: "authCode = c # cs" using assms(3) by (cases authCode) auto
  have start: "callback_start False (Some authCode) (Some state) (st_items st1) =
      (if state = [] then Show ''Invalid login response. Missing parameters.''
       else if state \<noteq> randomString rs then Show ''Invalid login state. Please try again.''
       else Exchange (callback_call authCode ?uri (st_items st1)))"
    using its by (cases state) (auto simp: callback_start_def code)
  have body: "rq_body (callback_call authCode ?uri (st_items st1)) = JsonBody b \<Longrightarrow>
      get_prop b ''code'' = JStr authCode \<and> get_prop b ''verifier'' = JStr (verifier p)
      \<and> get_prop b ''redirect_uri'' = JStr ?uri" for b
    by (auto simp: callback_call_def get_prop_simps sent)
  show ?thesis
    using url parse p start body
    by (intro exI [of _ p] exI [of _ ?cid] exI [of _ "params_to_string (auth_query ?ap)"])
       (auto simp: Let_def auth_query_def callback_call_def split: if_splits)
qed

definition demo_auth_config :: fetch_result where
  "demo_auth_config = FetchOk \<lparr>rs_status = 200, rs_text = [], rs_json = Some (JObj []), rs_headers = []\<rparr>"

theorem callback_only_for_own_login_witness:
  "\<exists>url st1 r. login_keycloak demo_auth_config ''http://ui'' (Some (\<lambda>_. [])) [1] [2] [3] (init_state None []) = (Inr url, st1)
     \<and> callback_start False (Some ''c'') (Some (randomString [2])) (st_items st1) = Exchange r"
proof -
  have "\<exists>url st1. login_keycloak demo_auth_config ''http://ui'' (Some (\<lambda>_. [])) [1] [2] [3] (init_state None []) = (Inr url, st1)"
    by (simp add: login_keycloak_def login_redirect_def demo_auth_config_def resp_ok_def generatePkce_def
        sha256_def Let_def)
  then obtain url st1 where l:
    "login_keycloak demo_auth_config ''http://ui'' (Some (\<lambda>_. [])) [1] [2] [3] (init_state None []) = (Inr url, st1)"
    by blast
  have n: "randomString [1] \<noteq> []" "randomString [2] \<noteq> []"
    by (simp_all add: randomString_def base64UrlEncode_sextets bytes_ok_def)
  have "map_of (st_items (init_state None [])) (''oidc_exchanged_'' @ randomString [2]) \<noteq> Some ''1''"
    by (simp add: init_state_def)
  from callback_only_for_own_login [OF l n(1) _ this, of "''c''"] n(2) l show ?thesis by auto
qed

text \<open>The nonce that \<open>login\<close> stores and sends is never compared with anything: the callback
  page takes the same decision and builds the same session whatever nonce is stored (and
  whatever nonce the id token has).\<close>

theorem callback_ignores_nonce:
  "callback_start b authCode state (obj_set ''oidc_nonce'' n its) = callback_start b authCode state its
   \<and> fst (callback_finish parse now s fr (setItem ''oidc_nonce'' n st)) = fst (callback_finish parse now s fr st)
   \<and> st_session (snd (callback_finish parse now s fr (setItem ''oidc_nonce'' n st))) =
       st_session (snd (callback_finish parse now s fr st))"
proof -
  have items: "item k (obj_set ''oidc_nonce'' n its) = item k its" if "k \<noteq> ''oidc_nonce''" for k
    using that by (simp add: item_def)
  have call: "callback_call c u (obj_set ''oidc_nonce'' n its) = callback_call c u its" for c u
    by (simp add: callback_call_def)
  have sess: "st_session (refreshSession (fold removeItem ks (setItem k v (setStoredSession x (clearSession u))))) = Some x"
    for ks k v x u
  proof -
    obtain i where "fold removeItem ks (setItem k v (setStoredSession x (clearSession u))) =
        (setItem k v (setStoredSession x (clearSession u)))\<lparr>st_items := i\<rparr>"
      using fold_removeItem by blast
    then show ?thesis by (simp add: refreshSession_def setSession_def getStoredSession_def setItem_def setStoredSession_def)
  qed
  have "callback_start b authCode state (obj_set ''oidc_nonce'' n its) = callback_start b authCode state its"
    unfolding callback_start_def call by (auto simp: items split: option.splits list.splits)
  moreover have "st_session (setItem ''oidc_nonce'' n st) = st_session st" by (simp add: setItem_def)
  ultimately show ?thesis
    by (auto simp: callback_finish_def Let_def sess split: fetch_result.splits sum.splits)
qed

end
