(* ===== verification/Toast.thy ===== *)
theory Toast
  imports JS_Text
begin

text \<open>
  hooks/use-toast.ts: the toast reducer with its removal timers. The state joins the module
  variables \<open>memoryState\<close>, \<open>count\<close> and \<open>toastTimeouts\<close>; listeners only redraw and are not
  modelled. A timer that is due is a step of its own.
\<close>

section \<open>State and actions\<close>

definition TOAST_LIMIT :: nat where
  "TOAST_LIMIT = 1"

definition MAX_SAFE_INTEGER :: nat where
  "MAX_SAFE_INTEGER = 9007199254740991"

record toast =
  t_id :: string
  t_open :: bool
  t_props :: props

text \<open>A partial toast: the members that are present.\<close>

record toast_update =
  u_id :: "string option"
  u_open :: "bool option"
  u_props :: props

datatype action =
    ADD_TOAST toast
  | UPDATE_TOAST toast_update
  | DISMISS_TOAST "string option"
  | REMOVE_TOAST "string option"

record toast_state =
  ts_toasts :: "toast list"
  ts_timeouts :: "string list"
  ts_count :: nat

definition genId :: "toast_state \<Rightarrow> string \<times> toast_state" where
  "genId st =
     (let c = (ts_count st + 1) mod MAX_SAFE_INTEGER in (show_nat c, st\<lparr>ts_count := c\<rparr>))"

definition addToRemoveQueue :: "string \<Rightarrow> toast_state \<Rightarrow> toast_state" where
  "addToRemoveQueue i st =
     (if i \<in> set (ts_timeouts st) then st else st\<lparr>ts_timeouts := ts_timeouts st @ [i]\<rparr>)"

text \<open>\<open>{ ...t, ...action.toast }\<close>\<close>

definition merge_toast :: "toast_update \<Rightarrow> toast \<Rightarrow> toast" where
  "merge_toast u t =
     \<lparr>t_id = (case u_id u of None \<Rightarrow> t_id t | Some i \<Rightarrow> i),
      t_open = (case u_open u of None \<Rightarrow> t_open t | Some b \<Rightarrow> b),
      t_props = spread (t_props t) (u_props u)\<rparr>"

definition toast_schedule :: "string option \<Rightarrow> toast_state \<Rightarrow> toast_state" where
  "toast_schedule i st =
     (case i of
        Some (c # s) \<Rightarrow> addToRemoveQueue (c # s) st
      | _ \<Rightarrow> fold addToRemoveQueue (map t_id (ts_toasts st)) st)"

fun toast_reducer :: "toast_state \<Rightarrow> action \<Rightarrow> toast_state" where
  "toast_reducer st (ADD_TOAST t) = st\<lparr>ts_toasts := take TOAST_LIMIT (t # ts_toasts st)\<rparr>"
| "toast_reducer st (UPDATE_TOAST u) =
     st\<lparr>ts_toasts := map (\<lambda>t. if Some (t_id t) = u_id u then merge_toast u t else t) (ts_toasts st)\<rparr>"
| "toast_reducer st (DISMISS_TOAST i) =
     (let st1 = toast_schedule i st in
      st1\<lparr>ts_toasts := map (\<lambda>t. if Some (t_id t) = i \<or> i = None then t\<lparr>t_open := False\<rparr> else t) (ts_toasts st1)\<rparr>)"
| "toast_reducer st (REMOVE_TOAST None) = st\<lparr>ts_toasts := []\<rparr>"
| "toast_reducer st (REMOVE_TOAST (Some i)) = st\<lparr>ts_toasts := filter (\<lambda>t. t_id t \<noteq> i) (ts_toasts st)\<rparr>"

text \<open>\<open>toast(props)\<close>, its \<open>update\<close> and \<open>dismiss\<close>, and a timer that is due.\<close>

definition show_toast :: "props \<Rightarrow> toast_state \<Rightarrow> string \<times> toast_state" where
  "show_toast ps st =
     (let (i, st1) = genId st in
      (i, toast_reducer st1 (ADD_TOAST \<lparr>t_id = i, t_open = True, t_props = ps\<rparr>)))"

definition update_toast :: "string \<Rightarrow> bool option \<Rightarrow> props \<Rightarrow> toast_state \<Rightarrow> toast_state" where
  "update_toast i b ps st = toast_reducer st (UPDATE_TOAST \<lparr>u_id = Some i, u_open = b, u_props = ps\<rparr>)"

definition dismiss_toast :: "string option \<Rightarrow> toast_state \<Rightarrow> toast_state" where
  "dismiss_toast i st = toast_reducer st (DISMISS_TOAST i)"

definition fire_timeout :: "string \<Rightarrow> toast_state \<Rightarrow> toast_state" where
  "fire_timeout i st =
     toast_reducer (st\<lparr>ts_timeouts := filter (\<lambda>j. j \<noteq> i) (ts_timeouts st)\<rparr>) (REMOVE_TOAST (Some i))"

inductive toast_step :: "toast_state \<Rightarrow> toast_state \<Rightarrow> bool" where
  ShowToast: "toast_step st (snd (show_toast ps st))"
| UpdateToast: "toast_step st (update_toast i b ps st)"
| DismissToast: "toast_step st (dismiss_toast i st)"
| FireTimeout: "i \<in> set (ts_timeouts st) \<Longrightarrow> toast_step st (fire_timeout i st)"

definition toast_init :: toast_state where
  "toast_init = \<lparr>ts_toasts = [], ts_timeouts = [], ts_count = 0\<rparr>"

section \<open>At most one toast, and it is the latest\<close>

definition toast_inv :: "toast_state \<Rightarrow> bool" where
  "toast_inv st \<longleftrightarrow> distinct (ts_timeouts st) \<and> ts_count st < MAX_SAFE_INTEGER \<and>
     (ts_toasts st = [] \<or> (\<exists>t. ts_toasts st = [t] \<and> t_id t = show_nat (ts_count st)))"

lemma addToRemoveQueue_fields:
  "ts_toasts (addToRemoveQueue i st) = ts_toasts st" "ts_count (addToRemoveQueue i st) = ts_count st"
  "distinct (ts_timeouts st) \<Longrightarrow> distinct (ts_timeouts (addToRemoveQueue i st))"
  "i \<in> set (ts_timeouts (addToRemoveQueue i st))"
  "set (ts_timeouts st) \<subseteq> set (ts_timeouts (addToRemoveQueue i st))"
  by (auto simp: addToRemoveQueue_def)

lemma fold_queue_fields:
  "ts_toasts (fold addToRemoveQueue is st) = ts_toasts st"
  "ts_count (fold addToRemoveQueue is st) = ts_count st"
  "distinct (ts_timeouts st) \<Longrightarrow> distinct (ts_timeouts (fold addToRemoveQueue is st))"
  by (induction "is" arbitrary: st) (simp_all add: addToRemoveQueue_fields)

lemma schedule_fields:
  "ts_toasts (toast_schedule i st) = ts_toasts st" "ts_count (toast_schedule i st) = ts_count st"
  "distinct (ts_timeouts st) \<Longrightarrow> distinct (ts_timeouts (toast_schedule i st))"
  by (auto simp: toast_schedule_def addToRemoveQueue_fields fold_queue_fields split: option.splits list.splits)

lemma toast_inv_step: "toast_step st st' \<Longrightarrow> toast_inv st \<Longrightarrow> toast_inv st'"
proof (induction rule: toast_step.induct)
  case (ShowToast st ps)
  then show ?case
    by (simp add: toast_inv_def show_toast_def genId_def TOAST_LIMIT_def Let_def MAX_SAFE_INTEGER_def)
next
  case (UpdateToast st i b ps)
  then show ?case by (auto simp: toast_inv_def update_toast_def merge_toast_def)
next
  case (DismissToast st i)
  then show ?case by (auto simp: toast_inv_def dismiss_toast_def Let_def schedule_fields)
next
  case (FireTimeout i st)
  then show ?case
    by (cases "show_nat (ts_count st) = i") (auto simp: toast_inv_def fire_timeout_def)
qed

lemma toast_inv_steps: "toast_step\<^sup>*\<^sup>* toast_init st \<Longrightarrow> toast_inv st"
proof (induction rule: rtranclp_induct)
  case base
  show ?case by (simp add: toast_inv_def toast_init_def MAX_SAFE_INTEGER_def)
next
  case (step y z)
  then show ?case by (blast intro: toast_inv_step)
qed

text \<open>Whatever sequence of shows, updates, dismissals and expiring timers, at most one toast is
  displayed, and it is the one shown last. Dismissing it closes it and schedules its removal, and
  when that timer fires it is gone; the timer of an earlier toast never removes it.\<close>

theorem toast_latest_only:
  assumes "toast_step\<^sup>*\<^sup>* toast_init st"
  shows "length (ts_toasts st) \<le> TOAST_LIMIT
    \<and> (\<forall>t \<in> set (ts_toasts st). t_id t = show_nat (ts_count st))
    \<and> (\<forall>i. i \<noteq> show_nat (ts_count st) \<longrightarrow> ts_toasts (fire_timeout i st) = ts_toasts st)
    \<and> (\<forall>t \<in> set (ts_toasts st). t_id t \<in> set (ts_timeouts (dismiss_toast (Some (t_id t)) st))
         \<and> ts_toasts (dismiss_toast (Some (t_id t)) st) = [t\<lparr>t_open := False\<rparr>]
         \<and> ts_toasts (fire_timeout (t_id t) (dismiss_toast (Some (t_id t)) st)) = [])"
proof -
  have inv: "toast_inv st" using assms by (rule toast_inv_steps)
  obtain c s where cs: "show_nat (ts_count st) = c # s" by (cases "show_nat (ts_count st)") auto
  show ?thesis
  proof (cases "ts_toasts st")
    case Nil
    then show ?thesis by (simp add: fire_timeout_def)
  next
    case (Cons t ts)
    then have t: "ts_toasts st = [t]" "t_id t = c # s" using inv cs by (auto simp: toast_inv_def)
    then show ?thesis
      by (auto simp: TOAST_LIMIT_def cs fire_timeout_def dismiss_toast_def Let_def toast_schedule_def
          addToRemoveQueue_fields)
  qed
qed

theorem toast_latest_only_witness:
  "length (ts_toasts (snd (show_toast [] (snd (show_toast [] toast_init))))) \<le> TOAST_LIMIT"
proof -
  have "toast_step\<^sup>*\<^sup>* toast_init (snd (show_toast [] (snd (show_toast [] toast_init))))"
    by (meson ShowToast r_into_rtranclp rtranclp_trans)
  from toast_latest_only [OF this] show ?thesis by blast
qed

end
