(* ===== verification/Budget_Routes.thy ===== *)
theory Budget_Routes
  imports Routes_Base
begin

text \<open>
  app/api/budgets/**: the budget list and single budgets (behind requireAdminBearer), the patch of
  a tenant's budget (unguarded), and the overview of all tenants, which joins each tenant's config
  with its budget status and classifies it.
\<close>

section \<open>Budgets\<close>

definition budgets_GET_action :: "env \<Rightarrow> server_req \<Rightarrow> string \<Rightarrow> server_resp io" where
  "budgets_GET_action e q t =
     io_bind (gatewayAdminFetch e ''/admin/budgets'' (gw_get (Some t))) (\<lambda>result.
     io_bind (data_or_empty result) (\<lambda>d. respond (JObj [(''data'', d)])))"

definition budgets_GET :: "env \<Rightarrow> server_req \<Rightarrow> server_resp io" where
  "budgets_GET e q = handle ''Failed to fetch budgets''
     (with_auth (requireAdminBearer q) (budgets_GET_action e q))"

definition budget_complete :: "jsval \<Rightarrow> bool" where
  "budget_complete body \<longleftrightarrow>
     truthy (get_prop body ''tenant_id'') \<and> truthy (get_prop body ''name'') \<and>
     truthy (get_prop body ''limit_usd'') \<and> truthy (get_prop body ''window_hours'') \<and>
     get_prop body ''alert_threshold'' \<noteq> JUndef"

definition budgets_POST_action :: "env \<Rightarrow> server_req \<Rightarrow> string \<Rightarrow> server_resp io" where
  "budgets_POST_action e q t =
     io_bind (request_json q) (\<lambda>body.
     io_bind (read_prop body ''tenant_id'') (\<lambda>_.
     if \<not> budget_complete body
     then bad_request ''Missing required fields: tenant_id, name, limit_usd, window_hours, alert_threshold''
     else io_bind (gatewayAdminFetch e ''/admin/budgets'' (gw_send ''POST'' (JsonBody body) (Some t)))
            (\<lambda>result. io_return (json_response result 201))))"

definition budgets_POST :: "env \<Rightarrow> server_req \<Rightarrow> server_resp io" where
  "budgets_POST e q = handle ''Failed to create budget''
     (with_auth (requireAdminBearer q) (budgets_POST_action e q))"

definition budgets_overview_GET_action :: "env \<Rightarrow> server_req \<Rightarrow> string \<Rightarrow> server_resp io" where
  "budgets_overview_GET_action e q t =
     io_bind (gatewayAdminFetch e ''/admin/budgets/overview'' (gw_get (Some t))) respond"

definition budgets_overview_GET :: "env \<Rightarrow> server_req \<Rightarrow> server_resp io" where
  "budgets_overview_GET e q = handle ''Failed to fetch budget overview''
     (with_auth (requireAdminBearer q) (budgets_overview_GET_action e q))"

definition budget_GET_action :: "string \<Rightarrow> env \<Rightarrow> server_req \<Rightarrow> string \<Rightarrow> server_resp io" where
  "budget_GET_action budgetId e q t =
     io_bind (gatewayAdminFetch e (''/admin/budgets/'' @ budgetId) (gw_get (Some t))) respond"

definition budget_GET :: "string \<Rightarrow> env \<Rightarrow> server_req \<Rightarrow> server_resp io" where
  "budget_GET budgetId e q = handle ''Failed to fetch budget''
     (with_auth (requireAdminBearer q) (budget_GET_action budgetId e q))"

definition budget_PATCH_action :: "string \<Rightarrow> env \<Rightarrow> server_req \<Rightarrow> string \<Rightarrow> server_resp io" where
  "budget_PATCH_action budgetId e q t =
     io_bind (request_json q) (\<lambda>body.
     io_bind (gatewayAdminFetch e (''/admin/budgets/'' @ budgetId)
       (gw_send ''PATCH'' (JsonBody body) (Some t))) respond)"

definition budget_PATCH :: "string \<Rightarrow> env \<Rightarrow> server_req \<Rightarrow> server_resp io" where
  "budget_PATCH budgetId e q = handle ''Failed to update budget''
     (with_auth (requireAdminBearer q) (budget_PATCH_action budgetId e q))"

definition budget_DELETE_action :: "string \<Rightarrow> env \<Rightarrow> server_req \<Rightarrow> string \<Rightarrow> server_resp io" where
  "budget_DELETE_action budgetId e q t =
     io_bind (gatewayAdminFetch e (''/admin/budgets/'' @ budgetId) (gw_send ''DELETE'' NoBody (Some t)))
       (\<lambda>_. no_content)"

definition budget_DELETE :: "string \<Rightarrow> env \<Rightarrow> server_req \<Rightarrow> server_resp io" where
  "budget_DELETE budgetId e q = handle ''Failed to delete budget''
     (with_auth (requireAdminBearer q) (budget_DELETE_action budgetId e q))"

section \<open>The patch of a tenant's budget\<close>

text \<open>\<open>if (v !== undefined) out.k = v\<close> for one field of the request body.\<close>

definition copy_defined :: "jsval \<Rightarrow> string \<Rightarrow> string \<Rightarrow> props \<Rightarrow> props" where
  "copy_defined body k k' out = set_if (get_prop body k \<noteq> JUndef) k' (get_prop body k) out"

definition budgets_part :: "jsval \<Rightarrow> props" where
  "budgets_part body = copy_defined body ''timezone'' ''timezone''
     (copy_defined body ''monthly_usd'' ''monthly_usd'' [])"

definition thresholds_part :: "jsval \<Rightarrow> props" where
  "thresholds_part body = copy_defined body ''hard_pct'' ''hard_pct''
     (copy_defined body ''warn_pct'' ''warn_pct'' [])"

definition enforcement_part :: "jsval \<Rightarrow> props" where
  "enforcement_part body =
     copy_defined body ''override_reason'' ''override_reason''
    (copy_defined body ''override_limit_usd'' ''override_limit_usd''
    (copy_defined body ''enforcement_pause_until'' ''pause_until''
    (copy_defined body ''enforcement_paused'' ''paused''
    (set_if (get_prop body ''warn_pct'' \<noteq> JUndef \<or> get_prop body ''hard_pct'' \<noteq> JUndef)
       ''thresholds'' (JObj (thresholds_part body))
    (copy_defined body ''enforcement_mode'' ''mode''
    (copy_defined body ''enforcement_enabled'' ''enabled'' []))))))"

definition enforcement_keys :: "string list" where
  "enforcement_keys =
     [''enforcement_enabled'', ''enforcement_mode'', ''warn_pct'', ''hard_pct'', ''enforcement_paused'',
      ''enforcement_pause_until'', ''override_limit_usd'', ''override_reason'']"

definition budget_patch :: "jsval \<Rightarrow> props" where
  "budget_patch body =
     set_if (list_ex (\<lambda>k. get_prop body k \<noteq> JUndef) enforcement_keys)
       ''budget_enforcement'' (JObj (enforcement_part body))
    (set_if (get_prop body ''monthly_usd'' \<noteq> JUndef \<or> get_prop body ''timezone'' \<noteq> JUndef)
       ''budgets'' (JObj (budgets_part body)) [])"

definition budgets_tenant_PATCH_body :: "string \<Rightarrow> env \<Rightarrow> server_req \<Rightarrow> server_resp io" where
  "budgets_tenant_PATCH_body tenantId e q =
     io_bind (request_json q) (\<lambda>body.
     io_bind (read_prop body ''version'') (\<lambda>version.
     if version = JUndef then bad_request ''Missing required field: version''
     else io_bind (patchTenantConfigGeneric e tenantId (JObj (budget_patch body)) version
            (getAdminAuthToken q)) respond))"

definition budgets_tenant_PATCH :: "string \<Rightarrow> env \<Rightarrow> server_req \<Rightarrow> server_resp io" where
  "budgets_tenant_PATCH tenantId e q = handle ''Failed to update tenant budget''
     (budgets_tenant_PATCH_body tenantId e q)"

section \<open>The budgets of all tenants\<close>

datatype budget_status = Healthy | Warning | Exceeded | NotConfigured

fun budget_status_name :: "budget_status \<Rightarrow> string" where
  "budget_status_name Healthy = ''healthy''"
| "budget_status_name Warning = ''warning''"
| "budget_status_name Exceeded = ''exceeded''"
| "budget_status_name NotConfigured = ''not_configured''"

definition classify_budget :: "jsval \<Rightarrow> jsval \<Rightarrow> jsval \<Rightarrow> jsval \<Rightarrow> budget_status" where
  "classify_budget monthlyUsd pctEffective warnPct hardPct =
     (if monthlyUsd \<noteq> JNull \<and> js_less (jint 0) monthlyUsd then
        if js_ge pctEffective hardPct then Exceeded
        else if js_ge pctEffective warnPct then Warning
        else Healthy
      else NotConfigured)"

definition effective_spend_usd :: "jsval \<Rightarrow> jsval" where
  "effective_spend_usd status =
     coalesce (get_prop status ''effective_spend_usd'')
       (js_add (coalesce (get_prop status ''spend_usd'') (jint 0))
               (coalesce (get_prop status ''reserved_usd'') (jint 0)))"

definition monthly_usd :: "jsval \<Rightarrow> jsval" where
  "monthly_usd config = coalesce (get_prop (get_prop (get_prop config ''config'') ''budgets'') ''monthly_usd'') JNull"

definition budget_usd :: "jsval \<Rightarrow> jsval \<Rightarrow> jsval" where
  "budget_usd config status =
     coalesce (coalesce (get_prop status ''budget_usd'') (monthly_usd config)) (jint 0)"

definition pct_effective :: "jsval \<Rightarrow> jsval \<Rightarrow> jsval" where
  "pct_effective config status =
     coalesce (get_prop status ''pct_effective'')
       (if js_less (jint 0) (budget_usd config status)
        then js_div (effective_spend_usd status) (budget_usd config status) else jint 0)"

definition threshold_pct :: "string \<Rightarrow> rat \<Rightarrow> jsval \<Rightarrow> jsval \<Rightarrow> jsval" where
  "threshold_pct k d config status =
     coalesce (coalesce
       (get_prop (get_prop (get_prop (get_prop config ''config'') ''budget_enforcement'') ''thresholds'') k)
       (get_prop status k)) (JNum (Fin d))"

definition buildBudgetRow :: "jsval \<Rightarrow> jsval \<Rightarrow> jsval \<Rightarrow> exn + jsval" where
  "buildBudgetRow tenant config status =
     (if nullish config \<or> nullish status then Inl type_error
      else
        let budgetConfig = get_prop (get_prop config ''config'') ''budgets'';
            enforcement = get_prop (get_prop config ''config'') ''budget_enforcement'';
            warnPct = threshold_pct ''warn_pct'' (8 / 10) config status;
            hardPct = threshold_pct ''hard_pct'' 1 config status
        in Inr (JObj
          [(''tenant_id'', get_prop tenant ''tenant_id''),
           (''monthly_usd'', monthly_usd config),
           (''timezone'', coalesce (get_prop budgetConfig ''timezone'') JNull),
           (''enforcement_enabled'', coalesce (coalesce (get_prop enforcement ''enabled'')
              (get_prop status ''enforcement_enabled'')) (JBool False)),
           (''enforcement_mode'', coalesce (coalesce (get_prop enforcement ''mode'')
              (get_prop status ''enforcement_mode'')) JNull),
           (''warn_pct'', warnPct), (''hard_pct'', hardPct),
           (''current_spend_usd'', coalesce (get_prop status ''spend_usd'') (jint 0)),
           (''reserved_usd'', coalesce (get_prop status ''reserved_usd'') (jint 0)),
           (''effective_spend_usd'', effective_spend_usd status),
           (''remaining_usd'', js_sub (budget_usd config status) (effective_spend_usd status)),
           (''pct'', coalesce (get_prop status ''pct'') (jint 0)),
           (''pct_effective'', pct_effective config status),
           (''status'', JStr (budget_status_name
              (classify_budget (monthly_usd config) (pct_effective config status) warnPct hardPct))),
           (''version'', get_prop config ''version''),
           (''enforcement_paused'', coalesce (get_prop enforcement ''paused'') (JBool False)),
           (''enforcement_pause_until'', coalesce (get_prop enforcement ''pause_until'') JNull),
           (''override_limit_usd'', coalesce (get_prop enforcement ''override_limit_usd'') JNull),
           (''override_reason'', coalesce (get_prop enforcement ''override_reason'') JNull)]))"

text \<open>One tenant: its row, or nothing when its config or status cannot be read. The log line of
  the catch block reads \<open>tenant.tenant_id\<close> again, and raises on a nullish tenant.\<close>

definition tenant_budget_row :: "env \<Rightarrow> string \<Rightarrow> jsval \<Rightarrow> jsval option io" where
  "tenant_budget_row e t tenant =
     io_catch
       (io_bind (read_prop tenant ''tenant_id'') (\<lambda>tid.
        io_bind (io_both (getTenantConfig e (to_str tid) (Some t)) (getTenantBudgetStatus e (to_str tid) (Some t)))
          (\<lambda>(config, status).
        io_bind (io_of_sum (buildBudgetRow tenant config status)) (\<lambda>row. io_return (Some row)))))
       (\<lambda>_. io_bind (read_prop tenant ''tenant_id'') (\<lambda>_. io_return None))"

definition budgets_tenants_GET_action :: "env \<Rightarrow> server_req \<Rightarrow> string \<Rightarrow> server_resp io" where
  "budgets_tenants_GET_action e q t =
     io_bind (gatewayAdminFetch e ''/admin/tenants'' (gw_get (Some t))) (\<lambda>resp.
     io_bind (data_or_empty resp) (\<lambda>d.
     io_bind (as_array d) (\<lambda>tenants.
     io_bind (io_all (map (tenant_budget_row e t) tenants)) (\<lambda>rows.
     respond (JObj [(''data'', JArr (List.map_filter id rows))])))))"

definition budgets_tenants_GET :: "env \<Rightarrow> server_req \<Rightarrow> server_resp io" where
  "budgets_tenants_GET e q =
     with_auth (requireAdminBearer q) (\<lambda>t. handle ''Failed to fetch tenant budgets''
       (budgets_tenants_GET_action e q t))"

section \<open>The routes meet their interfaces\<close>

lemma issues_budget_row [issues_rules]: "issues (authorised e (Some t)) (tenant_budget_row e t tenant)"
  unfolding tenant_budget_row_def by (intro issues_rules) (auto intro!: issues_rules split: prod.splits)

interpretation budgets_GET: guarded_route budgets_GET "route_error ''Failed to fetch budgets''"
  requireAdminBearer budgets_GET_action
  by unfold_locales (auto simp: budgets_GET_def budgets_GET_action_def
      dest: admin_guard_facts intro!: issues_rules intro: admin_guard_facts)

interpretation budgets_POST: guarded_route budgets_POST "route_error ''Failed to create budget''"
  requireAdminBearer budgets_POST_action
  by unfold_locales (auto simp: budgets_POST_def budgets_POST_action_def
      dest: admin_guard_facts intro!: issues_rules intro: admin_guard_facts)

interpretation budgets_overview_GET: guarded_route budgets_overview_GET
  "route_error ''Failed to fetch budget overview''" requireAdminBearer budgets_overview_GET_action
  by unfold_locales (auto simp: budgets_overview_GET_def budgets_overview_GET_action_def
      dest: admin_guard_facts intro!: issues_rules intro: admin_guard_facts)

interpretation budget_GET: guarded_route "budget_GET budgetId" "route_error ''Failed to fetch budget''"
  requireAdminBearer "budget_GET_action budgetId" for budgetId
  by unfold_locales (auto simp: budget_GET_def budget_GET_action_def
      dest: admin_guard_facts intro!: issues_rules intro: admin_guard_facts)

interpretation budget_PATCH: guarded_route "budget_PATCH budgetId" "route_error ''Failed to update budget''"
  requireAdminBearer "budget_PATCH_action budgetId" for budgetId
  by unfold_locales (auto simp: budget_PATCH_def budget_PATCH_action_def
      dest: admin_guard_facts intro!: issues_rules intro: admin_guard_facts)

interpretation budget_DELETE: guarded_route "budget_DELETE budgetId" "route_error ''Failed to delete budget''"
  requireAdminBearer "budget_DELETE_action budgetId" for budgetId
  by unfold_locales (auto simp: budget_DELETE_def budget_DELETE_action_def
      dest: admin_guard_facts intro!: issues_rules intro: admin_guard_facts)

interpretation budgets_tenants_GET: guarded_route budgets_tenants_GET
  "route_error ''Failed to fetch tenant budgets''" requireAdminBearer budgets_tenants_GET_action
  by unfold_locales (auto simp: budgets_tenants_GET_def with_auth_handle budgets_tenants_GET_action_def [abs_def]
      dest: admin_guard_facts intro!: issues_rules intro: admin_guard_facts)

interpretation budgets_tenant_PATCH: forwarding_route "budgets_tenant_PATCH tenantId"
  "route_error ''Failed to update tenant budget''" "budgets_tenant_PATCH_body tenantId" for tenantId
  by unfold_locales (auto simp: budgets_tenant_PATCH_def budgets_tenant_PATCH_body_def intro!: issues_rules)

end
