(* ===== verification/Budget_Props.thy ===== *)
theory Budget_Props
  imports Budget_Routes
begin

text \<open>
  Properties of the budget routes: which tenants appear in the overview and with which status, and
  what a patch of a tenant's budget sends to the gateway.
\<close>

section \<open>The overview\<close>

text \<open>What the gateway answers about one tenant, and the tenants that are shown.\<close>

definition tenant_config_of :: "env \<Rightarrow> string \<Rightarrow> server \<Rightarrow> jsval \<Rightarrow> exn + jsval" where
  "tenant_config_of e t g tenant = against (getTenantConfig e (to_str (get_prop tenant ''tenant_id'')) (Some t)) g"

definition budget_status_of :: "env \<Rightarrow> string \<Rightarrow> server \<Rightarrow> jsval \<Rightarrow> exn + jsval" where
  "budget_status_of e t g tenant = against (getTenantBudgetStatus e (to_str (get_prop tenant ''tenant_id'')) (Some t)) g"

definition readable :: "env \<Rightarrow> string \<Rightarrow> server \<Rightarrow> jsval \<Rightarrow> bool" where
  "readable e t g tenant \<longleftrightarrow>
     (\<exists>c s. tenant_config_of e t g tenant = Inr c \<and> budget_status_of e t g tenant = Inr s
        \<and> \<not> nullish c \<and> \<not> nullish s)"

lemma stateless_tenant_calls [stateless_rules]:
  "stateless (getTenantConfig e i tok)" "stateless (getTenantBudgetStatus e i tok)"
  by (simp_all add: getTenantConfig_def getTenantBudgetStatus_def stateless_rules)

lemma stateless_budget_row [stateless_rules]: "stateless (tenant_budget_row e t tenant)"
  unfolding tenant_budget_row_def
  by (intro stateless_rules) (auto intro!: stateless_rules split: prod.splits)

lemma against_prod:
  "(\<And>x y. stateless (f x y)) \<Longrightarrow> against (case p of (x, y) \<Rightarrow> f x y) g = (case p of (x, y) \<Rightarrow> against (f x y) g)"
  by (cases p) simp

lemma against_budget_row:
  assumes "\<not> nullish tenant"
  shows "against (tenant_budget_row e t tenant) g =
    Inr (case (tenant_config_of e t g tenant, budget_status_of e t g tenant) of
      (Inr c, Inr s) \<Rightarrow> (case buildBudgetRow tenant c s of Inr r \<Rightarrow> Some r | Inl _ \<Rightarrow> None)
    | _ \<Rightarrow> None)"
  using assms unfolding tenant_budget_row_def tenant_config_of_def budget_status_of_def
  by (subst against_catch, intro stateless_rules)+
     (auto simp: against_simps stateless_rules case_prod_unfold split: sum.splits)

lemma row_tenant_id:
  "buildBudgetRow tenant c s = Inr r \<Longrightarrow> get_prop r ''tenant_id'' = get_prop tenant ''tenant_id''"
  by (auto simp: buildBudgetRow_def Let_def get_prop_simps split: if_splits)

lemma row_readable:
  "(case (tenant_config_of e t g tenant, budget_status_of e t g tenant) of
      (Inr c, Inr s) \<Rightarrow> (case buildBudgetRow tenant c s of Inr r \<Rightarrow> Some r | Inl _ \<Rightarrow> None)
    | _ \<Rightarrow> None) = None \<longleftrightarrow> \<not> readable e t g tenant"
  by (auto simp: readable_def buildBudgetRow_def Let_def split: sum.splits)

text \<open>The row of a readable tenant.\<close>

definition shown_row :: "env \<Rightarrow> string \<Rightarrow> server \<Rightarrow> jsval \<Rightarrow> jsval option" where
  "shown_row e t g tenant =
     (case (tenant_config_of e t g tenant, budget_status_of e t g tenant) of
        (Inr c, Inr s) \<Rightarrow> (case buildBudgetRow tenant c s of Inr r \<Rightarrow> Some r | Inl _ \<Rightarrow> None)
      | _ \<Rightarrow> None)"

lemma shown_row_None: "shown_row e t g tenant = None \<longleftrightarrow> \<not> readable e t g tenant"
  unfolding shown_row_def by (rule row_readable)

lemma shown_row_Some:
  assumes "shown_row e t g tenant = Some r"
  shows "\<exists>c s. tenant_config_of e t g tenant = Inr c \<and> budget_status_of e t g tenant = Inr s
    \<and> buildBudgetRow tenant c s = Inr r"
  using assms by (auto simp: shown_row_def split: sum.splits)

lemma shown_ids:
  "map (\<lambda>r. get_prop r ''tenant_id'') (List.map_filter (shown_row e t g) tenants) =
   map (\<lambda>x. get_prop x ''tenant_id'') (filter (readable e t g) tenants)"
proof (induction tenants)
  case (Cons x xs)
  then show ?case
    by (cases "shown_row e t g x")
       (auto simp: shown_row_None dest: shown_row_Some row_tenant_id simp flip: shown_row_None)
qed simp

lemma map_filter_id: "List.map_filter id (map f xs) = List.map_filter f xs"
  by (induction xs) (simp_all split: option.splits)

text \<open>C14. The budget overview shows exactly the tenants the caller may read, in the order of the
  tenant list: one row for every tenant whose config and budget status the gateway both returns
  to the caller's own token, built from those two answers, and none for any other tenant (no row is invented for
  a 401, 403 or malformed answer).\<close>

theorem budget_overview_shows_readable:
  assumes "getAdminAuthToken q = Some t" and "t \<noteq> []"
    and "against (gatewayAdminFetch e ''/admin/tenants'' (gw_get (Some t))) g = Inr resp"
    and "get_prop resp ''data'' = JArr tenants" and "list_all (\<lambda>x. \<not> nullish x) tenants"
  shows "\<exists>rows. against (budgets_tenants_GET e q) g = Inr (json_response (JObj [(''data'', JArr rows)]) 200)
    \<and> map (\<lambda>r. get_prop r ''tenant_id'') rows =
        map (\<lambda>x. get_prop x ''tenant_id'') (filter (readable e t g) tenants)
    \<and> list_all (\<lambda>r. \<exists>x c s. x \<in> set tenants \<and> tenant_config_of e t g x = Inr c
          \<and> budget_status_of e t g x = Inr s \<and> buildBudgetRow x c s = Inr r) rows"
proof -
  let ?rows = "List.map_filter (shown_row e t g) tenants"
  have resp: "\<not> nullish resp" using assms(4) by (auto simp: nullish_def get_prop_simps)
  have each: "against (tenant_budget_row e t x) g = Inr (shown_row e t g x)" if "x \<in> set tenants" for x
    using assms(5) that against_budget_row [of x e t g] by (simp add: list_all_iff shown_row_def)
  have all: "against (io_all (map (tenant_budget_row e t) tenants)) g = Inr (map (shown_row e t g) tenants)"
    using each by (subst against_all) (auto simp: sum_all_Inr_iff intro: stateless_rules)
  have "against (budgets_tenants_GET_action e q t) g = Inr (json_response (JObj [(''data'', JArr ?rows)]) 200)"
    using assms(3,4) resp all
    by (simp add: budgets_tenants_GET_action_def against_simps stateless_rules js_or_def map_filter_id)
  then have "against (budgets_tenants_GET e q) g = Inr (json_response (JObj [(''data'', JArr ?rows)]) 200)"
    using guard_facts(6) [OF assms(1,2)]
    by (simp add: budgets_tenants_GET_def with_auth_def handle_with_def against_simps stateless_rules)
  moreover have "list_all (\<lambda>r. \<exists>x c s. x \<in> set tenants \<and> tenant_config_of e t g x = Inr c
          \<and> budget_status_of e t g x = Inr s \<and> buildBudgetRow x c s = Inr r) ?rows"
    using shown_row_Some [of e t g] by (fastforce simp: list_all_iff List.map_filter_def)
  ultimately show ?thesis using shown_ids by blast
qed

text \<open>A gateway with two tenants, the second of which the caller may not read.\<close>

definition demo_budget_server :: server where
  "demo_budget_server r =
     (let ok = (\<lambda>v. FetchOk \<lparr>rs_status = 200, rs_text = [], rs_json = Some v, rs_headers = []\<rparr>) in
      if rq_url r = ''http://gw/admin/tenants'' then ok (JObj [(''data'', JArr [JObj [(''tenant_id'', JStr ''a'')], JObj [(''tenant_id'', JStr ''b'')]])])
      else if rq_url r = ''http://gw/admin/tenants/a/config'' then ok (JObj [(''version'', jint 3)])
      else if rq_url r = ''http://gw/admin/tenants/a/budgets/status'' then ok (JObj [(''spend_usd'', jint 5)])
      else FetchOk \<lparr>rs_status = 403, rs_text = [], rs_json = None, rs_headers = []\<rparr>)"

definition demo_user :: server_req where
  "demo_user = \<lparr>sq_query = [], sq_headers = [], sq_cookies = [(''admin_access_token'', ''tok'')], sq_body = None\<rparr>"

theorem budget_overview_shows_readable_witness:
  "\<exists>rows. against (budgets_tenants_GET demo_env demo_user) demo_budget_server =
      Inr (json_response (JObj [(''data'', JArr rows)]) 200)
    \<and> map (\<lambda>r. get_prop r ''tenant_id'') rows = [JStr ''a'']"
proof -
  let ?t = "''tok''" and ?g = demo_budget_server
  let ?a = "JObj [(''tenant_id'', JStr ''a'')]" and ?b = "JObj [(''tenant_id'', JStr ''b'')]"
  let ?resp = "JObj [(''data'', JArr [?a, ?b])]"
  note url = demo_budget_server_def gateway_request_def tenant_path_def
  have tok: "getAdminAuthToken demo_user = Some ?t" by (simp add: getAdminAuthToken_def demo_user_def)
  have resp: "against (gatewayAdminFetch demo_env ''/admin/tenants'' (gw_get (Some ?t))) ?g = Inr ?resp"
    by (rule against_gateway_ok) (simp_all add: url)
  have config: "tenant_config_of demo_env ?t ?g ?a = Inr (JObj [(''version'', jint 3)])"
    unfolding tenant_config_of_def getTenantConfig_def
    by (rule against_gateway_ok) (simp_all add: url get_prop_simps)
  have status: "budget_status_of demo_env ?t ?g ?a = Inr (JObj [(''spend_usd'', jint 5)])"
    unfolding budget_status_of_def getTenantBudgetStatus_def
    by (rule against_gateway_ok) (simp_all add: url get_prop_simps)
  have "readable demo_env ?t ?g ?a" by (simp add: readable_def config status nullish_def)
  moreover have "\<exists>err. tenant_config_of demo_env ?t ?g ?b = Inl err"
    unfolding tenant_config_of_def getTenantConfig_def against_def
    using gw_outcome [of demo_env "gw_get (Some ?t)" "\<lambda>_. ?g" "[]" "tenant_path ''b'' ''/config''"]
    by (simp add: url get_prop_simps response_value_def resp_ok_def unreachable_if_def split: exn.splits)
  then have "\<not> readable demo_env ?t ?g ?b" by (auto simp: readable_def)
  ultimately have "filter (readable demo_env ?t ?g) [?a, ?b] = [?a]" by simp
  with budget_overview_shows_readable [OF tok _ resp, of "[?a, ?b]"] show ?thesis
    by (auto simp: get_prop_simps nullish_def)
qed

section \<open>The status of a budget\<close>

text \<open>The status shown for a tenant: it is \<open>not_configured\<close> exactly when the tenant's config has
  no positive monthly budget; otherwise, with numeric figures and no share reported by the gateway, it is
  \<open>exceeded\<close> when the effective spend (confirmed and reserved) has reached the hard share of the
  budget, \<open>warning\<close> when it has reached the warning share, and \<open>healthy\<close> below both, and the
  remaining amount is the budget less the effective spend.\<close>

theorem budget_row_status:
  assumes "buildBudgetRow tenant config status = Inr row"
  shows "(get_prop row ''status'' = JStr ''not_configured'' \<longleftrightarrow>
      monthly_usd config = JNull \<or> \<not> js_less (jint 0) (monthly_usd config))
    \<and> (\<forall>m b s w h. monthly_usd config = JNum (Fin m) \<and> 0 < m \<and> budget_usd config status = JNum (Fin b) \<and> 0 < b
        \<and> effective_spend_usd status = JNum (Fin s) \<and> nullish (get_prop status ''pct_effective'')
        \<and> threshold_pct ''warn_pct'' (8 / 10) config status = JNum (Fin w)
        \<and> threshold_pct ''hard_pct'' 1 config status = JNum (Fin h) \<longrightarrow>
        get_prop row ''status'' =
          JStr (if h * b \<le> s then ''exceeded'' else if w * b \<le> s then ''warning'' else ''healthy'')
        \<and> get_prop row ''remaining_usd'' = JNum (Fin (b - s)))"
proof -
  let ?c = "classify_budget (monthly_usd config) (pct_effective config status)
     (threshold_pct ''warn_pct'' (8 / 10) config status) (threshold_pct ''hard_pct'' 1 config status)"
  have st: "get_prop row ''status'' = JStr (budget_status_name ?c)"
    and rem: "get_prop row ''remaining_usd'' = js_sub (budget_usd config status) (effective_spend_usd status)"
    using assms by (auto simp: buildBudgetRow_def Let_def get_prop_simps split: if_splits)
  have "get_prop row ''status'' = JStr ''not_configured'' \<longleftrightarrow>
      monthly_usd config = JNull \<or> \<not> js_less (jint 0) (monthly_usd config)"
    unfolding st by (auto simp: classify_budget_def)
  moreover have "get_prop row ''status'' =
        JStr (if h * b \<le> s then ''exceeded'' else if w * b \<le> s then ''warning'' else ''healthy'')
      \<and> get_prop row ''remaining_usd'' = JNum (Fin (b - s))"
    if f: "monthly_usd config = JNum (Fin m)" "0 < m" "budget_usd config status = JNum (Fin b)" "0 < b"
      "effective_spend_usd status = JNum (Fin s)" "nullish (get_prop status ''pct_effective'')"
      "threshold_pct ''warn_pct'' (8 / 10) config status = JNum (Fin w)"
      "threshold_pct ''hard_pct'' 1 config status = JNum (Fin h)" for m b s w h
  proof -
    have "pct_effective config status = JNum (Fin (s / b))"
      using f(3-6) by (simp add: pct_effective_def js_simps)
    then have "?c = (if h * b \<le> s then Exceeded else if w * b \<le> s then Warning else Healthy)"
      using f by (simp add: classify_budget_def js_simps pos_le_divide_eq)
    then show ?thesis unfolding st rem using f(3,5) by (simp add: js_simps)
  qed
  ultimately show ?thesis by blast
qed

theorem budget_row_status_witness:
  "\<exists>row. buildBudgetRow (JObj [(''tenant_id'', JStr ''a'')])
      (JObj [(''config'', JObj [(''budgets'', JObj [(''monthly_usd'', jint 10)])]), (''version'', jint 1)])
      (JObj [(''spend_usd'', jint 7), (''reserved_usd'', jint 2)]) = Inr row
    \<and> get_prop row ''status'' = JStr ''warning'' \<and> get_prop row ''remaining_usd'' = jint 1"
proof -
  let ?c = "JObj [(''config'', JObj [(''budgets'', JObj [(''monthly_usd'', jint 10)])]), (''version'', jint 1)]"
  let ?s = "JObj [(''spend_usd'', jint 7), (''reserved_usd'', jint 2)]"
  obtain row where row: "buildBudgetRow (JObj [(''tenant_id'', JStr ''a'')]) ?c ?s = Inr row"
    by (auto simp: buildBudgetRow_def nullish_def Let_def)
  have "monthly_usd ?c = JNum (Fin 10)" "budget_usd ?c ?s = JNum (Fin 10)" "effective_spend_usd ?s = JNum (Fin 9)"
    "threshold_pct ''warn_pct'' (8 / 10) ?c ?s = JNum (Fin (8 / 10))" "threshold_pct ''hard_pct'' 1 ?c ?s = JNum (Fin 1)"
    "nullish (get_prop ?s ''pct_effective'')"
    by (simp_all add: monthly_usd_def budget_usd_def effective_spend_usd_def threshold_pct_def js_simps)
  then show ?thesis
    using budget_row_status [OF row, THEN conjunct2, rule_format, of 10 10 9 "8 / 10" 1] row by auto
qed

section \<open>The patch of a tenant's budget\<close>

text \<open>The fields of the request body and where they go in the tenant's config.\<close>

definition budget_fields :: "(string \<times> string list) list" where
  "budget_fields =
     [(''monthly_usd'', [''budgets'', ''monthly_usd'']), (''timezone'', [''budgets'', ''timezone'']),
      (''enforcement_enabled'', [''budget_enforcement'', ''enabled'']),
      (''enforcement_mode'', [''budget_enforcement'', ''mode'']),
      (''warn_pct'', [''budget_enforcement'', ''thresholds'', ''warn_pct'']),
      (''hard_pct'', [''budget_enforcement'', ''thresholds'', ''hard_pct'']),
      (''enforcement_paused'', [''budget_enforcement'', ''paused'']),
      (''enforcement_pause_until'', [''budget_enforcement'', ''pause_until'']),
      (''override_limit_usd'', [''budget_enforcement'', ''override_limit_usd'']),
      (''override_reason'', [''budget_enforcement'', ''override_reason''])]"

lemma copy_defined_get:
  "get_prop (JObj (copy_defined body k k' out)) j =
     (if j = k' \<and> get_prop body k \<noteq> JUndef then get_prop body k else get_prop (JObj out) j)"
  by (simp add: copy_defined_def get_prop_simps)

lemma set_if_get:
  "get_prop (JObj (set_if c k v out)) j = (if j = k \<and> c then v else get_prop (JObj out) j)"
  by (simp add: get_prop_simps)

lemma get_empty: "get_prop (JObj []) k = JUndef"
  by (simp add: get_prop_simps)

lemma budgets_part_get:
  "get_prop (JObj (budgets_part body)) ''monthly_usd'' = get_prop body ''monthly_usd''"
  "get_prop (JObj (budgets_part body)) ''timezone'' = get_prop body ''timezone''"
  by (simp_all add: budgets_part_def copy_defined_get get_empty)

lemma enforcement_part_get:
  "get_prop (JObj (enforcement_part body)) ''enabled'' = get_prop body ''enforcement_enabled''"
  "get_prop (JObj (enforcement_part body)) ''mode'' = get_prop body ''enforcement_mode''"
  "get_prop (JObj (enforcement_part body)) ''paused'' = get_prop body ''enforcement_paused''"
  "get_prop (JObj (enforcement_part body)) ''pause_until'' = get_prop body ''enforcement_pause_until''"
  "get_prop (JObj (enforcement_part body)) ''override_limit_usd'' = get_prop body ''override_limit_usd''"
  "get_prop (JObj (enforcement_part body)) ''override_reason'' = get_prop body ''override_reason''"
  "get_prop (get_prop (JObj (enforcement_part body)) ''thresholds'') ''warn_pct'' = get_prop body ''warn_pct''"
  "get_prop (get_prop (JObj (enforcement_part body)) ''thresholds'') ''hard_pct'' = get_prop body ''hard_pct''"
  by (simp_all add: enforcement_part_def thresholds_part_def copy_defined_get set_if_get get_empty get_prop_simps(2))

lemma budget_patch_get:
  "get_prop (JObj (budget_patch body)) ''budgets'' =
     (if get_prop body ''monthly_usd'' \<noteq> JUndef \<or> get_prop body ''timezone'' \<noteq> JUndef
      then JObj (budgets_part body) else JUndef)"
  "get_prop (JObj (budget_patch body)) ''budget_enforcement'' =
     (if list_ex (\<lambda>k. get_prop body k \<noteq> JUndef) enforcement_keys then JObj (enforcement_part body) else JUndef)"
  by (simp_all add: budget_patch_def set_if_get get_empty)

text \<open>A patch of a tenant's budget is exact: each of the ten fields of the request arrives in the
  tenant config patch at its own place with its own value, a field the request leaves out is left
  out (so the gateway keeps it), and a section appears only when one of its fields was given.\<close>

theorem budget_patch_exact:
  "list_all (\<lambda>(k, path). foldl get_prop (JObj (budget_patch body)) path = get_prop body k) budget_fields
   \<and> fst ` set (budget_patch body) =
       (if get_prop body ''monthly_usd'' \<noteq> JUndef \<or> get_prop body ''timezone'' \<noteq> JUndef then {''budgets''} else {})
       \<union> (if list_ex (\<lambda>k. get_prop body k \<noteq> JUndef) enforcement_keys then {''budget_enforcement''} else {})"
proof -
  have "list_all (\<lambda>(k, path). foldl get_prop (JObj (budget_patch body)) path = get_prop body k) budget_fields"
    by (simp add: budget_fields_def budget_patch_get enforcement_keys_def budgets_part_get enforcement_part_get
        get_prop_simps(2))
  moreover have "fst ` set (budget_patch body) =
       (if get_prop body ''monthly_usd'' \<noteq> JUndef \<or> get_prop body ''timezone'' \<noteq> JUndef then {''budgets''} else {})
       \<union> (if list_ex (\<lambda>k. get_prop body k \<noteq> JUndef) enforcement_keys then {''budget_enforcement''} else {})"
    by (auto simp: budget_patch_def keys_set_if)
  ultimately show ?thesis by blast
qed

end
