(* ===== verification/JS_Date.thy ===== *)
theory JS_Date
  imports JS_IO
begin

text \<open>
  The part of \<open>Date\<close> the front end uses: \<open>new Date(ms).toISOString()\<close>, which raises on a time
  value that is not a number or out of range, in the proleptic Gregorian calendar.
\<close>

record civil =
  cv_year :: int
  cv_month :: int
  cv_day :: int

text \<open>The calendar date of a day counted from 1 January 1970: years start in March, so that the
  leap day is the last day of an era of 400 years.\<close>

definition year_of_era :: "int \<Rightarrow> int" where
  "year_of_era doe = (doe - doe div 1460 + doe div 36524 - doe div 146096) div 365"

definition civil_from_days :: "int \<Rightarrow> civil" where
  "civil_from_days z =
     (let z' = z + 719468; era = z' div 146097; doe = z' mod 146097;
          yoe = year_of_era doe;
          doy = doe - (365 * yoe + yoe div 4 - yoe div 100);
          mp = (5 * doy + 2) div 153;
          m = (if mp < 10 then mp + 3 else mp - 9)
      in \<lparr>cv_year = yoe + era * 400 + (if m \<le> 2 then 1 else 0), cv_month = m,
          cv_day = doy - (153 * mp + 2) div 5 + 1\<rparr>)"

definition pad_left :: "nat \<Rightarrow> string \<Rightarrow> string" where
  "pad_left w s = replicate (w - length s) (CHR ''0'') @ s"

definition iso_year :: "int \<Rightarrow> string" where
  "iso_year y =
     (if 0 \<le> y \<and> y \<le> 9999 then pad_left 4 (show_int y)
      else (if y < 0 then ''-'' else ''+'') @ pad_left 6 (show_int \<bar>y\<bar>))"

definition iso_of_ms :: "int \<Rightarrow> string" where
  "iso_of_ms t =
     (let c = civil_from_days (t div 86400000); ms = t mod 86400000 in
      iso_year (cv_year c) @ ''-'' @ pad_left 2 (show_int (cv_month c)) @ ''-'' @ pad_left 2 (show_int (cv_day c))
      @ ''T'' @ pad_left 2 (show_int (ms div 3600000)) @ '':'' @ pad_left 2 (show_int (ms div 60000 mod 60))
      @ '':'' @ pad_left 2 (show_int (ms div 1000 mod 60)) @ ''.'' @ pad_left 3 (show_int (ms mod 1000)) @ ''Z'')"

text \<open>\<open>new Date(n).toISOString()\<close>\<close>

definition to_iso_string :: "jsnum \<Rightarrow> exn + string" where
  "to_iso_string n =
     (case num_trunc n of
        Fin q \<Rightarrow> if \<bar>q\<bar> \<le> 8640000000000000 then Inr (iso_of_ms \<lfloor>q\<rfloor>) else Inl (JsError ''RangeError'' None)
      | _ \<Rightarrow> Inl (JsError ''RangeError'' None))"

end
