(* ===== verification/Observability_Routes.thy ===== *)
theory Observability_Routes
  imports Routes_Base JS_Date
begin

text \<open>
  app/api/observability/**: read-only reports. Some forward a query and its answer unchanged, others
  reshape the answer: the request log and the request explorer (with clamped paging), the
  traffic metrics, the monthly metrics of a tenant (weighted averages), and the routing insights,
  which count decisions per strategy, model and route group.
\<close>

section \<open>Shared pieces\<close>

text \<open>\<open>Math.min(200, Math.max(1, Number.isFinite(n) ? n : d))\<close> for \<open>n = Number(get('limit') || d)\<close>,
  and the same for the offset.\<close>

definition page_limit :: "nat \<Rightarrow> server_req \<Rightarrow> jsnum" where
  "page_limit d q =
     num_min (Fin 200) (num_max (Fin 1)
       (finite_or (Fin (of_nat d)) (str_to_num (or_string (search_param q ''limit'') (show_nat d)))))"

definition page_offset :: "server_req \<Rightarrow> jsnum" where
  "page_offset q =
     num_max (Fin 0) (finite_or (Fin 0) (str_to_num (or_string (search_param q ''offset'') ''0'')))"

text \<open>\<open>Number(data?.pagination?.k ?? d)\<close>\<close>

definition page_field :: "jsval \<Rightarrow> string \<Rightarrow> jsval \<Rightarrow> jsval" where
  "page_field data k d = JNum (to_num (coalesce (get_prop (get_prop data ''pagination'') k) d))"

definition pagination_of :: "jsval \<Rightarrow> jsnum \<Rightarrow> jsnum \<Rightarrow> nat \<Rightarrow> jsval" where
  "pagination_of data limit offset n = JObj
     [(''limit'', page_field data ''limit'' (JNum limit)), (''offset'', page_field data ''offset'' (JNum offset)),
      (''returned'', page_field data ''returned'' (jint (int n))), (''total'', page_field data ''total'' (jint (int n)))]"

text \<open>\<open>decodeURIComponent(params.requestId)\<close>\<close>

definition decode_param :: "string \<Rightarrow> exn + string" where
  "decode_param s = (if uri_wellformed s then Inr (decodeURIComponent s) else Inl (JsError ''URIError'' None))"

text \<open>\<open>rows.map(f)\<close> for an \<open>f\<close> that may raise.\<close>

fun map_rows :: "(nat \<Rightarrow> jsval \<Rightarrow> exn + jsval) \<Rightarrow> nat \<Rightarrow> jsval list \<Rightarrow> exn + jsval list" where
  "map_rows f i [] = Inr []"
| "map_rows f i (x # xs) =
     (if nullish x then Inl type_error
      else case f i x of Inl err \<Rightarrow> Inl err
        | Inr y \<Rightarrow> (case map_rows f (Suc i) xs of Inl err \<Rightarrow> Inl err | Inr ys \<Rightarrow> Inr (y # ys)))"

section \<open>Reports that are passed on\<close>

definition cost_analytics_GET_body :: "env \<Rightarrow> server_req \<Rightarrow> server_resp io" where
  "cost_analytics_GET_body e q =
     io_bind (gatewayAdminFetch e ''/admin/observability/cost-analytics'' (gw_get (getAdminAuthToken q))) respond"

definition cost_analytics_GET :: "env \<Rightarrow> server_req \<Rightarrow> server_resp io" where
  "cost_analytics_GET e q = handle ''Failed to fetch cost analytics'' (cost_analytics_GET_body e q)"

definition model_performance_GET_body :: "env \<Rightarrow> server_req \<Rightarrow> server_resp io" where
  "model_performance_GET_body e q =
     io_bind (gatewayAdminFetch e
       (''/admin/benchmarks/models?window_hours='' @ or_string (search_param q ''window_hours'') ''24'')
       (gw_get (getAdminAuthToken q))) respond"

definition model_performance_GET :: "env \<Rightarrow> server_req \<Rightarrow> server_resp io" where
  "model_performance_GET e q = handle ''Failed to fetch model performance'' (model_performance_GET_body e q)"

definition router_performance_GET_action :: "env \<Rightarrow> server_req \<Rightarrow> string \<Rightarrow> server_resp io" where
  "router_performance_GET_action e q t =
     io_bind (gatewayAdminFetch e (with_query ''/admin/router/performance''
       (qs_params q [Optional ''from'', Optional ''to'', Optional ''tenant_id'', Optional ''model'',
         Optional ''provider'', Optional ''status'', Optional ''bucket''])) (gw_get (Some t))) respond"

definition router_performance_GET :: "env \<Rightarrow> server_req \<Rightarrow> server_resp io" where
  "router_performance_GET e q = handle ''Failed to fetch router performance''
     (with_auth (requireAdminBearer q) (router_performance_GET_action e q))"

definition semantic_cache_GET_action :: "env \<Rightarrow> server_req \<Rightarrow> string \<Rightarrow> server_resp io" where
  "semantic_cache_GET_action e q t =
     io_bind (gatewayAdminFetch e (with_query ''/admin/observability/semantic-cache''
       (qs_params q [Optional ''tenant_id'', Optional ''limit''])) (gw_get (Some t))) respond"

definition semantic_cache_GET :: "env \<Rightarrow> server_req \<Rightarrow> server_resp io" where
  "semantic_cache_GET e q = handle ''Failed to fetch semantic cache analytics''
     (with_auth (requireAdminBearer q) (semantic_cache_GET_action e q))"

definition semantic_correlation_GET_action :: "env \<Rightarrow> server_req \<Rightarrow> string \<Rightarrow> server_resp io" where
  "semantic_correlation_GET_action e q t =
     io_bind (gatewayAdminFetch e ''/admin/observability/semantic-correlation'' (gw_get (Some t))) respond"

definition semantic_correlation_GET :: "env \<Rightarrow> server_req \<Rightarrow> server_resp io" where
  "semantic_correlation_GET e q = handle ''Failed to fetch semantic correlation''
     (with_auth (requireAdminBearer q) (semantic_correlation_GET_action e q))"

definition semantic_routing_GET_action :: "env \<Rightarrow> server_req \<Rightarrow> string \<Rightarrow> server_resp io" where
  "semantic_routing_GET_action e q t =
     io_bind (gatewayAdminFetch e ''/admin/observability/semantic-routing'' (gw_get (Some t))) respond"

definition semantic_routing_GET :: "env \<Rightarrow> server_req \<Rightarrow> server_resp io" where
  "semantic_routing_GET e q = handle ''Failed to fetch semantic routing analytics''
     (with_auth (requireAdminBearer q) (semantic_routing_GET_action e q))"

text \<open>The two routes of a single request decode its id before they look at the credentials.\<close>

definition explorer_replay_POST_action :: "string \<Rightarrow> env \<Rightarrow> server_req \<Rightarrow> string \<Rightarrow> server_resp io" where
  "explorer_replay_POST_action requestId e q t =
     io_bind (gatewayAdminFetch e (''/admin/replay/'' @ encodeURIComponent requestId @ ''?mode=deterministic'')
       (gw_send ''POST'' NoBody (Some t))) respond"

definition explorer_replay_POST_body :: "string \<Rightarrow> env \<Rightarrow> server_req \<Rightarrow> server_resp io" where
  "explorer_replay_POST_body param e q =
     io_bind (io_of_sum (decode_param param)) (\<lambda>requestId.
       with_auth (requireAdminBearer q) (explorer_replay_POST_action requestId e q))"

definition explorer_replay_POST :: "string \<Rightarrow> env \<Rightarrow> server_req \<Rightarrow> server_resp io" where
  "explorer_replay_POST param e q = handle ''Failed to replay request'' (explorer_replay_POST_body param e q)"

definition explorer_routing_GET_action :: "string \<Rightarrow> env \<Rightarrow> server_req \<Rightarrow> string \<Rightarrow> server_resp io" where
  "explorer_routing_GET_action requestId e q t =
     io_bind (gatewayAdminFetch e (''/admin/requests/'' @ encodeURIComponent requestId @ ''/routing'')
       (gw_get (Some t))) respond"

definition explorer_routing_GET_body :: "string \<Rightarrow> env \<Rightarrow> server_req \<Rightarrow> server_resp io" where
  "explorer_routing_GET_body param e q =
     io_bind (io_of_sum (decode_param param)) (\<lambda>requestId.
       with_auth (requireAdminBearer q) (explorer_routing_GET_action requestId e q))"

definition snapshot_error :: "exn \<Rightarrow> server_resp" where
  "snapshot_error err =
     (case err of
        GatewayAdminError m st d \<Rightarrow>
          if st = Some 404 then error_json ''routing snapshot not found'' 404
          else route_error ''Failed to fetch request routing snapshot'' err
      | _ \<Rightarrow> route_error ''Failed to fetch request routing snapshot'' err)"

definition explorer_routing_GET :: "string \<Rightarrow> env \<Rightarrow> server_req \<Rightarrow> server_resp io" where
  "explorer_routing_GET param e q = handle_with snapshot_error (explorer_routing_GET_body param e q)"

section \<open>The request log\<close>

definition log_row :: "jsval \<Rightarrow> jsval" where
  "log_row item =
     (let cacheStatus = to_lower (to_str (coalesce
            (get_prop (coalesce (get_prop item ''cache'') (JObj [])) ''status'') (JStr []))) in
      JObj [(''timestamp'', string_or [] (get_prop item ''timestamp'')),
            (''tenant_id'', string_or [] (get_prop item ''tenant_id'')),
            (''model'', string_or [] (get_prop item ''model'')),
            (''provider'', string_or [] (get_prop item ''provider'')),
            (''latency_ms'', number_or (jint 0) (get_prop item ''latency_ms'')),
            (''status'', string_or [] (get_prop item ''status'')),
            (''fallback_used'', JBool (truthy (get_prop item ''fallback_used''))),
            (''cache_status'', if cacheStatus = [] then JUndef else JStr cacheStatus)])"

definition observability_logs_GET_body :: "env \<Rightarrow> server_req \<Rightarrow> server_resp io" where
  "observability_logs_GET_body e q =
     (let limit = page_limit 50 q; offset = page_offset q in
      io_bind (gatewayAdminFetch e
        (''/admin/requests/recent?limit='' @ num_to_string limit @ ''&offset='' @ num_to_string offset)
        (gw_get (getAdminAuthToken q))) (\<lambda>data.
      io_bind (map_items log_row (get_prop data ''data'')) (\<lambda>logs.
      let pagination = pagination_of data limit offset (length (arr_elems logs)) in
      respond (JObj [(''logs'', logs), (''total'', get_prop pagination ''total''), (''pagination'', pagination)]))))"

definition observability_logs_GET :: "env \<Rightarrow> server_req \<Rightarrow> server_resp io" where
  "observability_logs_GET e q = handle ''Failed to fetch observability logs'' (observability_logs_GET_body e q)"

section \<open>Traffic metrics\<close>

text \<open>\<open>v == null ? null : Number(v)\<close> and \<open>v == null ? null : Number(v) * 100\<close>.\<close>

definition number_or_null :: "jsval \<Rightarrow> jsval" where
  "number_or_null v = number_or JNull v"

definition percent_or_null :: "jsval \<Rightarrow> jsval" where
  "percent_or_null v = (if nullish v then JNull else js_mul v (jint 100))"

definition metrics_window :: "server_req \<Rightarrow> string" where
  "metrics_window q = or_string (search_param q ''window_hours'') ''24''"

definition metrics_path :: "server_req \<Rightarrow> string" where
  "metrics_path q = ''/admin/requests/stats?window_hours='' @ metrics_window q
     @ ''&bucket='' @ or_string (search_param q ''bucket'') ''hour''"

definition metrics_traffic :: "jsval \<Rightarrow> jsval" where
  "metrics_traffic item = JObj
     [(''time_bucket'', string_or [] (get_prop item ''bucket'')),
      (''requests'', number_or (jint 0) (get_prop item ''requests'')),
      (''successes'', number_or (jint 0) (get_prop item ''successes'')),
      (''errors'', number_or (jint 0) (get_prop item ''errors''))]"

definition metrics_health :: "jsval \<Rightarrow> jsval" where
  "metrics_health item = JObj
     [(''provider'', string_or [] (get_prop item ''provider'')),
      (''success_rate'', js_mul (number_or (jint 0) (get_prop item ''success_rate'')) (jint 100)),
      (''avg_latency'', number_or (jint 0) (get_prop item ''avg_latency_ms'')),
      (''total_requests'', number_or (jint 0) (get_prop item ''total_requests''))]"

definition metrics_reply :: "server_req \<Rightarrow> jsval \<Rightarrow> server_resp io" where
  "metrics_reply q data =
     (let summary = coalesce (get_prop data ''summary'') (JObj []); wh = get_prop data ''window_hours'' in
      io_bind (map_items metrics_traffic (get_prop data ''traffic_over_time'')) (\<lambda>traffic.
      io_bind (map_items metrics_health (get_prop data ''provider_health'')) (\<lambda>health.
      respond (JObj
        [(''metrics'', JObj
            [(''total_requests_24h'', number_or_null (get_prop summary ''total_requests'')),
             (''success_rate'', percent_or_null (get_prop summary ''success_rate'')),
             (''avg_latency_ms'', number_or_null (get_prop summary ''avg_latency_ms'')),
             (''cache_hit_rate'', JNull),
             (''fallback_rate'', percent_or_null (get_prop summary ''fallback_rate'')),
             (''fallback_count'', number_or_null (get_prop summary ''fallback_requests'')),
             (''total_cost_24h'', JNull)]),
         (''traffic_data'', traffic), (''provider_health'', health), (''summary'', summary),
         (''status_breakdown'', coalesce (get_prop data ''status_breakdown'') (JObj [])),
         (''traffic_over_time'', array_or_empty (get_prop data ''traffic_over_time'')),
         (''window_hours'', if is_number wh then wh else JNum (str_to_num (metrics_window q))),
         (''raw_backend'', data)]))))"

text \<open>An error that is not the gateway's is answered with the path that failed.\<close>

definition metrics_GET_body :: "env \<Rightarrow> server_req \<Rightarrow> server_resp io" where
  "metrics_GET_body e q =
     io_catch
       (io_bind (gatewayAdminFetch e (metrics_path q) (gw_get (getAdminAuthToken q))) (metrics_reply q))
       (\<lambda>err. case err of
          GatewayAdminError _ _ _ \<Rightarrow> io_throw err
        | JsError _ _ \<Rightarrow> io_return (json_response (JObj
            [(''error'', JStr ''Failed to fetch observability metrics''),
             (''details'', JStr (''Backend '' @ metrics_path q @ '' request failed''))]) 500))"

definition metrics_GET :: "env \<Rightarrow> server_req \<Rightarrow> server_resp io" where
  "metrics_GET e q = handle ''Failed to fetch observability metrics'' (metrics_GET_body e q)"

section \<open>Metrics of a tenant\<close>

record usage_totals =
  ut_requests :: jsnum
  ut_successes :: jsnum
  ut_latencyWeightedSum :: jsnum

text \<open>\<open>const n = Number(row.k ?? 0); Number.isFinite(n) ? n : 0\<close>\<close>

definition safe_num :: "jsval \<Rightarrow> string \<Rightarrow> jsnum" where
  "safe_num row k = finite_or (Fin 0) (to_num (coalesce (get_prop row k) (jint 0)))"

definition add_stats :: "usage_totals \<Rightarrow> jsval \<Rightarrow> usage_totals" where
  "add_stats acc row =
     \<lparr>ut_requests = num_add (ut_requests acc) (safe_num row ''requests''),
      ut_successes = num_add (ut_successes acc) (safe_num row ''successes''),
      ut_latencyWeightedSum = num_add (ut_latencyWeightedSum acc)
        (num_mul (safe_num row ''avg_latency_ms'') (safe_num row ''requests''))\<rparr>"

definition stats_totals :: "jsval list \<Rightarrow> usage_totals" where
  "stats_totals rows = foldl add_stats \<lparr>ut_requests = Fin 0, ut_successes = Fin 0, ut_latencyWeightedSum = Fin 0\<rparr> rows"

definition totals_success_rate :: "usage_totals \<Rightarrow> jsval" where
  "totals_success_rate t =
     (if num_pos (ut_requests t) then JNum (num_mul (num_div (ut_successes t) (ut_requests t)) (Fin 100)) else JNull)"

definition totals_avg_latency :: "usage_totals \<Rightarrow> jsval" where
  "totals_avg_latency t =
     (if num_pos (ut_requests t) then JNum (num_div (ut_latencyWeightedSum t) (ut_requests t)) else JNull)"

definition real_metrics_GET_body :: "string \<Rightarrow> env \<Rightarrow> server_req \<Rightarrow> server_resp io" where
  "real_metrics_GET_body thisMonth e q =
     (let tenantId = or_string (search_param q ''tenant_id'') ''tenant_a'';
          month = or_string (search_param q ''month'') thisMonth;
          windowDays = or_string (search_param q ''window_days'') ''7'';
          tok = getAdminAuthToken q
      in io_bind (io_both
           (gatewayAdminFetch e (''/admin/tenants/'' @ tenantId @ ''/usage/summary?month='' @ month) (gw_get tok))
           (gatewayAdminFetch e (''/admin/tenants/'' @ tenantId @ ''/models/stats?window_days='' @ windowDays) (gw_get tok)))
         (\<lambda>(usageSummary, modelsStats).
           let rows = arr_elems (get_prop modelsStats ''stats'') in
           if list_ex nullish rows then io_throw type_error
           else io_bind (read_prop usageSummary ''total_requests'') (\<lambda>total.
             respond (JObj
               [(''total_requests'', coalesce total JNull),
                (''total_cost'', coalesce (get_prop usageSummary ''total_cost_usd'') JNull),
                (''success_rate'', totals_success_rate (stats_totals rows)),
                (''avg_latency_ms'', totals_avg_latency (stats_totals rows))]))))"

definition real_metrics_GET :: "string \<Rightarrow> env \<Rightarrow> server_req \<Rightarrow> server_resp io" where
  "real_metrics_GET thisMonth e q = handle ''Failed to fetch real metrics'' (real_metrics_GET_body thisMonth e q)"

section \<open>The request explorer\<close>

definition window_map :: "(string \<times> nat) list" where
  "window_map = [(''1h'', 1), (''24h'', 24), (''7d'', 168), (''30d'', 720)]"

definition explorer_params :: "server_req \<Rightarrow> (string \<times> string) list" where
  "explorer_params q =
     [(''limit'', num_to_string (page_limit 50 q)), (''offset'', num_to_string (page_offset q))]
     @ qs_params q [Optional ''tenant_id'', Optional ''model'', Optional ''provider'', Optional ''status'',
         Optional ''fallback_used'', Optional ''workflow_id'', Optional ''conversation_id'']
     @ [(''window_hours'', show_nat (case map_of window_map (or_string (search_param q ''time_range'') ''24h'') of
          None \<Rightarrow> 24 | Some n \<Rightarrow> n))]"

definition created_timestamp :: "jsval \<Rightarrow> exn + jsval" where
  "created_timestamp item =
     (let seconds = to_num (get_prop item ''created'') in
      if is_finite seconds \<and> num_pos seconds
      then (case to_iso_string (num_mul seconds (Fin 1000)) of Inl err \<Rightarrow> Inl err | Inr s \<Rightarrow> Inr (JStr s))
      else Inr JUndef)"

definition explorer_row :: "jsnum \<Rightarrow> nat \<Rightarrow> jsval \<Rightarrow> exn + jsval" where
  "explorer_row offset index item =
     (case created_timestamp item of Inl err \<Rightarrow> Inl err
      | Inr created \<Rightarrow>
        let ts = coalesce (coalesce (coalesce (coalesce created (get_prop item ''timestamp''))
              (get_prop item ''created_at'')) (get_prop item ''started_at'')) (get_prop item ''completed_at'');
            attempt = get_prop item ''attempt'' in
        Inr (JObj
          [(''id'', string_or (num_to_string (num_add offset (Fin (of_nat index)))) (get_prop item ''request_id'')),
           (''request_id'', string_or [] (get_prop item ''request_id'')),
           (''timestamp'', if truthy ts then JStr (to_str ts) else JStr []),
           (''tenant_id'', string_or [] (get_prop item ''tenant_id'')),
           (''model'', string_or [] (get_prop item ''model'')),
           (''provider'', string_or [] (get_prop item ''provider'')),
           (''strategy'', string_or [] (get_prop item ''strategy'')),
           (''latency_ms'', number_or (jint 0) (get_prop item ''latency_ms'')),
           (''status'', string_or [] (get_prop item ''status'')),
           (''fallback_used'', JBool (truthy (get_prop item ''fallback_used''))),
           (''attempt'', if nullish attempt then JUndef else JNum (to_num attempt)),
           (''cache_status'', string_if (get_prop (get_prop item ''cache'') ''status'')),
           (''raw_request'', item),
           (''decision_reason'', string_if (get_prop item ''decision_reason'')),
           (''error_type'', string_if (get_prop item ''error_type'')),
           (''metadata'', object_if (get_prop item ''metadata'')),
           (''pii_webhook_request_decision'', string_if (get_prop item ''pii_webhook_request_decision'')),
           (''pii_webhook_response_decision'', string_if (get_prop item ''pii_webhook_response_decision'')),
           (''routing_snapshot'', object_if (get_prop item ''routing_snapshot'')),
           (''decision_snapshot'', object_if (get_prop item ''decision_snapshot'')),
           (''workflow_id'', string_if (get_prop item ''workflow_id'')),
           (''conversation_id'', string_if (get_prop item ''conversation_id''))]))"

definition request_explorer_GET_action :: "env \<Rightarrow> server_req \<Rightarrow> string \<Rightarrow> server_resp io" where
  "request_explorer_GET_action e q t =
     io_bind (gatewayAdminFetch e (''/admin/requests/recent?'' @ params_to_string (explorer_params q))
       (gw_get (Some t))) (\<lambda>data.
     io_bind (io_of_sum (map_rows (explorer_row (page_offset q)) 0 (arr_elems (get_prop data ''data'')))) (\<lambda>requests.
     let pagination = pagination_of data (page_limit 50 q) (page_offset q) (length requests) in
     respond (JObj [(''requests'', JArr requests), (''total'', get_prop pagination ''total''),
                    (''pagination'', pagination)])))"

definition request_explorer_GET :: "env \<Rightarrow> server_req \<Rightarrow> server_resp io" where
  "request_explorer_GET e q = handle ''Failed to fetch request explorer data''
     (with_auth (requireAdminBearer q) (request_explorer_GET_action e q))"

section \<open>Routing insights\<close>

definition insight_window :: "server_req \<Rightarrow> string" where
  "insight_window q = or_string (search_param q ''window_hours'') ''24''"

definition insight_filters :: "server_req \<Rightarrow> (string \<times> string) list" where
  "insight_filters q = qs_params q [Optional ''tenant_id'', Optional ''provider'', Optional ''status'']"

definition insight_timestamp :: "jsval \<Rightarrow> exn + string" where
  "insight_timestamp item =
     (let created = get_prop item ''created'' in
      if truthy created then to_iso_string (num_mul (to_num created) (Fin 1000)) else Inr [])"

definition insight_row :: "nat \<Rightarrow> jsval \<Rightarrow> exn + jsval" where
  "insight_row index item =
     (case insight_timestamp item of Inl err \<Rightarrow> Inl err
      | Inr ts \<Rightarrow> Inr (JObj
          [(''id'', string_or (''req-'' @ show_nat index) (get_prop item ''request_id'')),
           (''timestamp'', JStr ts),
           (''tenant_id'', string_or [] (get_prop item ''tenant_id'')),
           (''request_id'', string_or [] (get_prop item ''request_id'')),
           (''selected_model'', string_or [] (get_prop item ''model'')),
           (''provider'', string_or [] (get_prop item ''provider'')),
           (''strategy'', string_or [] (get_prop item ''strategy'')),
           (''route_group'', string_if (get_prop item ''route_group'')),
           (''fallback_used'', JBool (truthy (get_prop item ''fallback_used''))),
           (''status'', string_or [] (get_prop item ''status'')),
           (''latency_ms'', number_or (jint 0) (get_prop item ''latency_ms'')),
           (''cache_status'', JStr (if truthy (get_prop item ''cache_hit'') then ''hit'' else ''miss'')),
           (''decision_reason'', string_if (get_prop item ''decision_reason'')),
           (''error_type'', string_if (get_prop item ''error_type''))]))"

text \<open>\<open>if (k) m.set(k, (m.get(k) || 0) + 1)\<close> over a \<open>Map\<close>, which keeps its insertion order.\<close>

definition bump :: "(string \<times> nat) list \<Rightarrow> string \<Rightarrow> (string \<times> nat) list" where
  "bump m k = (if k = [] then m else obj_set k ((case map_of m k of None \<Rightarrow> 0 | Some n \<Rightarrow> n) + 1) m)"

definition count_decisions :: "string \<Rightarrow> jsval list \<Rightarrow> (string \<times> nat) list" where
  "count_decisions field decisions = foldl (\<lambda>m d. bump m (str_of (get_prop d field))) [] decisions"

definition distribution :: "string \<Rightarrow> string \<Rightarrow> jsval list \<Rightarrow> jsval" where
  "distribution field label decisions =
     JArr (map (\<lambda>(k, n). JObj [(label, JStr k), (''count'', jint (int n))]) (count_decisions field decisions))"

text \<open>\<open>v != null ? v * 100 : null\<close>\<close>

definition insight_metrics :: "jsval \<Rightarrow> jsval" where
  "insight_metrics summary = JObj
     [(''total_routed_requests'', number_or (jint 0) (get_prop summary ''total_requests'')),
      (''smart_routing_usage_pct'', JNull),
      (''fallback_usage_pct'', percent_or_null (get_prop summary ''fallback_rate'')),
      (''avg_latency_ms'', number_or (jint 0) (get_prop summary ''avg_latency_ms'')),
      (''success_rate'', percent_or_null (get_prop summary ''success_rate'')),
      (''cache_hit_rate'', percent_or_null (get_prop summary ''cache_hit_rate''))]"

definition routing_insights_GET_action :: "env \<Rightarrow> server_req \<Rightarrow> string \<Rightarrow> server_resp io" where
  "routing_insights_GET_action e q t =
     io_bind (io_both
       (gatewayAdminFetch e (''/admin/requests/stats?'' @
          params_to_string ((''window_hours'', insight_window q) # insight_filters q)) (gw_get (Some t)))
       (gatewayAdminFetch e (''/admin/requests?'' @
          params_to_string ([(''window_hours'', insight_window q), (''limit'', num_to_string (page_limit 200 q))]
            @ insight_filters q)) (gw_get (Some t))))
     (\<lambda>(statsData, requestsData).
     let summary = js_or (get_prop statsData ''summary'') (JObj []) in
     io_bind (io_of_sum (map_rows insight_row 0 (arr_elems (get_prop requestsData ''data'')))) (\<lambda>decisions.
     respond (JObj
       [(''metrics'', insight_metrics summary), (''decisions'', JArr decisions),
        (''strategy_distribution'', distribution ''strategy'' ''strategy'' decisions),
        (''route_group_distribution'', distribution ''route_group'' ''route_group'' decisions),
        (''model_distribution'', distribution ''selected_model'' ''model'' decisions),
        (''provider_health'', array_or_empty (get_prop statsData ''provider_health'')),
        (''status_breakdown'', js_or (get_prop statsData ''status_breakdown'') (JObj [])),
        (''traffic_over_time'', array_or_empty (get_prop statsData ''traffic_over_time'')),
        (''summary'', summary),
        (''window_hours'', JNum (to_num (coalesce (get_prop statsData ''window_hours'') (JStr (insight_window q)))))])))"

definition routing_insights_GET :: "env \<Rightarrow> server_req \<Rightarrow> server_resp io" where
  "routing_insights_GET e q = handle ''Failed to fetch routing insights''
     (with_auth (requireAdminBearer q) (routing_insights_GET_action e q))"

section \<open>The routes meet their interfaces\<close>

lemma issues_metrics_reply [issues_rules]: "issues P (metrics_reply q data)"
  unfolding metrics_reply_def Let_def by (intro issues_rules)

lemma issues_metrics [issues_rules]: "issues (authorised e (getAdminAuthToken q)) (metrics_GET_body e q)"
  unfolding metrics_GET_body_def
  by (intro issues_catch issues_bind issues_gw_calls) (auto intro: issues_rules split: exn.splits)

lemma issues_insights [issues_rules]: "issues (authorised e (Some t)) (routing_insights_GET_action e q t)"
  unfolding routing_insights_GET_action_def
  by (intro issues_rules) (auto simp: Let_def intro!: issues_rules split: prod.splits)

lemma issues_real_metrics [issues_rules]:
  "issues (authorised e (getAdminAuthToken q)) (real_metrics_GET_body m e q)"
  unfolding real_metrics_GET_body_def Let_def
  by (intro issues_rules) (auto simp: Let_def intro!: issues_rules split: prod.splits)

lemmas obs_defs =
  cost_analytics_GET_def cost_analytics_GET_body_def model_performance_GET_def model_performance_GET_body_def
  observability_logs_GET_def observability_logs_GET_body_def metrics_GET_def real_metrics_GET_def
  router_performance_GET_def router_performance_GET_action_def semantic_cache_GET_def
  semantic_cache_GET_action_def semantic_correlation_GET_def semantic_correlation_GET_action_def
  semantic_routing_GET_def semantic_routing_GET_action_def request_explorer_GET_def
  request_explorer_GET_action_def routing_insights_GET_def Let_def

interpretation cost_analytics_GET: forwarding_route cost_analytics_GET
  "route_error ''Failed to fetch cost analytics''" cost_analytics_GET_body
  by unfold_locales (auto simp: obs_defs intro!: issues_rules)

interpretation model_performance_GET: forwarding_route model_performance_GET
  "route_error ''Failed to fetch model performance''" model_performance_GET_body
  by unfold_locales (auto simp: obs_defs intro!: issues_rules)

interpretation observability_logs_GET: forwarding_route observability_logs_GET
  "route_error ''Failed to fetch observability logs''" observability_logs_GET_body
  by unfold_locales (auto simp: obs_defs intro!: issues_rules)

interpretation metrics_GET: forwarding_route metrics_GET
  "route_error ''Failed to fetch observability metrics''" metrics_GET_body
  by unfold_locales (auto simp: obs_defs intro!: issues_rules)

interpretation real_metrics_GET: forwarding_route "real_metrics_GET m"
  "route_error ''Failed to fetch real metrics''" "real_metrics_GET_body m" for m
  by unfold_locales (auto simp: obs_defs intro!: issues_rules)

interpretation router_performance_GET: guarded_route router_performance_GET
  "route_error ''Failed to fetch router performance''" requireAdminBearer router_performance_GET_action
  by unfold_locales (auto simp: obs_defs dest: admin_guard_facts intro!: issues_rules intro: admin_guard_facts)

interpretation semantic_cache_GET: guarded_route semantic_cache_GET
  "route_error ''Failed to fetch semantic cache analytics''" requireAdminBearer semantic_cache_GET_action
  by unfold_locales (auto simp: obs_defs dest: admin_guard_facts intro!: issues_rules intro: admin_guard_facts)

interpretation semantic_correlation_GET: guarded_route semantic_correlation_GET
  "route_error ''Failed to fetch semantic correlation''" requireAdminBearer semantic_correlation_GET_action
  by unfold_locales (auto simp: obs_defs dest: admin_guard_facts intro!: issues_rules intro: admin_guard_facts)

interpretation semantic_routing_GET: guarded_route semantic_routing_GET
  "route_error ''Failed to fetch semantic routing analytics''" requireAdminBearer semantic_routing_GET_action
  by unfold_locales (auto simp: obs_defs dest: admin_guard_facts intro!: issues_rules intro: admin_guard_facts)

interpretation request_explorer_GET: guarded_route request_explorer_GET
  "route_error ''Failed to fetch request explorer data''" requireAdminBearer request_explorer_GET_action
  by unfold_locales (auto simp: obs_defs dest: admin_guard_facts intro!: issues_rules intro: admin_guard_facts)

interpretation routing_insights_GET: guarded_route routing_insights_GET
  "route_error ''Failed to fetch routing insights''" requireAdminBearer routing_insights_GET_action
  by unfold_locales (auto simp: obs_defs dest: admin_guard_facts intro!: issues_rules intro: admin_guard_facts)

text \<open>The routes of a single request forward for every path parameter, and are guarded when it is the
  encoding of an id.\<close>

lemma decode_param_encode [simp]: "decode_param (encodeURIComponent i) = Inr i"
  by (simp add: decode_param_def)

lemma issues_explorer_actions [issues_rules]:
  "issues (authorised e (Some t)) (explorer_replay_POST_action i e q t)"
  "issues (authorised e (Some t)) (explorer_routing_GET_action i e q t)"
  by (simp_all add: explorer_replay_POST_action_def explorer_routing_GET_action_def issues_rules)

lemma with_auth_forwards:
  assumes "\<And>t. issues (authorised e (Some t)) (k t)"
  shows "issues (authorised e (getAdminAuthToken q)) (with_auth (requireAdminBearer q) k)"
  using assms by (auto dest: admin_guard_facts intro!: issues_with_auth)

interpretation explorer_replay_any: forwarding_route "explorer_replay_POST param"
  "route_error ''Failed to replay request''" "explorer_replay_POST_body param" for param
  by unfold_locales (auto simp: explorer_replay_POST_def explorer_replay_POST_body_def
      intro!: issues_bind issues_of_sum with_auth_forwards issues_rules)

interpretation explorer_routing_any: forwarding_route "explorer_routing_GET param"
  snapshot_error "explorer_routing_GET_body param" for param
  by unfold_locales (auto simp: explorer_routing_GET_def explorer_routing_GET_body_def
      intro!: issues_bind issues_of_sum with_auth_forwards issues_rules)

interpretation explorer_replay: guarded_route "explorer_replay_POST (encodeURIComponent i)"
  "route_error ''Failed to replay request''" requireAdminBearer "explorer_replay_POST_action i" for i
  by unfold_locales (auto simp: explorer_replay_POST_def explorer_replay_POST_body_def io_of_sum_def
      dest: admin_guard_facts intro!: issues_rules intro: admin_guard_facts)

interpretation explorer_routing: guarded_route "explorer_routing_GET (encodeURIComponent i)"
  snapshot_error requireAdminBearer "explorer_routing_GET_action i" for i
  by unfold_locales (auto simp: explorer_routing_GET_def explorer_routing_GET_body_def io_of_sum_def
      dest: admin_guard_facts intro!: issues_rules intro: admin_guard_facts)

end
