(* ===== verification/Observability_Props.thy ===== *)
theory Observability_Props
  imports Observability_Routes
begin

text \<open>
  Properties of the reports: paging parameters stay in range, the distributions of the routing
  insights agree with plain counting, and the averages of a tenant's metrics are averages.
\<close>

section \<open>Paging\<close>

lemma page_limit_range:
  assumes "1 \<le> d" and "d \<le> 200"
  shows "\<exists>x. page_limit d q = Fin x \<and> 1 \<le> x \<and> x \<le> 200"
proof -
  obtain x where "finite_or (Fin (of_nat d)) (str_to_num (or_string (search_param q ''limit'') (show_nat d))) = Fin x"
    using finite_or_cases by blast
  then show ?thesis by (simp add: page_limit_def)
qed

lemma page_offset_range: "\<exists>x. page_offset q = Fin x \<and> 0 \<le> x"
proof -
  obtain x where "finite_or (Fin 0) (str_to_num (or_string (search_param q ''offset'') ''0'')) = Fin x"
    using finite_or_cases by blast
  then show ?thesis by (simp add: page_offset_def)
qed

lemma page_limit_kept:
  assumes "str_to_num (or_string (search_param q ''limit'') (show_nat d)) = Fin x" and "1 \<le> x" and "x \<le> 200"
  shows "page_limit d q = Fin x"
  using assms by (simp add: page_limit_def finite_or_def)

text \<open>The request explorer asks the gateway for between 1 and 200 requests from a non-negative
  offset, whatever the caller's query contains (text, NaN, infinities, negative or huge numbers),
  a limit in that range is kept, and the gateway reads back exactly these values as the first two
  parameters of its query.\<close>

theorem explorer_paging_clamped:
  shows "\<exists>l off rest. page_limit 50 q = Fin l \<and> 1 \<le> l \<and> l \<le> 200 \<and> page_offset q = Fin off \<and> 0 \<le> off
    \<and> params_parse (params_to_string (explorer_params q)) =
        (''limit'', num_to_string (Fin l)) # (''offset'', num_to_string (Fin off)) # rest
    \<and> (\<forall>x. str_to_num (or_string (search_param q ''limit'') (show_nat 50)) = Fin x \<and> 1 \<le> x \<and> x \<le> 200 \<longrightarrow> l = x)"
proof -
  obtain l where l: "page_limit 50 q = Fin l" "1 \<le> l" "l \<le> 200" using page_limit_range [of 50 q] by auto
  obtain off where off: "page_offset q = Fin off" "0 \<le> off" using page_offset_range by blast
  have "params_parse (params_to_string (explorer_params q)) = explorer_params q"
    by (rule params_parse_to_string) (simp add: explorer_params_def)
  then have "\<exists>rest. params_parse (params_to_string (explorer_params q)) =
        (''limit'', num_to_string (Fin l)) # (''offset'', num_to_string (Fin off)) # rest"
    using l off by (auto simp: explorer_params_def)
  moreover have "l = x" if "str_to_num (or_string (search_param q ''limit'') (show_nat 50)) = Fin x" "1 \<le> x" "x \<le> 200" for x
    using page_limit_kept [OF that] l(1) by simp
  ultimately show ?thesis using l off by blast
qed

theorem explorer_paging_clamped_witness:
  "\<exists>l off rest. params_parse (params_to_string (explorer_params
      \<lparr>sq_query = [(''limit'', ''1e9''), (''offset'', ''-7'')], sq_headers = [], sq_cookies = [], sq_body = None\<rparr>)) =
      (''limit'', num_to_string (Fin l)) # (''offset'', num_to_string (Fin off)) # rest \<and> l \<le> 200 \<and> 0 \<le> off"
  using explorer_paging_clamped
    [of "\<lparr>sq_query = [(''limit'', ''1e9''), (''offset'', ''-7'')], sq_headers = [], sq_cookies = [], sq_body = None\<rparr>"]
  by blast

section \<open>Distributions\<close>

text \<open>The specification: the values in the order of their first occurrence, each with its count.\<close>

definition tally :: "string list \<Rightarrow> (string \<times> nat) list" where
  "tally ks = map (\<lambda>k. (k, count_list ks k)) (rev (remdups (rev ks)))"

lemma map_of_tally: "map_of (tally ks) k = (if k \<in> set ks then Some (count_list ks k) else None)"
  by (simp add: tally_def map_of_map_restrict)

lemma tally_keys: "map fst (tally ks) = rev (remdups (rev ks))"
  by (simp add: tally_def comp_def)

lemma obj_set_map:
  "k \<in> set xs \<Longrightarrow> distinct xs \<Longrightarrow>
   obj_set k v (map (\<lambda>x. (x, f x)) xs) = map (\<lambda>x. (x, if x = k then v else f x)) xs"
  by (induction xs) auto

lemma bump_tally: "k \<noteq> [] \<Longrightarrow> bump (tally ks) k = tally (ks @ [k])"
proof (cases "k \<in> set ks")
  case True
  assume "k \<noteq> []"
  then have "bump (tally ks) k = map (\<lambda>x. (x, if x = k then count_list ks k + 1 else count_list ks x)) (rev (remdups (rev ks)))"
    using True by (simp add: bump_def map_of_tally) (simp add: tally_def obj_set_map)
  then show ?thesis using True by (auto simp: tally_def)
next
  case False
  assume "k \<noteq> []"
  with False have "bump (tally ks) k = tally ks @ [(k, 1)]"
    by (simp add: bump_def map_of_tally) (subst obj_set_fresh, auto simp: tally_def)
  then show ?thesis using False by (auto simp: tally_def count_list_0_iff)
qed

lemma fold_bump: "foldl bump (tally ks) xs = tally (ks @ filter (\<lambda>k. k \<noteq> []) xs)"
proof (induction xs arbitrary: ks)
  case (Cons x xs)
  show ?case
  proof (cases "x = []")
    case True
    then show ?thesis using Cons [of ks] by (simp add: bump_def)
  next
    case False
    then show ?thesis using Cons [of "ks @ [x]"] by (simp add: bump_tally)
  qed
qed simp

lemma sum_tally: "sum_list (map snd (tally ks)) = length ks"
proof -
  have "sum_list (map snd (tally ks)) = sum_list (map (count_list ks) (rev (remdups (rev ks))))"
    by (simp add: tally_def comp_def)
  also have "\<dots> = sum (count_list ks) (set ks)"
    by (simp add: sum_list_distinct_conv_sum_set)
  finally show ?thesis by (simp add: sum_count_set)
qed

text \<open>The distributions of the routing insights are plain counts: the incremental map equals the
  list of distinct non-empty values in order of first occurrence, each with its number of
  occurrences, and the counts add up to the number of decisions that have the field.\<close>

theorem distribution_counts:
  "count_decisions field ds = tally (filter (\<lambda>k. k \<noteq> []) (map (\<lambda>d. str_of (get_prop d field)) ds))
   \<and> sum_list (map snd (count_decisions field ds)) =
       length (filter (\<lambda>d. str_of (get_prop d field) \<noteq> []) ds)
   \<and> distinct (map fst (count_decisions field ds))"
proof -
  have "count_decisions field ds = foldl bump [] (map (\<lambda>d. str_of (get_prop d field)) ds)"
    by (simp add: count_decisions_def foldl_map)
  also have "\<dots> = tally (filter (\<lambda>k. k \<noteq> []) (map (\<lambda>d. str_of (get_prop d field)) ds))"
    using fold_bump [of "[]"] by (simp add: tally_def)
  finally have c: "count_decisions field ds = tally (filter (\<lambda>k. k \<noteq> []) (map (\<lambda>d. str_of (get_prop d field)) ds))" .
  moreover have "length (filter (\<lambda>k. k \<noteq> []) (map (\<lambda>d. str_of (get_prop d field)) ds)) =
      length (filter (\<lambda>d. str_of (get_prop d field) \<noteq> []) ds)"
    by (simp add: filter_map comp_def)
  ultimately show ?thesis by (simp add: sum_tally tally_keys)
qed

section \<open>Averages\<close>

definition rat_of :: "jsnum \<Rightarrow> rat" where
  "rat_of n = (case n of Fin x \<Rightarrow> x | _ \<Rightarrow> 0)"

definition field_of :: "string \<Rightarrow> jsval \<Rightarrow> rat" where
  "field_of k row = rat_of (safe_num row k)"

lemma safe_num_Fin: "safe_num row k = Fin (field_of k row)"
  by (simp add: field_of_def safe_num_def finite_or_def rat_of_def split: jsnum.splits)

lemma fold_add_stats:
  "foldl add_stats \<lparr>ut_requests = Fin a, ut_successes = Fin b, ut_latencyWeightedSum = Fin c\<rparr> rows =
   \<lparr>ut_requests = Fin (a + sum_list (map (field_of ''requests'') rows)),
    ut_successes = Fin (b + sum_list (map (field_of ''successes'') rows)),
    ut_latencyWeightedSum = Fin (c + sum_list (map (\<lambda>r. field_of ''avg_latency_ms'' r * field_of ''requests'' r) rows))\<rparr>"
  by (induction rows arbitrary: a b c) (simp_all add: add_stats_def safe_num_Fin add.assoc)

lemma stats_totals_sums:
  "stats_totals rows =
   \<lparr>ut_requests = Fin (sum_list (map (field_of ''requests'') rows)),
    ut_successes = Fin (sum_list (map (field_of ''successes'') rows)),
    ut_latencyWeightedSum = Fin (sum_list (map (\<lambda>r. field_of ''avg_latency_ms'' r * field_of ''requests'' r) rows))\<rparr>"
  using fold_add_stats [of 0 0 0 rows] by (simp add: stats_totals_def)

lemma weighted_sum_bounds:
  fixes w :: "'a \<Rightarrow> rat"
  assumes "list_all (\<lambda>r. 0 \<le> w r \<and> lo \<le> f r \<and> f r \<le> hi) rows"
  shows "lo * sum_list (map w rows) \<le> sum_list (map (\<lambda>r. f r * w r) rows)"
    and "sum_list (map (\<lambda>r. f r * w r) rows) \<le> hi * sum_list (map w rows)"
proof -
  have "sum_list (map (\<lambda>r. lo * w r) rows) \<le> sum_list (map (\<lambda>r. f r * w r) rows)"
    using assms by (intro sum_list_mono) (auto simp: list_all_iff intro: mult_right_mono)
  then show "lo * sum_list (map w rows) \<le> sum_list (map (\<lambda>r. f r * w r) rows)"
    by (simp add: sum_list_const_mult)
  have "sum_list (map (\<lambda>r. f r * w r) rows) \<le> sum_list (map (\<lambda>r. hi * w r) rows)"
    using assms by (intro sum_list_mono) (auto simp: list_all_iff intro: mult_right_mono)
  then show "sum_list (map (\<lambda>r. f r * w r) rows) \<le> hi * sum_list (map w rows)"
    by (simp add: sum_list_const_mult)
qed

text \<open>The metrics of a tenant are averages over its models: when request counts are not negative
  and some request was made, the reported latency is the request-weighted mean, so it lies between the
  smallest and the largest latency of the models, and when no model reports more successes than
  requests, the success rate lies between 0 and 100; without requests both are null.\<close>

theorem tenant_metrics_are_averages:
  assumes "list_all (\<lambda>r. 0 \<le> field_of ''requests'' r) rows"
    and "list_all (\<lambda>r. lo \<le> field_of ''avg_latency_ms'' r \<and> field_of ''avg_latency_ms'' r \<le> hi) rows"
    and "list_all (\<lambda>r. 0 \<le> field_of ''successes'' r \<and> field_of ''successes'' r \<le> field_of ''requests'' r) rows"
  shows "if sum_list (map (field_of ''requests'') rows) = 0
     then totals_avg_latency (stats_totals rows) = JNull \<and> totals_success_rate (stats_totals rows) = JNull
     else \<exists>l s. totals_avg_latency (stats_totals rows) = JNum (Fin l) \<and> lo \<le> l \<and> l \<le> hi
       \<and> totals_success_rate (stats_totals rows) = JNum (Fin s) \<and> 0 \<le> s \<and> s \<le> 100"
proof -
  let ?n = "sum_list (map (field_of ''requests'') rows)"
  let ?s = "sum_list (map (field_of ''successes'') rows)"
  let ?w = "sum_list (map (\<lambda>r. field_of ''avg_latency_ms'' r * field_of ''requests'' r) rows)"
  have n: "0 \<le> ?n" using assms(1) by (intro sum_list_nonneg) (auto simp: list_all_iff)
  have s: "0 \<le> ?s" "?s \<le> ?n"
    using assms(3) by (auto simp: list_all_iff intro!: sum_list_nonneg sum_list_mono)
  have w: "lo * ?n \<le> ?w" "?w \<le> hi * ?n"
    using assms(1,2) by (auto simp: list_all_iff intro!: weighted_sum_bounds)
  show ?thesis
  proof (cases "?n = 0")
    case True
    then show ?thesis by (simp add: totals_avg_latency_def totals_success_rate_def stats_totals_sums)
  next
    case False
    with n have p: "0 < ?n" by simp
    have "totals_avg_latency (stats_totals rows) = JNum (Fin (?w / ?n))"
      "totals_success_rate (stats_totals rows) = JNum (Fin (?s / ?n * 100))"
      using p by (simp_all add: totals_avg_latency_def totals_success_rate_def stats_totals_sums)
    moreover have "lo \<le> ?w / ?n" "?w / ?n \<le> hi" "0 \<le> ?s / ?n * 100" "?s / ?n * 100 \<le> 100"
      using p w s by (simp_all add: pos_le_divide_eq pos_divide_le_eq)
    ultimately show ?thesis using False by auto
  qed
qed

theorem tenant_metrics_are_averages_witness:
  "\<exists>l s. totals_avg_latency (stats_totals
      [JObj [(''requests'', jint 3), (''successes'', jint 3), (''avg_latency_ms'', jint 100)],
       JObj [(''requests'', jint 1), (''successes'', jint 0), (''avg_latency_ms'', jint 500)]]) = JNum (Fin l)
    \<and> 100 \<le> l \<and> l \<le> 500 \<and> totals_success_rate (stats_totals
      [JObj [(''requests'', jint 3), (''successes'', jint 3), (''avg_latency_ms'', jint 100)],
       JObj [(''requests'', jint 1), (''successes'', jint 0), (''avg_latency_ms'', jint 500)]]) = JNum (Fin s) \<and> s \<le> 100"
proof -
  let ?rows = "[JObj [(''requests'', jint 3), (''successes'', jint 3), (''avg_latency_ms'', jint 100)],
       JObj [(''requests'', jint 1), (''successes'', jint 0), (''avg_latency_ms'', jint 500)]]"
  note ev = field_of_def safe_num_def finite_or_def rat_of_def js_simps
  have "list_all (\<lambda>r. 0 \<le> field_of ''requests'' r) ?rows"
    "list_all (\<lambda>r. 100 \<le> field_of ''avg_latency_ms'' r \<and> field_of ''avg_latency_ms'' r \<le> 500) ?rows"
    "list_all (\<lambda>r. 0 \<le> field_of ''successes'' r \<and> field_of ''successes'' r \<le> field_of ''requests'' r) ?rows"
    "sum_list (map (field_of ''requests'') ?rows) \<noteq> 0"
    by (simp_all add: ev)
  with tenant_metrics_are_averages [of ?rows 100 500] show ?thesis by auto
qed

end
