(* ===== verification/Routing_Log_Routes.thy ===== *)
theory Routing_Log_Routes
  imports Observability_Routes
begin

text \<open>
  app/api/routing/**, app/api/logs/**, app/api/tool-routing/test and the billing report of
  app/api/finops: replays and routing snapshots, the audit log and its CSV export, and the test
  of tool routing, which runs one inference with a key created for it and revoked after it.
\<close>

section \<open>Replays and snapshots\<close>

text \<open>\<open>{ error: { message, type } }\<close> with the status of a gateway error, or 500.\<close>

fun typed_error :: "string \<Rightarrow> exn \<Rightarrow> server_resp" where
  "typed_error msg (GatewayAdminError m st d) =
     json_response (JObj [(''error'', JObj [(''message'', JStr m), (''type'', JStr ''gateway_error'')])])
       (case st of None \<Rightarrow> 500 | Some c \<Rightarrow> if c = 0 then 500 else c)"
| "typed_error msg (JsError _ _) =
     json_response (JObj [(''error'', JObj [(''message'', JStr msg), (''type'', JStr ''internal_error'')])]) 500"

definition string_value :: "jsval \<Rightarrow> jsval \<Rightarrow> jsval" where
  "string_value v d = (if is_str v then v else d)"

definition object_value :: "jsval \<Rightarrow> jsval \<Rightarrow> jsval" where
  "object_value v d = (if is_object v then v else d)"

definition replay_reply :: "jsval \<Rightarrow> jsval" where
  "replay_reply response =
     (let root = object_value response (JObj []);
          replayResult = object_value (get_prop root ''replay_result'') root;
          decisionSnapshot = object_value (get_prop root ''decision_snapshot'')
            (object_value (get_prop replayResult ''decision_snapshot'') JUndef);
          routingSnapshotFull = object_value (get_prop root ''routing_snapshot'')
            (object_value (get_prop root ''routing_snapshot_full'')
              (object_value (get_prop replayResult ''routing_snapshot'') JUndef));
          decisionReason = string_value (get_prop root ''decision_reason'')
            (string_value (get_prop replayResult ''decision_reason'')
              (string_value (get_prop decisionSnapshot ''reason'') JUndef))
      in JObj (obj_set ''routing_snapshot_full'' routingSnapshotFull
                (obj_set ''decision_snapshot'' decisionSnapshot
                  (obj_set ''decision_reason'' decisionReason (spread [] (js_entries replayResult))))))"

definition replay_POST_action :: "string \<Rightarrow> env \<Rightarrow> server_req \<Rightarrow> string \<Rightarrow> server_resp io" where
  "replay_POST_action requestId e q t =
     io_bind (gatewayAdminFetch e (''/admin/replay/'' @ encodeURIComponent requestId @ ''?mode=deterministic'')
       (gw_send ''POST'' NoBody (Some t))) (\<lambda>response. respond (replay_reply response))"

definition replay_POST :: "string \<Rightarrow> env \<Rightarrow> server_req \<Rightarrow> server_resp io" where
  "replay_POST requestId e q = handle_with (typed_error ''Failed to run replay'')
     (with_auth (requireAdminBearer q) (replay_POST_action requestId e q))"

definition routing_snapshot_GET_action :: "string \<Rightarrow> env \<Rightarrow> server_req \<Rightarrow> string \<Rightarrow> server_resp io" where
  "routing_snapshot_GET_action requestId e q t =
     io_bind (gatewayAdminFetch e (''/admin/requests/'' @ encodeURIComponent requestId @ ''/routing'')
       (gw_get (Some t))) respond"

definition routing_snapshot_GET :: "string \<Rightarrow> env \<Rightarrow> server_req \<Rightarrow> server_resp io" where
  "routing_snapshot_GET requestId e q = handle_with (typed_error ''Failed to fetch routing snapshot'')
     (with_auth (requireAdminBearer q) (routing_snapshot_GET_action requestId e q))"

section \<open>The audit log\<close>

definition audit_params :: "server_req \<Rightarrow> (string \<times> string) list" where
  "audit_params q =
     qs_params q [Optional ''from'', Optional ''to'', Optional ''tenant_id'', Optional ''jwt_sub'', Optional ''status'']
     @ [(''limit'', num_to_string (page_limit 50 q)), (''offset'', num_to_string (page_offset q))]"

definition audit_GET_body :: "env \<Rightarrow> server_req \<Rightarrow> server_resp io" where
  "audit_GET_body e q =
     io_bind (gatewayAdminFetch e (''/admin/audit/requests?'' @ params_to_string (audit_params q))
       (gw_get (getAdminAuthToken q))) (\<lambda>data.
     let rows = arr_elems (get_prop data ''data''); n = Fin (of_nat (length rows)) in
     respond (JObj [(''data'', JArr rows),
       (''pagination'', coalesce (get_prop data ''pagination'') (JObj
          [(''limit'', JNum (page_limit 50 q)), (''offset'', JNum (page_offset q)), (''returned'', JNum n),
           (''total'', JNum (num_add (page_offset q) n))]))]))"

definition audit_GET :: "env \<Rightarrow> server_req \<Rightarrow> server_resp io" where
  "audit_GET e q = handle ''Failed to fetch audit logs'' (audit_GET_body e q)"

section \<open>Downloads\<close>

text \<open>A handler that answers with JSON, or with a body of its own and headers.\<close>

datatype file_reply = JsonReply server_resp | FileReply int header_list string

definition download_request :: "string \<Rightarrow> string \<Rightarrow> http_req" where
  "download_request url t =
     \<lparr>rq_url = url, rq_method = ''GET'', rq_headers = [(''Authorization'', ''Bearer '' @ t)], rq_body = NoBody\<rparr>"

text \<open>\<open>h.get(k) ?? d\<close>\<close>

definition header_or :: "http_resp \<Rightarrow> string \<Rightarrow> string \<Rightarrow> string" where
  "header_or r k d = (case map_of (rs_headers r) k of None \<Rightarrow> d | Some v \<Rightarrow> v)"

definition csv_reply :: "string \<Rightarrow> http_resp \<Rightarrow> file_reply" where
  "csv_reply filename r =
     (if \<not> resp_ok r then
        JsonReply (json_response (JObj
          [(''error'', JStr (''Upstream error ('' @ show_int (rs_status r) @ '')'')), (''details'', JStr (rs_text r))])
          (rs_status r))
      else FileReply 200
        [(''Content-Type'', header_or r ''content-type'' ''text/csv; charset=utf-8''),
         (''Content-Disposition'', header_or r ''content-disposition'' (''attachment; filename=\"'' @ filename @ ''\"'')),
         (''Cache-Control'', ''no-store'')] (rs_text r))"

definition csv_download :: "env \<Rightarrow> string \<Rightarrow> string \<Rightarrow> string \<Rightarrow> string \<Rightarrow> file_reply io" where
  "csv_download e path filename msg t =
     (if \<not> env_set (GATEWAY_BASE_URL e) then io_return (JsonReply (error_json ''Missing GATEWAY_BASE_URL'' 500))
      else io_catch
        (io_bind (io_fetch (download_request (the (GATEWAY_BASE_URL e) @ path) t)) (\<lambda>r. io_return (csv_reply filename r)))
        (\<lambda>_. io_return (JsonReply (error_json msg 500))))"

definition audit_export_GET :: "env \<Rightarrow> server_req \<Rightarrow> file_reply io" where
  "audit_export_GET e q =
     (case requireAdminBearer q of Inl r \<Rightarrow> io_return (JsonReply r)
      | Inr t \<Rightarrow> csv_download e (''/admin/audit/requests/export.csv?'' @ params_to_string (sq_query q))
          ''audit_export.csv'' ''Failed to fetch audit export'' t)"

definition billing_report_GET :: "env \<Rightarrow> server_req \<Rightarrow> file_reply io" where
  "billing_report_GET e q =
     (case requireAdminBearer q of Inl r \<Rightarrow> io_return (JsonReply r)
      | Inr t \<Rightarrow> csv_download e (''/admin/billing/report.csv?window_hours='' @
            encodeURIComponent (or_string (search_param q ''window_hours'') ''720''))
          ''billing_report.csv'' ''Failed to fetch billing report'' t)"

section \<open>The test of tool routing\<close>

definition revoke_path :: "string \<Rightarrow> string \<Rightarrow> string" where
  "revoke_path tenantId keyId = ''/admin/tenants/'' @ encodeURIComponent tenantId @ ''/api-keys/''
     @ encodeURIComponent keyId @ ''/revoke''"

definition revokeEphemeralKey :: "env \<Rightarrow> string \<Rightarrow> string \<Rightarrow> string option \<Rightarrow> jsval io" where
  "revokeEphemeralKey e tenantId keyId tok =
     gatewayAdminFetch e (revoke_path tenantId keyId) (gw_send ''POST'' NoBody tok)"

text \<open>\<open>await revokeEphemeralKey(...).catch(() => {})\<close>\<close>

definition revoke_quietly :: "env \<Rightarrow> string \<Rightarrow> string \<Rightarrow> string option \<Rightarrow> jsval io" where
  "revoke_quietly e tenantId keyId tok = io_catch (revokeEphemeralKey e tenantId keyId tok) (\<lambda>_. io_return JUndef)"

definition test_key_request :: "jsval" where
  "test_key_request = JObj [(''name'', JStr ''__tool_routing_test__''), (''scopes'', JArr [JStr ''inference''])]"

definition test_key_path :: "string \<Rightarrow> string" where
  "test_key_path tenantId = ''/admin/tenants/'' @ encodeURIComponent tenantId @ ''/api-keys''"

fun credentials_failed :: "exn \<Rightarrow> server_resp" where
  "credentials_failed (GatewayAdminError m st d) = error_json m (case st of None \<Rightarrow> 500 | Some c \<Rightarrow> c)"
| "credentials_failed (JsError _ _) = error_json ''Failed to create test credentials'' 500"

text \<open>The key and its id, or the reply that ends the test.\<close>

definition create_test_key :: "env \<Rightarrow> string \<Rightarrow> string option \<Rightarrow> (file_reply + string \<times> string) io" where
  "create_test_key e tenantId tok =
     io_catch
       (io_bind (gatewayAdminFetch e (test_key_path tenantId) (gw_send ''POST'' (JsonBody test_key_request) tok)) (\<lambda>r.
          let key = get_prop r ''key''; kid = get_prop r ''id'' in
          io_return (if \<not> truthy key \<or> \<not> truthy kid
            then Inl (JsonReply (error_json ''Failed to obtain test credentials for tenant'' 500))
            else Inr (to_str key, to_str kid))))
       (\<lambda>err. io_return (Inl (JsonReply (credentials_failed err))))"

definition inference_request :: "env \<Rightarrow> string \<Rightarrow> jsval \<Rightarrow> http_req" where
  "inference_request e key body =
     \<lparr>rq_url = the (GATEWAY_BASE_URL e) @ ''/v1/chat/completions'', rq_method = ''POST'',
      rq_headers = [(''Content-Type'', ''application/json''), (''X-API-Key'', key)], rq_body = JsonBody body\<rparr>"

definition tool_headers :: "string list" where
  "tool_headers = [''x-tool-route'', ''x-tool-action'', ''x-tool-route-similarity'', ''x-selected-model'']"

definition forwarded_headers :: "http_resp \<Rightarrow> header_list" where
  "forwarded_headers r = (''Content-Type'', ''application/json'') #
     List.map_filter (\<lambda>k. case map_of (rs_headers r) k of Some (c # v) \<Rightarrow> Some (k, c # v) | _ \<Rightarrow> None) tool_headers"

definition run_inference :: "env \<Rightarrow> string \<Rightarrow> string \<Rightarrow> string \<Rightarrow> string option \<Rightarrow> jsval \<Rightarrow> file_reply io" where
  "run_inference e tenantId key kid tok body =
     io_bind (io_catch (io_bind (io_fetch (inference_request e key body)) (\<lambda>r. io_return (Some r)))
                       (\<lambda>_. io_return None)) (\<lambda>res.
     case res of
       None \<Rightarrow> io_bind (revoke_quietly e tenantId kid tok) (\<lambda>_.
         io_return (JsonReply (error_json ''Backend unreachable'' 503)))
     | Some r \<Rightarrow> io_bind (revoke_quietly e tenantId kid tok) (\<lambda>_.
         io_return (FileReply (rs_status r) (forwarded_headers r) (rs_text r))))"

definition tool_test_POST :: "env \<Rightarrow> server_req \<Rightarrow> file_reply io" where
  "tool_test_POST e q =
     (let tenantId = get_or_empty q ''tenant_id''; tok = getAdminAuthToken q in
      if tenantId = [] then io_return (JsonReply (error_json ''tenant_id is required'' 400))
      else if \<not> env_set (GATEWAY_BASE_URL e) then io_return (JsonReply (error_json ''Missing GATEWAY_BASE_URL'' 500))
      else case sq_body q of
        None \<Rightarrow> io_return (JsonReply (error_json ''Invalid request body'' 400))
      | Some body \<Rightarrow>
          io_bind (create_test_key e tenantId tok) (\<lambda>s.
          case s of Inl reply \<Rightarrow> io_return reply
          | Inr (key, kid) \<Rightarrow> run_inference e tenantId key kid tok body))"

section \<open>The routes meet their interfaces\<close>

interpretation replay_POST: guarded_route "replay_POST requestId" "typed_error ''Failed to run replay''"
  requireAdminBearer "replay_POST_action requestId" for requestId
  by unfold_locales (auto simp: replay_POST_def replay_POST_action_def
      dest: admin_guard_facts intro!: issues_rules intro: admin_guard_facts)

interpretation routing_snapshot_GET: guarded_route "routing_snapshot_GET requestId"
  "typed_error ''Failed to fetch routing snapshot''" requireAdminBearer "routing_snapshot_GET_action requestId" for requestId
  by unfold_locales (auto simp: routing_snapshot_GET_def routing_snapshot_GET_action_def
      dest: admin_guard_facts intro!: issues_rules intro: admin_guard_facts)

interpretation audit_GET: forwarding_route audit_GET "route_error ''Failed to fetch audit logs''" audit_GET_body
  by unfold_locales (auto simp: audit_GET_def audit_GET_body_def Let_def intro!: issues_rules)

end
