(* ===== verification/Routing_Log_Props.thy ===== *)
theory Routing_Log_Props
  imports Routing_Log_Routes
begin

text \<open>
  Properties of the tool routing test and of the downloads: the life of the key created for a test,
  and which credentials a download is made with.
\<close>

section \<open>The key of a test\<close>

lemma snd_bind:
  "snd (io_bind m f net h) =
     (case m net h of (Inl _, h') \<Rightarrow> h' | (Inr x, h') \<Rightarrow> snd (f x net h'))"
  by (simp add: io_bind_def split: prod.splits sum.splits)

lemma revoke_sends:
  assumes "callable e tok"
  shows "\<exists>x rest. revoke_quietly e tenantId kid tok net h =
    (Inr x, h @ first_request e (revoke_path tenantId kid) (gw_send ''POST'' NoBody tok) # rest)
    \<and> list_all (authorised e tok) rest"
proof -
  let ?opts = "gw_send ''POST'' NoBody tok" and ?path = "revoke_path tenantId kid"
  obtain r h' where run: "gatewayAdminFetch e ?path ?opts net h = (r, h')" by (cases "gatewayAdminFetch e ?path ?opts net h")
  then obtain rest where h': "h' = h @ first_request e ?path ?opts # rest"
    using gw_first [of e ?opts ?path net h] assms by auto
  have "issues (authorised e tok) (gatewayAdminFetch e ?path ?opts)" by (rule issues_rules)
  from issues_run [OF this run] h' have "list_all (authorised e tok) rest" by auto
  with run h' show ?thesis
    by (auto simp: revoke_quietly_def revokeEphemeralKey_def io_catch_def io_return_def split: sum.splits)
qed

lemma run_inference_sends:
  assumes "callable e tok"
  shows "\<exists>reply rest. run_inference e tenantId key kid tok body net h =
    (Inr reply, h @ inference_request e key body #
       first_request e (revoke_path tenantId kid) (gw_send ''POST'' NoBody tok) # rest)
    \<and> list_all (authorised e tok) rest"
proof -
  let ?i = "inference_request e key body"
  let ?rq = "first_request e (revoke_path tenantId kid) (gw_send ''POST'' NoBody tok)"
  obtain x rest where rev: "revoke_quietly e tenantId kid tok net (h @ [?i]) = (Inr x, (h @ [?i]) @ ?rq # rest)"
    and auth: "list_all (authorised e tok) rest"
    using revoke_sends [OF assms, of tenantId kid net "h @ [?i]"] by blast
  show ?thesis
  proof (cases "net h ?i")
    case (FetchFail m)
    with rev auth show ?thesis
      by (simp add: run_inference_def io_bind_def io_catch_def io_fetch_def io_return_def)
  next
    case (FetchOk r)
    with rev auth show ?thesis
      by (simp add: run_inference_def io_bind_def io_catch_def io_fetch_def io_return_def)
  qed
qed


definition demo_test_req :: server_req where
  "demo_test_req = \<lparr>sq_query = [(''tenant_id'', ''acme'')], sq_headers = [],
     sq_cookies = [(''admin_access_token'', ''tok'')], sq_body = Some (JObj [])\<rparr>"

text \<open>A gateway that issues a key and then cannot be reached.\<close>

definition demo_test_net :: net where
  "demo_test_net h r =
     (if h = [] then FetchOk \<lparr>rs_status = 200, rs_text = [],
        rs_json = Some (JObj [(''key'', JStr ''secret''), (''id'', JStr ''k1'')]), rs_headers = []\<rparr>
      else FetchFail ''down'')"


section \<open>Downloads\<close>

lemma csv_download_requests:
  assumes "env_set (GATEWAY_BASE_URL e)"
  shows "io_requests (csv_download e path filename msg t) net = [download_request (the (GATEWAY_BASE_URL e) @ path) t]"
  using assms by (auto simp: io_requests_def csv_download_def io_catch_def io_bind_def io_fetch_def io_return_def
      split: fetch_result.splits)

text \<open>Downloads are made with the caller's token alone: without one they answer 401 and send
  nothing; with one, exactly one request goes to the gateway, with that token as Bearer and without the admin API key,
  the audit filters read back as the caller gave them. So a mock session, which acts with the admin
  key everywhere else, presents its placeholder token to the gateway here.\<close>

theorem downloads_use_caller_token:
  assumes "env_set (GATEWAY_BASE_URL e)"
  shows "(getAdminAuthToken q = None \<longrightarrow>
      audit_export_GET e q net [] = (Inr (JsonReply (error_json ''Authentication required'' 401)), [])
      \<and> billing_report_GET e q net [] = (Inr (JsonReply (error_json ''Authentication required'' 401)), []))
    \<and> (\<forall>t. getAdminAuthToken q = Some t \<and> t \<noteq> [] \<longrightarrow>
      (\<exists>qs url. io_requests (audit_export_GET e q) net =
          [download_request (the (GATEWAY_BASE_URL e) @ ''/admin/audit/requests/export.csv?'' @ qs) t]
        \<and> (sq_query q \<noteq> [] \<longrightarrow> params_parse qs = sq_query q)
        \<and> io_requests (billing_report_GET e q) net = [download_request url t])
      \<and> list_all no_api_key (io_requests (audit_export_GET e q) net @ io_requests (billing_report_GET e q) net))"
proof (intro conjI allI impI)
  assume "getAdminAuthToken q = None"
  then show "audit_export_GET e q net [] = (Inr (JsonReply (error_json ''Authentication required'' 401)), [])"
    and "billing_report_GET e q net [] = (Inr (JsonReply (error_json ''Authentication required'' 401)), [])"
    by (simp_all add: audit_export_GET_def billing_report_GET_def requireAdminBearer_def io_return_def)
next
  fix t assume t: "getAdminAuthToken q = Some t \<and> t \<noteq> []"
  then have g: "requireAdminBearer q = Inr t" by (auto intro: guard_facts)
  let ?qs = "params_to_string (sq_query q)"
  have a: "io_requests (audit_export_GET e q) net =
      [download_request (the (GATEWAY_BASE_URL e) @ ''/admin/audit/requests/export.csv?'' @ ?qs) t]"
    using g by (simp add: audit_export_GET_def csv_download_requests [OF assms])
  obtain url where b: "io_requests (billing_report_GET e q) net = [download_request url t]"
    using g by (simp add: billing_report_GET_def csv_download_requests [OF assms])
  show "\<exists>qs url. io_requests (audit_export_GET e q) net =
          [download_request (the (GATEWAY_BASE_URL e) @ ''/admin/audit/requests/export.csv?'' @ qs) t]
        \<and> (sq_query q \<noteq> [] \<longrightarrow> params_parse qs = sq_query q)
        \<and> io_requests (billing_report_GET e q) net = [download_request url t]"
    using a b params_parse_to_string [of "sq_query q"] by blast
  show "list_all no_api_key (io_requests (audit_export_GET e q) net @ io_requests (billing_report_GET e q) net)"
    unfolding a b by (simp add: no_api_key_def download_request_def)
qed

theorem downloads_use_caller_token_witness:
  "\<exists>url. io_requests (billing_report_GET demo_env
      \<lparr>sq_query = [], sq_headers = [], sq_cookies = [(''is_mock_session'', ''1'')], sq_body = None\<rparr>) (\<lambda>_ _. FetchFail []) =
    [download_request url MOCK_SESSION_SENTINEL]"
proof -
  let ?q = "\<lparr>sq_query = [], sq_headers = [], sq_cookies = [(''is_mock_session'', ''1'')], sq_body = None\<rparr>"
  have "getAdminAuthToken ?q = Some MOCK_SESSION_SENTINEL" by (simp add: getAdminAuthToken_def)
  moreover have "MOCK_SESSION_SENTINEL \<noteq> []" by (simp add: MOCK_SESSION_SENTINEL_def)
  moreover have "env_set (GATEWAY_BASE_URL demo_env)" by (simp add: env_set_def)
  ultimately show ?thesis using downloads_use_caller_token [of demo_env ?q "\<lambda>_ _. FetchFail []"] by blast
qed

end
