(* ===== verification/Semantic_Routes.thy ===== *)
theory Semantic_Routes
  imports Routes_Base
begin

text \<open>
  app/api/semantic/** (anchors, routes, threshold, test, suggestion and calibration of semantic
  routing), app/api/benchmarks/** and the two catalogs app/api/model-catalog/** and
  app/api/tool-catalog/**. The semantic routes and the model benchmarks are unguarded.
\<close>

section \<open>Semantic anchors\<close>

text \<open>\<open>get(k) ?? d\<close>\<close>

definition param_or :: "server_req \<Rightarrow> string \<Rightarrow> string \<Rightarrow> string" where
  "param_or q k d = (case search_param q k of None \<Rightarrow> d | Some v \<Rightarrow> v)"

definition serializeParams :: "(string \<times> string option) list \<Rightarrow> string" where
  "serializeParams ps =
     params_to_string (List.map_filter (\<lambda>(k, v). case v of None \<Rightarrow> None | Some x \<Rightarrow> Some (k, x)) ps)"

definition anchors_GET_body :: "env \<Rightarrow> server_req \<Rightarrow> server_resp io" where
  "anchors_GET_body e q =
     io_bind (gatewayAdminFetch e (''/v1/semantic/anchors?'' @ serializeParams
       [(''limit'', Some (param_or q ''limit'' ''50'')), (''offset'', Some (param_or q ''offset'' ''0'')),
        (''include_anchor_text'', Some (param_or q ''include_anchor_text'' ''false'')),
        (''tenant_id'', search_param q ''tenant_id'')]) (gw_get (getAdminAuthToken q))) respond"

definition anchors_GET :: "env \<Rightarrow> server_req \<Rightarrow> server_resp io" where
  "anchors_GET e q = handle ''Failed to fetch semantic anchors'' (anchors_GET_body e q)"

text \<open>\<open>tenantId ? `${path}?tenant_id=${encodeURIComponent(tenantId)}` : path\<close>\<close>

definition for_tenant :: "string \<Rightarrow> server_req \<Rightarrow> string" where
  "for_tenant path q =
     (if get_or_empty q ''tenant_id'' = [] then path
      else path @ ''?tenant_id='' @ encodeURIComponent (get_or_empty q ''tenant_id''))"

definition anchors_POST_body :: "env \<Rightarrow> server_req \<Rightarrow> server_resp io" where
  "anchors_POST_body e q =
     io_bind (request_json q) (\<lambda>body.
     io_bind (gatewayAdminFetch e (for_tenant ''/v1/semantic/anchors'' q)
       (gw_send ''POST'' (JsonBody body) (getAdminAuthToken q))) respond)"

definition anchors_POST :: "env \<Rightarrow> server_req \<Rightarrow> server_resp io" where
  "anchors_POST e q = handle ''Failed to create semantic anchor'' (anchors_POST_body e q)"

definition anchor_path :: "string \<Rightarrow> server_req \<Rightarrow> string" where
  "anchor_path name q = for_tenant (''/v1/semantic/anchors/'' @ encodeURIComponent name) q"

definition anchor_PATCH_body :: "string \<Rightarrow> env \<Rightarrow> server_req \<Rightarrow> server_resp io" where
  "anchor_PATCH_body name e q =
     io_bind (request_json q) (\<lambda>body.
     io_bind (gatewayAdminFetch e (anchor_path name q)
       (gw_send ''PATCH'' (JsonBody body) (getAdminAuthToken q))) respond)"

definition anchor_PATCH :: "string \<Rightarrow> env \<Rightarrow> server_req \<Rightarrow> server_resp io" where
  "anchor_PATCH name e q = handle ''Failed to update semantic anchor'' (anchor_PATCH_body name e q)"

definition deleted_reply :: "server_resp io" where
  "deleted_reply = respond (JObj [(''status'', JStr ''deleted'')])"

definition anchor_DELETE_body :: "string \<Rightarrow> env \<Rightarrow> server_req \<Rightarrow> server_resp io" where
  "anchor_DELETE_body name e q =
     io_bind (gatewayAdminFetch e (anchor_path name q) (gw_send ''DELETE'' NoBody (getAdminAuthToken q)))
       (\<lambda>_. deleted_reply)"

definition anchor_DELETE :: "string \<Rightarrow> env \<Rightarrow> server_req \<Rightarrow> server_resp io" where
  "anchor_DELETE name e q = handle ''Failed to delete semantic anchor'' (anchor_DELETE_body name e q)"

section \<open>Semantic routes and tools\<close>

text \<open>The tenant of the query, else of the body; reading the body raises when it is null.\<close>

definition tenantIdFromRequest :: "server_req \<Rightarrow> jsval \<Rightarrow> exn + string option" where
  "tenantIdFromRequest q body =
     (if get_or_empty q ''tenant_id'' \<noteq> [] then Inr (Some (get_or_empty q ''tenant_id''))
      else if nullish body then Inl type_error
      else let v = get_prop body ''tenant_id'' in
        Inr (if is_str v \<and> trim (str_of v) \<noteq> [] then Some (trim (str_of v)) else None))"

text \<open>\<open>{ ...body }\<close> without \<open>tenant_id\<close>\<close>

definition without_tenant :: "jsval \<Rightarrow> jsval" where
  "without_tenant body = JObj (obj_del ''tenant_id'' (spread [] (js_entries body)))"

definition semantic_post :: "string \<Rightarrow> env \<Rightarrow> server_req \<Rightarrow> server_resp io" where
  "semantic_post path e q =
     (let body = request_json_or_empty q in
      io_bind (io_of_sum (tenantIdFromRequest q body)) (\<lambda>tenantId.
      case tenantId of
        None \<Rightarrow> bad_request ''tenant_id is required''
      | Some t \<Rightarrow> io_bind (gatewayAdminFetch e (path @ ''?tenant_id='' @ encodeURIComponent t)
          (gw_send ''POST'' (JsonBody (without_tenant body)) (getAdminAuthToken q))) respond))"

definition semantic_calibrate_POST :: "env \<Rightarrow> server_req \<Rightarrow> server_resp io" where
  "semantic_calibrate_POST e q = handle ''Failed to calibrate semantic threshold''
     (semantic_post ''/admin/semantic/anchors/calibrate'' e q)"

definition semantic_suggest_POST :: "env \<Rightarrow> server_req \<Rightarrow> server_resp io" where
  "semantic_suggest_POST e q = handle ''Failed to suggest anchors''
     (semantic_post ''/admin/semantic/anchors/suggest'' e q)"

definition semantic_test_POST :: "env \<Rightarrow> server_req \<Rightarrow> server_resp io" where
  "semantic_test_POST e q = handle ''Failed to run semantic test'' (semantic_post ''/admin/semantic/test'' e q)"

definition semantic_routes_POST :: "env \<Rightarrow> server_req \<Rightarrow> server_resp io" where
  "semantic_routes_POST e q = handle ''Failed to create semantic route''
     (semantic_post ''/admin/semantic/routes'' e q)"

text \<open>The handlers below answer 400 without a tenant in the query.\<close>

definition with_tenant :: "server_req \<Rightarrow> (string \<Rightarrow> server_resp io) \<Rightarrow> server_resp io" where
  "with_tenant q k =
     (if get_or_empty q ''tenant_id'' = [] then bad_request ''tenant_id is required''
      else k (get_or_empty q ''tenant_id''))"

definition semantic_routes_GET_body :: "env \<Rightarrow> server_req \<Rightarrow> server_resp io" where
  "semantic_routes_GET_body e q = with_tenant q (\<lambda>t.
     io_bind (gatewayAdminFetch e (''/admin/semantic/routes?tenant_id='' @ encodeURIComponent t)
       (gw_get (getAdminAuthToken q))) respond)"

definition semantic_routes_GET :: "env \<Rightarrow> server_req \<Rightarrow> server_resp io" where
  "semantic_routes_GET e q = handle ''Failed to fetch semantic routes'' (semantic_routes_GET_body e q)"

definition semantic_route_path :: "string \<Rightarrow> string \<Rightarrow> string" where
  "semantic_route_path name t =
     ''/admin/semantic/routes/'' @ encodeURIComponent name @ ''?tenant_id='' @ encodeURIComponent t"

text \<open>There is no read by name in the gateway: the read is an empty patch.\<close>

definition semantic_route_GET_body :: "string \<Rightarrow> env \<Rightarrow> server_req \<Rightarrow> server_resp io" where
  "semantic_route_GET_body name e q = with_tenant q (\<lambda>t.
     io_bind (gatewayAdminFetch e (semantic_route_path name t)
       (gw_send ''PATCH'' (JsonBody (JObj [])) (getAdminAuthToken q))) respond)"

definition semantic_route_GET :: "string \<Rightarrow> env \<Rightarrow> server_req \<Rightarrow> server_resp io" where
  "semantic_route_GET name e q = handle ''Failed to fetch semantic route'' (semantic_route_GET_body name e q)"

definition semantic_route_PATCH_body :: "string \<Rightarrow> env \<Rightarrow> server_req \<Rightarrow> server_resp io" where
  "semantic_route_PATCH_body name e q = with_tenant q (\<lambda>t.
     io_bind (gatewayAdminFetch e (semantic_route_path name t)
       (gw_send ''PATCH'' (JsonBody (request_json_or_empty q)) (getAdminAuthToken q))) respond)"

definition semantic_route_PATCH :: "string \<Rightarrow> env \<Rightarrow> server_req \<Rightarrow> server_resp io" where
  "semantic_route_PATCH name e q = handle ''Failed to update semantic route'' (semantic_route_PATCH_body name e q)"

definition semantic_route_DELETE_body :: "string \<Rightarrow> env \<Rightarrow> server_req \<Rightarrow> server_resp io" where
  "semantic_route_DELETE_body name e q = with_tenant q (\<lambda>t.
     io_bind (gatewayAdminFetch e (semantic_route_path name t) (gw_send ''DELETE'' NoBody (getAdminAuthToken q)))
       (\<lambda>_. deleted_reply))"

definition semantic_route_DELETE :: "string \<Rightarrow> env \<Rightarrow> server_req \<Rightarrow> server_resp io" where
  "semantic_route_DELETE name e q = handle ''Failed to delete semantic route'' (semantic_route_DELETE_body name e q)"

section \<open>The semantic threshold\<close>

definition extractThresholdFromConfig :: "jsval \<Rightarrow> jsval" where
  "extractThresholdFromConfig config =
     (if \<not> truthy config then JNull
      else
        let semantic = coalesce (get_prop (get_prop config ''routing'') ''semantic'') (get_prop config ''semantic'') in
        if truthy semantic \<and> is_number (get_prop semantic ''threshold_default'')
        then get_prop semantic ''threshold_default''
        else if is_number (get_prop config ''threshold_default'') then get_prop config ''threshold_default''
        else JNull)"

definition threshold_GET_body :: "env \<Rightarrow> server_req \<Rightarrow> server_resp io" where
  "threshold_GET_body e q = with_tenant q (\<lambda>t.
     io_bind (gatewayAdminFetch e (tenant_path t ''/config'') (gw_get (getAdminAuthToken q))) (\<lambda>data.
     io_bind (read_prop data ''config'') (\<lambda>config.
     respond (JObj [(''tenant_id'', JStr t), (''threshold_default'', extractThresholdFromConfig config)]))))"

definition threshold_GET :: "env \<Rightarrow> server_req \<Rightarrow> server_resp io" where
  "threshold_GET e q = handle ''Failed to fetch semantic threshold'' (threshold_GET_body e q)"

definition threshold_PATCH_body :: "env \<Rightarrow> server_req \<Rightarrow> server_resp io" where
  "threshold_PATCH_body e q =
     io_bind (request_json q) (\<lambda>body.
     io_bind (read_prop body ''tenant_id'') (\<lambda>tenantId.
     let v = get_prop body ''threshold_default'' in
     if \<not> truthy tenantId \<or> \<not> is_number v then bad_request ''tenant_id and threshold_default are required''
     else io_bind (gatewayAdminFetch e (tenant_path (to_str tenantId) ''/semantic-threshold'')
       (gw_send ''PATCH'' (JsonBody (JObj [(''threshold_default'', v)])) (getAdminAuthToken q))) respond))"

definition threshold_PATCH :: "env \<Rightarrow> server_req \<Rightarrow> server_resp io" where
  "threshold_PATCH e q = handle ''Failed to update semantic threshold'' (threshold_PATCH_body e q)"

section \<open>Benchmarks\<close>

text \<open>A missing endpoint of the gateway is answered with a reply of the route's own.\<close>

definition on_404 :: "server_resp \<Rightarrow> string \<Rightarrow> exn \<Rightarrow> server_resp" where
  "on_404 reply msg err =
     (case err of GatewayAdminError m (Some st) d \<Rightarrow> if st = 404 then reply else route_error msg err
      | _ \<Rightarrow> route_error msg err)"

definition benchmarks_GET_action :: "env \<Rightarrow> server_req \<Rightarrow> string \<Rightarrow> server_resp io" where
  "benchmarks_GET_action e q t =
     io_bind (getBenchmarks e (Some t)) (\<lambda>result.
     io_bind (data_or_empty result) (\<lambda>d. respond (JObj [(''data'', d)])))"

definition benchmarks_GET :: "env \<Rightarrow> server_req \<Rightarrow> server_resp io" where
  "benchmarks_GET e q =
     handle_with (on_404 (json_response (JObj [(''data'', JArr [])]) 200) ''Failed to fetch benchmarks'')
       (with_auth (requireAdminBearer q) (benchmarks_GET_action e q))"

definition benchmarks_POST_action :: "env \<Rightarrow> server_req \<Rightarrow> string \<Rightarrow> server_resp io" where
  "benchmarks_POST_action e q t =
     io_bind (request_json q) (\<lambda>body.
     io_bind (read_prop body ''tenant_id'') (\<lambda>tid.
     if \<not> truthy tid \<or> \<not> truthy (get_prop body ''models'') \<or> \<not> truthy (get_prop body ''prompts'')
     then bad_request ''Missing required fields: tenant_id, models, prompts''
     else io_bind (createBenchmark e (JObj [(''tenant_id'', tid), (''models'', get_prop body ''models''),
            (''prompts'', get_prop body ''prompts'')]) (Some t))
          (\<lambda>result. io_return (json_response result 201))))"

definition benchmarks_POST :: "env \<Rightarrow> server_req \<Rightarrow> server_resp io" where
  "benchmarks_POST e q =
     handle_with (on_404 (error_json ''Benchmark creation is not available in the current backend version'' 501)
         ''Failed to create benchmark'')
       (with_auth (requireAdminBearer q) (benchmarks_POST_action e q))"

definition benchmark_GET_action :: "string \<Rightarrow> env \<Rightarrow> server_req \<Rightarrow> string \<Rightarrow> server_resp io" where
  "benchmark_GET_action benchmarkId e q t = io_bind (getBenchmark e benchmarkId (Some t)) respond"

definition benchmark_GET :: "string \<Rightarrow> env \<Rightarrow> server_req \<Rightarrow> server_resp io" where
  "benchmark_GET benchmarkId e q = handle ''Failed to fetch benchmark''
     (with_auth (requireAdminBearer q) (benchmark_GET_action benchmarkId e q))"

definition empty_summary :: server_resp where
  "empty_summary = json_response (JObj
     [(''total_benchmarks'', jint 0), (''avg_latency_ms'', jint 0), (''success_rate'', jint 0)]) 200"

definition benchmark_summary_GET_action :: "env \<Rightarrow> server_req \<Rightarrow> string \<Rightarrow> server_resp io" where
  "benchmark_summary_GET_action e q t = io_bind (getBenchmarkSummary e (Some t)) respond"

definition benchmark_summary_GET :: "env \<Rightarrow> server_req \<Rightarrow> server_resp io" where
  "benchmark_summary_GET e q =
     handle_with (on_404 empty_summary ''Failed to fetch benchmark summary'')
       (with_auth (requireAdminBearer q) (benchmark_summary_GET_action e q))"

definition model_benchmarks_GET_body :: "env \<Rightarrow> server_req \<Rightarrow> server_resp io" where
  "model_benchmarks_GET_body e q =
     io_bind (getModelBenchmarks e (int_param q ''window_hours'' ''24'') (getAdminAuthToken q)) respond"

definition model_benchmarks_GET :: "env \<Rightarrow> server_req \<Rightarrow> server_resp io" where
  "model_benchmarks_GET e q = handle ''Failed to fetch benchmarks'' (model_benchmarks_GET_body e q)"

definition model_benchmarks_DELETE_body :: "env \<Rightarrow> server_req \<Rightarrow> server_resp io" where
  "model_benchmarks_DELETE_body e q = io_bind (deleteModelBenchmarks e (getAdminAuthToken q)) respond"

definition model_benchmarks_DELETE :: "env \<Rightarrow> server_req \<Rightarrow> server_resp io" where
  "model_benchmarks_DELETE e q = handle ''Failed to clear benchmark history'' (model_benchmarks_DELETE_body e q)"

section \<open>The catalogs\<close>

definition catalog_entry :: "string \<Rightarrow> string \<Rightarrow> string \<Rightarrow> string" where
  "catalog_entry base provider i = base @ ''/'' @ encodeURIComponent provider @ ''/'' @ encodeURIComponent i"

definition catalog_list :: "string \<Rightarrow> env \<Rightarrow> server_req \<Rightarrow> string \<Rightarrow> server_resp io" where
  "catalog_list base e q t =
     io_bind (gatewayAdminFetch e (with_query base (sq_query q)) (gw_get (Some t))) respond"

definition catalog_create :: "string \<Rightarrow> env \<Rightarrow> server_req \<Rightarrow> string \<Rightarrow> server_resp io" where
  "catalog_create base e q t =
     io_bind (request_json q) (\<lambda>body.
     io_bind (gatewayAdminFetch e base (gw_send ''POST'' (JsonBody body) (Some t)))
       (\<lambda>result. io_return (json_response result 201)))"

definition catalog_update :: "string \<Rightarrow> string \<Rightarrow> string \<Rightarrow> env \<Rightarrow> server_req \<Rightarrow> string \<Rightarrow> server_resp io" where
  "catalog_update base provider i e q t =
     io_bind (request_json q) (\<lambda>body.
     io_bind (gatewayAdminFetch e (catalog_entry base provider i) (gw_send ''PUT'' (JsonBody body) (Some t))) respond)"

definition catalog_delete :: "string \<Rightarrow> string \<Rightarrow> string \<Rightarrow> env \<Rightarrow> server_req \<Rightarrow> string \<Rightarrow> server_resp io" where
  "catalog_delete base provider i e q t =
     io_bind (gatewayAdminFetch e (catalog_entry base provider i) (gw_send ''DELETE'' NoBody (Some t)))
       (\<lambda>_. no_content)"

definition model_catalog_GET :: "env \<Rightarrow> server_req \<Rightarrow> server_resp io" where
  "model_catalog_GET e q = handle ''Failed to fetch model catalog''
     (with_auth (requireAdminBearer q) (catalog_list ''/admin/model-catalog'' e q))"

definition model_catalog_POST :: "env \<Rightarrow> server_req \<Rightarrow> server_resp io" where
  "model_catalog_POST e q = handle ''Failed to create model catalog entry''
     (with_auth (requireAdminBearer q) (catalog_create ''/admin/model-catalog'' e q))"

definition model_catalog_PUT :: "string \<Rightarrow> string \<Rightarrow> env \<Rightarrow> server_req \<Rightarrow> server_resp io" where
  "model_catalog_PUT provider i e q = handle ''Failed to update model catalog entry''
     (with_auth (requireAdminBearer q) (catalog_update ''/admin/model-catalog'' provider i e q))"

definition model_catalog_DELETE :: "string \<Rightarrow> string \<Rightarrow> env \<Rightarrow> server_req \<Rightarrow> server_resp io" where
  "model_catalog_DELETE provider i e q = handle ''Failed to delete model catalog entry''
     (with_auth (requireAdminBearer q) (catalog_delete ''/admin/model-catalog'' provider i e q))"

definition tool_catalog_GET :: "env \<Rightarrow> server_req \<Rightarrow> server_resp io" where
  "tool_catalog_GET e q = handle ''Failed to fetch tool catalog''
     (with_auth (requireAdminBearer q) (catalog_list ''/admin/tool-catalog'' e q))"

definition tool_catalog_POST :: "env \<Rightarrow> server_req \<Rightarrow> server_resp io" where
  "tool_catalog_POST e q = handle ''Failed to create tool catalog entry''
     (with_auth (requireAdminBearer q) (catalog_create ''/admin/tool-catalog'' e q))"

definition tool_catalog_PUT :: "string \<Rightarrow> string \<Rightarrow> env \<Rightarrow> server_req \<Rightarrow> server_resp io" where
  "tool_catalog_PUT provider i e q = handle ''Failed to update tool catalog entry''
     (with_auth (requireAdminBearer q) (catalog_update ''/admin/tool-catalog'' provider i e q))"

definition tool_catalog_DELETE :: "string \<Rightarrow> string \<Rightarrow> env \<Rightarrow> server_req \<Rightarrow> server_resp io" where
  "tool_catalog_DELETE provider i e q = handle ''Failed to delete tool catalog entry''
     (with_auth (requireAdminBearer q) (catalog_delete ''/admin/tool-catalog'' provider i e q))"

section \<open>The routes meet their interfaces\<close>

lemma issues_with_tenant [issues_rules]:
  "(\<And>t. issues P (k t)) \<Longrightarrow> issues P (with_tenant q k)"
  by (simp add: with_tenant_def issues_rules)

lemma issues_deleted_reply [issues_rules]: "issues P deleted_reply"
  by (simp add: deleted_reply_def issues_rules)

lemma issues_semantic_post [issues_rules]:
  "issues (authorised e (getAdminAuthToken q)) (semantic_post path e q)"
  unfolding semantic_post_def Let_def by (intro issues_rules)

lemma issues_catalog [issues_rules]:
  "issues (authorised e (Some t)) (catalog_list base e q t)"
  "issues (authorised e (Some t)) (catalog_create base e q t)"
  "issues (authorised e (Some t)) (catalog_update base provider i e q t)"
  "issues (authorised e (Some t)) (catalog_delete base provider i e q t)"
  by (simp_all add: catalog_list_def catalog_create_def catalog_update_def catalog_delete_def issues_rules)

interpretation anchors_GET: forwarding_route anchors_GET
  "route_error ''Failed to fetch semantic anchors''" anchors_GET_body
  by unfold_locales (auto simp: anchors_GET_def anchors_GET_body_def Let_def intro!: issues_rules)

interpretation anchors_POST: forwarding_route anchors_POST
  "route_error ''Failed to create semantic anchor''" anchors_POST_body
  by unfold_locales (auto simp: anchors_POST_def anchors_POST_body_def Let_def intro!: issues_rules)

interpretation anchor_PATCH: forwarding_route "anchor_PATCH name"
  "route_error ''Failed to update semantic anchor''" "anchor_PATCH_body name" for name
  by unfold_locales (auto simp: anchor_PATCH_def anchor_PATCH_body_def Let_def intro!: issues_rules)

interpretation anchor_DELETE: forwarding_route "anchor_DELETE name"
  "route_error ''Failed to delete semantic anchor''" "anchor_DELETE_body name" for name
  by unfold_locales (auto simp: anchor_DELETE_def anchor_DELETE_body_def Let_def intro!: issues_rules)

interpretation semantic_calibrate_POST: forwarding_route semantic_calibrate_POST
  "route_error ''Failed to calibrate semantic threshold''" "semantic_post ''/admin/semantic/anchors/calibrate''"
  by unfold_locales (auto simp: semantic_calibrate_POST_def  Let_def intro!: issues_rules)

interpretation semantic_suggest_POST: forwarding_route semantic_suggest_POST
  "route_error ''Failed to suggest anchors''" "semantic_post ''/admin/semantic/anchors/suggest''"
  by unfold_locales (auto simp: semantic_suggest_POST_def  Let_def intro!: issues_rules)

interpretation semantic_test_POST: forwarding_route semantic_test_POST
  "route_error ''Failed to run semantic test''" "semantic_post ''/admin/semantic/test''"
  by unfold_locales (auto simp: semantic_test_POST_def  Let_def intro!: issues_rules)

interpretation semantic_routes_POST: forwarding_route semantic_routes_POST
  "route_error ''Failed to create semantic route''" "semantic_post ''/admin/semantic/routes''"
  by unfold_locales (auto simp: semantic_routes_POST_def  Let_def intro!: issues_rules)

interpretation semantic_routes_GET: forwarding_route semantic_routes_GET
  "route_error ''Failed to fetch semantic routes''" semantic_routes_GET_body
  by unfold_locales (auto simp: semantic_routes_GET_def semantic_routes_GET_body_def Let_def intro!: issues_rules)

interpretation semantic_route_GET: forwarding_route "semantic_route_GET name"
  "route_error ''Failed to fetch semantic route''" "semantic_route_GET_body name" for name
  by unfold_locales (auto simp: semantic_route_GET_def semantic_route_GET_body_def Let_def intro!: issues_rules)

interpretation semantic_route_PATCH: forwarding_route "semantic_route_PATCH name"
  "route_error ''Failed to update semantic route''" "semantic_route_PATCH_body name" for name
  by unfold_locales (auto simp: semantic_route_PATCH_def semantic_route_PATCH_body_def Let_def intro!: issues_rules)

interpretation semantic_route_DELETE: forwarding_route "semantic_route_DELETE name"
  "route_error ''Failed to delete semantic route''" "semantic_route_DELETE_body name" for name
  by unfold_locales (auto simp: semantic_route_DELETE_def semantic_route_DELETE_body_def Let_def intro!: issues_rules)

interpretation threshold_GET: forwarding_route threshold_GET
  "route_error ''Failed to fetch semantic threshold''" threshold_GET_body
  by unfold_locales (auto simp: threshold_GET_def threshold_GET_body_def Let_def intro!: issues_rules)

interpretation threshold_PATCH: forwarding_route threshold_PATCH
  "route_error ''Failed to update semantic threshold''" threshold_PATCH_body
  by unfold_locales (auto simp: threshold_PATCH_def threshold_PATCH_body_def Let_def intro!: issues_rules)

interpretation model_benchmarks_GET: forwarding_route model_benchmarks_GET
  "route_error ''Failed to fetch benchmarks''" model_benchmarks_GET_body
  by unfold_locales (auto simp: model_benchmarks_GET_def model_benchmarks_GET_body_def Let_def intro!: issues_rules)

interpretation model_benchmarks_DELETE: forwarding_route model_benchmarks_DELETE
  "route_error ''Failed to clear benchmark history''" model_benchmarks_DELETE_body
  by unfold_locales (auto simp: model_benchmarks_DELETE_def model_benchmarks_DELETE_body_def Let_def intro!: issues_rules)

interpretation benchmarks_GET: guarded_route benchmarks_GET
  "on_404 (json_response (JObj [(''data'', JArr [])]) 200) ''Failed to fetch benchmarks''" requireAdminBearer benchmarks_GET_action
  by unfold_locales (auto simp: benchmarks_GET_def benchmarks_GET_action_def dest: admin_guard_facts
      intro!: issues_rules intro: admin_guard_facts)

interpretation benchmarks_POST: guarded_route benchmarks_POST
  "on_404 (error_json ''Benchmark creation is not available in the current backend version'' 501)
     ''Failed to create benchmark''" requireAdminBearer benchmarks_POST_action
  by unfold_locales (auto simp: benchmarks_POST_def benchmarks_POST_action_def dest: admin_guard_facts
      intro!: issues_rules intro: admin_guard_facts)

interpretation benchmark_GET: guarded_route "benchmark_GET benchmarkId"
  "route_error ''Failed to fetch benchmark''" requireAdminBearer "benchmark_GET_action benchmarkId" for benchmarkId
  by unfold_locales (auto simp: benchmark_GET_def benchmark_GET_action_def dest: admin_guard_facts
      intro!: issues_rules intro: admin_guard_facts)

interpretation benchmark_summary_GET: guarded_route benchmark_summary_GET
  "on_404 empty_summary ''Failed to fetch benchmark summary''" requireAdminBearer benchmark_summary_GET_action
  by unfold_locales (auto simp: benchmark_summary_GET_def benchmark_summary_GET_action_def dest: admin_guard_facts
      intro!: issues_rules intro: admin_guard_facts)

interpretation model_catalog_GET: guarded_route model_catalog_GET
  "route_error ''Failed to fetch model catalog''" requireAdminBearer "catalog_list ''/admin/model-catalog''"
  by unfold_locales (auto simp: model_catalog_GET_def  dest: admin_guard_facts
      intro!: issues_rules intro: admin_guard_facts)

interpretation model_catalog_POST: guarded_route model_catalog_POST
  "route_error ''Failed to create model catalog entry''" requireAdminBearer "catalog_create ''/admin/model-catalog''"
  by unfold_locales (auto simp: model_catalog_POST_def  dest: admin_guard_facts
      intro!: issues_rules intro: admin_guard_facts)

interpretation model_catalog_PUT: guarded_route "model_catalog_PUT provider i"
  "route_error ''Failed to update model catalog entry''" requireAdminBearer "catalog_update ''/admin/model-catalog'' provider i" for provider i
  by unfold_locales (auto simp: model_catalog_PUT_def  dest: admin_guard_facts
      intro!: issues_rules intro: admin_guard_facts)

interpretation model_catalog_DELETE: guarded_route "model_catalog_DELETE provider i"
  "route_error ''Failed to delete model catalog entry''" requireAdminBearer "catalog_delete ''/admin/model-catalog'' provider i" for provider i
  by unfold_locales (auto simp: model_catalog_DELETE_def  dest: admin_guard_facts
      intro!: issues_rules intro: admin_guard_facts)

interpretation tool_catalog_GET: guarded_route tool_catalog_GET
  "route_error ''Failed to fetch tool catalog''" requireAdminBearer "catalog_list ''/admin/tool-catalog''"
  by unfold_locales (auto simp: tool_catalog_GET_def  dest: admin_guard_facts
      intro!: issues_rules intro: admin_guard_facts)

interpretation tool_catalog_POST: guarded_route tool_catalog_POST
  "route_error ''Failed to create tool catalog entry''" requireAdminBearer "catalog_create ''/admin/tool-catalog''"
  by unfold_locales (auto simp: tool_catalog_POST_def  dest: admin_guard_facts
      intro!: issues_rules intro: admin_guard_facts)

interpretation tool_catalog_PUT: guarded_route "tool_catalog_PUT provider i"
  "route_error ''Failed to update tool catalog entry''" requireAdminBearer "catalog_update ''/admin/tool-catalog'' provider i" for provider i
  by unfold_locales (auto simp: tool_catalog_PUT_def  dest: admin_guard_facts
      intro!: issues_rules intro: admin_guard_facts)

interpretation tool_catalog_DELETE: guarded_route "tool_catalog_DELETE provider i"
  "route_error ''Failed to delete tool catalog entry''" requireAdminBearer "catalog_delete ''/admin/tool-catalog'' provider i" for provider i
  by unfold_locales (auto simp: tool_catalog_DELETE_def  dest: admin_guard_facts
      intro!: issues_rules intro: admin_guard_facts)

end
