(* ===== verification/Api_Client.thy ===== *)
theory Api_Client
  imports JS_IO
begin

text \<open>
  lib/api/client.ts: the browser's API client with its refresh queue, and the endpoint
  normalisation of lib/utils/constants.ts (repeated in use-global-config.ts). The client runs in
  a browser (\<open>window\<close> is defined); \<open>new URL\<close> and \<open>statusText\<close> are arguments. Callers of
  \<open>handleTokenRefresh\<close> are numbered; a call is resolved with a boolean or still waiting.
\<close>

section \<open>Requests\<close>

record api_config =
  ac_baseURL :: string
  ac_apiKey :: "string option"
  ac_bearerToken :: "string option"

record request_config =
  rc_method :: "string option"
  rc_headers :: header_list
  rc_body :: jsval

definition truthy_str :: "string option \<Rightarrow> bool" where
  "truthy_str s \<longleftrightarrow> s \<noteq> None \<and> s \<noteq> Some []"

definition getHeaders :: "api_config \<Rightarrow> header_list \<Rightarrow> header_list" where
  "getHeaders cfg customHeaders =
     set_if (truthy_str (ac_bearerToken cfg)) ''Authorization'' (''Bearer '' @ the (ac_bearerToken cfg))
       (set_if (truthy_str (ac_apiKey cfg)) ''X-API-Key'' (the (ac_apiKey cfg))
          (spread [(''Content-Type'', ''application/json'')] customHeaders))"

definition api_fetch :: "api_config \<Rightarrow> string \<Rightarrow> request_config \<Rightarrow> http_req" where
  "api_fetch cfg url rc =
     \<lparr>rq_url = url,
      rq_method = (case rc_method rc of Some (c # m) \<Rightarrow> c # m | _ \<Rightarrow> ''GET''),
      rq_headers = getHeaders cfg (rc_headers rc),
      rq_body = (if truthy (rc_body rc) then JsonBody (rc_body rc) else NoBody)\<rparr>"

definition api_error :: "(http_resp \<Rightarrow> string) \<Rightarrow> http_resp \<Rightarrow> exn" where
  "api_error statusText r =
     JsError (''API Error: '' @ show_int (rs_status r) @ '' '' @ statusText r) None"

definition api_reply :: "(http_resp \<Rightarrow> string) \<Rightarrow> http_resp \<Rightarrow> (jsval \<times> int) io" where
  "api_reply statusText r =
     (if \<not> resp_ok r then io_throw (api_error statusText r)
      else io_bind (resp_json r) (\<lambda>data. io_return (data, rs_status r)))"

text \<open>\<open>refreshed\<close> is what \<open>handleTokenRefresh\<close> resolved to for this caller.\<close>

definition api_request ::
  "(http_resp \<Rightarrow> string) \<Rightarrow> bool \<Rightarrow> api_config \<Rightarrow> string \<Rightarrow> request_config \<Rightarrow> (jsval \<times> int) io" where
  "api_request statusText refreshed cfg url rc =
     io_bind (io_fetch (api_fetch cfg url rc)) (\<lambda>response.
       if rs_status response = 401 then
         if refreshed
         then io_bind (io_fetch (api_fetch cfg url rc)) (api_reply statusText)
         else io_throw (JsError ''Session expired, please login again'' None)
       else api_reply statusText response)"

definition setApiKey :: "string \<Rightarrow> api_config \<Rightarrow> api_config" where
  "setApiKey k cfg = cfg\<lparr>ac_apiKey := Some k\<rparr>"

definition setBearerToken :: "string \<Rightarrow> api_config \<Rightarrow> api_config" where
  "setBearerToken t cfg = cfg\<lparr>ac_bearerToken := Some t\<rparr>"

section \<open>The refresh queue\<close>

text \<open>The stored session: absent (or empty), a text that is no JSON, or a value.\<close>

datatype stored = Absent | Unparsable | Stored jsval

record client_state =
  cs_isRefreshing :: bool
  cs_refreshQueue :: "nat list"
  cs_inFlight :: "(nat \<times> jsval) option"
  cs_resolved :: "(nat \<times> bool) list"
  cs_stored :: stored

definition resolve :: "nat \<Rightarrow> bool \<Rightarrow> client_state \<Rightarrow> client_state" where
  "resolve k b st = st\<lparr>cs_resolved := (k, b) # cs_resolved st\<rparr>"

text \<open>The \<open>finally\<close> block after a return of \<open>b\<close>.\<close>

definition refresh_return :: "nat \<Rightarrow> bool \<Rightarrow> client_state \<Rightarrow> client_state" where
  "refresh_return k b st = resolve k b (st\<lparr>cs_isRefreshing := False, cs_inFlight := None\<rparr>)"

text \<open>A call by \<open>k\<close>, up to the fetch of \<open>/api/auth/refresh\<close>.\<close>

definition handleTokenRefresh_start :: "nat \<Rightarrow> client_state \<Rightarrow> client_state" where
  "handleTokenRefresh_start k st =
     (if cs_isRefreshing st then st\<lparr>cs_refreshQueue := cs_refreshQueue st @ [k]\<rparr>
      else
        let st1 = st\<lparr>cs_isRefreshing := True\<rparr> in
        case cs_stored st of
          Absent \<Rightarrow> refresh_return k False st1
        | Unparsable \<Rightarrow> refresh_return k False (st1\<lparr>cs_refreshQueue := []\<rparr>)
        | Stored session \<Rightarrow>
            if \<not> truthy (get_prop session ''refreshToken'') then refresh_return k False st1
            else st1\<lparr>cs_inFlight := Some (k, session)\<rparr>)"

text \<open>\<open>this.refreshQueue.forEach(cb => cb()); this.refreshQueue = []\<close>: every callback resolves
  its caller with \<open>true\<close>.\<close>

definition flush_queue :: "client_state \<Rightarrow> client_state" where
  "flush_queue st = (fold (\<lambda>k. resolve k True) (cs_refreshQueue st) st)\<lparr>cs_refreshQueue := []\<rparr>"

definition client_session :: "rat \<Rightarrow> jsval \<Rightarrow> jsval \<Rightarrow> jsval" where
  "client_session now session data =
     (let ms = (\<lambda>v. JNum (case to_num v of Fin q \<Rightarrow> Fin (now + q * 1000) | n \<Rightarrow> n));
          r = get_prop data ''refresh_expires_in''
      in JObj (obj_set ''refreshExpiresAt'' (if truthy r then ms r else get_prop session ''refreshExpiresAt'')
          (obj_set ''expiresAt'' (ms (js_or (get_prop data ''expires_in'') (jint 3600)))
          (obj_set ''refreshToken'' (js_or (get_prop data ''refresh_token'') (get_prop session ''refreshToken''))
          (obj_set ''accessToken'' (get_prop data ''access_token'')
             (spread [] (js_entries session)))))))"

text \<open>The fetch settles. A rejected fetch, a success that is no JSON and the value \<open>null\<close> reach
  the \<open>catch\<close> block; a failure status or a reply without \<open>ok\<close> and a token does not.\<close>

definition handleTokenRefresh_finish :: "rat \<Rightarrow> fetch_result \<Rightarrow> client_state \<Rightarrow> client_state" where
  "handleTokenRefresh_finish now fr st =
     (case cs_inFlight st of
        None \<Rightarrow> st
      | Some (k, session) \<Rightarrow>
          let raised = refresh_return k False (st\<lparr>cs_refreshQueue := []\<rparr>);
              failed = refresh_return k False (flush_queue st)
          in case fr of
            FetchFail _ \<Rightarrow> raised
          | FetchOk response \<Rightarrow>
              if resp_ok response then
                (case rs_json response of
                   None \<Rightarrow> raised
                 | Some data \<Rightarrow>
                     if nullish data then raised
                     else if truthy (get_prop data ''ok'') \<and> truthy (get_prop data ''access_token'')
                     then refresh_return k True
                            (flush_queue (st\<lparr>cs_stored := Stored (client_session now session data)\<rparr>))
                     else failed)
              else failed)"

section \<open>Endpoints\<close>

definition starts_http :: "string \<Rightarrow> bool" where
  "starts_http s \<longleftrightarrow> starts_with (to_lower s) ''http://'' \<or> starts_with (to_lower s) ''https://''"

text \<open>\<open>raw.trim().replace(/\/+$/, '')\<close>\<close>

definition strip_slashes :: "string \<Rightarrow> string" where
  "strip_slashes s = rev (dropWhile (\<lambda>c. c = CHR ''/'') (rev s))"

definition normalizeEndpoint :: "string option \<Rightarrow> string option" where
  "normalizeEndpoint raw =
     (case raw of
        None \<Rightarrow> None
      | Some r \<Rightarrow>
          let value = strip_slashes (trim r) in
          if r = [] \<or> value = [] then None
          else if list_all is_digit value then Some (''http://localhost:'' @ value)
          else if starts_with value ''localhost:'' \<or> starts_with value ''127.0.0.1:''
          then Some (''http://'' @ value)
          else if \<not> starts_http value then Some (''http://'' @ value)
          else Some value)"

definition first_set :: "string option \<Rightarrow> string option \<Rightarrow> string option" where
  "first_set a b = (if truthy_str a then a else b)"

text \<open>\<open>ls1\<close> and \<open>ls2\<close> are the two \<open>localStorage\<close> entries, \<open>env1\<close> and \<open>env2\<close> the two variables.\<close>

definition resolveApiBaseUrl ::
  "string option \<Rightarrow> string option \<Rightarrow> string option \<Rightarrow> string option \<Rightarrow> string" where
  "resolveApiBaseUrl ls1 ls2 env1 env2 =
     (case normalizeEndpoint (first_set ls1 ls2) of
        Some u \<Rightarrow> u
      | None \<Rightarrow> (case normalizeEndpoint env1 of
          Some u \<Rightarrow> u
        | None \<Rightarrow> (case normalizeEndpoint env2 of Some u \<Rightarrow> u | None \<Rightarrow> ''http://localhost:8000'')))"

definition getRuntimeEndpoint :: "string option \<Rightarrow> string option \<Rightarrow> string option" where
  "getRuntimeEndpoint ls1 ls2 =
     (let raw = first_set ls1 ls2 in
      if \<not> truthy_str raw then None
      else let value = strip_slashes (trim (the raw)) in
        if value = [] then None
        else if list_all is_digit value then Some (''http://localhost:'' @ value)
        else if starts_with value ''localhost:'' \<or> starts_with value ''127.0.0.1:''
        then Some (''http://'' @ value)
        else if \<not> starts_http value then Some (''http://'' @ value)
        else Some value)"

definition getHeadersWithEndpoint :: "string option \<Rightarrow> string option \<Rightarrow> header_list" where
  "getHeadersWithEndpoint ls1 ls2 =
     (let headers = [(''Content-Type'', ''application/json'')] in
      case getRuntimeEndpoint ls1 ls2 of
        Some endpoint \<Rightarrow> obj_set ''x-runtime-endpoint'' endpoint headers
      | None \<Rightarrow> headers)"

section \<open>The machine\<close>

text \<open>Each caller calls once; \<open>ApiCall\<close> requires a caller that has not called before.\<close>

definition known :: "client_state \<Rightarrow> nat set" where
  "known st = set (cs_refreshQueue st) \<union> fst ` set (cs_resolved st) \<union>
     (case cs_inFlight st of None \<Rightarrow> {} | Some (k, _) \<Rightarrow> {k})"

inductive client_step :: "client_state \<Rightarrow> client_state \<Rightarrow> bool" where
  ApiCall: "k \<notin> known st \<Longrightarrow> client_step st (handleTokenRefresh_start k st)"
| ApiSettle: "cs_inFlight st \<noteq> None \<Longrightarrow> client_step st (handleTokenRefresh_finish now fr st)"
| ApiStore: "client_step st (st\<lparr>cs_stored := x\<rparr>)"

definition client_init :: "stored \<Rightarrow> client_state" where
  "client_init x = \<lparr>cs_isRefreshing = False, cs_refreshQueue = [], cs_inFlight = None, cs_resolved = [],
     cs_stored = x\<rparr>"

definition client_reachable :: "client_state \<Rightarrow> bool" where
  "client_reachable st \<longleftrightarrow> (\<exists>x. client_step\<^sup>*\<^sup>* (client_init x) st)"

definition client_inv :: "client_state \<Rightarrow> bool" where
  "client_inv st \<longleftrightarrow> (cs_isRefreshing st \<longleftrightarrow> cs_inFlight st \<noteq> None)
     \<and> (\<not> cs_isRefreshing st \<longrightarrow> cs_refreshQueue st = [])
     \<and> distinct (map fst (cs_resolved st) @ cs_refreshQueue st @
         (case cs_inFlight st of None \<Rightarrow> [] | Some (k, _) \<Rightarrow> [k]))"

lemma fold_resolve:
  "fold (\<lambda>k. resolve k True) ks st = st\<lparr>cs_resolved := map (\<lambda>k. (k, True)) (rev ks) @ cs_resolved st\<rparr>"
  by (induction ks arbitrary: st) (simp_all add: resolve_def)

lemma flush_queue_fields [simp]:
  "cs_resolved (flush_queue st) = map (\<lambda>k. (k, True)) (rev (cs_refreshQueue st)) @ cs_resolved st"
  "cs_refreshQueue (flush_queue st) = []" "cs_inFlight (flush_queue st) = cs_inFlight st"
  "cs_isRefreshing (flush_queue st) = cs_isRefreshing st" "cs_stored (flush_queue st) = cs_stored st"
  by (simp_all add: flush_queue_def fold_resolve)

lemma refresh_return_fields [simp]:
  "cs_resolved (refresh_return k b st) = (k, b) # cs_resolved st"
  "cs_refreshQueue (refresh_return k b st) = cs_refreshQueue st" "cs_inFlight (refresh_return k b st) = None"
  "\<not> cs_isRefreshing (refresh_return k b st)" "cs_stored (refresh_return k b st) = cs_stored st"
  by (simp_all add: refresh_return_def resolve_def)

text \<open>A settled refresh ends one of three ways, according to the reply.\<close>

datatype outcome = Raised | Failed | Renewed jsval

definition refresh_outcome :: "fetch_result \<Rightarrow> outcome" where
  "refresh_outcome fr =
     (case fr of
        FetchFail _ \<Rightarrow> Raised
      | FetchOk r \<Rightarrow>
          if resp_ok r then
            (case rs_json r of
               None \<Rightarrow> Raised
             | Some d \<Rightarrow>
                 if nullish d then Raised
                 else if truthy (get_prop d ''ok'') \<and> truthy (get_prop d ''access_token'') then Renewed d
                 else Failed)
          else Failed)"

lemma finish_outcome:
  assumes "cs_inFlight st = Some (k, session)"
  shows "handleTokenRefresh_finish now fr st =
    (case refresh_outcome fr of
       Raised \<Rightarrow> refresh_return k False (st\<lparr>cs_refreshQueue := []\<rparr>)
     | Failed \<Rightarrow> refresh_return k False (flush_queue st)
     | Renewed d \<Rightarrow> refresh_return k True
         (flush_queue (st\<lparr>cs_stored := Stored (client_session now session d)\<rparr>)))"
  using assms
  by (simp add: handleTokenRefresh_finish_def refresh_outcome_def Let_def
      split: fetch_result.splits option.splits)

lemma client_inv_start:
  "client_inv st \<Longrightarrow> k \<notin> known st \<Longrightarrow> client_inv (handleTokenRefresh_start k st)"
  by (auto simp: client_inv_def known_def handleTokenRefresh_start_def Let_def
      split: stored.splits option.splits)

lemma client_inv_finish:
  assumes inv: "client_inv st" and fl: "cs_inFlight st = Some (k, session)"
  shows "client_inv (handleTokenRefresh_finish now fr st)"
proof -
  have d: "distinct (map fst (cs_resolved st) @ cs_refreshQueue st @ [k])"
    using inv fl by (simp add: client_inv_def)
  have m: "map (fst \<circ> (\<lambda>k. (k, True))) xs = xs" for xs :: "nat list" by (rule map_idI) simp
  show ?thesis
    using d unfolding finish_outcome [OF fl]
    by (auto simp: client_inv_def m split: outcome.splits)
qed

lemma client_inv_step: "client_step st st' \<Longrightarrow> client_inv st \<Longrightarrow> client_inv st'"
proof (induction rule: client_step.induct)
  case (ApiCall k st)
  then show ?case by (intro client_inv_start)
next
  case (ApiSettle st now fr)
  then obtain k s where "cs_inFlight st = Some (k, s)" by auto
  then show ?case using ApiSettle.prems by (rule client_inv_finish [rotated])
next
  case (ApiStore st x)
  then show ?case by (simp add: client_inv_def)
qed

lemma client_inv_steps: "client_step\<^sup>*\<^sup>* st st' \<Longrightarrow> client_inv st \<Longrightarrow> client_inv st'"
  by (induction rule: rtranclp_induct) (auto intro: client_inv_step)

lemma client_reachable_inv: "client_reachable st \<Longrightarrow> client_inv st"
  using client_inv_steps by (fastforce simp: client_reachable_def client_inv_def client_init_def)

text \<open>In every reachable state of the API client the flag is set exactly while a refresh
  request is in flight, callers queue only then, and no caller is resolved twice, queued twice,
  or queued after being resolved.\<close>

theorem refresh_queue_invariant:
  assumes "client_reachable st"
  shows "(cs_isRefreshing st \<longleftrightarrow> cs_inFlight st \<noteq> None)
    \<and> (cs_inFlight st = None \<longrightarrow> cs_refreshQueue st = [])
    \<and> distinct (map fst (cs_resolved st) @ cs_refreshQueue st)"
  using client_reachable_inv [OF assms] by (auto simp: client_inv_def split: option.splits)

definition demo_client :: client_state where
  "demo_client = handleTokenRefresh_start 1 (handleTokenRefresh_start 0
     (client_init (Stored (JObj [(''refreshToken'', JStr ''r'')]))))"

lemma demo_client_eq:
  "demo_client = \<lparr>cs_isRefreshing = True, cs_refreshQueue = [1],
     cs_inFlight = Some (0, JObj [(''refreshToken'', JStr ''r'')]), cs_resolved = [],
     cs_stored = Stored (JObj [(''refreshToken'', JStr ''r'')])\<rparr>"
  by (simp add: demo_client_def handleTokenRefresh_start_def client_init_def get_prop_simps)

lemma demo_client_reachable: "client_reachable demo_client"
proof -
  let ?x = "Stored (JObj [(''refreshToken'', JStr ''r'')])"
  have "client_step (client_init ?x) (handleTokenRefresh_start 0 (client_init ?x))"
    by (rule ApiCall) (simp add: known_def client_init_def)
  moreover have "client_step (handleTokenRefresh_start 0 (client_init ?x)) demo_client"
    unfolding demo_client_def
    by (rule ApiCall) (simp add: known_def client_init_def handleTokenRefresh_start_def get_prop_simps)
  ultimately show ?thesis unfolding client_reachable_def by (meson r_into_rtranclp rtranclp_trans)
qed

theorem refresh_queue_invariant_witness:
  "cs_isRefreshing demo_client \<and> distinct (map fst (cs_resolved demo_client) @ cs_refreshQueue demo_client)"
  using refresh_queue_invariant [OF demo_client_reachable] by (simp add: demo_client_eq)

section \<open>What the waiting callers are told\<close>

definition told :: "nat \<Rightarrow> client_state \<Rightarrow> bool option" where
  "told k st = map_of (cs_resolved st) k"

lemma map_of_true: "map_of (map (\<lambda>k. (k, True)) ks) k = (if k \<in> set ks then Some True else None)"
  by (induction ks) auto

text \<open>C10. When the refresh in flight settles, the caller that started it is told whether it
  succeeded. Of the callers that waited in the queue, after a success all are told \<open>true\<close>; but
  after a refused refresh they are told \<open>true\<close> as well (and repeat their requests), and after
  an exception they are told nothing.\<close>

theorem refresh_queue_outcomes:
  assumes "client_reachable st" and "cs_inFlight st = Some (leader, session)"
    and "k \<in> set (cs_refreshQueue st)"
  shows "let st' = handleTokenRefresh_finish now fr st in
     cs_refreshQueue st' = [] \<and> cs_inFlight st' = None \<and>
     (case refresh_outcome fr of
        Renewed d \<Rightarrow> told leader st' = Some True \<and> told k st' = Some True
          \<and> cs_stored st' = Stored (client_session now session d)
      | Failed \<Rightarrow> told leader st' = Some False \<and> told k st' = Some True \<and> cs_stored st' = cs_stored st
      | Raised \<Rightarrow> told leader st' = Some False \<and> told k st' = None \<and> cs_stored st' = cs_stored st)"
proof -
  have "client_inv st" using assms(1) by (rule client_reachable_inv)
  then have ne: "leader \<noteq> k" and nr: "map_of (cs_resolved st) k = None"
    using assms(2,3) by (auto simp: client_inv_def map_of_eq_None_iff)
  show ?thesis
    using ne nr assms(3) unfolding finish_outcome [OF assms(2)] Let_def
    by (auto simp: told_def map_add_def map_of_true split: outcome.splits)
qed

theorem refresh_queue_outcomes_witness:
  "told 0 (handleTokenRefresh_finish 0 (FetchOk \<lparr>rs_status = 400, rs_text = [], rs_json = None, rs_headers = []\<rparr>) demo_client) = Some False
   \<and> told 1 (handleTokenRefresh_finish 0 (FetchOk \<lparr>rs_status = 400, rs_text = [], rs_json = None, rs_headers = []\<rparr>) demo_client) = Some True"
proof -
  let ?fr = "FetchOk \<lparr>rs_status = 400, rs_text = [], rs_json = None, rs_headers = []\<rparr>"
  have "refresh_outcome ?fr = Failed" by (simp add: refresh_outcome_def resp_ok_def)
  then show ?thesis
    using refresh_queue_outcomes [OF demo_client_reachable, of 0 "JObj [(''refreshToken'', JStr ''r'')]" 1 0 ?fr]
    by (simp add: demo_client_eq Let_def)
qed

definition forgotten :: "nat \<Rightarrow> client_state \<Rightarrow> bool" where
  "forgotten k st \<longleftrightarrow> k \<notin> known st"

text \<open>The steps of the other callers.\<close>

inductive other_step :: "nat \<Rightarrow> client_state \<Rightarrow> client_state \<Rightarrow> bool" for k where
  OtherCall: "k' \<noteq> k \<Longrightarrow> k' \<notin> known st \<Longrightarrow> other_step k st (handleTokenRefresh_start k' st)"
| OtherSettle: "cs_inFlight st \<noteq> None \<Longrightarrow> other_step k st (handleTokenRefresh_finish now fr st)"
| OtherStore: "other_step k st (st\<lparr>cs_stored := x\<rparr>)"

lemma forgotten_step: "other_step k st st' \<Longrightarrow> forgotten k st \<Longrightarrow> forgotten k st'"
proof (induction rule: other_step.induct)
  case (OtherCall k' st)
  then show ?case
    by (auto simp: forgotten_def known_def handleTokenRefresh_start_def Let_def
        split: stored.splits option.splits)
next
  case (OtherSettle st now fr)
  then obtain k' s where fl: "cs_inFlight st = Some (k', s)" by auto
  show ?case
    using OtherSettle.prems unfolding finish_outcome [OF fl]
    by (auto simp: forgotten_def known_def fl split: outcome.splits)
next
  case (OtherStore st x)
  then show ?case by (simp add: forgotten_def known_def)
qed

lemma forgotten_steps: "(other_step k)\<^sup>*\<^sup>* st st' \<Longrightarrow> forgotten k st \<Longrightarrow> forgotten k st'"
  by (induction rule: rtranclp_induct) (auto intro: forgotten_step)

text \<open>A caller that waits in the queue while the refresh raises (the fetch rejects, or a
  success has no JSON body) waits for ever: whatever the other callers do afterwards, later
  successful refreshes included, its promise is never resolved.\<close>

theorem waiter_never_resolved:
  assumes "client_reachable st" and "cs_inFlight st = Some (leader, session)"
    and "k \<in> set (cs_refreshQueue st)" and "refresh_outcome fr = Raised"
    and "(other_step k)\<^sup>*\<^sup>* (handleTokenRefresh_finish now fr st) st'"
  shows "told k st' = None"
proof -
  have "client_inv st" using assms(1) by (rule client_reachable_inv)
  then have "leader \<noteq> k" and "k \<notin> fst ` set (cs_resolved st)"
    using assms(2,3) by (auto simp: client_inv_def)
  then have "forgotten k (handleTokenRefresh_finish now fr st)"
    using assms(4) unfolding finish_outcome [OF assms(2)] by (auto simp: forgotten_def known_def)
  then have "forgotten k st'" using assms(5) forgotten_steps by blast
  then show ?thesis by (auto simp: forgotten_def known_def told_def map_of_eq_None_iff)
qed

theorem waiter_never_resolved_witness:
  "told 1 (handleTokenRefresh_finish 0 (FetchFail ''offline'') demo_client) = None"
  using waiter_never_resolved [OF demo_client_reachable, of 0 "JObj [(''refreshToken'', JStr ''r'')]" 1
      "FetchFail ''offline''" 0]
  by (simp add: demo_client_eq refresh_outcome_def)

section \<open>Requests and endpoints\<close>

text \<open>A request of the API client is sent once, or twice after a 401 whose refresh succeeded;
  the second time it is the very same request: the Bearer token of the client is not replaced by
  the renewed one.\<close>

theorem api_retry_repeats_request:
  "io_requests (api_request statusText refreshed cfg url rc) net \<in>
     {[api_fetch cfg url rc], [api_fetch cfg url rc, api_fetch cfg url rc]}"
  by (auto simp: io_requests_def api_request_def api_reply_def js_simps
      split: fetch_result.splits option.splits)

lemma starts_with_prefix: "starts_with (p @ s) p" by simp

lemma strip_slashes_last: "strip_slashes s \<noteq> [] \<Longrightarrow> last (strip_slashes s) \<noteq> CHR ''/''"
  unfolding strip_slashes_def using hd_dropWhile [of "\<lambda>c. c = CHR ''/''" "rev s"]
  by (simp add: last_rev)

lemma starts_http_prefix: "starts_http (''http://'' @ s)"
  by (simp add: starts_http_def to_lower_def lower_char_def code_def)

text \<open>The base URL of the API client is always absolute and never ends in a slash, whatever
  the two storage entries and the two variables hold: it starts with \<open>http://\<close> or \<open>https://\<close> in
  some letter case. The copy of the function that computes the \<open>x-runtime-endpoint\<close> header
  agrees with it on the storage entries.\<close>

theorem api_base_url_absolute:
  "starts_http (resolveApiBaseUrl ls1 ls2 env1 env2)
   \<and> last (resolveApiBaseUrl ls1 ls2 env1 env2) \<noteq> CHR ''/''
   \<and> getRuntimeEndpoint ls1 ls2 = normalizeEndpoint (first_set ls1 ls2)"
proof -
  have n: "starts_http u \<and> last u \<noteq> CHR ''/''" if "normalizeEndpoint x = Some u" for x u
    using that strip_slashes_last starts_http_prefix
    by (auto simp: normalizeEndpoint_def Let_def split: option.splits if_splits)
  have d: "starts_http ''http://localhost:8000'' \<and> last ''http://localhost:8000'' \<noteq> CHR ''/''"
    using starts_http_prefix [of "''localhost:8000''"] by simp
  have "starts_http (resolveApiBaseUrl ls1 ls2 env1 env2) \<and> last (resolveApiBaseUrl ls1 ls2 env1 env2) \<noteq> CHR ''/''"
    using n d unfolding resolveApiBaseUrl_def by (auto split: option.splits)
  moreover have "getRuntimeEndpoint ls1 ls2 = normalizeEndpoint (first_set ls1 ls2)"
    by (auto simp: getRuntimeEndpoint_def normalizeEndpoint_def truthy_str_def Let_def split: option.splits)
  ultimately show ?thesis by blast
qed

end
