(* ===== verification/System_Routes.thy ===== *)
theory System_Routes
  imports Semantic_Routes Api_Client
begin

text \<open>
  app/api/admin/** (models, config diff, history, versions, apply), app/api/settings/** (connection
  tests), app/api/dashboard, system-health, version and health.
\<close>

section \<open>Administration of the configuration\<close>

definition admin_models_GET_body :: "env \<Rightarrow> server_req \<Rightarrow> server_resp io" where
  "admin_models_GET_body e q = io_bind (gatewayAdminFetch e ''/admin/models'' (gw_get (getAdminAuthToken q))) respond"

definition admin_models_GET :: "env \<Rightarrow> server_req \<Rightarrow> server_resp io" where
  "admin_models_GET e q = handle ''Failed to fetch models'' (admin_models_GET_body e q)"

definition config_diff_GET_action :: "env \<Rightarrow> server_req \<Rightarrow> string \<Rightarrow> server_resp io" where
  "config_diff_GET_action e q t =
     (if get_or_empty q ''from_version'' = [] \<or> get_or_empty q ''to_version'' = []
      then bad_request ''from_version and to_version are required''
      else io_bind (gatewayAdminFetch e (''/admin/config/diff?'' @ params_to_string
        (qs_params q [WithDefault ''scope'' ''global'', Optional ''tenant_id'', Optional ''from_version'',
           Optional ''to_version''])) (gw_get (Some t))) respond)"

definition config_diff_GET :: "env \<Rightarrow> server_req \<Rightarrow> server_resp io" where
  "config_diff_GET e q = handle ''Failed to fetch config diff''
     (with_auth (requireAdminBearer q) (config_diff_GET_action e q))"

text \<open>\<open>{ error: { message, type: details?.type || 'gateway_error' } }\<close>\<close>

fun detailed_error :: "string \<Rightarrow> exn \<Rightarrow> server_resp" where
  "detailed_error msg (GatewayAdminError m st d) =
     json_response (JObj [(''error'', JObj [(''message'', JStr m),
         (''type'', js_or (get_prop d ''type'') (JStr ''gateway_error''))])])
       (case st of None \<Rightarrow> 500 | Some c \<Rightarrow> if c = 0 then 500 else c)"
| "detailed_error msg (JsError _ _) =
     json_response (JObj [(''error'', JObj [(''message'', JStr msg), (''type'', JStr ''internal_error'')])]) 500"

definition config_history_GET_body :: "env \<Rightarrow> server_req \<Rightarrow> server_resp io" where
  "config_history_GET_body e q =
     io_bind (gatewayAdminFetch e (''/admin/config/history?'' @ params_to_string
       (qs_params q [Optional ''scope'', Optional ''tenant_id'', WithDefault ''limit'' ''50'', WithDefault ''offset'' ''0'']))
       (gw_get (getAdminAuthToken q))) respond"

definition config_history_GET :: "env \<Rightarrow> server_req \<Rightarrow> server_resp io" where
  "config_history_GET e q = handle_with (detailed_error ''Failed to fetch config history'') (config_history_GET_body e q)"

definition config_versions_GET_body :: "env \<Rightarrow> server_req \<Rightarrow> server_resp io" where
  "config_versions_GET_body e q =
     io_bind (gatewayAdminFetch e (''/admin/config/versions?'' @ params_to_string
       (qs_params q [WithDefault ''scope'' ''global'', Optional ''tenant_id'', WithDefault ''limit'' ''50'',
          WithDefault ''offset'' ''0''])) (gw_get (getAdminAuthToken q))) respond"

definition config_versions_GET :: "env \<Rightarrow> server_req \<Rightarrow> server_resp io" where
  "config_versions_GET e q = handle_with (detailed_error ''Failed to fetch config versions'') (config_versions_GET_body e q)"

fun apply_error :: "exn \<Rightarrow> server_resp" where
  "apply_error (GatewayAdminError m st d) =
     json_response (JObj [(''error'', JStr m), (''status'', case st of None \<Rightarrow> JUndef | Some c \<Rightarrow> jint c)])
       (case st of None \<Rightarrow> 500 | Some c \<Rightarrow> c)"
| "apply_error (JsError _ _) = error_json ''Unexpected error'' 500"

definition config_apply_POST_action :: "env \<Rightarrow> server_req \<Rightarrow> string \<Rightarrow> server_resp io" where
  "config_apply_POST_action e q t =
     (let version = get_prop (request_json_or_empty q) ''version'' in
      if \<not> is_number version \<or> \<not> is_finite (to_num version) then bad_request ''version (number) is required''
      else io_bind (gatewayAdminFetch e ''/admin/config/global/apply''
        (gw_send ''POST'' (JsonBody (JObj [(''version'', version)])) (Some t))) respond)"

definition config_apply_POST :: "env \<Rightarrow> server_req \<Rightarrow> server_resp io" where
  "config_apply_POST e q = handle_with apply_error (with_auth (requireAdminBearer q) (config_apply_POST_action e q))"

section \<open>Connection tests\<close>

text \<open>\<open>typeof v === 'number' ? v : 500\<close> as a status.\<close>

definition status_or_500 :: "jsval \<Rightarrow> int" where
  "status_or_500 v = (case v of JNum (Fin x) \<Rightarrow> \<lfloor>x\<rfloor> | _ \<Rightarrow> 500)"

fun keycloak_error :: "exn \<Rightarrow> server_resp" where
  "keycloak_error (GatewayAdminError m st d) =
     (let c = (case st of None \<Rightarrow> 500 | Some c \<Rightarrow> c) in
      json_response (JObj [(''ok'', JBool False), (''status'', jint c), (''message'', JStr m)]) c)"
| "keycloak_error (JsError m _) =
     json_response (JObj [(''ok'', JBool False), (''status'', jint 500), (''message'', JStr m)]) 500"

definition keycloak_test_POST_action :: "env \<Rightarrow> server_req \<Rightarrow> string \<Rightarrow> server_resp io" where
  "keycloak_test_POST_action e q t =
     (let jwks_url = get_prop (request_json_or_empty q) ''jwks_url'' in
      if \<not> truthy jwks_url then
        io_return (json_response (JObj [(''ok'', JBool False), (''status'', jint 400),
          (''message'', JStr ''jwks_url is required'')]) 400)
      else io_bind (gatewayAdminFetch e ''/admin/test-connection''
          (gw_send ''POST'' (JsonBody (JObj [(''url'', jwks_url), (''type'', JStr ''jwks'')])) (Some t))) (\<lambda>data.
        if truthy (get_prop data ''ok'') then
          respond (JObj [(''ok'', JBool True), (''status'', coalesce (get_prop data ''status'') (jint 200)),
            (''message'', JStr ''Keycloak JWKS reachable'')])
        else io_return (json_response (JObj [(''ok'', JBool False),
            (''status'', coalesce (get_prop data ''status'') (jint 500)),
            (''message'', js_or (get_prop data ''error'') (JStr ''Failed to connect to JWKS''))])
            (status_or_500 (get_prop data ''status'')))))"

definition keycloak_test_POST :: "env \<Rightarrow> server_req \<Rightarrow> server_resp io" where
  "keycloak_test_POST e q = handle_with keycloak_error
     (with_auth (requireAdminBearer q) (keycloak_test_POST_action e q))"

text \<open>The connection test of the settings page; \<open>duration\<close> is the time the \<open>fetch\<close> took.\<close>

definition test_endpoint :: "string \<Rightarrow> string" where
  "test_endpoint raw =
     (let value = strip_slashes (trim raw) in
      if value = [] then []
      else if list_all is_digit value then ''http://localhost:'' @ value
      else if starts_with value ''localhost:'' \<or> starts_with value ''127.0.0.1:'' then ''http://'' @ value
      else if \<not> starts_http value then ''http://'' @ value
      else value)"

definition connection_failed :: "string \<Rightarrow> jsnum \<Rightarrow> server_resp" where
  "connection_failed msg duration = json_response (JObj
     [(''ok'', JBool False), (''error'', JStr msg), (''responseTimeMs'', JNum duration)]) 502"

definition health_request :: "string \<Rightarrow> http_req" where
  "health_request endpoint = \<lparr>rq_url = endpoint @ ''/healthz'', rq_method = ''GET'', rq_headers = [], rq_body = NoBody\<rparr>"

definition test_connection_GET :: "jsnum \<Rightarrow> server_req \<Rightarrow> server_resp io" where
  "test_connection_GET duration q =
     (let endpoint = get_or_empty q ''endpoint''; normalized = test_endpoint endpoint in
      if endpoint = [] then io_return (json_response (JObj [(''ok'', JBool False), (''error'', JStr ''Missing endpoint'')]) 400)
      else if normalized = [] then io_return (json_response (JObj [(''ok'', JBool False), (''error'', JStr ''Invalid endpoint'')]) 400)
      else io_catch
        (io_bind (io_fetch (health_request normalized)) (\<lambda>res.
           if resp_ok res then respond (JObj [(''ok'', JBool True), (''responseTimeMs'', JNum duration)])
           else io_return (connection_failed (''HTTP '' @ show_int (rs_status res)) duration)))
        (\<lambda>err. io_return (connection_failed (exn_message err) duration)))"

section \<open>Dashboard, health and version\<close>

text \<open>The dashboard handler takes no request: its seven calls carry no token.\<close>

definition dashboard_calls :: "env \<Rightarrow> jsval io list" where
  "dashboard_calls e = [getVersion e, getTenants e None, getModels e None, getProviders e None,
     getRouteGroups e, getFeatures e, getModelBenchmarks e (Fin 24) None]"

definition dashboard_reply :: "jsval list \<Rightarrow> server_resp io" where
  "dashboard_reply rs =
     (case rs of
        [version, tenants, models, providers, routeGroups, features, benchmarks] \<Rightarrow>
          io_bind (data_or_empty tenants) (\<lambda>t.
          io_bind (data_or_empty models) (\<lambda>m.
          io_bind (data_or_empty providers) (\<lambda>p.
          io_bind (data_or_empty routeGroups) (\<lambda>r.
          io_bind (data_or_empty benchmarks) (\<lambda>b.
          respond (JObj [(''version'', version), (''tenants'', t), (''models'', m), (''providers'', p),
            (''routeGroups'', r), (''features'', features), (''benchmarks'', b)]))))))
      | _ \<Rightarrow> io_throw type_error)"

definition dashboard_GET_body :: "env \<Rightarrow> server_req \<Rightarrow> server_resp io" where
  "dashboard_GET_body e q = io_bind (io_all (dashboard_calls e)) dashboard_reply"

definition dashboard_GET :: "env \<Rightarrow> server_req \<Rightarrow> server_resp io" where
  "dashboard_GET e q = handle ''Failed to fetch dashboard data'' (dashboard_GET_body e q)"

fun health_error :: "exn \<Rightarrow> server_resp" where
  "health_error (GatewayAdminError m st d) =
     json_response (JObj [(''error'', JObj [(''message'', JStr m)])])
       (case st of None \<Rightarrow> 500 | Some c \<Rightarrow> if c = 0 then 500 else c)"
| "health_error (JsError _ _) =
     json_response (JObj [(''error'', JObj [(''message'', JStr ''Health check failed'')])]) 500"

definition system_health_GET_action :: "env \<Rightarrow> server_req \<Rightarrow> string \<Rightarrow> server_resp io" where
  "system_health_GET_action e q t = io_bind (getSystemHealth e (Some t)) respond"

definition system_health_GET :: "env \<Rightarrow> server_req \<Rightarrow> server_resp io" where
  "system_health_GET e q = handle_with health_error (with_auth (requireAdminBearer q) (system_health_GET_action e q))"

definition health_GET :: server_resp where
  "health_GET = json_response (JObj [(''status'', JStr ''ok'')]) 200"

text \<open>\<open>content.split(/\r?\n/)\<close>\<close>

definition strip_cr :: "string \<Rightarrow> string" where
  "strip_cr s = (if s \<noteq> [] \<and> code (last s) = 13 then butlast s else s)"

definition split_lines :: "string \<Rightarrow> string list" where
  "split_lines s = (let ps = split_on (CHR 0x0A) s in map strip_cr (butlast ps) @ [last ps])"

definition property_line :: "string \<Rightarrow> (string \<times> string) option" where
  "property_line raw =
     (let line = trim raw; key = trim (takeWhile (\<lambda>c. c \<noteq> CHR ''='') line) in
      if line = [] \<or> starts_with line ''#'' \<or> CHR ''='' \<notin> set line \<or> key = [] then None
      else Some (key, trim (tl (dropWhile (\<lambda>c. c \<noteq> CHR ''='') line))))"

definition parseProperties :: "string \<Rightarrow> (string \<times> string) list" where
  "parseProperties content =
     foldl (\<lambda>out raw. case property_line raw of None \<Rightarrow> out | Some (k, v) \<Rightarrow> obj_set k v out) [] (split_lines content)"

definition prop_or_null :: "(string \<times> string) list \<Rightarrow> string \<Rightarrow> jsval" where
  "prop_or_null ps k = (case map_of ps k of Some (c # v) \<Rightarrow> JStr (c # v) | _ \<Rightarrow> JNull)"

text \<open>\<open>file\<close> is the content of public/version/version.txt, \<open>None\<close> when it cannot be read.\<close>

definition version_GET :: "string option \<Rightarrow> server_resp" where
  "version_GET file =
     (let ps = (case file of None \<Rightarrow> [] | Some content \<Rightarrow> parseProperties content) in
      json_response (JObj [(''version'', prop_or_null ps ''version''), (''details'', prop_or_null ps ''details'')]) 200)"

section \<open>The routes meet their interfaces\<close>

interpretation admin_models_GET: forwarding_route admin_models_GET
  "route_error ''Failed to fetch models''" admin_models_GET_body
  by unfold_locales (auto simp: admin_models_GET_def admin_models_GET_body_def intro!: issues_rules)

interpretation config_diff_GET: guarded_route config_diff_GET
  "route_error ''Failed to fetch config diff''" requireAdminBearer config_diff_GET_action
  by unfold_locales (auto simp: config_diff_GET_def config_diff_GET_action_def dest: admin_guard_facts
      intro!: issues_rules intro: admin_guard_facts)

interpretation config_history_GET: forwarding_route config_history_GET
  "detailed_error ''Failed to fetch config history''" config_history_GET_body
  by unfold_locales (auto simp: config_history_GET_def config_history_GET_body_def intro!: issues_rules)

interpretation config_versions_GET: forwarding_route config_versions_GET
  "detailed_error ''Failed to fetch config versions''" config_versions_GET_body
  by unfold_locales (auto simp: config_versions_GET_def config_versions_GET_body_def intro!: issues_rules)

interpretation config_apply_POST: guarded_route config_apply_POST apply_error requireAdminBearer config_apply_POST_action
  by unfold_locales (auto simp: config_apply_POST_def config_apply_POST_action_def Let_def dest: admin_guard_facts
      intro!: issues_rules intro: admin_guard_facts)

interpretation keycloak_test_POST: guarded_route keycloak_test_POST keycloak_error requireAdminBearer keycloak_test_POST_action
  by unfold_locales (auto simp: keycloak_test_POST_def keycloak_test_POST_action_def Let_def dest: admin_guard_facts
      intro!: issues_rules intro: admin_guard_facts)

interpretation system_health_GET: guarded_route system_health_GET health_error requireAdminBearer system_health_GET_action
  by unfold_locales (auto simp: system_health_GET_def system_health_GET_action_def dest: admin_guard_facts
      intro!: issues_rules intro: admin_guard_facts)

interpretation dashboard_GET: proxy_route dashboard_GET
  "route_error ''Failed to fetch dashboard data''" dashboard_GET_body
  by unfold_locales (simp add: dashboard_GET_def)

end
