(* ===== verification/Admin_Props.thy ===== *)
theory Admin_Props
  imports System_Routes
begin

text \<open>
  Properties of the semantic, catalog, settings and system routes: the tenant a semantic write is
  scoped to, the identity of catalog entries, what an anonymous caller can make the server do, and
  the reading of the version file.
\<close>

section \<open>Tenant scope of the semantic routes\<close>

lemma without_tenant_get:
  "get_prop (without_tenant body) k = (if k = ''tenant_id'' then JUndef else get_prop (JObj (spread [] (js_entries body))) k)"
  by (simp add: without_tenant_def get_prop_simps)

lemma handled_requests: "io_requests (handle_with fail m) net = io_requests m net"
  by (auto simp: io_requests_def handle_with_def io_catch_def io_return_def split: prod.splits sum.splits)

lemma gateway_then_requests:
  assumes "callable e tok"
  shows "\<exists>rest. io_requests (io_bind (gatewayAdminFetch e path (gw_send m b tok)) respond) net =
    first_request e path (gw_send m b tok) # rest"
  using gw_first [of e "gw_send m b tok" path net "[]"] assms
  by (auto simp: io_requests_def io_bind_def respond_def io_return_def split: prod.splits sum.splits)

lemma semantic_post_scoped:
  assumes "callable e (getAdminAuthToken q)" and "tenantIdFromRequest q (request_json_or_empty q) = Inr (Some t)"
  shows "\<exists>rest. io_requests (semantic_post path e q) net =
    first_request e (path @ ''?tenant_id='' @ encodeURIComponent t)
      (gw_send ''POST'' (JsonBody (without_tenant (request_json_or_empty q))) (getAdminAuthToken q)) # rest"
  using gateway_then_requests [OF assms(1)] assms(2)
  by (simp add: semantic_post_def Let_def io_of_sum_def)

lemma semantic_post_unscoped:
  assumes "tenantIdFromRequest q (request_json_or_empty q) = Inr None"
  shows "semantic_post path e q net h = (Inr (error_json ''tenant_id is required'' 400), h)"
  using assms by (simp add: semantic_post_def Let_def io_of_sum_def bad_request_def) (simp add: io_return_def)

definition semantic_writes :: "(string \<times> (env \<Rightarrow> server_req \<Rightarrow> server_resp io)) list" where
  "semantic_writes =
     [(''/admin/semantic/anchors/calibrate'', semantic_calibrate_POST), (''/admin/semantic/anchors/suggest'', semantic_suggest_POST),
      (''/admin/semantic/test'', semantic_test_POST), (''/admin/semantic/routes'', semantic_routes_POST)]"



section \<open>Catalog entries\<close>

lemma takeWhile_sep: "c \<notin> set a \<Longrightarrow> takeWhile (\<lambda>x. x \<noteq> c) (a @ c # b) = a"
  by (induction a) auto

lemma dropWhile_sep: "c \<notin> set a \<Longrightarrow> dropWhile (\<lambda>x. x \<noteq> c) (a @ c # b) = c # b"
  by (induction a) auto

lemma split_at_sep:
  assumes "c \<notin> set a" and "c \<notin> set a'" and "a @ c # b = a' @ c # b'"
  shows "a = a' \<and> b = b'"
  using takeWhile_sep [OF assms(1), of b] takeWhile_sep [OF assms(2), of b'] assms(3) by simp

lemma encode_no_slash: "CHR ''/'' \<notin> set (encodeURIComponent s)"
  by (rule encode_no_sep) (simp add: not_uri_chars)

text \<open>Catalog entries, semantic routes and anchors cannot be confused: whatever characters the
  provider, the id, the name or the tenant contain, two different entries have different paths
  at the gateway.\<close>

theorem entry_paths_injective:
  "(catalog_entry base p i = catalog_entry base p' i' \<longleftrightarrow> p = p' \<and> i = i')
   \<and> (semantic_route_path n t = semantic_route_path n' t' \<longleftrightarrow> n = n' \<and> t = t')"
proof -
  have "catalog_entry base p i = catalog_entry base p' i' \<longleftrightarrow> p = p' \<and> i = i'"
    using split_at_sep [OF encode_no_slash [of p] encode_no_slash [of p'], of "encodeURIComponent i" "encodeURIComponent i'"]
    by (auto simp: catalog_entry_def)
  moreover have "n = n' \<and> t = t'" if "semantic_route_path n t = semantic_route_path n' t'"
  proof -
    have nq: "CHR ''?'' \<notin> set (encodeURIComponent s)" for s by (rule encode_no_sep) (simp add: not_uri_chars)
    show ?thesis
      using split_at_sep [OF nq [of n] nq [of n'], of "''tenant_id='' @ encodeURIComponent t" "''tenant_id='' @ encodeURIComponent t'"] that
      by (simp add: semantic_route_path_def)
  qed
  ultimately show ?thesis by blast
qed

section \<open>What callers without a token reach\<close>

lemma issues_dashboard: "issues (authorised e None) (dashboard_GET e q)"
proof -
  have "issues (authorised e None) m" if "m \<in> set (dashboard_calls e)" for m
    using that by (auto simp: dashboard_calls_def getVersion_def getRouteGroups_def getFeatures_def intro!: issues_rules)
  moreover have "issues (authorised e None) (dashboard_reply rs)" for rs
    unfolding dashboard_reply_def by (auto split: list.splits intro!: issues_rules)
  ultimately show ?thesis
    unfolding dashboard_GET_def dashboard_GET_body_def by (intro issues_handle issues_rules)
qed

text \<open>Two handlers act for anybody. The dashboard reads versions, tenants, models, providers, route
  groups, features and benchmarks with the server's admin key whoever asks, a signed-in user included.
  The connection test looks at nothing but its query: any caller makes the server send a GET to
  any address, with or without a scheme, and the caller learns the status of the answer.\<close>

theorem dashboard_and_test_connection_unguarded:
  "list_all (\<lambda>r. map_of (rq_headers r) ''X-API-Key'' = GATEWAY_ADMIN_API_KEY e) (io_requests (dashboard_GET e q) net)
   \<and> test_connection_GET duration q = test_connection_GET duration (q\<lparr>sq_headers := [], sq_cookies := [], sq_body := None\<rparr>)
   \<and> (test_endpoint (get_or_empty q ''endpoint'') \<noteq> [] \<longrightarrow>
        (\<exists>answer. test_connection_GET duration q net h =
          (Inr answer, h @ [health_request (test_endpoint (get_or_empty q ''endpoint''))])
          \<and> (\<forall>res. net h (health_request (test_endpoint (get_or_empty q ''endpoint''))) = FetchOk res \<longrightarrow>
                sr_status answer = (if resp_ok res then 200 else 502))))"
proof -
  have "list_all (authorised e None) (io_requests (dashboard_GET e q) net)"
    by (rule issues_requests [OF issues_dashboard])
  then have "list_all (\<lambda>r. map_of (rq_headers r) ''X-API-Key'' = GATEWAY_ADMIN_API_KEY e) (io_requests (dashboard_GET e q) net)"
    by (simp add: list_all_iff authorised_def useBearer_def)
  moreover have "get_or_empty q ''endpoint'' \<noteq> []" if "test_endpoint (get_or_empty q ''endpoint'') \<noteq> []"
    using that by (auto simp: test_endpoint_def trim_def strip_slashes_def)
  ultimately show ?thesis
    by (cases "net h (health_request (test_endpoint (get_or_empty q ''endpoint'')))")
       (auto simp: test_connection_GET_def Let_def get_or_empty_def search_param_def io_catch_def io_bind_def io_fetch_def
        respond_def io_return_def connection_failed_def json_response_def split: prod.splits sum.splits)
qed

theorem dashboard_and_test_connection_unguarded_witness:
  "\<exists>answer. test_connection_GET (Fin 3) \<lparr>sq_query = [(''endpoint'', ''10.0.0.7/'')], sq_headers = [], sq_cookies = [], sq_body = None\<rparr>
      (\<lambda>_ _. FetchFail ''refused'') [] = (Inr answer, [health_request ''http://10.0.0.7''])"
proof -
  let ?q = "\<lparr>sq_query = [(''endpoint'', ''10.0.0.7/'')], sq_headers = [], sq_cookies = [], sq_body = None\<rparr>"
  have "test_endpoint ''10.0.0.7/'' = ''http://10.0.0.7''" by code_simp
  then have "test_endpoint (get_or_empty ?q ''endpoint'') = ''http://10.0.0.7''"
    by (simp add: get_or_empty_def search_param_def or_string_def)
  with dashboard_and_test_connection_unguarded [of demo_env ?q "\<lambda>_ _. FetchFail ''refused''" "Fin 3" "[]"]
  show ?thesis by auto
qed

section \<open>The version file\<close>

abbreviation newline :: char where
  "newline \<equiv> CHR 0x0A"

abbreviation carriage_return :: char where
  "carriage_return \<equiv> CHR 0x0D"

text \<open>A file of properties, with Unix or Windows line ends, and the pairs that can be written to one.\<close>

definition render_properties :: "bool \<Rightarrow> (string \<times> string) list \<Rightarrow> string" where
  "render_properties windows ps =
     join (if windows then [carriage_return, newline] else [newline]) (map (\<lambda>(k, v). k @ ''='' @ v) ps)"

definition is_property :: "string \<times> string \<Rightarrow> bool" where
  "is_property p \<longleftrightarrow> fst p \<noteq> [] \<and> trim (fst p) = fst p \<and> trim (snd p) = snd p \<and> hd (fst p) \<noteq> CHR ''#''
     \<and> CHR ''='' \<notin> set (fst p) \<and> newline \<notin> set (fst p) \<and> newline \<notin> set (snd p)"

lemma trimmed_ends: "trim s = s \<Longrightarrow> s \<noteq> [] \<Longrightarrow> \<not> is_ws (hd s) \<and> \<not> is_ws (last s)"
  using trim_no_ws_ends [of s] by simp

lemma code_13: "code c = 13 \<longleftrightarrow> c = carriage_return"
proof -
  have "code carriage_return = 13" by code_simp
  then show ?thesis by (metis code_inject)
qed

lemma split_lines_step:
  assumes "newline \<notin> set w" and "w \<noteq> [] \<longrightarrow> last w \<noteq> carriage_return"
    and "eol = [newline] \<or> eol = [carriage_return, newline]"
  shows "split_lines (w @ eol @ s) = w # split_lines s"
proof -
  have "split_on newline (w @ eol @ s) = (w @ butlast eol) # split_on newline s"
    using assms split_on_append [of newline "w @ butlast eol" s] by auto
  moreover have "strip_cr (w @ butlast eol) = w" using assms by (auto simp: strip_cr_def code_13)
  ultimately show ?thesis by (simp add: split_lines_def Let_def)
qed

lemma split_lines_join:
  assumes "eol = [newline] \<or> eol = [carriage_return, newline]" and "ws \<noteq> []"
    and "list_all (\<lambda>w. newline \<notin> set w \<and> (w \<noteq> [] \<longrightarrow> last w \<noteq> carriage_return)) ws"
  shows "split_lines (join eol ws) = ws"
  using assms(2,3)
proof (induction ws rule: list_nonempty_induct)
  case (single w)
  then show ?case by (simp add: split_lines_def split_on_no_sep)
next
  case (cons w ws)
  then show ?case using split_lines_step [OF _ _ assms(1), of w "join eol ws"] by (simp add: join_Cons)
qed

lemma property_line_render: "is_property p \<Longrightarrow> property_line (fst p @ ''='' @ snd p) = Some p"
proof -
  assume p: "is_property p"
  let ?l = "fst p @ ''='' @ snd p"
  have ends: "\<not> is_ws (hd (fst p))" "snd p \<noteq> [] \<Longrightarrow> \<not> is_ws (last (snd p))"
    using p trimmed_ends [of "fst p"] trimmed_ends [of "snd p"] by (auto simp: is_property_def)
  have "\<not> is_ws (CHR ''='')" by code_simp
  with ends p have "trim ?l = ?l" by (intro trim_id) (auto simp: is_property_def)
  moreover have "\<not> starts_with ?l ''#''" using p by (cases "fst p") (auto simp: is_property_def)
  ultimately show ?thesis
    using p takeWhile_sep [of "CHR ''=''" "fst p" "snd p"] dropWhile_sep [of "CHR ''=''" "fst p" "snd p"]
    by (simp add: property_line_def Let_def is_property_def)
qed

lemma is_property_line:
  "is_property p \<Longrightarrow> newline \<notin> set (fst p @ ''='' @ snd p) \<and> last (fst p @ ''='' @ snd p) \<noteq> carriage_return"
proof -
  assume p: "is_property p"
  have "is_ws carriage_return" by code_simp
  then show ?thesis using p trimmed_ends [of "snd p"] by (auto simp: is_property_def)
qed

text \<open>\<open>parseProperties\<close> reads back what a writer of property files writes: the trimmed
  pairs of a file with distinct keys, in order, with either kind of line end.\<close>

theorem parseProperties_roundtrip:
  assumes "list_all is_property ps" and "distinct (map fst ps)"
  shows "parseProperties (render_properties windows ps) = ps"
proof (cases "ps = []")
  case True
  have "property_line [] = None" by (simp add: property_line_def trim_def)
  with True show ?thesis by (simp add: render_properties_def parseProperties_def split_lines_def)
next
  case False
  let ?ls = "map (\<lambda>(k, v). k @ ''='' @ v) ps"
  have "split_lines (render_properties windows ps) = ?ls"
    unfolding render_properties_def
  proof (rule split_lines_join)
    show "list_all (\<lambda>w. newline \<notin> set w \<and> (w \<noteq> [] \<longrightarrow> last w \<noteq> carriage_return)) ?ls"
      using assms(1) is_property_line by (simp add: list_all_iff split_beta)
  qed (use False in simp_all)
  moreover have "foldl (\<lambda>out raw. case property_line raw of None \<Rightarrow> out | Some (k, v) \<Rightarrow> obj_set k v out) acc
      (map (\<lambda>(k, v). k @ ''='' @ v) qs) = spread acc qs" if "list_all is_property qs" for acc qs
    using that
  proof (induction qs arbitrary: acc)
    case (Cons q qs)
    then show ?case using property_line_render [of q] by (cases q) simp
  qed simp
  ultimately show ?thesis using assms spread_fresh [of "[]" ps] by (simp add: parseProperties_def)
qed

theorem parseProperties_roundtrip_witness:
  "parseProperties (render_properties True [(''version'', ''1.4.2''), (''details'', ''a = b'')]) =
     [(''version'', ''1.4.2''), (''details'', ''a = b'')]"
proof (rule parseProperties_roundtrip)
  show "list_all is_property [(''version'', ''1.4.2''), (''details'', ''a = b'')]" by code_simp
  show "distinct (map fst [(''version'', ''1.4.2''), (''details'', ''a = b'')])" by simp
qed

end
