(* ===== verification/Usage_Client.thy ===== *)
theory Usage_Client
  imports Finops_Routes Provider_Config
begin

text \<open>
  The browser side of the usage reports: the paged client of the API key usage
  (features/observability/api/fetch-api-keys-usage.ts), the model health table computed from it
  with its fallback (use-model-health-usage.ts), and the access probe and error parsing of the
  observability screens (use-observability-access.ts, parse-observability-response.ts).

  A \<open>Map\<close> of JavaScript keeps its entries in insertion order, so it is an association list
  updated with \<open>obj_set\<close>. A row whose element is \<open>null\<close> makes \<open>map\<close> throw.
\<close>

section \<open>API key usage\<close>

record api_key_row =
  ak_api_key_id :: string
  ak_api_key_name :: string
  ak_tenant_id :: string
  ak_requests :: jsnum
  ak_avg_cost :: "jsnum option"
  ak_success_rate :: "jsnum option"
  ak_avg_latency_ms :: "jsnum option"
  ak_top_model :: "string option"
  ak_top_provider :: "string option"
  ak_last_seen_at :: "string option"

record page_info =
  pi_limit :: jsnum
  pi_offset :: jsnum
  pi_returned :: jsnum
  pi_total :: jsnum

record usage_page =
  up_data :: "api_key_row list"
  up_pagination :: page_info

text \<open>\<open>v == null ? null : Number(v)\<close> and \<open>v == null ? null : String(v)\<close>\<close>

definition opt_number :: "jsval \<Rightarrow> jsnum option" where
  "opt_number v = (if nullish v then None else Some (to_num v))"

definition opt_string :: "jsval \<Rightarrow> string option" where
  "opt_string v = (if nullish v then None else Some (to_str v))"

text \<open>\<open>String(v ?? d)\<close> and \<open>Number(v ?? d)\<close>\<close>

definition string_default :: "string \<Rightarrow> jsval \<Rightarrow> string" where
  "string_default d v = to_str (coalesce v (JStr d))"

definition number_default :: "jsnum \<Rightarrow> jsval \<Rightarrow> jsnum" where
  "number_default d v = to_num (coalesce v (JNum d))"

definition usage_row_of :: "jsval \<Rightarrow> api_key_row" where
  "usage_row_of row =
     \<lparr>ak_api_key_id = string_default [] (get_prop row ''api_key_id''),
      ak_api_key_name = string_default [] (get_prop row ''api_key_name''),
      ak_tenant_id = string_default [] (get_prop row ''tenant_id''),
      ak_requests = number_default (Fin 0) (get_prop row ''requests''),
      ak_avg_cost = opt_number (get_prop row ''avg_cost_per_request_effective''),
      ak_success_rate = opt_number (get_prop row ''success_rate''),
      ak_avg_latency_ms = opt_number (get_prop row ''avg_latency_ms''),
      ak_top_model = opt_string (get_prop row ''top_model''),
      ak_top_provider = opt_string (get_prop row ''top_provider''),
      ak_last_seen_at = (if nullish (get_prop row ''last_seen'') then opt_string (get_prop row ''last_seen_at'')
        else Some (to_str (get_prop row ''last_seen'')))\<rparr>"

text \<open>\<open>rows.map(f)\<close> into typed rows.\<close>

definition map_typed :: "(jsval \<Rightarrow> 'a) \<Rightarrow> jsval list \<Rightarrow> 'a list io" where
  "map_typed f rows = (if list_ex nullish rows then io_throw type_error else io_return (map f rows))"

definition get_request :: "string \<Rightarrow> http_req" where
  "get_request url = \<lparr>rq_url = url, rq_method = ''GET'', rq_headers = [], rq_body = NoBody\<rparr>"

definition usage_request :: "jsnum \<Rightarrow> nat \<Rightarrow> nat \<Rightarrow> http_req" where
  "usage_request windowHours limit offset = get_request (''/api/finops/api-keys/usage?'' @ params_to_string
     [(''window_hours'', num_to_string windowHours), (''limit'', num_to_string (Fin (of_nat limit))),
      (''offset'', num_to_string (Fin (of_nat offset)))])"

definition usage_rows :: "jsval \<Rightarrow> jsval list" where
  "usage_rows payload = (if is_array payload then arr_elems payload else arr_elems (get_prop payload ''data''))"

definition pagination_raw :: "jsval \<Rightarrow> jsval \<Rightarrow> jsval io" where
  "pagination_raw raw payload =
     (if is_object payload \<and> \<not> is_array payload \<and> has_own payload ''pagination''
      then io_return (coalesce (get_prop payload ''pagination'') (JObj []))
      else io_bind (read_prop raw ''pagination'') (\<lambda>p. io_return (coalesce p (JObj []))))"

definition page_info_of :: "nat \<Rightarrow> nat \<Rightarrow> nat \<Rightarrow> jsval \<Rightarrow> page_info" where
  "page_info_of limit offset n raw =
     \<lparr>pi_limit = number_default (Fin (of_nat limit)) (get_prop raw ''limit''),
      pi_offset = number_default (Fin (of_nat offset)) (get_prop raw ''offset''),
      pi_returned = number_default (Fin (of_nat n)) (get_prop raw ''returned''),
      pi_total = number_default (Fin (of_nat n)) (get_prop raw ''total'')\<rparr>"

definition fetchApiKeysUsage :: "jsnum \<Rightarrow> nat \<Rightarrow> nat \<Rightarrow> usage_page io" where
  "fetchApiKeysUsage windowHours limit offset =
     io_bind (io_fetch (usage_request windowHours limit offset)) (\<lambda>resp.
     if \<not> resp_ok resp then
       io_bind (assertFinopsUnauthorized resp) (\<lambda>_.
       io_return \<lparr>up_data = [], up_pagination =
         \<lparr>pi_limit = Fin (of_nat limit), pi_offset = Fin (of_nat offset), pi_returned = Fin 0, pi_total = Fin 0\<rparr>\<rparr>)
     else
       io_bind (resp_json resp) (\<lambda>raw.
       let payload = coalesce (get_prop raw ''data'') raw in
       io_bind (map_typed usage_row_of (usage_rows payload)) (\<lambda>rows.
       io_bind (pagination_raw raw payload) (\<lambda>p.
       io_return \<lparr>up_data = rows, up_pagination = page_info_of limit offset (length rows) p\<rparr>))))"

text \<open>The loop over the pages: \<open>pages\<close> are left of the 500, and \<open>offset\<close> advances by the rows received.\<close>

fun usage_loop :: "nat \<Rightarrow> jsnum \<Rightarrow> nat \<Rightarrow> nat \<Rightarrow> api_key_row list \<Rightarrow> api_key_row list io" where
  "usage_loop 0 windowHours limit offset rows = io_return rows"
| "usage_loop (Suc pages) windowHours limit offset rows =
     io_bind (fetchApiKeysUsage windowHours limit offset) (\<lambda>resp.
     let batch = up_data resp in
     if batch = [] then io_return rows
     else if length batch < limit then io_return (rows @ batch)
     else usage_loop pages windowHours limit (offset + length batch) (rows @ batch))"

definition fetchAllApiKeysUsage :: "jsnum \<Rightarrow> api_key_row list io" where
  "fetchAllApiKeysUsage windowHours = usage_loop 500 windowHours 200 0 []"

section \<open>Drill-down of one key\<close>

record model_usage =
  mu_model :: string
  mu_requests :: jsnum
  mu_effective_spend :: jsnum
  mu_avg_cost :: "jsnum option"

record provider_usage =
  pu_provider :: string
  pu_requests :: jsnum

record traffic_point =
  tp_bucket :: string
  tp_requests :: jsnum
  tp_errors :: jsnum

record recent_request =
  rr_request_id :: string
  rr_timestamp :: string
  rr_model :: string
  rr_provider :: string
  rr_latency_ms :: jsnum
  rr_status :: string

record drilldown =
  dd_api_key_id :: string
  dd_requests_by_model :: "model_usage list"
  dd_requests_by_provider :: "provider_usage list"
  dd_traffic_over_time :: "traffic_point list"
  dd_recent_requests :: "recent_request list"

definition model_usage_of :: "jsval \<Rightarrow> model_usage" where
  "model_usage_of row =
     (let avg = get_prop row ''avg_cost_per_request_effective''; reqs = number_default (Fin 0) (get_prop row ''requests'') in
      \<lparr>mu_model = string_default ''-'' (get_prop row ''model''), mu_requests = reqs,
       mu_effective_spend = (if nullish (get_prop row ''effective_spend'') then num_mul (number_default (Fin 0) avg) reqs
         else to_num (get_prop row ''effective_spend'')),
       mu_avg_cost = opt_number avg\<rparr>)"

definition provider_usage_of :: "jsval \<Rightarrow> provider_usage" where
  "provider_usage_of row =
     \<lparr>pu_provider = string_default ''-'' (get_prop row ''provider''),
      pu_requests = number_default (Fin 0) (get_prop row ''requests'')\<rparr>"

definition traffic_point_of :: "jsval \<Rightarrow> traffic_point" where
  "traffic_point_of row =
     \<lparr>tp_bucket = string_default [] (get_prop row ''bucket''),
      tp_requests = number_default (Fin 0) (get_prop row ''requests''),
      tp_errors = number_default (Fin 0) (get_prop row ''errors'')\<rparr>"

definition recent_request_of :: "jsval \<Rightarrow> recent_request" where
  "recent_request_of row =
     \<lparr>rr_request_id = string_default [] (get_prop row ''request_id''),
      rr_timestamp = string_default [] (get_prop row ''timestamp''),
      rr_model = string_default ''-'' (get_prop row ''model''),
      rr_provider = string_default ''-'' (get_prop row ''provider''),
      rr_latency_ms = number_default (Fin 0) (get_prop row ''latency_ms''),
      rr_status = string_default [] (get_prop row ''status'')\<rparr>"

definition drilldown_request :: "string \<Rightarrow> jsnum \<Rightarrow> nat \<Rightarrow> http_req" where
  "drilldown_request apiKeyId windowHours limit =
     get_request (''/api/finops/api-keys/'' @ encodeURIComponent apiKeyId @ ''/usage?'' @ params_to_string
       [(''window_hours'', num_to_string windowHours), (''limit'', num_to_string (Fin (of_nat limit))),
        (''offset'', ''0'')])"

definition fetchApiKeyDrilldown :: "string \<Rightarrow> jsnum \<Rightarrow> nat \<Rightarrow> drilldown option io" where
  "fetchApiKeyDrilldown apiKeyId windowHours limit =
     io_bind (io_fetch (drilldown_request apiKeyId windowHours limit)) (\<lambda>resp.
     if \<not> resp_ok resp then io_bind (assertFinopsUnauthorized resp) (\<lambda>_. io_return None)
     else
       io_bind (resp_json resp) (\<lambda>raw.
       let payload = coalesce (get_prop raw ''data'') raw in
       io_bind (map_typed model_usage_of (arr_elems (get_prop payload ''requests_by_model''))) (\<lambda>models.
       io_bind (map_typed provider_usage_of (arr_elems (get_prop payload ''requests_by_provider''))) (\<lambda>providers.
       io_bind (map_typed traffic_point_of (arr_elems (get_prop payload ''traffic_over_time''))) (\<lambda>traffic.
       io_bind (map_typed recent_request_of (arr_elems (get_prop payload ''recent_requests''))) (\<lambda>recent.
       io_return (Some \<lparr>dd_api_key_id = string_default apiKeyId (get_prop payload ''api_key_id''),
         dd_requests_by_model = models, dd_requests_by_provider = providers,
         dd_traffic_over_time = traffic, dd_recent_requests = recent\<rparr>)))))))"

section \<open>Model health from the drill-downs\<close>

record model_health =
  mh_model :: string
  mh_provider :: jsval
  mh_avg_latency_ms :: jsnum
  mh_p95_latency_ms :: jsnum
  mh_success_rate :: jsnum
  mh_avg_cost_usd :: jsnum
  mh_samples :: jsnum
  mh_effective_spend :: jsnum
  mh_model_type :: string

text \<open>\<open>(raw ?? '').trim()\<close> raises when the catalog's type is not a string.\<close>

definition normalizeModelType :: "jsval \<Rightarrow> exn + string" where
  "normalizeModelType raw =
     (case coalesce raw (JStr []) of
        JStr s \<Rightarrow> (let t = to_lower (trim s) in
          Inr (if t = [] then ''llm'' else if t = ''ml'' then ''ml'' else if t = ''embedding'' then ''embedding'' else ''llm''))
      | _ \<Rightarrow> Inl type_error)"

definition isOkStatus :: "string \<Rightarrow> bool" where
  "isOkStatus status \<longleftrightarrow> to_lower (trim status) = ''ok''"

text \<open>\<open>Math.ceil(0.95 * n) - 1\<close>, at least 0. The double 0.95 is so close to 19/20 that the rounded
  product has the same ceiling.\<close>

definition percentile95Sorted :: "rat list \<Rightarrow> rat" where
  "percentile95Sorted xs =
     (if xs = [] then 0 else xs ! nat (max 0 (\<lceil>(19 / 20 :: rat) * of_nat (length xs)\<rceil> - 1)))"

text \<open>\<open>new Map(models.map(m => [m.id, m]))\<close> and its \<open>get\<close>: the last model with that id.\<close>

definition catalog_get :: "jsval list \<Rightarrow> string \<Rightarrow> jsval" where
  "catalog_get models i =
     (case find (\<lambda>m. get_prop m ''id'' = JStr i) (rev models) of None \<Rightarrow> JUndef | Some m \<Rightarrow> m)"

type_synonym model_sums = "(string \<times> jsnum \<times> jsnum) list"

definition named_model :: "string \<Rightarrow> bool" where
  "named_model m \<longleftrightarrow> m \<noteq> [] \<and> m \<noteq> ''-''"

definition add_model_usage :: "model_sums \<Rightarrow> model_usage \<Rightarrow> model_sums" where
  "add_model_usage agg row =
     (let m = mu_model row in
      if \<not> named_model m then agg
      else let (reqs, spend) = (case map_of agg m of None \<Rightarrow> (Fin 0, Fin 0) | Some p \<Rightarrow> p) in
        obj_set m (num_add reqs (mu_requests row), num_add spend (mu_effective_spend row)) agg)"

definition aggRequests :: "drilldown list \<Rightarrow> model_sums" where
  "aggRequests dds = foldl add_model_usage [] (concat (map dd_requests_by_model dds))"

type_synonym recents = "(string \<times> recent_request list) list \<times> string list"

definition add_recent :: "recents \<Rightarrow> recent_request \<Rightarrow> recents" where
  "add_recent acc r =
     (let (byModel, seen) = acc; i = rr_request_id r in
      if i \<noteq> [] \<and> i \<in> set seen then acc
      else
        let seen' = (if i \<noteq> [] then i # seen else seen); m = rr_model r in
        if \<not> named_model m then (byModel, seen')
        else (obj_set m ((case map_of byModel m of None \<Rightarrow> [] | Some l \<Rightarrow> l) @ [r]) byModel, seen'))"

definition recentByModel :: "drilldown list \<Rightarrow> (string \<times> recent_request list) list" where
  "recentByModel dds = fst (foldl add_recent ([], []) (concat (map dd_recent_requests dds)))"

definition provider_votes :: "recent_request list \<Rightarrow> (string \<times> nat) list" where
  "provider_votes rs =
     foldl (\<lambda>v r. let p = (if rr_provider r = [] then ''unknown'' else rr_provider r) in
       obj_set p ((case map_of v p of None \<Rightarrow> 0 | Some n \<Rightarrow> n) + 1) v) [] rs"

text \<open>\<open>Array.from(votes.entries()).sort((a, b) => b[1] - a[1])[0][0]\<close>\<close>

definition top_provider :: "(string \<times> nat) list \<Rightarrow> string" where
  "top_provider votes = fst (hd (sort_by (\<lambda>a b. snd b \<le> snd a) votes))"

definition health_provider :: "jsval \<Rightarrow> recent_request list option \<Rightarrow> jsval" where
  "health_provider cat recent =
     (let provider = coalesce (get_prop cat ''provider'') (JStr ''unknown'') in
      case recent of
        None \<Rightarrow> provider
      | Some rs \<Rightarrow>
          if (provider = JStr ''unknown'' \<or> \<not> truthy provider) \<and> provider_votes rs \<noteq> []
          then JStr (top_provider (provider_votes rs)) else provider)"

text \<open>\<open>latencies\<close>: the finite, non-negative ones.\<close>

fun latency_of :: "jsnum \<Rightarrow> rat option" where
  "latency_of (Fin q) = (if 0 \<le> q then Some q else None)"
| "latency_of _ = None"

definition latencies :: "recent_request list \<Rightarrow> rat list" where
  "latencies rs = List.map_filter (latency_of \<circ> rr_latency_ms) rs"

definition health_row :: "jsval list \<Rightarrow> (string \<times> recent_request list) list \<Rightarrow> string \<Rightarrow> jsnum \<Rightarrow> jsnum \<Rightarrow> exn + model_health" where
  "health_row models recent model reqs spend =
     (let cat = catalog_get models model;
          recentList = (case map_of recent model of None \<Rightarrow> [] | Some l \<Rightarrow> l);
          lat = latencies recentList;
          ok = length (filter (\<lambda>r. isOkStatus (rr_status r)) recentList)
      in case normalizeModelType (get_prop cat ''type'') of
           Inl err \<Rightarrow> Inl err
         | Inr ty \<Rightarrow> Inr
             \<lparr>mh_model = model,
              mh_provider = health_provider cat (map_of recent model),
              mh_avg_latency_ms = (if lat \<noteq> [] then Fin (sum_list lat / of_nat (length lat)) else Fin 0),
              mh_p95_latency_ms = Fin (percentile95Sorted (sort lat)),
              mh_success_rate = (if recentList \<noteq> [] then Fin (of_nat ok / of_nat (length recentList)) else Fin 1),
              mh_avg_cost_usd = num_div spend reqs,
              mh_samples = reqs,
              mh_effective_spend = spend,
              mh_model_type = ty\<rparr>)"

text \<open>\<open>if (sums.requests <= 0) continue\<close>: a NaN count is not skipped.\<close>

fun health_rows :: "jsval list \<Rightarrow> (string \<times> recent_request list) list \<Rightarrow> model_sums \<Rightarrow> exn + model_health list" where
  "health_rows models recent [] = Inr []"
| "health_rows models recent ((model, reqs, spend) # rest) =
     (if num_le reqs (Fin 0) then health_rows models recent rest
      else case health_row models recent model reqs spend of
        Inl err \<Rightarrow> Inl err
      | Inr row \<Rightarrow> (case health_rows models recent rest of Inl err \<Rightarrow> Inl err | Inr rows \<Rightarrow> Inr (row # rows)))"

definition aggregateModelHealthFromDrilldowns ::
  "(string \<Rightarrow> string \<Rightarrow> bool) \<Rightarrow> drilldown list \<Rightarrow> jsval list \<Rightarrow> exn + model_health list" where
  "aggregateModelHealthFromDrilldowns locale_le drilldowns models =
     (if list_ex nullish models then Inl type_error
      else case health_rows models (recentByModel drilldowns) (aggRequests drilldowns) of
        Inl err \<Rightarrow> Inl err
      | Inr rows \<Rightarrow> Inr (sort_by (\<lambda>a b. locale_le (mh_model a) (mh_model b)) rows))"

section \<open>The model health query\<close>

definition fetchModelsCatalog :: "jsval list io" where
  "fetchModelsCatalog =
     io_bind (io_fetch (get_request ''/api/models'')) (\<lambda>res.
     if \<not> resp_ok res then io_return []
     else io_bind (resp_json res) (\<lambda>data. io_bind (read_prop data ''data'') (\<lambda>d. io_return (arr_elems d))))"

definition toNumber :: "jsval \<Rightarrow> jsnum" where
  "toNumber v = finite_or (Fin 0) (to_num v)"

definition coalesce3 :: "jsval \<Rightarrow> string \<Rightarrow> string \<Rightarrow> string \<Rightarrow> jsval" where
  "coalesce3 item a b c = coalesce (coalesce (get_prop item a) (get_prop item b)) (get_prop item c)"

definition benchmark_row :: "jsval list \<Rightarrow> jsval \<Rightarrow> exn + model_health" where
  "benchmark_row models item =
     (let rate = toNumber (coalesce (coalesce (get_prop item ''success_rate'') (get_prop item ''successRate'')) (jint 0));
          model = to_str (coalesce (coalesce (get_prop item ''model'') (get_prop item ''model_name'')) (JStr ''unknown''));
          samples = num_max (Fin 0) (num_floor (toNumber (coalesce3 item ''samples'' ''requests'' ''count'')));
          cost = toNumber (coalesce3 item ''avg_cost_usd'' ''avg_cost'' ''cost_usd'')
      in case normalizeModelType (get_prop (catalog_get models model) ''type'') of
           Inl err \<Rightarrow> Inl err
         | Inr ty \<Rightarrow> Inr
             \<lparr>mh_model = model,
              mh_provider = JStr (string_default ''unknown'' (get_prop item ''provider'')),
              mh_avg_latency_ms = toNumber (coalesce3 item ''avg_latency_ms'' ''avg_latency'' ''latency_ms''),
              mh_p95_latency_ms = toNumber (coalesce3 item ''p95_latency_ms'' ''p95_latency'' ''p95_ms''),
              mh_success_rate = (if num_less (Fin 1) rate then num_div rate (Fin 100) else rate),
              mh_avg_cost_usd = cost,
              mh_samples = samples,
              mh_effective_spend = num_mul cost samples,
              mh_model_type = ty\<rparr>)"

definition benchmark_items :: "jsval \<Rightarrow> jsval list" where
  "benchmark_items json =
     (if is_array json then arr_elems json
      else if is_array (get_prop json ''models'') then arr_elems (get_prop json ''models'')
      else if is_array (get_prop json ''items'') then arr_elems (get_prop json ''items'')
      else arr_elems (get_prop json ''data''))"

fun map_sum :: "('a \<Rightarrow> exn + 'b) \<Rightarrow> 'a list \<Rightarrow> exn + 'b list" where
  "map_sum f [] = Inr []"
| "map_sum f (x # xs) = (case f x of Inl err \<Rightarrow> Inl err
     | Inr y \<Rightarrow> (case map_sum f xs of Inl err \<Rightarrow> Inl err | Inr ys \<Rightarrow> Inr (y # ys)))"

definition fetchBenchmarkModelHealthRows :: "jsnum \<Rightarrow> jsval list \<Rightarrow> model_health list io" where
  "fetchBenchmarkModelHealthRows windowHours models =
     io_bind (io_fetch (get_request (''/api/observability/model-performance?window_hours='' @ num_to_string windowHours))) (\<lambda>res.
     if \<not> resp_ok res then io_return []
     else io_bind (resp_json res) (\<lambda>json.
       if list_ex nullish models then io_throw type_error
       else io_of_sum (map_sum (\<lambda>item. if nullish item then Inl type_error else benchmark_row models item)
         (benchmark_items json))))"

definition modelHealthUsage :: "(string \<Rightarrow> string \<Rightarrow> bool) \<Rightarrow> jsnum \<Rightarrow> model_health list io" where
  "modelHealthUsage locale_le windowHours =
     io_bind fetchModelsCatalog (\<lambda>models.
     io_bind (fetchAllApiKeysUsage windowHours) (\<lambda>apiKeys.
     io_bind (io_all (map (\<lambda>k. io_catch (fetchApiKeyDrilldown (ak_api_key_id k) windowHours 50) (\<lambda>_. io_return None)) apiKeys)) (\<lambda>drilldowns.
     io_bind (io_of_sum (aggregateModelHealthFromDrilldowns locale_le (List.map_filter (\<lambda>d. d) drilldowns) models)) (\<lambda>rows.
     if rows \<noteq> [] then io_return rows else fetchBenchmarkModelHealthRows windowHours models))))"

text \<open>\<open>retry(failureCount, error)\<close> of the observability queries.\<close>

fun query_retries :: "nat \<Rightarrow> exn \<Rightarrow> bool" where
  "query_retries failureCount (JsError _ (Some s)) = (s \<noteq> 401 \<and> s \<noteq> 403 \<and> failureCount < 2)"
| "query_retries failureCount (GatewayAdminError _ (Some s) _) = (s \<noteq> 401 \<and> s \<noteq> 403 \<and> failureCount < 2)"
| "query_retries failureCount _ = (failureCount < 2)"

section \<open>Errors and access of the observability screens\<close>

text \<open>\<open>typeof raw === 'string' ? raw : raw && typeof raw === 'object' && 'message' in raw ? String(raw.message) : d\<close>\<close>

definition error_text :: "jsval \<Rightarrow> string \<Rightarrow> string" where
  "error_text raw d =
     (if is_str raw then str_of raw
      else if is_object raw \<and> has_own raw ''message'' then to_str (get_prop raw ''message'') else d)"

definition parseObservabilityErrorResponse :: "http_resp \<Rightarrow> string \<Rightarrow> 'a io" where
  "parseObservabilityErrorResponse res fallbackMessage =
     io_throw (JsError (error_text (get_prop (resp_json_or_empty res) ''error'') fallbackMessage) (Some (rs_status res)))"

definition fetchObservabilityGlobalAccess :: "unit io" where
  "fetchObservabilityGlobalAccess =
     io_bind (io_fetch (get_request ''/api/observability/metrics?window_hours=1&bucket=hour'')) (\<lambda>res.
     let raw = get_prop (resp_json_or_empty res) ''error'' in
     if rs_status res = 401 \<or> rs_status res = 403 then
       io_throw (JsError (error_text raw ''Access denied'') (Some (rs_status res)))
     else if \<not> resp_ok res then
       io_throw (JsError (if is_str raw then str_of raw else ''Request failed ('' @ show_int (rs_status res) @ '')'')
         (Some (rs_status res)))
     else io_return ())"

end
