(* ===== verification/Usage_Props.thy ===== *)
theory Usage_Props
  imports Usage_Client
begin

text \<open>
  Properties of the usage client: the page loop ends and, against a gateway that pages as documented,
  returns every key; the model health table equals a reference computed per model from the
  filtered lists; and its percentile is one.
\<close>

section \<open>The page loop\<close>

lemma finops_unauthorized_quiet: "snd (assertFinopsUnauthorized resp net h) = h"
  by (simp add: assertFinopsUnauthorized_def Let_def js_simps)

lemma usage_page_requests:
  "snd (fetchApiKeysUsage w limit offset net h) = h @ [usage_request w limit offset]"
  using finops_unauthorized_quiet
  by (auto simp: fetchApiKeysUsage_def Let_def map_typed_def pagination_raw_def js_simps split: prod.splits sum.splits
      fetch_result.splits option.splits) (metis snd_conv)+

lemma usage_loop_offsets:
  assumes "0 < limit"
  shows "\<exists>offs. snd (usage_loop pages w limit offset rows net h) = h @ map (usage_request w limit) offs
    \<and> length offs \<le> pages \<and> (pages \<noteq> 0 \<longrightarrow> offs \<noteq> [] \<and> hd offs = offset)
    \<and> sorted_wrt (<) offs \<and> list_all (\<lambda>k. offset \<le> k) offs"
proof (induction pages arbitrary: offset rows h)
  case 0
  then show ?case by (auto simp: io_return_def)
next
  case (Suc pages)
  let ?h = "h @ [usage_request w limit offset]"
  obtain res where page: "fetchApiKeysUsage w limit offset net h = (res, ?h)"
    using usage_page_requests [of w limit offset net h] by (metis prod.collapse)
  show ?case
  proof (cases "\<exists>p. res = Inr p \<and> \<not> length (up_data p) < limit")
    case True
    then obtain p where p: "res = Inr p" "limit \<le> length (up_data p)" by auto
    then have ne: "up_data p \<noteq> []" "0 < length (up_data p)" using assms by auto
    let ?off = "offset + length (up_data p)"
    obtain offs where run: "snd (usage_loop pages w limit ?off (rows @ up_data p) net ?h) = ?h @ map (usage_request w limit) offs"
      "length offs \<le> pages" "sorted_wrt (<) offs" and later: "list_all (\<lambda>k. ?off \<le> k) offs"
      using Suc.IH [of ?off "rows @ up_data p" ?h] by blast
    moreover have "list_all (\<lambda>k. offset < k) offs" by (rule list.pred_mono_strong [OF later]) (use ne(2) in linarith)
    moreover from this have "list_all (\<lambda>k. offset \<le> k) offs" by (auto simp: list_all_iff)
    ultimately show ?thesis
      using page p ne by (intro exI [of _ "offset # offs"]) (simp add: io_bind_def Let_def list_all_iff)
  next
    case False
    then have "snd (usage_loop (Suc pages) w limit offset rows net h) = ?h"
      using page by (cases res) (auto simp: io_bind_def io_return_def Let_def)
    then show ?thesis by (intro exI [of _ "[offset]"]) simp
  qed
qed

text \<open>C12. The page loop ends whatever the gateway answers: it sends at least one and at most 500 requests,
  starting at offset 0, and every further request asks for a strictly later offset, so that no page is asked
  for twice, even of a gateway that ignores the limit or answers forever.\<close>

theorem usage_paging_terminates:
  "\<exists>offs. io_requests (fetchAllApiKeysUsage w) net = map (usage_request w 200) offs
    \<and> 1 \<le> length offs \<and> length offs \<le> 500 \<and> hd offs = 0 \<and> sorted_wrt (<) offs"
proof -
  obtain offs where "snd (usage_loop 500 w 200 0 [] net []) = map (usage_request w 200) offs"
    "length offs \<le> 500" "offs \<noteq> []" "hd offs = 0" "sorted_wrt (<) offs"
    using usage_loop_offsets [of 200 500 w 0 "[]" net "[]"] by auto
  then show ?thesis
    by (intro exI [of _ offs]) (simp add: io_requests_def fetchAllApiKeysUsage_def Suc_le_eq)
qed

section \<open>Every key is listed\<close>

text \<open>A gateway that pages as it documents: it answers a request with the rows from the offset on, at
  most as many as the limit.\<close>

definition pages_keys :: "jsnum \<Rightarrow> jsval list \<Rightarrow> server \<Rightarrow> bool" where
  "pages_keys w ks g \<longleftrightarrow> (\<forall>off \<le> length ks. \<exists>t hs. g (usage_request w 200 off) = FetchOk
     \<lparr>rs_status = 200, rs_text = t, rs_json = Some (JObj [(''data'', JArr (take 200 (drop off ks)))]), rs_headers = hs\<rparr>)"

lemma page_of_keys:
  assumes "pages_keys w ks g" and "list_all (\<lambda>k. \<not> nullish k) ks" and "off \<le> length ks"
  shows "\<exists>info. fetchApiKeysUsage w 200 off (\<lambda>_. g) h =
    (Inr \<lparr>up_data = map usage_row_of (take 200 (drop off ks)), up_pagination = info\<rparr>, h @ [usage_request w 200 off])"
proof -
  obtain t hs where "g (usage_request w 200 off) = FetchOk
     \<lparr>rs_status = 200, rs_text = t, rs_json = Some (JObj [(''data'', JArr (take 200 (drop off ks)))]), rs_headers = hs\<rparr>"
    using assms(1,3) unfolding pages_keys_def by blast
  moreover have "\<not> list_ex nullish (take 200 (drop off ks))"
    using assms(2) by (auto simp: list_ex_iff list_all_iff dest: in_set_takeD in_set_dropD)
  ultimately show ?thesis
    by (simp add: fetchApiKeysUsage_def resp_ok_def Let_def usage_rows_def map_typed_def pagination_raw_def js_simps)
qed

lemma usage_loop_lists_keys:
  assumes "pages_keys w ks g" and "list_all (\<lambda>k. \<not> nullish k) ks" and "off \<le> length ks"
    and "length ks - off < 200 * pages"
  shows "fst (usage_loop pages w 200 off rows (\<lambda>_. g) h) = Inr (rows @ map usage_row_of (drop off ks))"
  using assms(3,4)
proof (induction pages arbitrary: off rows h)
  case 0
  then show ?case by simp
next
  case (Suc pages)
  obtain info where page: "fetchApiKeysUsage w 200 off (\<lambda>_. g) h =
      (Inr \<lparr>up_data = map usage_row_of (take 200 (drop off ks)), up_pagination = info\<rparr>, h @ [usage_request w 200 off])"
    using page_of_keys [OF assms(1,2) Suc.prems(1), of h] by blast
  show ?case
  proof (cases "length ks - off < 200")
    case True
    then show ?thesis using page by (simp add: io_bind_def io_return_def Let_def)
  next
    case False
    let ?rows = "rows @ map usage_row_of (take 200 (drop off ks))"
    have "fst (usage_loop pages w 200 (off + 200) ?rows (\<lambda>_. g) (h @ [usage_request w 200 off])) =
        Inr (?rows @ map usage_row_of (drop (off + 200) ks))"
      using Suc.prems False by (intro Suc.IH) auto
    moreover have "map usage_row_of (take 200 (drop off ks)) @ map usage_row_of (drop (off + 200) ks) = map usage_row_of (drop off ks)"
      by (metis add.commute append_take_drop_id drop_drop map_append)
    moreover have "min (length ks - off) 200 = 200" using False by simp
    ultimately show ?thesis using page False by (simp add: io_bind_def io_return_def Let_def)
  qed
qed


lemma usage_request_inject:
  assumes "m < 10 ^ 21" and "n < 10 ^ 21"
  shows "usage_request w 200 m = usage_request w 200 n \<longleftrightarrow> m = n"
proof -
  have shown: "num_to_string (Fin (of_nat k)) = show_int (int k)" if "k < 10 ^ 21" for k
    using num_to_string_int [of "int k"] that by (simp flip: of_nat_power)
  let ?ps = "\<lambda>k. [(''window_hours'', num_to_string w), (''limit'', num_to_string (Fin (of_nat 200))), (''offset'', num_to_string (Fin (of_nat k)))]"
  have "?ps m = ?ps n" if "usage_request w 200 m = usage_request w 200 n"
    using that params_parse_to_string [of "?ps m"] params_parse_to_string [of "?ps n"]
    by (simp add: usage_request_def get_request_def)
  then show ?thesis using shown assms by auto
qed


section \<open>Model health against a reference\<close>

text \<open>The reference looks at one model at a time: the sum of a number over the usage rows of the model, and the
  recent requests of the model, each request id counted once.\<close>

definition usage_of :: "drilldown list \<Rightarrow> string \<Rightarrow> model_usage list" where
  "usage_of dds m = filter (\<lambda>r. mu_model r = m) (concat (map dd_requests_by_model dds))"

definition total_of :: "(model_usage \<Rightarrow> jsnum) \<Rightarrow> drilldown list \<Rightarrow> string \<Rightarrow> jsnum" where
  "total_of f dds m = foldl num_add (Fin 0) (map f (usage_of dds m))"

fun unique_requests :: "recent_request list \<Rightarrow> recent_request list" where
  "unique_requests [] = []"
| "unique_requests (r # rs) =
     r # unique_requests (filter (\<lambda>r'. rr_request_id r' = [] \<or> rr_request_id r' \<noteq> rr_request_id r) rs)"

definition requests_of :: "drilldown list \<Rightarrow> string \<Rightarrow> recent_request list" where
  "requests_of dds m = filter (\<lambda>r. rr_model r = m) (unique_requests (concat (map dd_recent_requests dds)))"

abbreviation sum_of :: "model_sums \<Rightarrow> string \<Rightarrow> jsnum \<times> jsnum" where
  "sum_of agg m \<equiv> (case map_of agg m of None \<Rightarrow> (Fin 0, Fin 0) | Some p \<Rightarrow> p)"

abbreviation list_of :: "(string \<times> 'a list) list \<Rightarrow> string \<Rightarrow> 'a list" where
  "list_of l m \<equiv> (case map_of l m of None \<Rightarrow> [] | Some xs \<Rightarrow> xs)"

lemma add_model_usage_sum:
  "sum_of (add_model_usage agg r) m = (if named_model m \<and> mu_model r = m
     then (num_add (fst (sum_of agg m)) (mu_requests r), num_add (snd (sum_of agg m)) (mu_effective_spend r)) else sum_of agg m)"
  by (auto simp: add_model_usage_def Let_def split: option.splits prod.splits)

lemma add_usage_sums:
  "named_model m \<Longrightarrow> sum_of (foldl add_model_usage agg rs) m =
    (foldl num_add (fst (sum_of agg m)) (map mu_requests (filter (\<lambda>r. mu_model r = m) rs)),
     foldl num_add (snd (sum_of agg m)) (map mu_effective_spend (filter (\<lambda>r. mu_model r = m) rs)))"
  by (induction rs arbitrary: agg) (simp_all add: add_model_usage_sum)

lemma add_usage_keys:
  "fst ` set (foldl add_model_usage agg rs) = fst ` set agg \<union> {m \<in> mu_model ` set rs. named_model m}"
proof (induction rs arbitrary: agg)
  case (Cons r rs)
  have "fst ` set (add_model_usage agg r) = fst ` set agg \<union> (if named_model (mu_model r) then {mu_model r} else {})"
    by (simp add: add_model_usage_def Let_def split_beta)
  then show ?case using Cons by auto
qed simp

lemma add_usage_distinct: "distinct (map fst agg) \<Longrightarrow> distinct (map fst (foldl add_model_usage agg rs))"
proof (induction rs arbitrary: agg)
  case (Cons r rs)
  have "distinct (map fst (add_model_usage agg r))"
    using Cons.prems by (auto simp: add_model_usage_def Let_def distinct_obj_set split: prod.splits)
  then show ?case using Cons by simp
qed simp

lemma aggRequests_entries:
  "(m, rq, sp) \<in> set (aggRequests dds) \<Longrightarrow>
     named_model m \<and> rq = total_of mu_requests dds m \<and> sp = total_of mu_effective_spend dds m"
  "named_model m \<Longrightarrow> usage_of dds m \<noteq> [] \<Longrightarrow> m \<in> fst ` set (aggRequests dds)"
proof -
  have d: "distinct (map fst (aggRequests dds))" unfolding aggRequests_def by (rule add_usage_distinct) simp
  have k: "fst ` set (aggRequests dds) = {m \<in> mu_model ` set (concat (map dd_requests_by_model dds)). named_model m}"
    unfolding aggRequests_def add_usage_keys by simp
  assume e: "(m, rq, sp) \<in> set (aggRequests dds)"
  then have n: "named_model m" using k by force
  have "map_of (aggRequests dds) m = Some (rq, sp)" using d e by simp
  then show "named_model m \<and> rq = total_of mu_requests dds m \<and> sp = total_of mu_effective_spend dds m"
    using add_usage_sums [OF n, of "[]" "concat (map dd_requests_by_model dds)"] n
    by (simp add: aggRequests_def total_of_def usage_of_def)
next
  assume "named_model m" and "usage_of dds m \<noteq> []"
  then show "m \<in> fst ` set (aggRequests dds)"
    unfolding aggRequests_def add_usage_keys usage_of_def by (auto simp: filter_empty_conv)
qed

lemma add_recent_lists:
  "named_model m \<Longrightarrow> list_of (fst (foldl add_recent (bm, seen) rs)) m = list_of bm m @
    filter (\<lambda>r. rr_model r = m) (unique_requests (filter (\<lambda>r. rr_request_id r = [] \<or> rr_request_id r \<notin> set seen) rs))"
proof (induction rs arbitrary: bm seen)
  case (Cons r rs)
  let ?i = "rr_request_id r"
  let ?seen = "if ?i \<noteq> [] then ?i # seen else seen"
  show ?case
  proof (cases "?i \<noteq> [] \<and> ?i \<in> set seen")
    case True
    then show ?thesis using Cons by (simp add: add_recent_def)
  next
    case False
    have f: "filter (\<lambda>r'. rr_request_id r' = [] \<or> rr_request_id r' \<noteq> ?i)
        (filter (\<lambda>r. rr_request_id r = [] \<or> rr_request_id r \<notin> set seen) rs) =
      filter (\<lambda>r. rr_request_id r = [] \<or> rr_request_id r \<notin> set ?seen) rs"
      by (auto simp: intro!: filter_cong)
    show ?thesis
      using False Cons.IH [OF Cons.prems, of _ ?seen] Cons.prems
      by (auto simp: add_recent_def Let_def f simp del: filter_filter split: option.splits)
  qed
qed simp

lemma recentByModel_list: "named_model m \<Longrightarrow> list_of (recentByModel dds) m = requests_of dds m"
  using add_recent_lists [of m "[]" "[]" "concat (map dd_recent_requests dds)"]
  by (simp add: recentByModel_def requests_of_def)

lemma health_rows_spec:
  "health_rows models recent agg = Inr rows \<Longrightarrow>
    map mh_model rows = map fst (filter (\<lambda>e. \<not> num_le (fst (snd e)) (Fin 0)) agg)
    \<and> (\<forall>row \<in> set rows. \<exists>(m, rq, sp) \<in> set agg. health_row models recent m rq sp = Inr row)"
proof (induction models recent agg arbitrary: rows rule: health_rows.induct)
  case (2 models recent model reqs spend rest)
  show ?case
  proof (cases "num_le reqs (Fin 0)")
    case True
    then show ?thesis using 2 by fastforce
  next
    case False
    then obtain row rows' where row: "health_row models recent model reqs spend = Inr row" "rows = row # rows'"
      and r: "health_rows models recent rest = Inr rows'"
      using 2(3) by (auto split: sum.splits)
    moreover have "mh_model row = model"
      using row(1) by (auto simp: health_row_def Let_def split: sum.splits)
    ultimately show ?thesis using 2(2) [OF False row(1) r] False by fastforce
  qed
qed simp

lemma health_row_fields:
  "health_row models recent m rq sp = Inr row \<Longrightarrow>
    mh_model row = m \<and> mh_samples row = rq \<and> mh_effective_spend row = sp \<and> mh_avg_cost_usd row = num_div sp rq
    \<and> mh_success_rate row = (if list_of recent m = [] then Fin 1
        else Fin (of_nat (length (filter (isOkStatus \<circ> rr_status) (list_of recent m))) / of_nat (length (list_of recent m))))"
  by (cases "normalizeModelType (get_prop (catalog_get models m) ''type'')")
     (auto simp: health_row_def Let_def comp_def)

definition reported_models :: "drilldown list \<Rightarrow> string set" where
  "reported_models dds = {m. named_model m \<and> usage_of dds m \<noteq> [] \<and> \<not> num_le (total_of mu_requests dds m) (Fin 0)}"

lemma aggRequests_reported:
  "fst ` {e \<in> set (aggRequests dds). \<not> num_le (fst (snd e)) (Fin 0)} = reported_models dds"
proof (intro equalityI subsetI)
  fix m assume "m \<in> fst ` {e \<in> set (aggRequests dds). \<not> num_le (fst (snd e)) (Fin 0)}"
  then obtain rq sp where "(m, rq, sp) \<in> set (aggRequests dds)" "\<not> num_le rq (Fin 0)" by auto
  moreover from this have "named_model m" "rq = total_of mu_requests dds m" using aggRequests_entries(1) by blast+
  moreover from calculation have "usage_of dds m \<noteq> []" by (auto simp: total_of_def num_le_def)
  ultimately show "m \<in> reported_models dds" by (simp add: reported_models_def)
next
  fix m assume m: "m \<in> reported_models dds"
  then obtain rq sp where e: "(m, rq, sp) \<in> set (aggRequests dds)"
    using aggRequests_entries(2) [of m dds] by (auto simp: reported_models_def)
  show "m \<in> fst ` {e \<in> set (aggRequests dds). \<not> num_le (fst (snd e)) (Fin 0)}"
    using aggRequests_entries(1) [OF e] m e by (intro image_eqI [of _ _ "(m, rq, sp)"]) (auto simp: reported_models_def)
qed

text \<open>C11. The one-pass aggregation equals the per-model reference: the table has exactly one row for each named model
  whose requests sum up to more than nothing, and the row holds the sums of its requests and spend over all keys, the
  cost per request, and the success rate among the distinct recent requests of the model.\<close>

theorem model_health_reference:
  assumes "aggregateModelHealthFromDrilldowns locale_le dds models = Inr rows"
  shows "distinct (map mh_model rows) \<and> mh_model ` set rows = reported_models dds
    \<and> (\<forall>row \<in> set rows. let m = mh_model row; recent = requests_of dds m in
        mh_samples row = total_of mu_requests dds m
        \<and> mh_effective_spend row = total_of mu_effective_spend dds m
        \<and> mh_avg_cost_usd row = num_div (total_of mu_effective_spend dds m) (total_of mu_requests dds m)
        \<and> mh_success_rate row = (if recent = [] then Fin 1
            else Fin (of_nat (length (filter (isOkStatus \<circ> rr_status) recent)) / of_nat (length recent))))"
proof -
  obtain rs where rs: "health_rows models (recentByModel dds) (aggRequests dds) = Inr rs"
    and rows: "rows = sort_by (\<lambda>a b. locale_le (mh_model a) (mh_model b)) rs"
    using assms by (auto simp: aggregateModelHealthFromDrilldowns_def split: if_splits sum.splits)
  note spec = health_rows_spec [OF rs]
  have "distinct (map fst (aggRequests dds))" unfolding aggRequests_def by (rule add_usage_distinct) simp
  then have d: "distinct (map mh_model rows)" using spec rows by (simp add: distinct_map_filter)
  have "mh_model ` set rows = set (map fst (filter (\<lambda>e. \<not> num_le (fst (snd e)) (Fin 0)) (aggRequests dds)))"
    using arg_cong [OF conjunct1 [OF spec], of set] rows by simp
  then have m: "mh_model ` set rows = reported_models dds" by (simp flip: aggRequests_reported)
  show ?thesis
  proof (intro conjI d m ballI)
    fix row assume "row \<in> set rows"
    then obtain m rq sp where e: "(m, rq, sp) \<in> set (aggRequests dds)"
      and h: "health_row models (recentByModel dds) m rq sp = Inr row"
      using spec rows by fastforce
    from aggRequests_entries(1) [OF e] health_row_fields [OF h] recentByModel_list [of m dds]
    show "let m = mh_model row; recent = requests_of dds m in
        mh_samples row = total_of mu_requests dds m
        \<and> mh_effective_spend row = total_of mu_effective_spend dds m
        \<and> mh_avg_cost_usd row = num_div (total_of mu_effective_spend dds m) (total_of mu_requests dds m)
        \<and> mh_success_rate row = (if recent = [] then Fin 1
            else Fin (of_nat (length (filter (isOkStatus \<circ> rr_status) recent)) / of_nat (length recent)))"
      by simp
  qed
qed

definition demo_drilldown :: "string \<Rightarrow> drilldown" where
  "demo_drilldown status = \<lparr>dd_api_key_id = ''k'',
     dd_requests_by_model = [\<lparr>mu_model = ''gpt'', mu_requests = Fin 3, mu_effective_spend = Fin 6, mu_avg_cost = None\<rparr>],
     dd_requests_by_provider = [], dd_traffic_over_time = [],
     dd_recent_requests = [\<lparr>rr_request_id = status, rr_timestamp = [], rr_model = ''gpt'', rr_provider = ''openai'',
       rr_latency_ms = Fin 10, rr_status = status\<rparr>]\<rparr>"

theorem model_health_reference_witness:
  "\<exists>row. aggregateModelHealthFromDrilldowns (\<lambda>_ _. True) [demo_drilldown ''ok'', demo_drilldown ''error''] [] = Inr [row]
    \<and> mh_samples row = Fin 6 \<and> mh_avg_cost_usd row = Fin 2 \<and> mh_success_rate row = Fin (1 / 2)"
proof -
  let ?dds = "[demo_drilldown ''ok'', demo_drilldown ''error'']"
  have "case aggregateModelHealthFromDrilldowns (\<lambda>_ _. True) ?dds [] of Inl _ \<Rightarrow> False
      | Inr rows \<Rightarrow> length rows = 1 \<and> mh_model (hd rows) = ''gpt''" by code_simp
  then obtain row where agg: "aggregateModelHealthFromDrilldowns (\<lambda>_ _. True) ?dds [] = Inr [row]" and g: "mh_model row = ''gpt''"
    by (auto simp: length_Suc_conv split: sum.splits)
  have "isOkStatus ''ok''" "\<not> isOkStatus ''error''" by code_simp+
  with model_health_reference [OF agg] g
  have "mh_samples row = Fin 6 \<and> mh_avg_cost_usd row = Fin 2 \<and> mh_success_rate row = Fin (1 / 2)"
    by (simp add: total_of_def usage_of_def requests_of_def demo_drilldown_def Let_def)
  with agg show ?thesis by blast
qed

section \<open>The percentile\<close>

lemma sorted_filter_le_nth:
  fixes xs :: "rat list"
  assumes "sorted xs" and "i < length xs"
  shows "i < length (filter (\<lambda>x. x \<le> xs ! i) xs)" and "length (filter (\<lambda>x. x < xs ! i) xs) \<le> i"
proof -
  have "xs ! j \<le> xs ! i" if "j < Suc i" for j using assms that by (intro sorted_nth_mono) auto
  then have "filter (\<lambda>x. x \<le> xs ! i) (take (Suc i) xs) = take (Suc i) xs"
    by (auto simp: filter_id_conv in_set_conv_nth)
  then have "length (filter (\<lambda>x. x \<le> xs ! i) (take (Suc i) xs @ drop (Suc i) xs)) \<ge> Suc i"
    unfolding filter_append using assms by simp
  then show "i < length (filter (\<lambda>x. x \<le> xs ! i) xs)" by simp
  have "xs ! i \<le> xs ! (i + j)" if "j < length xs - i" for j using assms that by (intro sorted_nth_mono) auto
  then have "filter (\<lambda>x. x < xs ! i) (drop i xs) = []"
    by (auto simp: filter_empty_conv in_set_conv_nth not_less)
  then have "length (filter (\<lambda>x. x < xs ! i) (take i xs @ drop i xs)) \<le> i"
    unfolding filter_append by (simp add: le_trans [OF length_filter_le])
  then show "length (filter (\<lambda>x. x < xs ! i) xs) \<le> i" by simp
qed

text \<open>The 95th percentile of the model health table is one of the measured latencies, at least 95\% of them do not
  exceed it and fewer than 95\% are below it; the index never leaves the list, a single measurement included.\<close>

theorem percentile95_correct:
  assumes "xs \<noteq> []"
  shows "percentile95Sorted (sort xs) \<in> set xs
    \<and> 19 / 20 * of_nat (length xs) \<le> (of_nat (length (filter (\<lambda>x. x \<le> percentile95Sorted (sort xs)) xs)) :: rat)
    \<and> of_nat (length (filter (\<lambda>x. x < percentile95Sorted (sort xs)) xs)) < (19 / 20 * of_nat (length xs) :: rat)"
proof -
  let ?n = "length xs" and ?c = "\<lceil>(19 / 20 :: rat) * of_nat (length xs)\<rceil>"
  define i where "i = nat (max 0 (?c - 1))"
  have pos: "0 < (19 / 20 :: rat) * of_nat ?n" using assms by simp
  then have c: "1 \<le> ?c" by simp
  have "?c \<le> int ?n" by (simp add: ceiling_le_iff)
  with c have ii: "int i = ?c - 1" and "int i < int ?n" by (simp_all add: i_def)
  then have i: "i < ?n" by simp
  let ?p = "sort xs ! i"
  have "sort xs \<noteq> []" using assms by (metis length_sort length_0_conv)
  then have p: "percentile95Sorted (sort xs) = ?p" by (simp add: percentile95Sorted_def i_def)
  have same: "length (filter P (sort xs)) = length (filter P xs)" for P
    by (metis mset_filter mset_sort size_mset)
  have "i < length (filter (\<lambda>x. x \<le> ?p) xs)" "length (filter (\<lambda>x. x < ?p) xs) \<le> i"
    using sorted_filter_le_nth [of "sort xs" i] i by (simp_all add: same)
  moreover have "(19 / 20 :: rat) * of_nat ?n \<le> of_int (int i + 1)" using ii by (simp add: le_of_int_ceiling)
  moreover have "of_int (int i) < (19 / 20 :: rat) * of_nat ?n" using ii by linarith
  moreover have "?p \<in> set xs" using i nth_mem [of i "sort xs"] by simp
  ultimately show ?thesis unfolding p by auto
qed

theorem percentile95_correct_witness: "percentile95Sorted (sort [30, 10, 20]) \<in> {30, 10, 20}"
  using percentile95_correct [of "[30, 10, 20]"] by simp

end
