(* ===== verification/CSV_Export.thy ===== *)
theory CSV_Export
  imports JS_Date
begin

text \<open>
  The CSV downloads of the budget and benchmark tables (features/budgets/utils/export-csv.ts,
  features/benchmarks/utils/export-csv.ts), with a reader of the CSV format of RFC 4180 as their
  specification. The rows come from JSON: a value without the method a cell calls makes
  the export throw. Creating the blob and clicking the link are not modelled; a result is the file's name and text.
\<close>

section \<open>Cells\<close>

definition double_quotes :: "string \<Rightarrow> string" where
  "double_quotes s = concat (map (\<lambda>c. if c = CHR 0x22 then [c, c] else [c]) s)"

definition csv_special :: "char \<Rightarrow> bool" where
  "csv_special c \<longleftrightarrow> c = CHR '','' \<or> c = CHR 0x22 \<or> c = CHR 0x0A"

text \<open>Both files escape a string in the same way; they differ on null values.\<close>

definition escapeCSVValue :: "string \<Rightarrow> string" where
  "escapeCSVValue s = (if list_ex csv_special s then [CHR 0x22] @ double_quotes s @ [CHR 0x22] else s)"

definition escapeCSV :: "jsval \<Rightarrow> string" where
  "escapeCSV v = (if nullish v then [] else escapeCSVValue (to_str v))"

definition csv_line :: "string list \<Rightarrow> string" where
  "csv_line cells = join '','' cells"

definition csv_text :: "string list \<Rightarrow> string" where
  "csv_text lines = join [CHR 0x0A] lines"

fun num_method :: "jsval \<Rightarrow> exn + jsnum" where
  "num_method (JNum n) = Inr n"
| "num_method _ = Inl type_error"

fun all_rows :: "('a \<Rightarrow> exn + 'b) \<Rightarrow> 'a list \<Rightarrow> exn + 'b list" where
  "all_rows f [] = Inr []"
| "all_rows f (x # xs) = (case f x of Inl err \<Rightarrow> Inl err
     | Inr y \<Rightarrow> (case all_rows f xs of Inl err \<Rightarrow> Inl err | Inr ys \<Rightarrow> Inr (y # ys)))"

section \<open>Budgets\<close>

definition elapsed_fraction :: "jsnum \<Rightarrow> rat" where
  "elapsed_fraction windowHours =
     (if windowHours = Fin 24 then 1 / 10 else if windowHours = Fin 168 then 3 / 10
      else if windowHours = Fin 720 then 1 / 2 else 1 / 2)"

definition projected_spend :: "jsnum \<Rightarrow> jsnum \<Rightarrow> jsnum" where
  "projected_spend windowHours currentSpend = num_div currentSpend (Fin (elapsed_fraction windowHours))"

definition budget_headers :: "string list" where
  "budget_headers = [''generated_at'', ''window'', ''tenant_id'', ''spend_usd'', ''limit_usd'', ''progress_pct'',
     ''projected_spend_usd'', ''status'', ''override'']"

definition effective_limit :: "jsval \<Rightarrow> jsval" where
  "effective_limit budget =
     (let override = get_prop budget ''override_limit_usd''; monthly = coalesce (get_prop budget ''monthly_usd'') (jint 0)
      in if nullish override then monthly else coalesce override monthly)"

definition override_state :: "jsval \<Rightarrow> string" where
  "override_state budget =
     (if get_prop budget ''enforcement_paused'' = JBool True then ''paused''
      else if \<not> nullish (get_prop budget ''override_limit_usd'') then ''override'' else ''none'')"

text \<open>The values of the nine cells of a row, before escaping; \<open>project\<close> is the projection the caller passes.\<close>

definition budget_cells :: "string \<Rightarrow> jsnum \<Rightarrow> (jsnum \<Rightarrow> jsnum) \<Rightarrow> jsval \<Rightarrow> exn + jsval list" where
  "budget_cells generatedAt windowHours project budget =
     (if nullish budget then Inl type_error
      else case num_method (get_prop budget ''current_spend_usd'') of
        Inl err \<Rightarrow> Inl err
      | Inr spend \<Rightarrow>
          (case num_method (effective_limit budget) of
             Inl err \<Rightarrow> Inl err
           | Inr limit \<Rightarrow> Inr
               [JStr generatedAt, JStr (num_to_string windowHours @ ''h''), get_prop budget ''tenant_id'',
                JStr (to_fixed 6 spend), JStr (to_fixed 6 limit),
                JStr (to_fixed 3 (if num_less (Fin 0) limit then num_mul (num_div spend limit) (Fin 100) else Fin 0)),
                JStr (to_fixed 6 (project spend)), get_prop budget ''status'', JStr (override_state budget)]))"

definition exportBudgetsToCSV ::
  "jsnum \<Rightarrow> jsval list \<Rightarrow> jsnum \<Rightarrow> (jsnum \<Rightarrow> jsnum) option \<Rightarrow> exn + (string \<times> string)" where
  "exportBudgetsToCSV now budgets windowHours calculateProjectedSpend =
     (case to_iso_string now of
        Inl err \<Rightarrow> Inl err
      | Inr generatedAt \<Rightarrow>
          let project = (case calculateProjectedSpend of None \<Rightarrow> projected_spend windowHours | Some f \<Rightarrow> f) in
          (case all_rows (budget_cells generatedAt windowHours project) budgets of
             Inl err \<Rightarrow> Inl err
           | Inr rows \<Rightarrow> Inr (''budgets_'' @ hd (split_on (CHR ''T'') generatedAt) @ ''.csv'',
               csv_text (csv_line budget_headers # map (\<lambda>cells. csv_line (map escapeCSV cells)) rows))))"

section \<open>Benchmarks\<close>

definition getHealthStatus :: "jsval \<Rightarrow> string" where
  "getHealthStatus successRate =
     (if js_ge successRate (JNum (Fin (99 / 100))) then ''healthy''
      else if js_ge successRate (JNum (Fin (8 / 10))) then ''degraded'' else ''failing'')"

text \<open>\<open>Number.isFinite(v) ? Number(v).toFixed(d) : ''\<close>\<close>

fun fixed_if_finite :: "nat \<Rightarrow> jsval \<Rightarrow> string" where
  "fixed_if_finite d (JNum n) = (if is_finite n then to_fixed d n else [])"
| "fixed_if_finite d _ = []"

definition formatDate :: "civil \<Rightarrow> string" where
  "formatDate date = show_int (cv_year date) @ ''-'' @ pad_left 2 (show_int (cv_month date)) @ ''-''
     @ pad_left 2 (show_int (cv_day date))"

definition getWindowLabel :: "jsnum \<Rightarrow> string" where
  "getWindowLabel windowHours =
     (if windowHours = Fin 1 then ''1h'' else if windowHours = Fin 6 then ''6h'' else if windowHours = Fin 24 then ''24h''
      else if windowHours = Fin 72 then ''72h'' else if windowHours = Fin 168 then ''168h''
      else num_to_string windowHours @ ''h'')"

definition benchmark_headers :: "string list" where
  "benchmark_headers = [''generated_at'', ''window_hours'', ''model'', ''provider'', ''avg_latency_ms'', ''p95_latency_ms'',
     ''success_rate'', ''avg_cost_usd'', ''samples'', ''status'']"

definition benchmark_cells :: "string \<Rightarrow> jsnum \<Rightarrow> jsval \<Rightarrow> exn + string list" where
  "benchmark_cells generatedAt windowHours row =
     (if nullish row then Inl type_error
      else Inr [generatedAt, num_to_string windowHours, to_str (get_prop row ''model''), to_str (get_prop row ''provider''),
        fixed_if_finite 2 (get_prop row ''avg_latency_ms''), fixed_if_finite 2 (get_prop row ''p95_latency_ms''),
        fixed_if_finite 3 (get_prop row ''success_rate''), fixed_if_finite 6 (get_prop row ''avg_cost_usd''),
        to_str (get_prop row ''samples''), getHealthStatus (get_prop row ''success_rate'')])"

text \<open>\<open>today\<close> is the local calendar date; an empty table downloads nothing.\<close>

definition exportBenchmarksToCSV ::
  "jsnum \<Rightarrow> civil \<Rightarrow> jsval list \<Rightarrow> jsnum \<Rightarrow> exn + (string \<times> string) option" where
  "exportBenchmarksToCSV now today rows windowHours =
     (if rows = [] then Inr None
      else case to_iso_string now of
        Inl err \<Rightarrow> Inl err
      | Inr generatedAt \<Rightarrow>
          (case all_rows (benchmark_cells generatedAt windowHours) rows of
             Inl err \<Rightarrow> Inl err
           | Inr csvRows \<Rightarrow> Inr (Some (''benchmarks_'' @ getWindowLabel windowHours @ ''_'' @ formatDate today @ ''.csv'',
               csv_text (csv_line benchmark_headers # map (\<lambda>cells. csv_line (map escapeCSVValue cells)) csvRows)))))"

section \<open>Reading CSV\<close>

text \<open>Outside quotes a comma ends a cell and a line feed a row; a quote opens a quoted cell, in which two quotes
  are one and a single one closes it.\<close>

fun csv_read :: "bool \<Rightarrow> string \<Rightarrow> string list \<Rightarrow> string \<Rightarrow> string list list" where
  "csv_read quoted cell row [] = [row @ [cell]]"
| "csv_read False cell row (c # s) =
     (if c = CHR '','' then csv_read False [] (row @ [cell]) s
      else if c = CHR 0x0A then (row @ [cell]) # csv_read False [] [] s
      else if c = CHR 0x22 \<and> cell = [] then csv_read True [] row s
      else csv_read False (cell @ [c]) row s)"
| "csv_read True cell row [c] = (if c = CHR 0x22 then [row @ [cell]] else [row @ [cell @ [c]]])"
| "csv_read True cell row (c # d # s) =
     (if c = CHR 0x22 then if d = CHR 0x22 then csv_read True (cell @ [d]) row s else csv_read False cell row (d # s)
      else csv_read True (cell @ [c]) row (d # s))"

definition parse_csv :: "string \<Rightarrow> string list list" where
  "parse_csv s = csv_read False [] [] s"

definition ends_cell :: "string \<Rightarrow> bool" where
  "ends_cell s \<longleftrightarrow> s = [] \<or> hd s = CHR '','' \<or> hd s = CHR 0x0A"

lemma csv_read_plain:
  "\<not> list_ex csv_special w \<Longrightarrow> csv_read False cell row (w @ s) = csv_read False (cell @ w) row s"
  by (induction w arbitrary: cell) (auto simp: csv_special_def)

lemma double_quotes_simps:
  "double_quotes [] = []" "double_quotes (c # s) = (if c = CHR 0x22 then [c, c] else [c]) @ double_quotes s"
  by (simp_all add: double_quotes_def)

lemma csv_read_quoted:
  "ends_cell s \<Longrightarrow> csv_read True cell row (double_quotes w @ CHR 0x22 # s) = csv_read False (cell @ w) row s"
proof (induction w arbitrary: cell)
  case Nil
  then show ?case by (cases s) (auto simp: double_quotes_simps ends_cell_def)
next
  case (Cons c w)
  obtain d t where "double_quotes w @ CHR 0x22 # s = d # t" by (cases "double_quotes w") auto
  then show ?case using Cons.IH [OF Cons.prems, of "cell @ [c]"] by (auto simp: double_quotes_simps)
qed

lemma csv_read_cell: "ends_cell s \<Longrightarrow> csv_read False [] row (escapeCSVValue w @ s) = csv_read False w row s"
  using csv_read_plain [of w "[]" row s] csv_read_quoted [of s "[]" row w] by (simp add: escapeCSVValue_def)

text \<open>A way of quoting cells, and the cells that a reader gets back from it. Files written with such a quoting
  lose nothing on those cells.\<close>

locale csv_quoting =
  fixes quote :: "string \<Rightarrow> string" and ok :: "string \<Rightarrow> bool"
  assumes read_cell: "ok w \<Longrightarrow> ends_cell s \<Longrightarrow> csv_read False [] row (quote w @ s) = csv_read False w row s"
begin

lemma read_line:
  assumes "ws \<noteq> []" and "list_all ok ws" and "s = [] \<or> hd s = CHR 0x0A"
  shows "csv_read False [] row (csv_line (map quote ws) @ s) = csv_read False (last ws) (row @ butlast ws) s"
  using assms(1,2)
proof (induction ws arbitrary: row rule: list_nonempty_induct)
  case (single w)
  then show ?case using read_cell [of w s row] assms(3) by (auto simp: csv_line_def ends_cell_def)
next
  case (cons w ws)
  let ?rest = "csv_line (map quote ws) @ s"
  have "csv_read False [] row (csv_line (map quote (w # ws)) @ s) =
      csv_read False [] row (quote w @ CHR '','' # ?rest)"
    using cons.hyps by (simp add: csv_line_def join_Cons)
  also have "\<dots> = csv_read False [] (row @ [w]) ?rest" using cons.prems by (simp add: read_cell ends_cell_def)
  finally show ?case using cons by simp
qed

lemma parse_lines:
  assumes "rows \<noteq> []" and "list_all (\<lambda>r. r \<noteq> [] \<and> list_all ok r) rows"
  shows "parse_csv (csv_text (map (\<lambda>r. csv_line (map quote r)) rows)) = rows"
  using assms
proof (induction rows rule: list_nonempty_induct)
  case (single r)
  then show ?case using read_line [of r "[]" "[]"] by (simp add: parse_csv_def csv_text_def)
next
  case (cons r rows)
  then show ?case
    using read_line [of r "CHR 0x0A # csv_text (map (\<lambda>r. csv_line (map quote r)) rows)" "[]"]
    by (simp add: parse_csv_def csv_text_def join_Cons)
qed

end

interpretation escaped: csv_quoting escapeCSVValue "\<lambda>_. True"
  by unfold_locales (rule csv_read_cell)

lemma parse_csv_lines:
  "rows \<noteq> [] \<Longrightarrow> list_all (\<lambda>r. r \<noteq> []) rows \<Longrightarrow>
   parse_csv (csv_text (map (\<lambda>r. csv_line (map escapeCSVValue r)) rows)) = rows"
  by (rule escaped.parse_lines) (auto simp: list_all_iff)

lemma plain_header: "escapeCSVValue s = s" if "\<not> list_ex csv_special s"
  using that by (simp add: escapeCSVValue_def)

text \<open>The text of a cell: \<open>null\<close> is empty.\<close>

definition cell_text :: "jsval \<Rightarrow> string" where
  "cell_text v = (if nullish v then [] else to_str v)"

lemma escapeCSV_cell: "escapeCSV = escapeCSVValue \<circ> cell_text"
  by (simp add: fun_eq_iff escapeCSV_def cell_text_def escapeCSVValue_def)

lemma all_rows_Inr: "all_rows f xs = Inr ys \<Longrightarrow> list_all2 (\<lambda>x y. f x = Inr y) xs ys"
  by (induction xs arbitrary: ys) (auto split: sum.splits)

lemma headers_plain: "map escapeCSVValue budget_headers = budget_headers" "map escapeCSVValue benchmark_headers = benchmark_headers"
  by (simp_all add: budget_headers_def benchmark_headers_def plain_header csv_special_def)

text \<open>C34. The downloads survive any data: a reader of RFC 4180 gets back the header and, for every budget in order,
  exactly the nine values of its row, and likewise the ten of every benchmark, whatever commas, quotes or line
  breaks the names contain. No cell can add a column or a row.\<close>

theorem csv_exports_roundtrip:
  "(exportBudgetsToCSV now budgets w project = Inr (name, csv) \<longrightarrow>
     (\<exists>ts rows. to_iso_string now = Inr ts
       \<and> list_all2 (\<lambda>b cells. budget_cells ts w (case project of None \<Rightarrow> projected_spend w | Some f \<Rightarrow> f) b = Inr cells) budgets rows
       \<and> parse_csv csv = budget_headers # map (map cell_text) rows))
   \<and> (exportBenchmarksToCSV now today bs w = Inr (Some (name, csv)) \<longrightarrow>
     (\<exists>ts rows. to_iso_string now = Inr ts \<and> list_all2 (\<lambda>b cells. benchmark_cells ts w b = Inr cells) bs rows
       \<and> parse_csv csv = benchmark_headers # rows))"
proof (intro conjI impI)
  assume a: "exportBudgetsToCSV now budgets w project = Inr (name, csv)"
  let ?cells = "\<lambda>ts. budget_cells ts w (case project of None \<Rightarrow> projected_spend w | Some f \<Rightarrow> f)"
  obtain ts rows where ts: "to_iso_string now = Inr ts" and rows: "all_rows (?cells ts) budgets = Inr rows"
    and csv: "csv = csv_text (csv_line budget_headers # map (\<lambda>cells. csv_line (map escapeCSV cells)) rows)"
    using a by (auto simp: exportBudgetsToCSV_def Let_def split: sum.splits)
  have "csv = csv_text (map (\<lambda>r. csv_line (map escapeCSVValue r)) (budget_headers # map (map cell_text) rows))"
    unfolding csv by (simp add: headers_plain escapeCSV_cell comp_def)
  moreover have two: "list_all2 (\<lambda>b cells. ?cells ts b = Inr cells) budgets rows" by (rule all_rows_Inr [OF rows])
  have "list_all (\<lambda>r. r \<noteq> []) rows"
    using two by (induction rule: list_all2_induct) (auto simp: budget_cells_def split: if_splits sum.splits)
  then have "list_all (\<lambda>r. r \<noteq> []) (budget_headers # map (map cell_text) rows)"
    by (simp add: list_all_iff budget_headers_def)
  ultimately show "\<exists>ts rows. to_iso_string now = Inr ts \<and> list_all2 (\<lambda>b cells. ?cells ts b = Inr cells) budgets rows
       \<and> parse_csv csv = budget_headers # map (map cell_text) rows"
    using ts two by (intro exI [of _ ts] exI [of _ rows]) (simp only: parse_csv_lines list.distinct simp_thms)
next
  assume a: "exportBenchmarksToCSV now today bs w = Inr (Some (name, csv))"
  obtain ts rows where ts: "to_iso_string now = Inr ts" and rows: "all_rows (benchmark_cells ts w) bs = Inr rows"
    and csv: "csv = csv_text (csv_line benchmark_headers # map (\<lambda>cells. csv_line (map escapeCSVValue cells)) rows)"
    using a by (auto simp: exportBenchmarksToCSV_def split: sum.splits if_splits)
  have "csv = csv_text (map (\<lambda>r. csv_line (map escapeCSVValue r)) (benchmark_headers # rows))"
    unfolding csv by (simp add: headers_plain)
  moreover have two: "list_all2 (\<lambda>b cells. benchmark_cells ts w b = Inr cells) bs rows" by (rule all_rows_Inr [OF rows])
  have "list_all (\<lambda>r. r \<noteq> []) rows"
    using two by (induction rule: list_all2_induct) (auto simp: benchmark_cells_def split: if_splits)
  then have "list_all (\<lambda>r. r \<noteq> []) (benchmark_headers # rows)" by (simp add: benchmark_headers_def)
  ultimately show "\<exists>ts rows. to_iso_string now = Inr ts \<and> list_all2 (\<lambda>b cells. benchmark_cells ts w b = Inr cells) bs rows
       \<and> parse_csv csv = benchmark_headers # rows"
    using ts two by (intro exI [of _ ts] exI [of _ rows]) (simp only: parse_csv_lines list.distinct simp_thms)
qed

theorem csv_exports_roundtrip_witness:
  "\<exists>name csv. exportBenchmarksToCSV (Fin 0) (civil_from_days 0) [JObj [(''model'', JStr ''a,b'')]] (Fin 24) = Inr (Some (name, csv))
    \<and> map (\<lambda>r. r ! 2) (parse_csv csv) = [''model'', ''a,b'']"
proof -
  let ?row = "JObj [(''model'', JStr ''a,b'')]"
  obtain ts where ts: "to_iso_string (Fin 0) = Inr ts" by (simp add: to_iso_string_def)
  then obtain name csv where e: "exportBenchmarksToCSV (Fin 0) (civil_from_days 0) [?row] (Fin 24) = Inr (Some (name, csv))"
    by (simp add: exportBenchmarksToCSV_def benchmark_cells_def nullish_def)
  from csv_exports_roundtrip [of "Fin 0" "[]" "Fin 24" None name csv "civil_from_days 0" "[?row]"] e
  obtain ts' rows where "list_all2 (\<lambda>b cells. benchmark_cells ts' (Fin 24) b = Inr cells) [?row] rows"
    and p: "parse_csv csv = benchmark_headers # rows" by auto
  then obtain cells where "benchmark_cells ts' (Fin 24) ?row = Inr cells" "rows = [cells]"
    by (auto simp: list_all2_Cons1)
  then have "map (\<lambda>r. r ! 2) (parse_csv csv) = [''model'', ''a,b'']"
    unfolding p by (auto simp: benchmark_cells_def nullish_def get_prop_simps benchmark_headers_def)
  with e show ?thesis by (intro exI [of _ name] exI [of _ csv] conjI)
qed

end
