(* ===== verification/Query_Client.thy ===== *)
theory Query_Client
  imports Usage_Client Api_Client
begin

text \<open>
  The functions with which the pages call the handlers under app/api: the query and mutation
  functions of the hooks in features/tenants, models, route-groups, providers, global-config,
  budgets, catalogs, dashboard, observability and routing. Every one sends one request and turns a
  failed response into an error. \<open>credentials\<close> and \<open>cache\<close> options of \<open>fetch\<close> and the
  bookkeeping of React Query are not modelled.
\<close>

section \<open>Requests and errors\<close>

definition json_headers :: header_list where
  "json_headers = [(''Content-Type'', ''application/json'')]"

definition send_request :: "string \<Rightarrow> string \<Rightarrow> jsval \<Rightarrow> http_req" where
  "send_request method url body = \<lparr>rq_url = url, rq_method = method, rq_headers = json_headers, rq_body = JsonBody body\<rparr>"

definition bare_request :: "string \<Rightarrow> string \<Rightarrow> http_req" where
  "bare_request method url = \<lparr>rq_url = url, rq_method = method, rq_headers = [], rq_body = NoBody\<rparr>"

text \<open>\<open>const error = await response.json(); throw new Error(error.error || msg)\<close>\<close>

definition throw_error :: "string \<Rightarrow> http_resp \<Rightarrow> 'a io" where
  "throw_error msg resp =
     io_bind (resp_json resp) (\<lambda>body.
     io_bind (read_prop body ''error'') (\<lambda>m.
     io_throw (JsError (to_str (js_or m (JStr msg))) None)))"

text \<open>\<open>const errorBody = await response.json().catch(() => ({}))\<close>, then an error with the status attached.\<close>

definition throw_status_error :: "string \<Rightarrow> http_resp \<Rightarrow> 'a io" where
  "throw_status_error msg resp =
     io_bind (read_prop (resp_json_or_empty resp) ''error'') (\<lambda>m.
     io_throw (JsError (if is_str m then str_of m else msg) (Some (rs_status resp))))"

definition call_with :: "(http_resp \<Rightarrow> 'a io) \<Rightarrow> http_req \<Rightarrow> (http_resp \<Rightarrow> 'a io) \<Rightarrow> 'a io" where
  "call_with fail req k = io_bind (io_fetch req) (\<lambda>resp. if resp_ok resp then k resp else fail resp)"

definition call :: "string \<Rightarrow> http_req \<Rightarrow> jsval io" where
  "call msg req = call_with (throw_error msg) req resp_json"

definition call_status :: "string \<Rightarrow> http_req \<Rightarrow> jsval io" where
  "call_status msg req = call_with (throw_status_error msg) req resp_json"

text \<open>\<open>data.data || []\<close>, and \<open>data.data\<close>\<close>

definition data_list :: "jsval io \<Rightarrow> jsval io" where
  "data_list m = io_bind m (\<lambda>data. io_bind (read_prop data ''data'') (\<lambda>d. io_return (js_or d (JArr []))))"

definition data_field :: "jsval io \<Rightarrow> jsval io" where
  "data_field m = io_bind m (\<lambda>data. read_prop data ''data'')"

text \<open>A deletion may be answered by 204 without a body.\<close>

definition deleted_or :: "string \<Rightarrow> http_resp \<Rightarrow> jsval io" where
  "deleted_or msg resp =
     (if rs_status resp = 204 then io_return (JObj [(''message'', JStr msg)]) else resp_json resp)"

section \<open>Tenants\<close>

definition tenant_url :: "string \<Rightarrow> string \<Rightarrow> string" where
  "tenant_url tenantId rest = ''/api/tenants/'' @ tenantId @ rest"

definition fetchTenants :: "jsval io" where
  "fetchTenants = call ''Failed to fetch tenants'' (get_request ''/api/tenants'')"

definition fetchTenantConfig :: "string \<Rightarrow> jsval io" where
  "fetchTenantConfig tenantId = call ''Failed to fetch tenant config'' (get_request (tenant_url tenantId []))"

definition createTenant_call :: "jsval \<Rightarrow> jsval \<Rightarrow> jsval io" where
  "createTenant_call tenant_id environment = call ''Failed to create tenant'' (send_request ''POST'' ''/api/tenants''
     (JObj [(''tenant_id'', tenant_id), (''environment'', environment)]))"

definition updateTenantBudget :: "string \<Rightarrow> jsval \<Rightarrow> jsval \<Rightarrow> jsval \<Rightarrow> jsval io" where
  "updateTenantBudget tenantId monthly_usd timezone version = call ''Failed to update tenant budget''
     (send_request ''PATCH'' (tenant_url tenantId ''/budget'')
       (JObj [(''monthly_usd'', monthly_usd), (''timezone'', timezone), (''version'', version)]))"

definition deleteTenant_request :: "string \<Rightarrow> http_req" where
  "deleteTenant_request tenantId = bare_request ''DELETE'' (tenant_url tenantId [])"

definition deleteTenant_call :: "string \<Rightarrow> unit io" where
  "deleteTenant_call tenantId = call_with (throw_error ''Failed to delete tenant'') (deleteTenant_request tenantId) (\<lambda>_. io_return ())"

definition fetchTenantApiKeys :: "string \<Rightarrow> jsval io" where
  "fetchTenantApiKeys tenantId =
     data_list (call ''Failed to fetch tenant API keys'' (get_request (tenant_url tenantId ''/api-keys'')))"

definition fetchTenantUsage :: "string \<Rightarrow> string option \<Rightarrow> jsval io" where
  "fetchTenantUsage tenantId month = call ''Failed to fetch tenant usage''
     (get_request (tenant_url tenantId (''/usage'' @ (if truthy_str month then ''?month='' @ the month else []))))"

record budget_status_view =
  bs_spend_usd :: jsnum
  bs_budget_usd :: jsnum
  bs_pct :: jsnum
  bs_enforcement_mode :: "string option"
  bs_warn_pct :: "jsnum option"
  bs_hard_pct :: "jsnum option"

definition fetchTenantBudgetStatus :: "string \<Rightarrow> budget_status_view io" where
  "fetchTenantBudgetStatus tenantId =
     io_bind (call ''Failed to fetch tenant budget status'' (get_request (tenant_url tenantId ''/budgets/status''))) (\<lambda>raw.
     if nullish raw then io_throw type_error
     else io_return
       \<lparr>bs_spend_usd = number_default (Fin 0) (get_prop raw ''spend_usd''),
        bs_budget_usd = number_default (Fin 0) (get_prop raw ''budget_usd''),
        bs_pct = number_default (Fin 0) (get_prop raw ''pct''),
        bs_enforcement_mode = opt_string (get_prop raw ''enforcement_mode''),
        bs_warn_pct = opt_number (get_prop raw ''warn_pct''),
        bs_hard_pct = opt_number (get_prop raw ''hard_pct'')\<rparr>)"

definition createApiKey :: "string \<Rightarrow> jsval \<Rightarrow> jsval \<Rightarrow> jsval \<Rightarrow> jsval io" where
  "createApiKey tenantId name scopes expires_at = call ''Failed to create API key''
     (send_request ''POST'' (tenant_url tenantId ''/api-keys/create'')
       (JObj [(''name'', name), (''scopes'', scopes), (''expires_at'', expires_at)]))"

definition rotateApiKey :: "string \<Rightarrow> string \<Rightarrow> jsval io" where
  "rotateApiKey tenantId keyId = call ''Failed to rotate API key''
     (bare_request ''POST'' (tenant_url tenantId (''/api-keys/'' @ keyId @ ''/rotate'')))"

definition revokeApiKey :: "string \<Rightarrow> string \<Rightarrow> jsval io" where
  "revokeApiKey tenantId keyId = call ''Failed to revoke API key''
     (bare_request ''POST'' (tenant_url tenantId (''/api-keys/'' @ keyId @ ''/revoke'')))"

definition updateTenantConfig :: "string \<Rightarrow> jsval \<Rightarrow> jsval \<Rightarrow> jsval io" where
  "updateTenantConfig tenantId version p = call ''Failed to update tenant config''
     (send_request ''PATCH'' (tenant_url tenantId ''/config'') (JObj [(''version'', version), (''patch'', p)]))"

section \<open>Models\<close>

definition fetchModels :: "jsval io" where
  "fetchModels = data_list (call ''Failed to fetch models'' (get_request ''/api/models''))"

definition fetchModel :: "string \<Rightarrow> jsval io" where
  "fetchModel modelId = data_field (call ''Failed to fetch model'' (get_request (''/api/models/'' @ modelId)))"

definition fetchModelBenchmarks :: "jsnum \<Rightarrow> jsval io" where
  "fetchModelBenchmarks windowHours = data_list (call ''Failed to fetch benchmarks''
     (get_request (''/api/benchmarks/models?window_hours='' @ num_to_string windowHours)))"

definition createModel_call :: "jsval \<Rightarrow> jsval io" where
  "createModel_call model = call ''Failed to create model'' (send_request ''POST'' ''/api/models'' model)"

definition updateModel_call :: "string \<Rightarrow> props \<Rightarrow> jsval \<Rightarrow> jsval io" where
  "updateModel_call modelId model version = call ''Failed to update model''
     (send_request ''PATCH'' (''/api/models/'' @ modelId) (JObj (obj_set ''version'' version (spread [] model))))"

definition deleteModel_request :: "string \<Rightarrow> http_req" where
  "deleteModel_request modelId = bare_request ''DELETE'' (''/api/models/'' @ modelId)"

definition deleteModel_call :: "string \<Rightarrow> jsval io" where
  "deleteModel_call modelId = call_with (throw_error ''Failed to delete model'') (deleteModel_request modelId)
     (deleted_or ''Model deleted successfully'')"

section \<open>Route groups\<close>

definition route_group_url :: "string \<Rightarrow> string \<Rightarrow> string" where
  "route_group_url tenantId routeGroupId =
     ''/api/route-groups/'' @ encodeURIComponent routeGroupId @ ''?tenantId='' @ encodeURIComponent tenantId"

definition fetchRouteGroups :: "string \<Rightarrow> jsval io" where
  "fetchRouteGroups tenantId = data_list (call ''Failed to fetch route groups''
     (get_request (''/api/route-groups?tenantId='' @ encodeURIComponent tenantId)))"

definition fetchRouteGroup :: "string \<Rightarrow> string \<Rightarrow> jsval io" where
  "fetchRouteGroup tenantId routeGroupId =
     data_field (call ''Failed to fetch route group'' (get_request (route_group_url tenantId routeGroupId)))"

definition createRouteGroup :: "string \<Rightarrow> props \<Rightarrow> jsval io" where
  "createRouteGroup tenantId routeGroup = call ''Failed to create route group'' (send_request ''POST'' ''/api/route-groups''
     (JObj (obj_set ''tenantId'' (JStr tenantId) (spread [] routeGroup))))"

definition updateRouteGroup_request :: "string \<Rightarrow> string \<Rightarrow> props \<Rightarrow> jsval \<Rightarrow> http_req" where
  "updateRouteGroup_request tenantId routeGroupId routeGroup version =
     send_request ''PATCH'' (route_group_url tenantId routeGroupId) (JObj (obj_set ''version'' version (spread [] routeGroup)))"

definition updateRouteGroup :: "string \<Rightarrow> string \<Rightarrow> props \<Rightarrow> jsval \<Rightarrow> jsval io" where
  "updateRouteGroup tenantId routeGroupId routeGroup version =
     call ''Failed to update route group'' (updateRouteGroup_request tenantId routeGroupId routeGroup version)"

definition deleteRouteGroup_request :: "string \<Rightarrow> string \<Rightarrow> http_req" where
  "deleteRouteGroup_request tenantId routeGroupId = bare_request ''DELETE'' (route_group_url tenantId routeGroupId)"

definition deleteRouteGroup :: "string \<Rightarrow> string \<Rightarrow> jsval io" where
  "deleteRouteGroup tenantId routeGroupId =
     call_with (throw_error ''Failed to delete route group'') (deleteRouteGroup_request tenantId routeGroupId)
       (deleted_or ''Route group deleted successfully'')"

section \<open>Providers, global config and budgets\<close>

definition fetchProviders :: "jsval io" where
  "fetchProviders = data_list (call_status ''Failed to fetch providers'' (get_request ''/api/providers''))"

definition fetchProvider :: "string \<Rightarrow> jsval io" where
  "fetchProvider providerId =
     io_bind (call_status ''Failed to fetch provider'' (get_request (''/api/providers/'' @ providerId))) (\<lambda>data.
     if nullish data then io_throw type_error
     else io_return (JObj (obj_set ''version'' (get_prop data ''version'') (spread [] (js_entries (get_prop data ''data''))))))"

definition updateProvider :: "string \<Rightarrow> jsval \<Rightarrow> jsval \<Rightarrow> jsval io" where
  "updateProvider providerId config version = call ''Failed to update provider''
     (send_request ''PATCH'' (''/api/providers/'' @ providerId) (JObj [(''config'', config), (''version'', version)]))"

definition updateProviderCredentials_call :: "string \<Rightarrow> jsval \<Rightarrow> jsval \<Rightarrow> jsval io" where
  "updateProviderCredentials_call providerId credentials version = call ''Failed to update credentials''
     (send_request ''POST'' (''/api/providers/'' @ providerId @ ''/credentials'')
       (JObj [(''credentials'', credentials), (''version'', version)]))"

text \<open>\<open>ls1\<close> and \<open>ls2\<close> are the two entries of localStorage that may name a runtime endpoint.\<close>

definition endpoint_request :: "string option \<Rightarrow> string option \<Rightarrow> string \<Rightarrow> string \<Rightarrow> req_body \<Rightarrow> http_req" where
  "endpoint_request ls1 ls2 method url body =
     \<lparr>rq_url = url, rq_method = method, rq_headers = getHeadersWithEndpoint ls1 ls2, rq_body = body\<rparr>"

definition fetchGlobalConfig :: "string option \<Rightarrow> string option \<Rightarrow> jsval io" where
  "fetchGlobalConfig ls1 ls2 =
     call_status ''Failed to fetch global config'' (endpoint_request ls1 ls2 ''GET'' ''/api/global-config'' NoBody)"

definition updateGlobalConfig :: "string option \<Rightarrow> string option \<Rightarrow> jsval \<Rightarrow> jsval io" where
  "updateGlobalConfig ls1 ls2 params =
     call ''Failed to update global config'' (endpoint_request ls1 ls2 ''PATCH'' ''/api/global-config'' (JsonBody params))"

definition fetchGlobalConfigChanges :: "string option \<Rightarrow> string option \<Rightarrow> jsnum \<Rightarrow> jsnum \<Rightarrow> jsval io" where
  "fetchGlobalConfigChanges ls1 ls2 limit offset =
     call_status ''Failed to fetch global config changes'' (endpoint_request ls1 ls2 ''GET''
       (''/api/global-config/changes?limit='' @ num_to_string limit @ ''&offset='' @ num_to_string offset) NoBody)"

text \<open>\<open>retry\<close> of the changes query: it also gives up on a message that contains 404, and one attempt later.\<close>

fun changes_retries :: "nat \<Rightarrow> exn \<Rightarrow> bool" where
  "changes_retries failureCount err =
     (query_retries 0 err \<and> \<not> str_includes (exn_message err) ''404'' \<and> failureCount < 3)"

definition fetchTenantBudgets :: "jsval io" where
  "fetchTenantBudgets = data_list (call_status ''Failed to fetch tenant budgets'' (get_request ''/api/budgets/tenants''))"

definition updateBudget :: "string \<Rightarrow> props \<Rightarrow> jsval \<Rightarrow> jsval io" where
  "updateBudget tenantId request version = call ''Failed to update budget''
     (send_request ''PATCH'' (''/api/budgets/tenants/'' @ tenantId) (JObj (obj_set ''version'' version (spread [] request))))"

section \<open>Requests\<close>

text \<open>A call sends its request and nothing else, whatever the answer.\<close>

lemma call_history: "snd (call msg req net h) = h @ [req]"
  by (auto simp: call_def call_with_def throw_error_def js_simps split: fetch_result.splits option.splits)

lemma bind_return_history: "snd (io_bind m (\<lambda>_. io_return x) net h) = snd (m net h)"
  by (auto simp: js_simps split: prod.splits sum.splits)

end
