(* ===== verification/Report_Client.thy ===== *)
theory Report_Client
  imports Query_Client
begin

text \<open>
  The browser functions of the catalogs, the dashboard, the observability reports, the access probes and
  the semantic screens (features/model-catalog, tool-catalog, dashboard, observability, routing, benchmarks
  and semantic).
\<close>

section \<open>Catalogs\<close>

definition catalog_url :: "string \<Rightarrow> (string \<times> string) list \<Rightarrow> string" where
  "catalog_url base params = (if params = [] then base else base @ ''?'' @ params_to_string params)"

definition entry_url :: "string \<Rightarrow> string \<Rightarrow> string \<Rightarrow> string" where
  "entry_url base provider i = base @ ''/'' @ encodeURIComponent provider @ ''/'' @ encodeURIComponent i"

text \<open>\<open>if (v) params.set(k, v)\<close> and \<open>if (v !== undefined) params.set(k, String(v))\<close>\<close>

definition param_if_truthy :: "string \<Rightarrow> jsval \<Rightarrow> (string \<times> string) list" where
  "param_if_truthy k v = (if truthy v then [(k, to_str v)] else [])"

definition param_if_defined :: "string \<Rightarrow> jsval \<Rightarrow> (string \<times> string) list" where
  "param_if_defined k v = (if v \<noteq> JUndef then [(k, to_str v)] else [])"

text \<open>\<open>if (!response.ok && response.status !== 204)\<close>: 204 is already a success.\<close>

definition delete_entry :: "string \<Rightarrow> http_req \<Rightarrow> unit io" where
  "delete_entry msg req =
     io_bind (io_fetch req) (\<lambda>resp. if \<not> resp_ok resp \<and> rs_status resp \<noteq> 204 then throw_error msg resp else io_return ())"

definition fetchModelCatalog :: "jsval \<Rightarrow> jsval io" where
  "fetchModelCatalog filters = data_list (call ''Failed to fetch model catalog'' (get_request (catalog_url ''/api/model-catalog''
     (param_if_truthy ''provider'' (get_prop filters ''provider'') @ param_if_truthy ''type'' (get_prop filters ''type'')
      @ param_if_defined ''active'' (get_prop filters ''active'')))))"

definition createModelCatalogEntry :: "jsval \<Rightarrow> jsval io" where
  "createModelCatalogEntry entry = call ''Failed to create model catalog entry'' (send_request ''POST'' ''/api/model-catalog'' entry)"

definition updateModelCatalogEntry :: "string \<Rightarrow> string \<Rightarrow> jsval \<Rightarrow> jsval io" where
  "updateModelCatalogEntry provider i data =
     call ''Failed to update model catalog entry'' (send_request ''PUT'' (entry_url ''/api/model-catalog'' provider i) data)"

definition deleteModelCatalogEntry :: "string \<Rightarrow> string \<Rightarrow> unit io" where
  "deleteModelCatalogEntry provider i =
     delete_entry ''Failed to delete model catalog entry'' (bare_request ''DELETE'' (entry_url ''/api/model-catalog'' provider i))"

definition fetchToolCatalog :: "jsval \<Rightarrow> jsval io" where
  "fetchToolCatalog provider = data_list (call ''Failed to fetch tool catalog''
     (get_request (catalog_url ''/api/tool-catalog'' (param_if_truthy ''provider'' provider))))"

definition createToolCatalogEntry :: "jsval \<Rightarrow> jsval io" where
  "createToolCatalogEntry entry = call ''Failed to create tool catalog entry'' (send_request ''POST'' ''/api/tool-catalog'' entry)"

definition updateToolCatalogEntry :: "string \<Rightarrow> string \<Rightarrow> jsval \<Rightarrow> jsval io" where
  "updateToolCatalogEntry provider i data =
     call ''Failed to update tool catalog entry'' (send_request ''PUT'' (entry_url ''/api/tool-catalog'' provider i) data)"

definition deleteToolCatalogEntry :: "string \<Rightarrow> string \<Rightarrow> unit io" where
  "deleteToolCatalogEntry provider i =
     delete_entry ''Failed to delete tool catalog entry'' (bare_request ''DELETE'' (entry_url ''/api/tool-catalog'' provider i))"

section \<open>Dashboard and health\<close>

text \<open>\<open>ensureValid\<close> is \<open>ensureValidSession\<close> of the auth context.\<close>

definition fetchDashboard :: "bool io \<Rightarrow> jsval io" where
  "fetchDashboard ensureValid = io_bind ensureValid (\<lambda>isValid.
     if \<not> isValid then io_throw (JsError ''Session expired'' None)
     else call ''Failed to fetch dashboard data'' (get_request ''/api/dashboard''))"

definition fetchSystemHealth :: "jsval io" where
  "fetchSystemHealth = call_with
     (\<lambda>res.
        let body = (case rs_json res of None \<Rightarrow> JObj [(''error'', JObj [(''message'', JStr ''Unknown error'')])] | Some v \<Rightarrow> v) in
        io_bind (read_prop body ''error'') (\<lambda>err.
        io_throw (JsError (to_str (js_or (get_prop err ''message'') (JStr ''Health check failed''))) None)))
     (get_request ''/api/system-health'') resp_json"

section \<open>Observability reports\<close>

definition report :: "string \<Rightarrow> http_req \<Rightarrow> jsval io" where
  "report msg req = call_with (\<lambda>res. parseObservabilityErrorResponse res msg) req resp_json"

definition fetchObservabilityMetrics :: "jsnum \<Rightarrow> string \<Rightarrow> jsval io" where
  "fetchObservabilityMetrics windowHours bucket = report ''Failed to fetch metrics'' (get_request (''/api/observability/metrics?''
     @ params_to_string [(''window_hours'', num_to_string windowHours), (''bucket'', bucket)]))"

definition request_logs_params :: "jsnum \<Rightarrow> jsnum \<Rightarrow> jsval \<Rightarrow> (string \<times> string) list" where
  "request_logs_params limit offset filters =
     [(''limit'', num_to_string limit), (''offset'', num_to_string offset)]
     @ concat (map (\<lambda>k. param_if_truthy k (get_prop filters k)) [''tenant_id'', ''model'', ''provider'', ''status'', ''time_range''])"

definition fetchRequestLogs :: "jsnum \<Rightarrow> jsnum \<Rightarrow> jsval \<Rightarrow> jsval io" where
  "fetchRequestLogs limit offset filters = report ''Failed to fetch logs''
     (get_request (''/api/observability/logs?'' @ params_to_string (request_logs_params limit offset filters)))"

definition fetchCostAnalytics :: "jsval io" where
  "fetchCostAnalytics = report ''Failed to fetch cost analytics'' (get_request ''/api/observability/cost-analytics'')"

definition request_explorer_params :: "jsval \<Rightarrow> (string \<times> string) list" where
  "request_explorer_params filters =
     concat (map (\<lambda>k. param_if_truthy k (get_prop filters k)) [''tenant_id'', ''model'', ''provider'', ''status''])
     @ param_if_defined ''fallback_used'' (get_prop filters ''fallback_used'')
     @ concat (map (\<lambda>k. param_if_truthy k (get_prop filters k)) [''time_range'', ''workflow_id'', ''conversation_id''])
     @ [(''limit'', to_str (coalesce (get_prop filters ''limit'') (jint 50))),
        (''offset'', to_str (coalesce (get_prop filters ''offset'') (jint 0)))]"

definition fetchRequestExplorer :: "jsval \<Rightarrow> jsval io" where
  "fetchRequestExplorer filters = call_with (\<lambda>_. io_throw (JsError ''Failed to fetch request explorer data'' None))
     (get_request (''/api/observability/request-explorer?'' @ params_to_string (request_explorer_params filters))) resp_json"

definition explorer_url :: "string \<Rightarrow> string \<Rightarrow> string" where
  "explorer_url requestId action = ''/api/observability/request-explorer/'' @ encodeURIComponent requestId @ action"

definition fetchRoutingSnapshot :: "string \<Rightarrow> jsval io" where
  "fetchRoutingSnapshot requestId =
     (if requestId = [] then io_return JNull
      else io_bind (io_fetch (get_request (explorer_url requestId ''/routing''))) (\<lambda>res.
        if rs_status res = 404 then io_return JNull
        else if \<not> resp_ok res then parseObservabilityErrorResponse res ''Failed to fetch routing snapshot''
        else resp_json res))"

definition replayRequest :: "string \<Rightarrow> jsval io" where
  "replayRequest requestId = report ''Replay failed.'' (bare_request ''POST'' (explorer_url requestId ''/replay''))"

definition routing_insights_params :: "jsval \<Rightarrow> (string \<times> string) list" where
  "routing_insights_params filters =
     concat (map (\<lambda>k. param_if_truthy k (get_prop filters k)) [''tenant_id'', ''model'', ''provider'', ''status''])
     @ param_if_defined ''fallback_used'' (get_prop filters ''fallback_used'')
     @ concat (map (\<lambda>k. param_if_truthy k (get_prop filters k)) [''window_hours'', ''limit'', ''offset''])"

definition fetchRoutingInsights :: "jsval \<Rightarrow> jsval io" where
  "fetchRoutingInsights filters = report ''Failed to fetch routing insights''
     (get_request (''/api/observability/routing-insights?'' @ params_to_string (routing_insights_params filters)))"

definition fetchRealMetrics :: "string \<Rightarrow> string \<Rightarrow> jsnum \<Rightarrow> jsval io" where
  "fetchRealMetrics tenantId month windowDays = report ''Failed to fetch real metrics'' (get_request (''/api/observability/real-metrics?''
     @ params_to_string [(''tenant_id'', tenantId), (''month'', month), (''window_days'', num_to_string windowDays)]))"

text \<open>The fields of a performance row; \<open>toNumber\<close> and the aliases are those of the model health fallback.\<close>

definition performance_row :: "jsval \<Rightarrow> jsval" where
  "performance_row item =
     (let rate = toNumber (coalesce (coalesce (get_prop item ''success_rate'') (get_prop item ''successRate'')) (jint 0)) in
      JObj [(''model'', JStr (to_str (coalesce (coalesce (get_prop item ''model'') (get_prop item ''model_name'')) (JStr ''unknown'')))),
        (''provider'', JStr (string_default ''unknown'' (get_prop item ''provider''))),
        (''avg_latency_ms'', JNum (toNumber (coalesce3 item ''avg_latency_ms'' ''avg_latency'' ''latency_ms''))),
        (''p95_latency_ms'', JNum (toNumber (coalesce3 item ''p95_latency_ms'' ''p95_latency'' ''p95_ms''))),
        (''success_rate'', JNum (if num_less (Fin 1) rate then num_div rate (Fin 100) else rate)),
        (''avg_cost_usd'', JNum (toNumber (coalesce3 item ''avg_cost_usd'' ''avg_cost'' ''cost_usd''))),
        (''samples'', JNum (num_max (Fin 0) (num_floor (toNumber (coalesce3 item ''samples'' ''requests'' ''count''))))) ])"

definition fetchModelPerformance :: "jsnum \<Rightarrow> jsval io" where
  "fetchModelPerformance windowHours =
     io_bind (report ''Failed to fetch model performance''
       (get_request (''/api/observability/model-performance?window_hours='' @ num_to_string windowHours))) (\<lambda>json.
     map_items performance_row (JArr (benchmark_items json)))"

section \<open>Access probe and benchmarks\<close>

text \<open>A 404 means that the request is unknown: the caller may use the page.\<close>

definition fetchReplayGlobalAccess :: "unit io" where
  "fetchReplayGlobalAccess =
     io_bind (io_fetch (get_request ''/api/routing/requests/__replay_access__/routing'')) (\<lambda>res.
     let raw = get_prop (resp_json_or_empty res) ''error'' in
     if rs_status res = 401 \<or> rs_status res = 403 then
       io_throw (JsError (error_text raw ''Access denied'') (Some (rs_status res)))
     else if \<not> resp_ok res \<and> rs_status res \<noteq> 404 then
       io_throw (JsError (error_text raw (''Request failed ('' @ show_int (rs_status res) @ '')'')) (Some (rs_status res)))
     else io_return ())"

definition parseErrorMessage :: "jsval \<Rightarrow> string" where
  "parseErrorMessage body =
     (let d = ''Failed to fetch benchmark model aggregates''; err = get_prop body ''error'' in
      if \<not> is_object body then d
      else if is_str err then str_of err
      else if is_object err \<and> has_own err ''message'' then to_str (coalesce (get_prop err ''message'') (JStr d))
      else d)"

definition fetchBenchmarkModels :: "jsnum \<Rightarrow> jsval io" where
  "fetchBenchmarkModels windowHours = data_list (call_with
     (\<lambda>res. io_throw (JsError (parseErrorMessage (resp_json_or_empty res)) (Some (rs_status res))))
     (get_request (''/api/benchmarks/models?window_hours='' @ num_to_string windowHours)) resp_json)"

section \<open>Semantic screens\<close>

definition semantic_failure :: "string list \<Rightarrow> string \<Rightarrow> http_resp \<Rightarrow> 'a io" where
  "semantic_failure ks msg res =
     (let body = resp_json_or_empty res in
      if nullish body then io_throw type_error
      else io_throw (JsError (to_str (foldr (\<lambda>k d. js_or (get_prop body k) d) ks (JStr msg))) None))"

definition handleResponse :: "http_req \<Rightarrow> jsval io" where
  "handleResponse req = call_with (semantic_failure [''error'', ''message''] ''Request failed'') req resp_json"

definition anchors_query :: "jsval \<Rightarrow> (string \<times> string) list" where
  "anchors_query params =
     (if nullish (get_prop params ''limit'') then [] else [(''limit'', to_str (get_prop params ''limit''))])
     @ (if nullish (get_prop params ''offset'') then [] else [(''offset'', to_str (get_prop params ''offset''))])
     @ (if truthy (get_prop params ''includeAnchorText'') then [(''include_anchor_text'', ''true'')] else [])
     @ param_if_truthy ''tenant_id'' (get_prop params ''tenantId'')"

definition listSemanticAnchors :: "jsval \<Rightarrow> jsval io" where
  "listSemanticAnchors params =
     io_bind (handleResponse (get_request (''/api/semantic/anchors?'' @ params_to_string (anchors_query params)))) (\<lambda>payload.
     let anchors = js_or (get_prop payload ''anchors'') (get_prop payload ''data'') in
     io_return
       (if is_array payload then JObj [(''data'', payload)]
        else if is_object payload \<and> is_array anchors then
          JObj [(''data'', anchors), (''pagination'', get_prop payload ''pagination''), (''tenant_id'', get_prop payload ''tenant_id'')]
        else payload))"

definition createSemanticAnchor :: "props \<Rightarrow> jsval io" where
  "createSemanticAnchor payload =
     (let q = param_if_truthy ''tenant_id'' (get_prop (JObj payload) ''tenantId'') in
      handleResponse (send_request ''POST'' (catalog_url ''/api/semantic/anchors'' q)
        (JObj (obj_del ''tenantId'' (spread [] payload)))))"

definition tenant_query :: "string \<Rightarrow> string" where
  "tenant_query tenantId = ''?'' @ params_to_string [(''tenant_id'', tenantId)]"

definition anchor_url :: "string \<Rightarrow> string \<Rightarrow> string" where
  "anchor_url tenantId name = ''/api/semantic/anchors/'' @ encodeURIComponent name @ tenant_query tenantId"

definition patchSemanticAnchor :: "string \<Rightarrow> string \<Rightarrow> jsval \<Rightarrow> jsval io" where
  "patchSemanticAnchor tenantId name payload = handleResponse (send_request ''PATCH'' (anchor_url tenantId name) payload)"

definition deleteSemanticAnchor :: "string \<Rightarrow> string \<Rightarrow> unit io" where
  "deleteSemanticAnchor tenantId name =
     call_with (semantic_failure [''error''] ''Failed to delete anchor'') (bare_request ''DELETE'' (anchor_url tenantId name))
       (\<lambda>_. io_return ())"

definition runSemanticTest :: "jsval \<Rightarrow> jsval \<Rightarrow> jsval io" where
  "runSemanticTest input tenantId = handleResponse (send_request ''POST'' ''/api/semantic/test''
     (JObj [(''text'', input), (''tenant_id'', tenantId)]))"

definition listAdminModels :: "jsval io" where
  "listAdminModels = io_bind (handleResponse (get_request ''/api/admin/models'')) (\<lambda>payload.
     io_return (if is_array payload then payload else array_or_empty (get_prop payload ''data'')))"

definition suggestSemanticAnchors :: "jsval \<Rightarrow> jsval \<Rightarrow> jsval \<Rightarrow> jsval io" where
  "suggestSemanticAnchors dataset max_clusters tenantId = handleResponse (send_request ''POST'' ''/api/semantic/suggest''
     (JObj [(''dataset'', dataset), (''max_clusters'', max_clusters), (''tenant_id'', tenantId)]))"

definition calibrateSemanticThreshold :: "jsval \<Rightarrow> jsval \<Rightarrow> jsval io" where
  "calibrateSemanticThreshold dataset tenantId = handleResponse (send_request ''POST'' ''/api/semantic/calibrate''
     (JObj [(''dataset'', dataset), (''tenant_id'', tenantId)]))"

definition listSemanticRoutes :: "string \<Rightarrow> jsval io" where
  "listSemanticRoutes tenantId =
     io_bind (handleResponse (get_request (''/api/semantic/routes'' @ tenant_query tenantId))) (\<lambda>payload.
     io_return (JObj [(''routes'',
       if is_array payload then payload
       else if is_array (get_prop payload ''routes'') then get_prop payload ''routes''
       else array_or_empty (get_prop payload ''data''))]))"

definition createSemanticRoute :: "string \<Rightarrow> jsval \<Rightarrow> jsval io" where
  "createSemanticRoute tenantId payload =
     handleResponse (send_request ''POST'' (''/api/semantic/routes'' @ tenant_query tenantId) payload)"

definition route_url :: "string \<Rightarrow> string \<Rightarrow> string" where
  "route_url tenantId name = ''/api/semantic/routes/'' @ encodeURIComponent name @ tenant_query tenantId"

definition deleteSemanticRoute :: "string \<Rightarrow> string \<Rightarrow> unit io" where
  "deleteSemanticRoute tenantId name =
     call_with (semantic_failure [''error''] ''Failed to delete route'') (bare_request ''DELETE'' (route_url tenantId name))
       (\<lambda>_. io_return ())"

definition getSemanticThreshold :: "string \<Rightarrow> jsval io" where
  "getSemanticThreshold tenantId =
     handleResponse (get_request (''/api/semantic/threshold?tenant_id='' @ encodeURIComponent tenantId))"

definition updateSemanticThreshold :: "jsval \<Rightarrow> jsval io" where
  "updateSemanticThreshold payload = handleResponse (send_request ''PATCH'' ''/api/semantic/threshold'' payload)"

end
