(* ===== verification/Client_Props.thy ===== *)
theory Client_Props
  imports Report_Client
begin

text \<open>
  Where the requests of the browser go. A URL that \<open>fetch\<close> is given is parsed as the URL standard says:
  \<open>#\<close> and \<open>?\<close> end the path, a backslash separates segments like a slash, and dot segments, percent-encoded ones
  included, are resolved. The clients that encode their path parameters reach the entry they name; those
  that do not can be made to address another route. The errors of the handlers reach the page.
\<close>

section \<open>The target of a URL\<close>

definition dot_segments :: "string list" where
  "dot_segments = [''.'', ''%2e'', ''%2E'']"

definition double_dot_segments :: "string list" where
  "double_dot_segments = [''..'', ''.%2e'', ''.%2E'', ''%2e.'', ''%2E.'', ''%2e%2e'', ''%2e%2E'', ''%2E%2e'', ''%2E%2E'']"

fun resolve_segments :: "string list \<Rightarrow> string list \<Rightarrow> string list" where
  "resolve_segments acc [] = rev acc"
| "resolve_segments acc (s # ss) =
     (if s \<in> set double_dot_segments then resolve_segments ((if ss = [] then [[]] else []) @ tl acc) ss
      else if s \<in> set dot_segments then resolve_segments ((if ss = [] then [[]] else []) @ acc) ss
      else resolve_segments (s # acc) ss)"

definition ends_path :: "char \<Rightarrow> bool" where
  "ends_path c \<longleftrightarrow> c = CHR ''?'' \<or> c = CHR ''#''"

definition url_segments :: "string \<Rightarrow> string list" where
  "url_segments url = resolve_segments []
     (tl (split_on (CHR ''/'') (map (\<lambda>c. if c = CHR 0x5C then CHR ''/'' else c) (takeWhile (\<lambda>c. \<not> ends_path c) url))))"

definition url_query :: "string \<Rightarrow> string" where
  "url_query url = (case dropWhile (\<lambda>c. \<not> ends_path c) url of
     c # q \<Rightarrow> if c = CHR ''?'' then takeWhile (\<lambda>c. c \<noteq> CHR ''#'') q else [] | [] \<Rightarrow> [])"

section \<open>Encoded parameters\<close>

lemma not_uri_path_chars: "\<not> uri_char (CHR ''#'')" "\<not> uri_char (CHR 0x5C)"
  by (simp_all add: uri_char_def unreserved_def is_digit_def code_def)

lemma encoded_path_chars:
  "c \<in> set (encodeURIComponent s) \<Longrightarrow> \<not> ends_path c \<and> c \<noteq> CHR ''/'' \<and> c \<noteq> CHR 0x5C \<and> c \<noteq> CHR ''#''"
  using encode_no_sep not_uri_path_chars not_uri_chars by (metis ends_path_def)

lemma dots_decode:
  "s \<in> set dot_segments \<Longrightarrow> decodeURIComponent s = ''.''"
  "s \<in> set double_dot_segments \<Longrightarrow> decodeURIComponent s = ''..''"
proof -
  have "list_all (\<lambda>s. decodeURIComponent s = ''.'') dot_segments"
    and "list_all (\<lambda>s. decodeURIComponent s = ''..'') double_dot_segments" by code_simp+
  then show "s \<in> set dot_segments \<Longrightarrow> decodeURIComponent s = ''.''"
    and "s \<in> set double_dot_segments \<Longrightarrow> decodeURIComponent s = ''..''" by (auto simp: list_all_iff)
qed

lemma encoded_not_dots:
  assumes "s \<noteq> ''.''" and "s \<noteq> ''..''"
  shows "encodeURIComponent s \<notin> set dot_segments \<and> encodeURIComponent s \<notin> set double_dot_segments"
  using dots_decode [of "encodeURIComponent s"] assms by auto

definition plain_segment :: "string \<Rightarrow> bool" where
  "plain_segment s \<longleftrightarrow> list_all (\<lambda>c. \<not> ends_path c \<and> c \<noteq> CHR ''/'' \<and> c \<noteq> CHR 0x5C) s
     \<and> s \<notin> set dot_segments \<and> s \<notin> set double_dot_segments"

lemma plain_encoded: "s \<noteq> ''.'' \<Longrightarrow> s \<noteq> ''..'' \<Longrightarrow> plain_segment (encodeURIComponent s)"
  using encoded_path_chars [of _ s] encoded_not_dots [of s] by (auto simp: plain_segment_def list_all_iff)

lemma resolve_plain: "list_all plain_segment ss \<Longrightarrow> resolve_segments acc ss = rev acc @ ss"
  by (induction ss arbitrary: acc) (auto simp: plain_segment_def)

definition slash_path :: "string list \<Rightarrow> string" where
  "slash_path ss = concat (map (\<lambda>s. CHR ''/'' # s) ss)"

lemma slash_path_join: "ss \<noteq> [] \<Longrightarrow> slash_path ss = CHR ''/'' # join ''/'' ss"
  by (induction ss rule: list_nonempty_induct) (simp_all add: slash_path_def join_Cons)

lemma slash_path_chars:
  "list_all plain_segment ss \<Longrightarrow> list_all (\<lambda>c. \<not> ends_path c \<and> c \<noteq> CHR 0x5C) (slash_path ss)"
  by (auto simp: slash_path_def list_all_iff plain_segment_def ends_path_def)

lemma target_plain:
  assumes "list_all plain_segment ss" and "ss \<noteq> []" and "rest = [] \<or> hd rest = CHR ''?''"
  shows "url_segments (slash_path ss @ rest) = ss"
    and "url_query (slash_path ss @ rest) = takeWhile (\<lambda>c. c \<noteq> CHR ''#'') (tl rest)"
proof -
  have c: "\<forall>c \<in> set (slash_path ss). \<not> ends_path c \<and> c \<noteq> CHR 0x5C"
    using slash_path_chars [OF assms(1)] by (simp add: list_all_iff)
  have t: "takeWhile (\<lambda>c. \<not> ends_path c) (slash_path ss @ rest) = slash_path ss"
    and d: "dropWhile (\<lambda>c. \<not> ends_path c) (slash_path ss @ rest) = rest"
    using c assms(3) by (cases rest; auto simp: takeWhile_append2 dropWhile_append2 ends_path_def)+
  have "map (\<lambda>c. if c = CHR 0x5C then CHR ''/'' else c) (slash_path ss) = slash_path ss"
    using c by (intro map_idI) auto
  moreover have "split_on (CHR ''/'') (join ''/'' ss) = ss"
    using assms(1,2) by (intro split_on_join) (auto simp: plain_segment_def list_all_iff)
  ultimately show "url_segments (slash_path ss @ rest) = ss"
    unfolding url_segments_def t using assms(1,2) by (simp add: slash_path_join resolve_plain)
  show "url_query (slash_path ss @ rest) = takeWhile (\<lambda>c. c \<noteq> CHR ''#'') (tl rest)"
    unfolding url_query_def d using assms(3) by (cases rest) auto
qed

lemma plain_literals:
  "plain_segment ''api''" "plain_segment ''route-groups''" "plain_segment ''semantic''" "plain_segment ''anchors''"
  "plain_segment ''routes''" "plain_segment ''model-catalog''" "plain_segment ''tool-catalog''"
  "plain_segment ''observability''" "plain_segment ''request-explorer''" "plain_segment ''replay''"
  by (simp_all add: plain_segment_def ends_path_def dot_segments_def double_dot_segments_def)

lemma param_encode_no_hash: "CHR ''#'' \<notin> set (param_encode s)"
proof -
  have "CHR ''#'' \<notin> set (param_char c)" for c
  proof -
    have "code c < 256" by simp
    note b = utf8_bounds [OF this]
    have pct: "CHR ''#'' \<in> set (pct_byte k) \<Longrightarrow> k < 256 \<Longrightarrow> False" for k
      using uri_char_pct_byte [of k] not_uri_path_chars(1) by (auto simp: list_all_iff)
    show ?thesis
      using b by (auto simp: param_char_def utf8_def form_safe_def is_digit_def code_def dest: pct split: if_splits)
  qed
  then show ?thesis by (auto simp: param_encode_def)
qed

lemma takeWhile_no_hash: "CHR ''#'' \<notin> set s \<Longrightarrow> takeWhile (\<lambda>c. c \<noteq> CHR ''#'') s = s"
  by (auto simp: takeWhile_eq_all_conv)

lemma tenant_query_read: "params_parse (takeWhile (\<lambda>c. c \<noteq> CHR ''#'') (tl (tenant_query t))) = [(''tenant_id'', t)]"
proof -
  have "CHR ''#'' \<notin> set (params_to_string [(''tenant_id'', t)])"
    using param_encode_no_hash by (simp add: params_to_string_def)
  then show ?thesis using params_parse_to_string [of "[(''tenant_id'', t)]"] by (simp add: tenant_query_def takeWhile_no_hash)
qed

text \<open>C36. The clients that encode their path parameters address exactly the entry they name: whatever characters an id,
  name, provider or tenant contains, the browser resolves the URL to the fixed segments followed by one segment
  per parameter, which decodes to it, and the query names the tenant and nothing else. Only the ids \<open>.\<close> and \<open>..\<close>,
  which encoding leaves alone, are out of reach.\<close>

theorem encoded_clients_reach_entry:
  assumes "i \<notin> {''.'', ''..''}" and "p \<notin> {''.'', ''..''}"
  shows "url_segments (route_group_url t i) = [''api'', ''route-groups'', encodeURIComponent i]
    \<and> url_query (route_group_url t i) = ''tenantId='' @ encodeURIComponent t
    \<and> url_segments (anchor_url t i) = [''api'', ''semantic'', ''anchors'', encodeURIComponent i]
    \<and> params_parse (url_query (anchor_url t i)) = [(''tenant_id'', t)]
    \<and> url_segments (route_url t i) = [''api'', ''semantic'', ''routes'', encodeURIComponent i]
    \<and> params_parse (url_query (route_url t i)) = [(''tenant_id'', t)]
    \<and> url_segments (entry_url ''/api/model-catalog'' p i) = [''api'', ''model-catalog'', encodeURIComponent p, encodeURIComponent i]
    \<and> url_segments (entry_url ''/api/tool-catalog'' p i) = [''api'', ''tool-catalog'', encodeURIComponent p, encodeURIComponent i]
    \<and> url_segments (explorer_url i ''/replay'') = [''api'', ''observability'', ''request-explorer'', encodeURIComponent i, ''replay'']
    \<and> decodeURIComponent (encodeURIComponent i) = i \<and> decodeURIComponent (encodeURIComponent p) = p"
proof -
  have pl: "plain_segment (encodeURIComponent i)" "plain_segment (encodeURIComponent p)"
    using assms plain_encoded by auto
  note plain = plain_literals pl
  have urls: "route_group_url t i = slash_path [''api'', ''route-groups'', encodeURIComponent i] @ (''?tenantId='' @ encodeURIComponent t)"
    "anchor_url t i = slash_path [''api'', ''semantic'', ''anchors'', encodeURIComponent i] @ tenant_query t"
    "route_url t i = slash_path [''api'', ''semantic'', ''routes'', encodeURIComponent i] @ tenant_query t"
    "entry_url ''/api/model-catalog'' p i = slash_path [''api'', ''model-catalog'', encodeURIComponent p, encodeURIComponent i] @ []"
    "entry_url ''/api/tool-catalog'' p i = slash_path [''api'', ''tool-catalog'', encodeURIComponent p, encodeURIComponent i] @ []"
    "explorer_url i ''/replay'' =
       slash_path [''api'', ''observability'', ''request-explorer'', encodeURIComponent i, ''replay''] @ []"
    by (simp_all add: route_group_url_def anchor_url_def route_url_def entry_url_def explorer_url_def slash_path_def)
  have q: "tenant_query t = [] \<or> hd (tenant_query t) = CHR ''?''" by (simp add: tenant_query_def)
  have "CHR ''#'' \<notin> set (''tenantId='' @ encodeURIComponent t)"
    using encode_no_sep [OF not_uri_path_chars(1)] by simp
  then have g: "takeWhile (\<lambda>c. c \<noteq> CHR ''#'') (''tenantId='' @ encodeURIComponent t) = ''tenantId='' @ encodeURIComponent t"
    by (rule takeWhile_no_hash)
  show ?thesis
    unfolding urls using plain q g
    by (simp only: target_plain list.pred_inject list.distinct list.sel append.simps simp_thms tenant_query_read
        decode_encode not_False_eq_True)
qed

theorem encoded_clients_reach_entry_witness:
  "url_segments (route_group_url ''acme'' ''../x'') = [''api'', ''route-groups'', ''..%2Fx'']
    \<and> decodeURIComponent ''..%2Fx'' = ''../x''"
proof -
  have "encodeURIComponent ''../x'' = ''..%2Fx''" by code_simp
  with encoded_clients_reach_entry [of "''../x''" "''p''" "''acme''"] show ?thesis by simp
qed

section \<open>Parameters that are not encoded\<close>

text \<open>The model client does not encode the id it puts into a path, so that the request it sends need not be for a model:
  deleting the model named \<open>../tenants/t\<close> sends a request with the method, path and query of the one that deletes
  the tenant \<open>t\<close>. A model id with a slash, as in
  \<open>meta-llama/Llama-3\<close>, is not one segment.\<close>

theorem model_client_path_confusion:
  "rq_method (deleteModel_request (''../tenants/'' @ t)) = rq_method (deleteTenant_request t)
   \<and> url_segments (rq_url (deleteModel_request (''../tenants/'' @ t))) = url_segments (rq_url (deleteTenant_request t))
   \<and> url_query (rq_url (deleteModel_request (''../tenants/'' @ t))) = url_query (rq_url (deleteTenant_request t))
   \<and> url_segments (rq_url (deleteModel_request ''meta-llama/Llama-3'')) = [''api'', ''models'', ''meta-llama'', ''Llama-3'']"
proof -
  let ?f = "\<lambda>c. if c = CHR 0x5C then CHR ''/'' else c"
  let ?t = "map ?f (takeWhile (\<lambda>c. \<not> ends_path c) t)"
  have "split_on (CHR ''/'') (''/api/models/../tenants/'' @ ?t) = [] # ''api'' # ''models'' # ''..'' # ''tenants'' # split_on (CHR ''/'') ?t"
    "split_on (CHR ''/'') (''/api/tenants/'' @ ?t) = [] # ''api'' # ''tenants'' # split_on (CHR ''/'') ?t"
    by simp_all
  then show ?thesis
    by (simp add: deleteModel_request_def deleteTenant_request_def bare_request_def tenant_url_def url_segments_def url_query_def
        ends_path_def dot_segments_def double_dot_segments_def)
qed

section \<open>Errors of the handlers on the page\<close>

text \<open>The answer of a handler as the browser receives it.\<close>

definition as_received :: "server_resp \<Rightarrow> http_resp" where
  "as_received r = \<lparr>rs_status = sr_status r, rs_text = [], rs_json = sr_body r, rs_headers = []\<rparr>"

text \<open>The message of the error a page shows for a handler's error \<open>err\<close>.\<close>

fun page_message :: "string \<Rightarrow> string \<Rightarrow> exn \<Rightarrow> string" where
  "page_message fallback msg (GatewayAdminError m _ _) = (if m = [] then fallback else m)"
| "page_message fallback msg (JsError _ _) = (if msg = [] then fallback else msg)"

lemma route_error_failure:
  assumes "\<not> resp_ok (as_received (route_error msg err))"
  shows "throw_error fallback (as_received (route_error msg err)) = io_throw (JsError (page_message fallback msg err) None)"
    and "throw_status_error fallback (as_received (route_error msg err)) =
      io_throw (JsError (case err of GatewayAdminError m _ _ \<Rightarrow> m | JsError _ _ \<Rightarrow> msg) (Some (sr_status (route_error msg err))))"
  by (cases err; simp add: throw_error_def throw_status_error_def as_received_def json_response_def error_json_def js_simps fun_eq_iff)+

text \<open>The message of a gateway error reaches the page: when the body of a handler throws, the handler answers
  with that error, and the browser function that called it throws an error with the gateway's message (or, for an error
  of the handler itself, the handler's message, never the text of the engine's error), together with the status where the
  function attaches it; nothing of a failed call is taken for data.\<close>

theorem handler_errors_reach_page:
  assumes "body net h = (Inl err, h')" and "handle msg body net h = (Inr r, h'')"
    and "g req = FetchOk (as_received r)" and "\<not> resp_ok (as_received r)"
  shows "against (call fallback req) g = Inl (JsError (page_message fallback msg err) None)
    \<and> against (call_status fallback req) g =
        Inl (JsError (case err of GatewayAdminError m _ _ \<Rightarrow> m | JsError _ _ \<Rightarrow> msg) (Some (sr_status r)))"
proof -
  have r: "r = route_error msg err"
    using assms(1,2) by (simp add: handle_with_def io_catch_def io_return_def)
  note fails = route_error_failure [of msg err fallback, folded r, OF assms(4)]
  show ?thesis
    using assms(3,4)
    by (simp add: call_def call_status_def call_with_def against_def io_bind_def io_fetch_def fails) (simp add: io_throw_def)
qed

theorem handler_errors_reach_page_witness:
  "against (call ''Failed to fetch models'' (get_request ''/api/models''))
     (\<lambda>_. FetchOk (as_received (route_error ''x'' (GatewayAdminError ''no such tenant'' (Some 404) JNull))))
   = Inl (JsError ''no such tenant'' None)"
proof -
  let ?err = "GatewayAdminError ''no such tenant'' (Some 404) JNull"
  let ?net = "\<lambda>_ _. FetchFail []"
  have a: "io_throw ?err ?net [] = (Inl ?err, [])" by (simp add: io_throw_def)
  have b: "handle ''x'' (io_throw ?err) ?net [] = (Inr (route_error ''x'' ?err), [])"
    by (simp add: handle_with_def io_throw_def io_catch_def io_return_def)
  show ?thesis
    using handler_errors_reach_page [OF a b, of "\<lambda>_. FetchOk (as_received (route_error ''x'' ?err))"
      "get_request ''/api/models''" "''Failed to fetch models''"]
    by (simp add: resp_ok_def as_received_def json_response_def)
qed

end
