(* ===== verification/Config_Utils.thy ===== *)
theory Config_Utils
  imports JS_IO
begin

text \<open>
  Small helpers of the configuration pages: paths into a config (features/dashboard/lib/config-utils.ts),
  pricing in its legacy shapes (features/global-config/lib/model-pricing.ts) and the base of a config
  patch (global-config-merge-base.ts, where \<open>cached\<close> is what React Query holds for the global config).
\<close>

section \<open>Paths\<close>

text \<open>\<open>key in v\<close> and \<open>v[key]\<close> for an object: an array has its indices and its length.\<close>

definition array_index :: "string \<Rightarrow> nat option" where
  "array_index k = (if k \<noteq> [] \<and> list_all is_digit k \<and> show_nat (num_of_digits k) = k then Some (num_of_digits k) else None)"

fun member :: "jsval \<Rightarrow> string \<Rightarrow> jsval option" where
  "member (JObj ps) k = map_of ps k"
| "member (JArr xs) k =
     (if k = ''length'' then Some (jint (int (length xs)))
      else case array_index k of None \<Rightarrow> None | Some i \<Rightarrow> if i < length xs then Some (xs ! i) else None)"
| "member _ k = None"

fun walk :: "jsval \<Rightarrow> string list \<Rightarrow> jsval" where
  "walk v [] = v"
| "walk v (k # ks) = (case member v k of None \<Rightarrow> JUndef | Some w \<Rightarrow> walk w ks)"

definition getNestedValue :: "jsval \<Rightarrow> string \<Rightarrow> jsval" where
  "getNestedValue obj path = (if \<not> truthy obj then JUndef else walk obj (split_on (CHR ''.'') path))"

fun getFirstValue :: "jsval \<Rightarrow> string list \<Rightarrow> jsval" where
  "getFirstValue obj [] = JUndef"
| "getFirstValue obj (path # paths) =
     (if nullish (getNestedValue obj path) then getFirstValue obj paths else getNestedValue obj path)"

section \<open>Labels\<close>

text \<open>\<open>Number.isInteger(seconds) ? String(seconds) : seconds.toFixed(1)\<close>\<close>

definition seconds_label :: "rat \<Rightarrow> string" where
  "seconds_label s = (if is_integer s then num_to_string (Fin s) else to_fixed 1 (Fin s))"

definition formatDurationMs :: "jsval \<Rightarrow> jsval" where
  "formatDurationMs v =
     (if v = JUndef then JUndef else if v = JNull then JNull
      else case to_num v of
        Fin ms \<Rightarrow> JStr (if 1000 \<le> ms
          then num_to_string (Fin ms) @ '' ms ('' @ seconds_label (ms / 1000) @ '' s)''
          else num_to_string (Fin ms) @ '' ms'')
      | _ \<Rightarrow> JUndef)"

definition formatBooleanLabel :: "jsval \<Rightarrow> string \<Rightarrow> string \<Rightarrow> string option" where
  "formatBooleanLabel v yesLabel noLabel = (if nullish v then None else Some (if truthy v then yesLabel else noLabel))"

section \<open>Pricing\<close>

definition num_field :: "jsval \<Rightarrow> jsnum option" where
  "num_field v =
     (case v of
        JNum n \<Rightarrow> if n = NaN then None else Some n
      | JStr s \<Rightarrow> if trim s = [] \<or> parse_float s = NaN then None else Some (parse_float s)
      | _ \<Rightarrow> None)"

fun first_num :: "jsval \<Rightarrow> string list \<Rightarrow> jsnum" where
  "first_num p [] = Fin 0"
| "first_num p (k # ks) = (case num_field (get_prop p k) of None \<Rightarrow> first_num p ks | Some n \<Rightarrow> n)"

record pricing =
  prompt_per_1m :: jsnum
  completion_per_1m :: jsnum

definition readPricingFields :: "jsval \<Rightarrow> pricing" where
  "readPricingFields p =
     \<lparr>prompt_per_1m = first_num p [''prompt_per_1m'', ''PromptPer1M'', ''promptPer1M''],
      completion_per_1m = first_num p [''completion_per_1m'', ''CompletionPer1M'', ''completionPer1M'']\<rparr>"

definition getLatestGlobalConfigRecord :: "jsval \<Rightarrow> props \<Rightarrow> props" where
  "getLatestGlobalConfigRecord cached fallback =
     (case get_prop cached ''config'' of JObj ps \<Rightarrow> spread [] ps | _ \<Rightarrow> spread [] fallback)"

section \<open>Properties\<close>

text \<open>The object that holds a value under a path, and pricing written as the gateway expects it.\<close>

fun nest :: "string list \<Rightarrow> jsval \<Rightarrow> jsval" where
  "nest [] v = v"
| "nest (k # ks) v = JObj [(k, nest ks v)]"

definition write_pricing :: "pricing \<Rightarrow> jsval" where
  "write_pricing p = JObj [(''prompt_per_1m'', JNum (prompt_per_1m p)), (''completion_per_1m'', JNum (completion_per_1m p))]"

lemma walk_nest: "walk (nest ks v) ks = v"
  by (induction ks) simp_all

lemma first_num_not_NaN: "first_num p ks \<noteq> NaN"
  by (induction ks) (auto simp: num_field_def split: option.splits jsval.splits if_splits)

text \<open>What is written is read back: a value nested under any path of dot-free keys is what \<open>getNestedValue\<close> finds at
  the path, and it is the first of a list of paths unless it is nullish; pricing in any of its legacy shapes is read as two
  numbers that are never NaN, and written in the gateway's form it reads back as the same two.\<close>

theorem config_values_roundtrip:
  assumes "ks \<noteq> []" and "list_all (\<lambda>k. CHR ''.'' \<notin> set k) ks"
  shows "getNestedValue (nest ks v) (join ''.'' ks) = v
    \<and> getFirstValue (nest ks v) [join ''.'' ks] = (if nullish v then JUndef else v)
    \<and> prompt_per_1m (readPricingFields p) \<noteq> NaN \<and> completion_per_1m (readPricingFields p) \<noteq> NaN
    \<and> readPricingFields (write_pricing (readPricingFields p)) = readPricingFields p"
proof -
  have "split_on (CHR ''.'') (join ''.'' ks) = ks"
    using assms by (intro split_on_join) (auto simp: list_all_iff)
  moreover have "truthy (nest ks v)" using assms(1) by (cases ks) simp_all
  ultimately have n: "getNestedValue (nest ks v) (join ''.'' ks) = v" by (simp add: getNestedValue_def walk_nest)
  have nan: "prompt_per_1m (readPricingFields p) \<noteq> NaN" "completion_per_1m (readPricingFields p) \<noteq> NaN"
    by (simp_all add: readPricingFields_def first_num_not_NaN del: first_num.simps)
  have "readPricingFields (write_pricing q) = q" if "prompt_per_1m q \<noteq> NaN" "completion_per_1m q \<noteq> NaN" for q
    using that by (simp add: readPricingFields_def write_pricing_def num_field_def get_prop_simps)
  with n nan show ?thesis by simp
qed

theorem config_values_roundtrip_witness:
  "getNestedValue (JObj [(''redis'', JObj [(''ttl'', jint 5)])]) ''redis.ttl'' = jint 5
   \<and> prompt_per_1m (readPricingFields (JObj [(''PromptPer1M'', JStr ''2.5'')])) \<noteq> NaN"
  using config_values_roundtrip [of "[''redis'', ''ttl'']" "jint 5" "JObj [(''PromptPer1M'', JStr ''2.5'')]"] by simp

end
