(* ===== verification/Finops_Fetch.thy ===== *)
theory Finops_Fetch
  imports Report_Client JS_Date
begin

text \<open>
  The fetch functions of the FinOps page (app/(app)/budgets/page.tsx): usage summaries, budget overview,
  anomalies, usage and drill-down of API keys and JWT subjects, raw usage and monetization. Each sends one
  GET request to a FinOps route, turns 401 and 403 into an error, any other failed response into a default, and
  normalizes the rows it receives.

  A filter that is undefined is the empty string: both are left out of the query. \<open>now\<close> is the browser's
  clock and \<open>date_ms\<close> its reading of a \<open>datetime-local\<close> value, which depends on the time zone.
\<close>

section \<open>Reading fields\<close>

text \<open>\<open>a ?? b ?? ...\<close> over the named fields of a row.\<close>

fun first_defined :: "jsval list \<Rightarrow> jsval" where
  "first_defined [] = JUndef"
| "first_defined (v # vs) = coalesce v (first_defined vs)"

definition read_fields :: "jsval \<Rightarrow> string list \<Rightarrow> jsval" where
  "read_fields row ks = first_defined (map (get_prop row) ks)"

definition str_field :: "string \<Rightarrow> string list \<Rightarrow> jsval \<Rightarrow> string" where
  "str_field d ks row = string_default d (read_fields row ks)"

definition number_field :: "string list \<Rightarrow> jsval \<Rightarrow> jsnum" where
  "number_field ks row = number_default (Fin 0) (read_fields row ks)"

definition opt_num_field :: "string \<Rightarrow> jsval \<Rightarrow> jsnum option" where
  "opt_num_field k row = opt_number (get_prop row k)"

definition opt_str_field :: "string \<Rightarrow> jsval \<Rightarrow> string option" where
  "opt_str_field k row = opt_string (get_prop row k)"

text \<open>\<open>row.a == null ? (row.b == null ? null : String(row.b)) : String(row.a)\<close>\<close>

definition opt_str_fields :: "string \<Rightarrow> string \<Rightarrow> jsval \<Rightarrow> string option" where
  "opt_str_fields a b row = (if nullish (get_prop row a) then opt_str_field b row else opt_str_field a row)"

definition sum_nums :: "('a \<Rightarrow> jsnum) \<Rightarrow> 'a list \<Rightarrow> jsnum" where
  "sum_nums f xs = foldl (\<lambda>s x. num_add s (f x)) (Fin 0) xs"

section \<open>Queries\<close>

datatype window_hours = H24 | H168 | H720

primrec hours :: "window_hours \<Rightarrow> nat" where
  "hours H24 = 24"
| "hours H168 = 168"
| "hours H720 = 720"

definition window_num :: "window_hours \<Rightarrow> jsnum" where
  "window_num w = Fin (of_nat (hours w))"

text \<open>\<open>if (v && v !== 'all') qs.set(k, v)\<close>\<close>

definition choice_param :: "string \<Rightarrow> string \<Rightarrow> (string \<times> string) list" where
  "choice_param k v = (if v \<noteq> [] \<and> v \<noteq> ''all'' then [(k, v)] else [])"

text \<open>\<open>if (v && v.trim()) qs.set(k, v.trim())\<close>\<close>

definition trimmed_param :: "string \<Rightarrow> string \<Rightarrow> (string \<times> string) list" where
  "trimmed_param k v = (if trim v \<noteq> [] then [(k, trim v)] else [])"

definition nat_str :: "nat \<Rightarrow> string" where
  "nat_str n = num_to_string (Fin (of_nat n))"

text \<open>\<open>params.limit ?? 50\<close> and \<open>params.offset ?? 0\<close>\<close>

record paging =
  pg_limit :: "nat option"
  pg_offset :: "nat option"

definition limit_of :: "paging \<Rightarrow> nat" where
  "limit_of p = (case pg_limit p of None \<Rightarrow> 50 | Some n \<Rightarrow> n)"

definition offset_of :: "paging \<Rightarrow> nat" where
  "offset_of p = (case pg_offset p of None \<Rightarrow> 0 | Some n \<Rightarrow> n)"

definition paging_params :: "paging \<Rightarrow> (string \<times> string) list" where
  "paging_params p = [(''limit'', nat_str (limit_of p)), (''offset'', nat_str (offset_of p))]"

definition window_params :: "window_hours \<Rightarrow> (string \<times> string) list" where
  "window_params w = [(''window_hours'', nat_str (hours w))]"

definition list_request :: "string \<Rightarrow> (string \<times> string) list \<Rightarrow> http_req" where
  "list_request path params = get_request (path @ ''?'' @ params_to_string params)"

text \<open>The common shape of the functions: \<open>!resp.ok\<close> first looks for a denied access, then returns what
  \<open>fail\<close> says; otherwise \<open>raw?.data ?? raw\<close> is read.\<close>

definition finops_get :: "http_req \<Rightarrow> (http_resp \<Rightarrow> 'a io) \<Rightarrow> (jsval \<Rightarrow> 'a io) \<Rightarrow> 'a io" where
  "finops_get req fail k =
     io_bind (io_fetch req) (\<lambda>resp.
     if \<not> resp_ok resp then io_bind (assertFinopsUnauthorized resp) (\<lambda>_. fail resp)
     else io_bind (resp_json resp) k)"

definition payload_of :: "jsval \<Rightarrow> jsval" where
  "payload_of raw = coalesce (get_prop raw ''data'') raw"

definition object_name :: "string \<Rightarrow> jsval \<Rightarrow> string" where
  "object_name d payload = (if is_str (get_prop payload ''object'') then str_of (get_prop payload ''object'') else d)"

text \<open>\<open>Number(p.limit ?? params.limit ?? 50)\<close> and the like; \<open>fallback\<close> comes before the number of rows.\<close>

definition list_pagination :: "paging \<Rightarrow> nat \<Rightarrow> jsval \<Rightarrow> jsval \<Rightarrow> page_info" where
  "list_pagination p n fallback raw =
     \<lparr>pi_limit = number_default (Fin (of_nat (limit_of p))) (get_prop raw ''limit''),
      pi_offset = number_default (Fin (of_nat (offset_of p))) (get_prop raw ''offset''),
      pi_returned = number_default (Fin (of_nat n)) (get_prop raw ''returned''),
      pi_total = number_default (Fin (of_nat n)) (coalesce (get_prop raw ''total'') fallback)\<rparr>"

definition empty_pagination :: "paging \<Rightarrow> page_info" where
  "empty_pagination p =
     \<lparr>pi_limit = Fin (of_nat (limit_of p)), pi_offset = Fin (of_nat (offset_of p)), pi_returned = Fin 0, pi_total = Fin 0\<rparr>"

section \<open>Usage summaries and the budget overview\<close>

definition fetchUsageSummaries :: "string \<Rightarrow> jsval io" where
  "fetchUsageSummaries month =
     finops_get (get_request (''/api/finops/usage-summaries?month='' @ encodeURIComponent month))
       (throw_status_error ''Failed to fetch usage summaries'')
       (\<lambda>data. io_bind (read_prop data ''data'') (\<lambda>d. io_return (js_or d (JArr []))))"

record overview_row =
  ov_tenant_id :: string
  ov_current_spend :: jsnum
  ov_budget_limit :: jsnum
  ov_utilization_pct :: "jsnum option"
  ov_status :: string
  ov_enforcement_mode :: "string option"
  ov_warn_pct :: "jsnum option"
  ov_hard_pct :: "jsnum option"
  ov_remaining_usd :: "jsnum option"

definition overview_utilization :: "jsval \<Rightarrow> jsnum \<Rightarrow> jsnum \<Rightarrow> jsnum option" where
  "overview_utilization v spend limit =
     (if \<not> nullish v \<and> is_finite (to_num v) then Some (to_num v)
      else if num_pos limit then Some (num_mul (num_div spend limit) (Fin 100))
      else None)"

definition overview_mode :: "jsval \<Rightarrow> string option" where
  "overview_mode r =
     (let v = read_fields r [''enforcement_mode'', ''mode'']; s = string_default [] v
      in if nullish v \<or> s = [] then None else Some s)"

definition overview_row_of :: "jsval \<Rightarrow> overview_row option" where
  "overview_row_of r =
     (let tenantId = trim (str_field [] [''tenant_id'', ''tenantId''] r);
          spend = number_field [''current_spend'', ''current_spend_usd'', ''spend_usd'', ''spend''] r;
          limit = number_field [''budget_limit'', ''budget_usd'', ''monthly_usd'', ''limit_usd''] r
      in if tenantId = [] then None
         else Some \<lparr>ov_tenant_id = tenantId, ov_current_spend = spend, ov_budget_limit = limit,
           ov_utilization_pct = overview_utilization (get_prop r ''utilization_pct'') spend limit,
           ov_status = str_field ''not_configured'' [''status'', ''budget_status''] r,
           ov_enforcement_mode = overview_mode r,
           ov_warn_pct = opt_num_field ''warn_pct'' r, ov_hard_pct = opt_num_field ''hard_pct'' r,
           ov_remaining_usd = opt_num_field ''remaining_usd'' r\<rparr>)"

definition overview_items :: "jsval \<Rightarrow> jsval list" where
  "overview_items o' =
     (if is_array (get_prop o' ''data'') then arr_elems (get_prop o' ''data'')
      else if is_array (get_prop o' ''tenants'') then arr_elems (get_prop o' ''tenants'')
      else arr_elems (get_prop o' ''rows''))"

text \<open>A null item makes \<open>r.tenant_id\<close> throw.\<close>

definition normalizeBudgetOverviewPayload :: "jsval \<Rightarrow> exn + overview_row list" where
  "normalizeBudgetOverviewPayload raw =
     (if \<not> is_object raw then Inr []
      else if list_ex nullish (overview_items raw) then Inl type_error
      else Inr (List.map_filter overview_row_of (overview_items raw)))"

definition fetchBudgetOverview :: "jsval io" where
  "fetchBudgetOverview = finops_get (get_request ''/api/budgets/overview'')
     (throw_status_error ''Failed to fetch budget overview'') io_return"

section \<open>Anomalies\<close>

record anomaly_filter =
  af_tenant :: string
  af_model :: string
  af_provider :: string
  af_status :: string

text \<open>The rows of an anomaly list are shown as they come.\<close>

record anomaly_list =
  al_data :: "jsval list"
  al_object :: string
  al_pagination :: page_info

record anomaly_explain =
  ax_data :: "jsval list"
  ax_object :: string
  ax_window_days :: jsnum

definition fetchAnomalyExplain :: "nat \<Rightarrow> anomaly_explain io" where
  "fetchAnomalyExplain windowDays =
     finops_get (list_request ''/api/finops/anomalies/explain'' [(''window_days'', nat_str windowDays)])
       (\<lambda>_. io_return \<lparr>ax_data = [], ax_object = ''anomaly_explain'', ax_window_days = Fin (of_nat windowDays)\<rparr>)
       (\<lambda>raw. io_return \<lparr>ax_data = arr_elems (get_prop raw ''data''), ax_object = object_name ''anomaly_explain'' raw,
          ax_window_days = number_default (Fin (of_nat windowDays)) (get_prop raw ''window_days'')\<rparr>)"

definition anomaly_params :: "window_hours \<Rightarrow> anomaly_filter \<Rightarrow> (string \<times> string) list" where
  "anomaly_params w f = window_params w @ choice_param ''tenant_id'' (af_tenant f)
     @ choice_param ''model'' (af_model f) @ choice_param ''provider'' (af_provider f)"

definition fetchAnomalies :: "window_hours \<Rightarrow> anomaly_filter \<Rightarrow> paging \<Rightarrow> anomaly_list io" where
  "fetchAnomalies w f p =
     finops_get (list_request ''/api/finops/anomalies''
         (anomaly_params w f @ choice_param ''status'' (af_status f) @ paging_params p))
       (\<lambda>_. io_return \<lparr>al_data = [], al_object = ''list'', al_pagination = empty_pagination p\<rparr>)
       (\<lambda>raw. let payload = payload_of raw; data = arr_elems (get_prop payload ''data'') in
          io_return \<lparr>al_data = data, al_object = object_name ''list'' payload,
            al_pagination = list_pagination p (length data) JUndef (get_prop payload ''pagination'')\<rparr>)"

record anomaly_stats =
  as_active_anomalies :: jsnum
  as_cost_spike_24h_usd :: jsnum
  as_affected_tenants :: jsnum
  as_affected_models :: jsnum
  as_timeline :: "jsval list"
  as_top_tenants :: "jsval list"
  as_deviation_histogram :: "jsval list"
  as_object :: string
  as_window_hours :: jsnum

definition fetchAnomalyStats :: "window_hours \<Rightarrow> anomaly_filter \<Rightarrow> anomaly_stats io" where
  "fetchAnomalyStats w f =
     finops_get (list_request ''/api/finops/anomalies/stats'' (anomaly_params w f))
       (\<lambda>_. io_return \<lparr>as_active_anomalies = Fin 0, as_cost_spike_24h_usd = Fin 0, as_affected_tenants = Fin 0,
          as_affected_models = Fin 0, as_timeline = [], as_top_tenants = [], as_deviation_histogram = [],
          as_object = ''anomaly_stats'', as_window_hours = window_num w\<rparr>)
       (\<lambda>raw. let payload = payload_of raw; summary = get_prop payload ''summary'' in
          io_return \<lparr>as_active_anomalies = number_field [''active_anomalies''] summary,
            as_cost_spike_24h_usd = number_field [''cost_spike_24h_usd''] summary,
            as_affected_tenants = number_field [''affected_tenants''] summary,
            as_affected_models = number_field [''affected_models''] summary,
            as_timeline = arr_elems (get_prop payload ''timeline''),
            as_top_tenants = arr_elems (get_prop payload ''top_tenants''),
            as_deviation_histogram = arr_elems (get_prop payload ''deviation_histogram''),
            as_object = object_name ''anomaly_stats'' payload,
            as_window_hours = number_default (window_num w) (get_prop payload ''window_hours'')\<rparr>)"

section \<open>Usage of API keys and JWT subjects\<close>

record usage_filter =
  uf_tenant :: string
  uf_provider :: string
  uf_model :: string
  uf_status :: string
  uf_name :: string

definition usage_filter_params :: "usage_filter \<Rightarrow> (string \<times> string) list" where
  "usage_filter_params f = choice_param ''tenant_id'' (uf_tenant f) @ choice_param ''provider'' (uf_provider f)
     @ choice_param ''model'' (uf_model f) @ choice_param ''status'' (uf_status f)"

record key_usage = api_key_row +
  ku_total_cost_usd :: jsnum

record sub_usage =
  su_jwt_sub :: string
  su_tenant_id :: string
  su_requests :: jsnum
  su_prompt_tokens :: jsnum
  su_completion_tokens :: jsnum
  su_total_tokens :: jsnum
  su_total_cost_usd :: jsnum
  su_avg_cost :: "jsnum option"
  su_first_seen :: "string option"
  su_last_seen :: "string option"
  su_success_rate :: "jsnum option"
  su_avg_latency_ms :: "jsnum option"
  su_top_model :: "string option"
  su_top_provider :: "string option"

text \<open>\<open>summary\<close> of both lists; its first and last fields are named after API keys or JWT subjects.\<close>

record list_totals =
  ut_total_active :: jsnum
  ut_total_requests :: jsnum
  ut_total_spend :: jsnum
  ut_avg_success_rate :: "jsnum option"
  ut_highest_spend :: "string option"
  ut_most_active :: "string option"

record 'r usage_list =
  ul_data :: "'r list"
  ul_summary :: "list_totals option"
  ul_object :: string
  ul_pagination :: page_info

definition key_usage_of :: "jsval \<Rightarrow> key_usage" where
  "key_usage_of row =
     \<lparr>ak_api_key_id = str_field [] [''api_key_id''] row,
      ak_api_key_name = str_field [] [''api_key_name''] row,
      ak_tenant_id = str_field [] [''tenant_id''] row,
      ak_requests = number_field [''requests''] row,
      ak_avg_cost = opt_num_field ''avg_cost_per_request_effective'' row,
      ak_success_rate = opt_num_field ''success_rate'' row,
      ak_avg_latency_ms = opt_num_field ''avg_latency_ms'' row,
      ak_top_model = opt_str_field ''top_model'' row,
      ak_top_provider = opt_str_field ''top_provider'' row,
      ak_last_seen_at = opt_str_fields ''last_seen'' ''last_seen_at'' row,
      ku_total_cost_usd = number_field [''spend'', ''total_cost_usd''] row\<rparr>"

definition sub_usage_of :: "jsval \<Rightarrow> sub_usage" where
  "sub_usage_of row =
     \<lparr>su_jwt_sub = str_field [] [''jwt_sub''] row, su_tenant_id = str_field [] [''tenant_id''] row,
      su_requests = number_field [''requests''] row, su_prompt_tokens = number_field [''prompt_tokens''] row,
      su_completion_tokens = number_field [''completion_tokens''] row, su_total_tokens = number_field [''total_tokens''] row,
      su_total_cost_usd = number_field [''total_cost_usd'', ''cost_usd'', ''spend''] row,
      su_avg_cost = opt_num_field ''avg_cost_per_request_effective'' row,
      su_first_seen = opt_str_field ''first_seen'' row, su_last_seen = opt_str_field ''last_seen'' row,
      su_success_rate = opt_num_field ''success_rate'' row, su_avg_latency_ms = opt_num_field ''avg_latency_ms'' row,
      su_top_model = opt_str_field ''top_model'' row, su_top_provider = opt_str_field ''top_provider'' row\<rparr>"

definition list_totals_of ::
  "string \<Rightarrow> string \<Rightarrow> string \<Rightarrow> ('r \<Rightarrow> jsnum) \<Rightarrow> ('r \<Rightarrow> jsnum) \<Rightarrow> 'r list \<Rightarrow> jsval \<Rightarrow> list_totals option" where
  "list_totals_of active highest most reqs cost data raw =
     (if \<not> truthy raw then None
      else Some \<lparr>ut_total_active = number_default (Fin (of_nat (length data))) (get_prop raw active),
        ut_total_requests = number_default (sum_nums reqs data) (get_prop raw ''total_requests''),
        ut_total_spend = number_default (sum_nums cost data) (get_prop raw ''total_spend''),
        ut_avg_success_rate = opt_num_field ''avg_success_rate'' raw,
        ut_highest_spend = opt_str_field highest raw, ut_most_active = opt_str_field most raw\<rparr>)"

definition empty_usage :: "paging \<Rightarrow> 'r usage_list" where
  "empty_usage p = \<lparr>ul_data = [], ul_summary = None, ul_object = ''list'', ul_pagination = empty_pagination p\<rparr>"

definition key_usage_list :: "paging \<Rightarrow> jsval \<Rightarrow> key_usage usage_list io" where
  "key_usage_list p raw =
     (let payload = payload_of raw; summaryRaw = get_prop payload ''summary'' in
      io_bind (map_typed key_usage_of (arr_elems (get_prop payload ''data''))) (\<lambda>data.
      io_return \<lparr>ul_data = data,
        ul_summary = list_totals_of ''total_active_api_keys'' ''highest_spend_key'' ''most_active_key''
          ak_requests ku_total_cost_usd data summaryRaw,
        ul_object = object_name ''list'' payload,
        ul_pagination = list_pagination p (length data) (get_prop summaryRaw ''total_active_api_keys'')
          (get_prop payload ''pagination'')\<rparr>))"

definition page_fetchApiKeysUsage :: "window_hours \<Rightarrow> usage_filter \<Rightarrow> paging \<Rightarrow> key_usage usage_list io" where
  "page_fetchApiKeysUsage w f p =
     finops_get (list_request ''/api/finops/api-keys/usage''
         (window_params w @ usage_filter_params f @ trimmed_param ''api_key_name'' (uf_name f) @ paging_params p))
       (\<lambda>_. io_return (empty_usage p)) (key_usage_list p)"

text \<open>The last \<open>windowHours\<close> up to now, as two instants.\<close>

definition window_range :: "int \<Rightarrow> window_hours \<Rightarrow> (string \<times> string) list io" where
  "window_range now w =
     io_bind (io_of_sum (to_iso_string (Fin (of_int (now - int (hours w) * 60 * 60 * 1000))))) (\<lambda>fromIso.
     io_bind (io_of_sum (to_iso_string (Fin (of_int now)))) (\<lambda>toIso.
     io_return [(''from'', fromIso), (''to'', toIso)]))"

definition sub_usage_list :: "paging \<Rightarrow> jsval \<Rightarrow> sub_usage usage_list io" where
  "sub_usage_list p raw =
     (let payload = payload_of raw; summaryRaw = get_prop payload ''summary'' in
      io_bind (map_typed sub_usage_of (arr_elems (get_prop payload ''data''))) (\<lambda>data.
      io_return \<lparr>ul_data = data,
        ul_summary = list_totals_of ''total_active_jwt_subs'' ''highest_spend_sub'' ''most_active_sub''
          su_requests su_total_cost_usd data summaryRaw,
        ul_object = object_name ''list'' payload,
        ul_pagination = list_pagination p (length data) (get_prop summaryRaw ''total_active_jwt_subs'')
          (get_prop payload ''pagination'')\<rparr>))"

definition fetchJwtSubsUsage :: "int \<Rightarrow> window_hours \<Rightarrow> usage_filter \<Rightarrow> paging \<Rightarrow> sub_usage usage_list io" where
  "fetchJwtSubsUsage now w f p =
     io_bind (window_range now w) (\<lambda>range.
     finops_get (list_request ''/api/finops/jwt-subs/usage''
         (range @ usage_filter_params f @ trimmed_param ''jwt_sub'' (uf_name f)
          @ [(''sort_by'', ''cost_usd''), (''sort_order'', ''desc'')] @ paging_params p))
       (\<lambda>_. io_return (empty_usage p)) (sub_usage_list p))"

section \<open>Drill-downs\<close>

text \<open>\<open>summary\<close> and \<open>breakdown\<close> of one subject; the summary may be undefined.\<close>

definition fetchJwtSubUsageDetail ::
  "int \<Rightarrow> string \<Rightarrow> window_hours \<Rightarrow> string \<Rightarrow> string \<Rightarrow> (jsval \<times> jsval list) option io" where
  "fetchJwtSubUsageDetail now jwtSub w tenant groupBy =
     io_bind (window_range now w) (\<lambda>range.
     finops_get (list_request (''/api/finops/jwt-subs/'' @ encodeURIComponent jwtSub @ ''/usage'')
         (range @ choice_param ''tenant_id'' tenant @ (if groupBy \<noteq> [] then [(''group_by'', groupBy)] else [])))
       (\<lambda>_. io_return None)
       (\<lambda>raw. let payload = payload_of raw in
          io_return (Some (get_prop payload ''summary'', arr_elems (get_prop payload ''breakdown'')))))"

text \<open>A line of a breakdown: its label is the model, the provider or the day.\<close>

record group_usage =
  gu_label :: string
  gu_requests :: jsnum
  gu_cost_usd :: jsnum
  gu_total_tokens :: jsnum

record sub_drilldown =
  sd_jwt_sub :: string
  sd_requests :: jsnum
  sd_total_cost_usd :: jsnum
  sd_prompt_tokens :: jsnum
  sd_completion_tokens :: jsnum
  sd_total_tokens :: jsnum
  sd_requests_by_model :: "group_usage list"
  sd_requests_by_provider :: "group_usage list"
  sd_traffic_over_time :: "group_usage list"

definition group_usage_of :: "string \<Rightarrow> string \<Rightarrow> jsval \<Rightarrow> group_usage" where
  "group_usage_of key d row =
     \<lparr>gu_label = str_field d [''group'', key] row, gu_requests = number_field [''requests''] row,
      gu_cost_usd = number_field [''total_cost_usd'', ''cost_usd''] row, gu_total_tokens = number_field [''total_tokens''] row\<rparr>"

definition breakdown_rows :: "(jsval \<times> jsval list) option \<Rightarrow> jsval list" where
  "breakdown_rows d = (case d of None \<Rightarrow> [] | Some (_, rows) \<Rightarrow> rows)"

definition sub_drilldown_of ::
  "string \<Rightarrow> (jsval \<times> jsval list) option \<Rightarrow> (jsval \<times> jsval list) option \<Rightarrow> (jsval \<times> jsval list) option
    \<Rightarrow> sub_drilldown option io" where
  "sub_drilldown_of jwtSub byModel byProvider byDay =
     (case byModel of
        None \<Rightarrow> io_return None
      | Some (summary, rows) \<Rightarrow>
          io_bind (map_typed (group_usage_of ''model'' ''-'') rows) (\<lambda>models.
          io_bind (map_typed (group_usage_of ''provider'' ''-'') (breakdown_rows byProvider)) (\<lambda>providers.
          io_bind (map_typed (group_usage_of ''bucket'' []) (breakdown_rows byDay)) (\<lambda>days.
          io_return (Some \<lparr>sd_jwt_sub = jwtSub, sd_requests = number_field [''requests''] summary,
            sd_total_cost_usd = number_field [''total_cost_usd'', ''total_spend_usd'', ''spend''] summary,
            sd_prompt_tokens = number_field [''prompt_tokens''] summary,
            sd_completion_tokens = number_field [''completion_tokens''] summary,
            sd_total_tokens = number_field [''total_tokens''] summary,
            sd_requests_by_model = models, sd_requests_by_provider = providers, sd_traffic_over_time = days\<rparr>)))))"

definition fetchJwtSubDrilldown :: "int \<Rightarrow> string \<Rightarrow> window_hours \<Rightarrow> string \<Rightarrow> sub_drilldown option io" where
  "fetchJwtSubDrilldown now jwtSub w tenant =
     io_bind (io_all (map (fetchJwtSubUsageDetail now jwtSub w tenant) [''model'', ''provider'', ''day''])) (\<lambda>ds.
     sub_drilldown_of jwtSub (ds ! 0) (ds ! 1) (ds ! 2))"

text \<open>The request both drill-downs of an API key send.\<close>

definition key_drilldown_request :: "string \<Rightarrow> window_hours \<Rightarrow> http_req" where
  "key_drilldown_request apiKeyId w =
     list_request (''/api/finops/api-keys/'' @ encodeURIComponent apiKeyId @ ''/usage'')
       (window_params w @ [(''limit'', ''50''), (''offset'', ''0'')])"

record key_summary =
  ks_requests :: jsnum
  ks_total_cost_usd :: jsnum
  ks_avg_cost :: "jsnum option"
  ks_success_rate :: "jsnum option"
  ks_avg_latency_ms :: "jsnum option"
  ks_top_model :: "string option"
  ks_top_provider :: "string option"
  ks_last_seen_at :: "string option"

record key_recent = recent_request +
  kr_fallback_used :: bool
  kr_cost_usd :: jsnum
  kr_error_type :: string

record key_drilldown =
  kd_api_key_id :: string
  kd_api_key_name :: string
  kd_tenant_id :: string
  kd_summary :: key_summary
  kd_requests_by_model :: "(string \<times> jsnum \<times> jsnum) list"
  kd_requests_by_provider :: "provider_usage list"
  kd_traffic_over_time :: "traffic_point list"
  kd_recent_requests :: "key_recent list"
  kd_p50 :: jsnum
  kd_p95 :: jsnum
  kd_max :: jsnum

definition key_summary_of :: "jsval \<Rightarrow> key_summary" where
  "key_summary_of summary =
     \<lparr>ks_requests = number_field [''requests''] summary,
      ks_total_cost_usd = number_field [''total_cost_usd'', ''spend''] summary,
      ks_avg_cost = opt_num_field ''avg_cost_per_request_effective'' summary,
      ks_success_rate = opt_num_field ''success_rate'' summary,
      ks_avg_latency_ms = opt_num_field ''avg_latency_ms'' summary,
      ks_top_model = opt_str_field ''top_model'' summary, ks_top_provider = opt_str_field ''top_provider'' summary,
      ks_last_seen_at = opt_str_fields ''last_seen_at'' ''last_seen'' summary\<rparr>"

definition model_cost_of :: "jsval \<Rightarrow> string \<times> jsnum \<times> jsnum" where
  "model_cost_of row =
     (str_field ''-'' [''model''] row, number_field [''requests''] row, number_field [''cost_usd'', ''spend''] row)"

definition key_recent_of :: "jsval \<Rightarrow> key_recent" where
  "key_recent_of row =
     \<lparr>rr_request_id = str_field [] [''request_id''] row, rr_timestamp = str_field [] [''timestamp''] row,
      rr_model = str_field ''-'' [''model''] row, rr_provider = str_field ''-'' [''provider''] row,
      rr_latency_ms = number_field [''latency_ms''] row, rr_status = str_field ''-'' [''status''] row,
      kr_fallback_used = truthy (get_prop row ''fallback_used''),
      kr_cost_usd = number_field [''cost_usd'', ''spend''] row, kr_error_type = str_field [] [''error_type''] row\<rparr>"

definition latency_stats :: "jsval \<Rightarrow> jsval" where
  "latency_stats payload =
     (let summary = get_prop payload ''summary'' in
      first_defined [get_prop payload ''latency_stats'', get_prop summary ''latency_stats'',
        get_prop payload ''latency_percentiles'', get_prop summary ''latency_percentiles''])"

definition key_drilldown_of :: "string \<Rightarrow> jsval \<Rightarrow> key_drilldown option io" where
  "key_drilldown_of apiKeyId raw =
     (let payload = payload_of raw; lat = latency_stats payload in
      io_bind (map_typed model_cost_of (arr_elems (get_prop payload ''requests_by_model''))) (\<lambda>models.
      io_bind (map_typed provider_usage_of (arr_elems (get_prop payload ''requests_by_provider''))) (\<lambda>providers.
      io_bind (map_typed traffic_point_of (arr_elems (get_prop payload ''traffic_over_time''))) (\<lambda>traffic.
      io_bind (map_typed key_recent_of (arr_elems (get_prop payload ''recent_requests''))) (\<lambda>recent.
      io_return (Some \<lparr>kd_api_key_id = str_field apiKeyId [''api_key_id''] payload,
        kd_api_key_name = str_field ''-'' [''api_key_name''] payload,
        kd_tenant_id = str_field ''-'' [''tenant_id''] payload,
        kd_summary = key_summary_of (get_prop payload ''summary''),
        kd_requests_by_model = models, kd_requests_by_provider = providers, kd_traffic_over_time = traffic,
        kd_recent_requests = recent,
        kd_p50 = number_field [''p50'', ''p50_ms''] lat, kd_p95 = number_field [''p95'', ''p95_ms''] lat,
        kd_max = number_field [''max'', ''p100'', ''max_ms''] lat\<rparr>))))))"

definition page_fetchApiKeyDrilldown :: "string \<Rightarrow> window_hours \<Rightarrow> key_drilldown option io" where
  "page_fetchApiKeyDrilldown apiKeyId w =
     finops_get (key_drilldown_request apiKeyId w) (\<lambda>_. io_return None) (key_drilldown_of apiKeyId)"

section \<open>Raw usage\<close>

record raw_usage =
  rw_timestamp :: string
  rw_tenant_id :: string
  rw_request_id :: string
  rw_model :: string
  rw_provider :: string
  rw_status :: string
  rw_latency_ms :: jsnum
  rw_cost_usd :: jsnum
  rw_prompt_tokens :: jsnum
  rw_cached_tokens :: jsnum
  rw_completion_tokens :: jsnum
  rw_total_tokens :: jsnum

record key_raw = raw_usage +
  kw_api_key_name :: string
  kw_api_key_id :: string

record sub_raw = raw_usage +
  sw_jwt_sub :: string

record 'r raw_list =
  rl_data :: "'r list"
  rl_object :: string
  rl_pagination :: page_info
  rl_endpoint_available :: bool
  rl_error_message :: "string option"

record raw_filter =
  rf_from :: string
  rf_to :: string
  rf_tenant :: string
  rf_name :: string
  rf_model :: string
  rf_provider :: string
  rf_status :: string

definition raw_usage_of :: "jsval \<Rightarrow> raw_usage" where
  "raw_usage_of row =
     \<lparr>rw_timestamp = str_field [] [''timestamp''] row, rw_tenant_id = str_field [] [''tenant_id''] row,
      rw_request_id = str_field [] [''request_id''] row, rw_model = str_field [] [''model''] row,
      rw_provider = str_field [] [''provider''] row, rw_status = str_field [] [''status''] row,
      rw_latency_ms = number_field [''latency_ms''] row, rw_cost_usd = number_field [''cost_usd''] row,
      rw_prompt_tokens = number_field [''prompt_tokens''] row, rw_cached_tokens = number_field [''cached_tokens''] row,
      rw_completion_tokens = number_field [''completion_tokens''] row, rw_total_tokens = number_field [''total_tokens''] row\<rparr>"

definition key_raw_of :: "jsval \<Rightarrow> key_raw" where
  "key_raw_of row = raw_usage.extend (raw_usage_of row)
     (key_raw.fields (str_field [] [''api_key_name''] row) (str_field [] [''api_key_id''] row))"

definition sub_raw_of :: "jsval \<Rightarrow> sub_raw" where
  "sub_raw_of row = raw_usage.extend (raw_usage_of row) (sub_raw.fields (str_field [] [''jwt_sub''] row))"

text \<open>\<open>params.from ? new Date(params.from).toISOString() : ''\<close>\<close>

definition iso_param :: "(string \<Rightarrow> jsnum) \<Rightarrow> string \<Rightarrow> string \<Rightarrow> (string \<times> string) list io" where
  "iso_param date_ms k v =
     (if v = [] then io_return []
      else io_bind (io_of_sum (to_iso_string (date_ms v))) (\<lambda>iso. io_return (if iso \<noteq> [] then [(k, iso)] else [])))"

definition raw_filter_params :: "string \<Rightarrow> raw_filter \<Rightarrow> (string \<times> string) list" where
  "raw_filter_params name f = choice_param ''tenant_id'' (rf_tenant f) @ choice_param name (rf_name f)
     @ choice_param ''model'' (rf_model f) @ choice_param ''provider'' (rf_provider f) @ choice_param ''status'' (rf_status f)"

text \<open>\<open>resp.json().catch(() => ({ error: msg }))\<close>, then \<open>String(err?.error ?? msg)\<close>\<close>

definition raw_unavailable :: "string \<Rightarrow> string \<Rightarrow> paging \<Rightarrow> http_resp \<Rightarrow> 'r raw_list" where
  "raw_unavailable msg obj p resp =
     \<lparr>rl_data = [], rl_object = obj, rl_pagination = empty_pagination p,
      rl_endpoint_available = (rs_status resp \<noteq> 404 \<and> rs_status resp \<noteq> 502),
      rl_error_message = Some (string_default msg (get_prop (resp_json_or_empty resp) ''error''))\<rparr>"

definition raw_list_of :: "(jsval \<Rightarrow> 'r) \<Rightarrow> string \<Rightarrow> paging \<Rightarrow> jsval \<Rightarrow> 'r raw_list io" where
  "raw_list_of row_of obj p raw =
     (let payload = payload_of raw in
      io_bind (map_typed row_of (arr_elems (get_prop payload ''data''))) (\<lambda>data.
      io_return \<lparr>rl_data = data, rl_object = object_name obj payload,
        rl_pagination = list_pagination p (length data) JUndef (get_prop payload ''pagination''),
        rl_endpoint_available = True, rl_error_message = None\<rparr>))"

definition fetch_raw ::
  "(string \<Rightarrow> jsnum) \<Rightarrow> string \<Rightarrow> string \<Rightarrow> string \<Rightarrow> string \<Rightarrow> (jsval \<Rightarrow> 'r) \<Rightarrow> raw_filter \<Rightarrow> paging \<Rightarrow> 'r raw_list io" where
  "fetch_raw date_ms path name msg obj row_of f p =
     io_bind (iso_param date_ms ''from'' (rf_from f)) (\<lambda>from.
     io_bind (iso_param date_ms ''to'' (rf_to f)) (\<lambda>to.
     finops_get (list_request path (from @ to @ raw_filter_params name f @ paging_params p))
       (\<lambda>resp. io_return (raw_unavailable msg obj p resp)) (raw_list_of row_of obj p)))"

definition fetchApiKeyRawUsage :: "(string \<Rightarrow> jsnum) \<Rightarrow> raw_filter \<Rightarrow> paging \<Rightarrow> key_raw raw_list io" where
  "fetchApiKeyRawUsage date_ms = fetch_raw date_ms ''/api/finops/api-keys/requests'' ''api_key_name''
     ''Failed to fetch API key raw usage'' ''api_key_raw_usage'' key_raw_of"

definition fetchJwtSubRawUsage :: "(string \<Rightarrow> jsnum) \<Rightarrow> raw_filter \<Rightarrow> paging \<Rightarrow> sub_raw raw_list io" where
  "fetchJwtSubRawUsage date_ms = fetch_raw date_ms ''/api/finops/jwt-subs/requests'' ''jwt_sub''
     ''Failed to fetch JWT sub raw usage'' ''jwt_sub_raw_usage'' sub_raw_of"

end
