(* ===== verification/Monetization.thy ===== *)
theory Monetization
  imports Finops_Fetch Usage_Props
begin

text \<open>
  Monetization and the cost table by model of the FinOps page: the fetch functions of the billed usage,
  the loop that collects every API key page by page, the aggregation of their drill-downs by model, and the rows
  joined with the model catalog (app/(app)/budgets/page.tsx). The loop has no bound of its own, so it is
  given fuel: \<open>None\<close> is a loop that has not ended within the fuel.
\<close>

section \<open>Fetch functions\<close>

record key_money =
  km_api_key_id :: string
  km_api_key_name :: string
  km_tenant_id :: string
  km_requests :: jsnum
  km_spend :: jsnum
  km_avg_cost :: "jsnum option"
  km_avg_price :: "jsnum option"
  km_total_price :: "jsnum option"
  km_margin :: "jsnum option"
  km_margin_pct :: "jsnum option"
  km_avg_latency_ms :: "jsnum option"
  km_success_rate :: "jsnum option"
  km_top_model :: "string option"
  km_last_seen :: "string option"

definition key_money_of :: "jsval \<Rightarrow> key_money" where
  "key_money_of row =
     \<lparr>km_api_key_id = str_field [] [''api_key_id''] row, km_api_key_name = str_field [] [''api_key_name''] row,
      km_tenant_id = str_field [] [''tenant_id''] row, km_requests = number_field [''requests''] row,
      km_spend = number_field [''spend'', ''total_cost_usd''] row,
      km_avg_cost = opt_num_field ''avg_cost_per_request_effective'' row,
      km_avg_price = opt_num_field ''avg_price_per_request'' row, km_total_price = opt_num_field ''total_price'' row,
      km_margin = opt_num_field ''margin'' row, km_margin_pct = opt_num_field ''margin_pct'' row,
      km_avg_latency_ms = opt_num_field ''avg_latency_ms'' row, km_success_rate = opt_num_field ''success_rate'' row,
      km_top_model = opt_str_field ''top_model'' row, km_last_seen = opt_str_fields ''last_seen'' ''last_seen_at'' row\<rparr>"

text \<open>A page of rows with its pagination, or null when the endpoint failed.\<close>

definition money_page :: "(jsval \<Rightarrow> 'r) \<Rightarrow> paging \<Rightarrow> jsval \<Rightarrow> ('r list \<times> page_info) option io" where
  "money_page row_of p raw =
     (let payload = payload_of raw in
      io_bind (map_typed row_of (arr_elems (get_prop payload ''data''))) (\<lambda>data.
      io_return (Some (data, list_pagination p (length data) JUndef (get_prop payload ''pagination'')))))"

definition fetchApiKeysMonetization :: "window_hours \<Rightarrow> paging \<Rightarrow> (key_money list \<times> page_info) option io" where
  "fetchApiKeysMonetization w p =
     finops_get (list_request ''/api/finops/api-keys/usage'' (window_params w @ paging_params p))
       (\<lambda>_. io_return None) (money_page key_money_of p)"

record sub_money =
  sm_jwt_sub :: string
  sm_tenant_id :: string
  sm_requests :: jsnum
  sm_total_tokens :: jsnum
  sm_total_cost_usd :: jsnum
  sm_avg_cost :: "jsnum option"
  sm_avg_price :: "jsnum option"
  sm_total_price :: "jsnum option"
  sm_margin :: "jsnum option"
  sm_margin_pct :: "jsnum option"
  sm_first_seen :: "string option"
  sm_last_seen :: "string option"

definition sub_money_of :: "jsval \<Rightarrow> sub_money" where
  "sub_money_of row =
     \<lparr>sm_jwt_sub = str_field [] [''jwt_sub''] row, sm_tenant_id = str_field [] [''tenant_id''] row,
      sm_requests = number_field [''requests''] row, sm_total_tokens = number_field [''total_tokens''] row,
      sm_total_cost_usd = number_field [''total_cost_usd'', ''cost_usd'', ''spend''] row,
      sm_avg_cost = opt_num_field ''avg_cost_per_request_effective'' row,
      sm_avg_price = opt_num_field ''avg_price_per_request'' row, sm_total_price = opt_num_field ''total_price'' row,
      sm_margin = opt_num_field ''margin'' row, sm_margin_pct = opt_num_field ''margin_pct'' row,
      sm_first_seen = opt_str_field ''first_seen'' row, sm_last_seen = opt_str_field ''last_seen'' row\<rparr>"

definition fetchJwtMonetization :: "window_hours \<Rightarrow> paging \<Rightarrow> (sub_money list \<times> page_info) option io" where
  "fetchJwtMonetization w p =
     finops_get (list_request ''/api/finops/jwt-subs/usage'' (window_params w @ paging_params p))
       (\<lambda>_. io_return None) (money_page sub_money_of p)"

record model_money =
  mm_model :: string
  mm_requests :: jsnum
  mm_spend :: jsnum
  mm_effective_spend :: jsnum
  mm_avg_cost :: "jsnum option"
  mm_avg_price :: "jsnum option"
  mm_total_price :: "jsnum option"
  mm_margin :: "jsnum option"
  mm_margin_pct :: "jsnum option"

record money_summary =
  ms_requests :: jsnum
  ms_spend :: jsnum
  ms_avg_cost :: "jsnum option"
  ms_avg_price :: "jsnum option"
  ms_total_price :: "jsnum option"
  ms_margin :: "jsnum option"
  ms_margin_pct :: "jsnum option"
  ms_avg_latency_ms :: "jsnum option"
  ms_success_rate :: "jsnum option"
  ms_last_seen :: "string option"
  ms_top_model :: "string option"
  ms_top_provider :: "string option"

record money_request =
  mr_request_id :: string
  mr_timestamp :: string
  mr_model :: string
  mr_provider :: string
  mr_status :: string
  mr_latency_ms :: "jsnum option"
  mr_cost_usd :: jsnum

record money_detail =
  md_api_key_id :: string
  md_api_key_name :: string
  md_tenant_id :: string
  md_summary :: money_summary
  md_requests_by_model :: "model_money list"
  md_recent_requests :: "money_request list"

definition money_summary_of :: "jsval \<Rightarrow> money_summary" where
  "money_summary_of s =
     \<lparr>ms_requests = number_field [''requests''] s, ms_spend = number_field [''spend'', ''total_cost_usd''] s,
      ms_avg_cost = opt_num_field ''avg_cost_per_request_effective'' s,
      ms_avg_price = opt_num_field ''avg_price_per_request'' s, ms_total_price = opt_num_field ''total_price'' s,
      ms_margin = opt_num_field ''margin'' s, ms_margin_pct = opt_num_field ''margin_pct'' s,
      ms_avg_latency_ms = opt_num_field ''avg_latency_ms'' s, ms_success_rate = opt_num_field ''success_rate'' s,
      ms_last_seen = opt_str_fields ''last_seen'' ''last_seen_at'' s,
      ms_top_model = opt_str_field ''top_model'' s, ms_top_provider = opt_str_field ''top_provider'' s\<rparr>"

definition model_money_of :: "jsval \<Rightarrow> model_money" where
  "model_money_of row =
     (let tokenSpend = number_field [''spend'', ''cost_usd''] row; effRaw = get_prop row ''effective_spend'' in
      \<lparr>mm_model = str_field ''-'' [''model''] row, mm_requests = number_field [''requests''] row, mm_spend = tokenSpend,
       mm_effective_spend = (if \<not> nullish effRaw \<and> is_finite (to_num effRaw) then to_num effRaw else tokenSpend),
       mm_avg_cost = opt_num_field ''avg_cost_per_request_effective'' row,
       mm_avg_price = opt_num_field ''avg_price_per_request'' row, mm_total_price = opt_num_field ''total_price'' row,
       mm_margin = opt_num_field ''margin'' row, mm_margin_pct = opt_num_field ''margin_pct'' row\<rparr>)"

definition money_request_of :: "jsval \<Rightarrow> money_request" where
  "money_request_of row =
     \<lparr>mr_request_id = str_field [] [''request_id''] row, mr_timestamp = str_field [] [''timestamp''] row,
      mr_model = str_field ''-'' [''model''] row, mr_provider = str_field ''-'' [''provider''] row,
      mr_status = str_field ''-'' [''status''] row, mr_latency_ms = opt_num_field ''latency_ms'' row,
      mr_cost_usd = number_field [''cost_usd'', ''spend''] row\<rparr>"

definition money_detail_of :: "string \<Rightarrow> jsval \<Rightarrow> money_detail option io" where
  "money_detail_of apiKeyId raw =
     (let payload = payload_of raw in
      io_bind (map_typed model_money_of (arr_elems (get_prop payload ''requests_by_model''))) (\<lambda>models.
      io_bind (map_typed money_request_of (arr_elems (get_prop payload ''recent_requests''))) (\<lambda>recent.
      io_return (Some \<lparr>md_api_key_id = str_field apiKeyId [''api_key_id''] payload,
        md_api_key_name = str_field ''-'' [''api_key_name''] payload, md_tenant_id = str_field ''-'' [''tenant_id''] payload,
        md_summary = money_summary_of (get_prop payload ''summary''),
        md_requests_by_model = models, md_recent_requests = recent\<rparr>))))"

definition fetchApiKeyMonetizationDrilldown :: "string \<Rightarrow> window_hours \<Rightarrow> money_detail option io" where
  "fetchApiKeyMonetizationDrilldown apiKeyId w =
     finops_get (key_drilldown_request apiKeyId w) (\<lambda>_. io_return None) (money_detail_of apiKeyId)"

section \<open>The cost table by model\<close>

text \<open>\<open>for (;;)\<close> over the pages of 200 keys: \<open>offset\<close> advances by the page size.\<close>

fun key_pages :: "nat \<Rightarrow> window_hours \<Rightarrow> nat \<Rightarrow> key_money list \<Rightarrow> key_money list option io" where
  "key_pages 0 w offset allKeys = io_return None"
| "key_pages (Suc fuel) w offset allKeys =
     io_bind (fetchApiKeysMonetization w \<lparr>pg_limit = Some 200, pg_offset = Some offset\<rparr>) (\<lambda>page.
     case page of
       None \<Rightarrow> io_return (Some allKeys)
     | Some (data, _) \<Rightarrow>
         if data = [] then io_return (Some allKeys)
         else if length data < 200 then io_return (Some (allKeys @ data))
         else key_pages fuel w (offset + 200) (allKeys @ data))"

type_synonym model_cost = "string \<times> jsnum \<times> jsnum"

text \<open>\<open>existing?.requests || 0\<close>: a NaN counts as 0.\<close>

definition num_or_0 :: "jsnum \<Rightarrow> jsnum" where
  "num_or_0 n = (if n = NaN then Fin 0 else n)"

definition model_key :: "string \<Rightarrow> string" where
  "model_key m = to_lower (trim m)"

definition add_model_cost :: "(string \<times> model_cost) list \<Rightarrow> model_money \<Rightarrow> (string \<times> model_cost) list" where
  "add_model_cost byModel row =
     (let key = model_key (mm_model row) in
      if key = [] then byModel
      else obj_set key
        (case map_of byModel key of
           None \<Rightarrow> (mm_model row, num_add (Fin 0) (mm_requests row), num_add (Fin 0) (mm_effective_spend row))
         | Some (m, reqs, spend) \<Rightarrow> (if m \<noteq> [] then m else mm_model row,
             num_add (num_or_0 reqs) (mm_requests row), num_add (num_or_0 spend) (mm_effective_spend row))) byModel)"

text \<open>\<open>if (!drilldown) continue\<close>: a drill-down that failed or was rejected is skipped.\<close>

definition costs_by_model :: "money_detail option list \<Rightarrow> (string \<times> model_cost) list" where
  "costs_by_model drilldowns =
     foldl add_model_cost [] (concat (map md_requests_by_model (List.map_filter (\<lambda>d. d) drilldowns)))"

definition dashboard_model_aggregation :: "nat \<Rightarrow> window_hours \<Rightarrow> model_cost list option io" where
  "dashboard_model_aggregation fuel w =
     io_bind (key_pages fuel w 0 []) (\<lambda>pages.
     case pages of
       None \<Rightarrow> io_return None
     | Some allKeys \<Rightarrow>
         if allKeys = [] then io_return (Some [])
         else io_bind (io_all (map (\<lambda>row. io_catch (fetchApiKeyMonetizationDrilldown (km_api_key_id row) w)
             (\<lambda>_. io_return None)) allKeys)) (\<lambda>drilldowns.
           io_return (Some (map snd (costs_by_model drilldowns)))))"

text \<open>A model of the catalog: its id, provider and type; the last entry with an id counts.\<close>

record catalog_model =
  cm_id :: string
  cm_provider :: string
  cm_type :: "string option"

record model_cost_row =
  mc_model :: string
  mc_provider :: "string option"
  mc_model_type :: "string option"
  mc_requests :: jsnum
  mc_effective_spend :: jsnum
  mc_avg_cost_per_request :: jsnum

definition catalog_meta :: "catalog_model list \<Rightarrow> string \<Rightarrow> catalog_model option" where
  "catalog_meta models key = find (\<lambda>m. model_key (cm_id m) = key) (rev models)"

definition dashboardModelRows :: "catalog_model list \<Rightarrow> model_cost list \<Rightarrow> model_cost_row list" where
  "dashboardModelRows allModels rows =
     map (\<lambda>(model, reqs, spend). let meta = catalog_meta allModels (model_key model) in
       \<lparr>mc_model = model, mc_provider = map_option cm_provider meta,
        mc_model_type = map_option (\<lambda>m. or_string (cm_type m) ''llm'') meta,
        mc_requests = reqs, mc_effective_spend = spend,
        mc_avg_cost_per_request = (if num_pos reqs then num_div spend reqs else Fin 0)\<rparr>) rows"

end
