(* ===== verification/Format.thy ===== *)
theory Format
  imports JS_Num
begin

text \<open>
  Numbers as the pages print them: lib/utils/format.ts and the formatting functions of the FinOps and budget
  pages. \<open>Intl.NumberFormat\<close> for the locale en-US and US dollars is the part of the standard library they use:
  rounding half away from zero, at least \<open>mn\<close> and at most \<open>mx\<close> fraction digits, groups of three digits.
\<close>

section \<open>Decimal notation\<close>

fun group3 :: "string \<Rightarrow> string" where
  "group3 (a # b # c # d # s) = a # b # c # CHR '','' # group3 (d # s)"
| "group3 s = s"

definition group_thousands :: "string \<Rightarrow> string" where
  "group_thousands s = rev (group3 (rev s))"

text \<open>Trailing zeros are dropped, down to \<open>mn\<close> digits.\<close>

definition shorten :: "nat \<Rightarrow> string \<Rightarrow> string" where
  "shorten mn fs = take (max mn (length (strip_zeros fs))) fs"

definition intl_decimal :: "nat \<Rightarrow> nat \<Rightarrow> rat \<Rightarrow> string" where
  "intl_decimal mn mx q =
     (let m = show_nat (nat \<lfloor>q * 10 ^ mx + 1 / 2\<rfloor>);
          ds = replicate (mx + 1 - length m) (CHR ''0'') @ m;
          fs = shorten mn (drop (length ds - mx) ds)
      in group_thousands (take (length ds - mx) ds) @ (if fs = [] then [] else ''.'' @ fs))"

definition intl_number :: "rat \<Rightarrow> string" where
  "intl_number q = (if q < 0 then ''-'' else []) @ intl_decimal 0 3 \<bar>q\<bar>"

definition intl_usd :: "nat \<Rightarrow> nat \<Rightarrow> rat \<Rightarrow> string" where
  "intl_usd mn mx q = (if q < 0 then ''-'' else []) @ ''$'' @ intl_decimal mn mx \<bar>q\<bar>"

section \<open>lib/utils/format.ts\<close>

definition formatNumber :: "rat \<Rightarrow> string" where
  "formatNumber num = intl_number num"

fun formatCurrency :: "jsnum \<Rightarrow> string" where
  "formatCurrency (Fin amount) =
     (if amount = 0 then intl_usd 2 2 0
      else if 1 / 100 \<le> \<bar>amount\<bar> then intl_usd 2 2 amount
      else intl_usd 4 6 amount)"
| "formatCurrency _ = intl_usd 2 2 0"

definition formatPercentage :: "jsnum \<Rightarrow> nat \<Rightarrow> string" where
  "formatPercentage value decimals = to_fixed decimals value @ ''%''"

section \<open>FinOps and budgets\<close>

fun formatSmallPercent :: "jsnum option \<Rightarrow> string" where
  "formatSmallPercent (Some (Fin v)) =
     (if v \<le> 0 then ''0.0%'' else if v < 1 / 100 then to_fixed 3 (Fin v) @ ''%'' else to_fixed 1 (Fin v) @ ''%'')"
| "formatSmallPercent _ = ''-''"

text \<open>\<open>.replace(/0+$/, '').replace(/\.$/, '')\<close>\<close>

definition strip_fraction :: "string \<Rightarrow> string" where
  "strip_fraction s = (let t = strip_zeros s in if t \<noteq> [] \<and> last t = CHR ''.'' then butlast t else t)"

definition formatSmallCurrency :: "jsnum \<Rightarrow> string" where
  "formatSmallCurrency value =
     (if num_less value (Fin (1 / 100)) then ''$'' @ strip_fraction (to_fixed 6 value) else ''$'' @ to_fixed 2 value)"

fun getSuccessRateClass :: "jsnum option \<Rightarrow> string" where
  "getSuccessRateClass (Some (Fin r)) =
     (if 98 \<le> r * 100 then ''text-green-700'' else if 90 \<le> r * 100 then ''text-orange-700'' else ''text-red-700'')"
| "getSuccessRateClass _ = []"

fun formatCurrencyFloorCents :: "jsnum option \<Rightarrow> string" where
  "formatCurrencyFloorCents (Some (Fin v)) =
     formatCurrency (Fin ((if v < 0 then -1 else 1) * (of_int \<lfloor>\<bar>v\<bar> * 100\<rfloor> / 100)))"
| "formatCurrencyFloorCents _ = ''-''"

definition cost_decimals :: "rat \<Rightarrow> nat" where
  "cost_decimals v = (if v < 1 / 1000 then 6 else if v < 1 / 100 then 4 else 2)"

fun formatAvgCostUsd :: "jsnum option \<Rightarrow> string" where
  "formatAvgCostUsd (Some (Fin v)) =
     (if v \<le> 0 then ''$0.000000'' else ''$'' @ to_fixed (cost_decimals v) (Fin v))"
| "formatAvgCostUsd _ = ''$0.000000''"

text \<open>\<open>Number(null)\<close> is 0 and \<open>Number(undefined)\<close> is NaN, so the argument is a value.\<close>

definition formatLatencyMs :: "jsval \<Rightarrow> string" where
  "formatLatencyMs ms =
     (case to_num ms of
        Fin v \<Rightarrow> if v < 0 then ''-''
          else if v < 1000 then num_to_string (num_round (Fin v)) @ '' ms''
          else to_fixed 1 (Fin (v / 1000)) @ '' s''
      | _ \<Rightarrow> ''-'')"

text \<open>Of the budget table.\<close>

fun formatProgressPct :: "jsnum \<Rightarrow> string" where
  "formatProgressPct (Fin v) =
     (if v \<le> 0 then ''0.0%'' else if v < 1 / 100 then to_fixed 3 (Fin v) @ ''%'' else to_fixed 1 (Fin v) @ ''%'')"
| "formatProgressPct _ = ''0.0%''"

section \<open>Reading a printed amount\<close>

text \<open>The value a reader gets from the digits: group separators are skipped and the digits after the point are the
  fraction.\<close>

definition read_digits :: "string \<Rightarrow> rat" where
  "read_digits s =
     (let t = filter (\<lambda>c. c \<noteq> CHR '','') s;
          ip = takeWhile (\<lambda>c. c \<noteq> CHR ''.'') t; fp = tl (dropWhile (\<lambda>c. c \<noteq> CHR ''.'') t)
      in of_nat (num_of_digits ip) + of_nat (num_of_digits fp) / 10 ^ length fp)"

definition read_usd :: "string \<Rightarrow> rat" where
  "read_usd s = (if starts_with s ''-'' then - read_digits (drop 2 s) else read_digits (drop 1 s))"

section \<open>A printed amount is the amount, rounded\<close>

lemma num_of_digits_Nil [simp]: "num_of_digits [] = 0"
  by (simp add: num_of_digits_def)

lemma num_of_digits_append:
  "num_of_digits (a @ b) = num_of_digits a * 10 ^ length b + num_of_digits b"
  by (induction b rule: rev_induct) (simp_all add: algebra_simps flip: append_assoc)

lemma num_of_digits_zeros [simp]: "num_of_digits (replicate n (CHR ''0'')) = 0"
proof (induction n)
  case (Suc n)
  have "num_of_digits [CHR ''0''] = 0" by code_simp
  then show ?case using Suc num_of_digits_append [of "[CHR ''0'']" "replicate n (CHR ''0'')"] by simp
qed simp

lemma filter_group3: "CHR '','' \<notin> set s \<Longrightarrow> filter (\<lambda>c. c \<noteq> CHR '','') (group3 s) = s"
  by (induction s rule: group3.induct) auto

lemma filter_group_thousands: "CHR '','' \<notin> set s \<Longrightarrow> filter (\<lambda>c. c \<noteq> CHR '','') (group_thousands s) = s"
  using filter_group3 [of "rev s"] by (simp add: group_thousands_def rev_filter [symmetric])

lemma strip_zeros_split: "\<exists>n. s = strip_zeros s @ replicate n (CHR ''0'')"
proof -
  let ?z = "takeWhile (\<lambda>c. c = CHR ''0'') (rev s)"
  have "s = rev (?z @ dropWhile (\<lambda>c. c = CHR ''0'') (rev s))" by simp
  moreover have "?z = replicate (length ?z) (CHR ''0'')"
    by (rule replicate_length_same [symmetric]) (auto dest: set_takeWhileD)
  ultimately show ?thesis unfolding strip_zeros_def by (metis rev_append rev_replicate)
qed

lemma shorten_value:
  assumes "mn \<le> length fs"
  shows "(of_nat (num_of_digits (shorten mn fs)) :: rat) / 10 ^ length (shorten mn fs) = of_nat (num_of_digits fs) / 10 ^ length fs"
proof -
  obtain n where n: "fs = strip_zeros fs @ replicate n (CHR ''0'')" using strip_zeros_split by blast
  let ?k = "max mn (length (strip_zeros fs))"
  have len: "length fs = length (strip_zeros fs) + n" by (metis n length_append length_replicate)
  then have "fs = take ?k fs @ replicate (length fs - ?k) (CHR ''0'')"
    by (subst n, subst (2) n) (auto simp: min_def max_def replicate_add [symmetric])
  then obtain m where m: "fs = shorten mn fs @ replicate m (CHR ''0'')" unfolding shorten_def by blast
  have "of_nat (num_of_digits fs) / 10 ^ length fs =
      (of_nat (num_of_digits (shorten mn fs) * 10 ^ m) :: rat) / 10 ^ (length (shorten mn fs) + m)"
    by (subst m, subst (2) m) (simp add: num_of_digits_append)
  then show ?thesis by (simp add: power_add)
qed

lemma digits_parts:
  assumes "list_all P xs"
  shows "list_all P (take n xs)" "list_all P (drop n xs)"
  using assms set_take_subset [of n xs] set_drop_subset [of n xs] by (auto simp only: list_all_iff)

lemma digit_not_sep: "is_digit c \<Longrightarrow> c \<noteq> CHR '',''" "is_digit c \<Longrightarrow> c \<noteq> CHR ''.''"
  by (auto simp: is_digit_def code_def)

lemma read_fixed_point:
  assumes "list_all is_digit ip" and "list_all is_digit fp" and "mn \<le> length fp"
  shows "read_digits (group_thousands ip @ (if shorten mn fp = [] then [] else ''.'' @ shorten mn fp)) =
    of_nat (num_of_digits (ip @ fp)) / 10 ^ length fp"
proof -
  define fs where "fs = shorten mn fp"
  have d: "list_all is_digit fs" unfolding fs_def shorten_def by (rule digits_parts(1) [OF assms(2)])
  have no: "CHR '','' \<notin> set ip" "CHR '','' \<notin> set fs" "CHR ''.'' \<notin> set ip"
    using assms(1) d digit_not_sep by (auto simp: list_all_iff)
  have f: "filter (\<lambda>c. c \<noteq> CHR '','') (group_thousands ip @ (if fs = [] then [] else ''.'' @ fs)) =
      ip @ (if fs = [] then [] else ''.'' @ fs)"
    using filter_group_thousands [OF no(1)] no(2) by (auto simp: filter_id_conv)
  have parts: "takeWhile (\<lambda>c. c \<noteq> CHR ''.'') (ip @ (if fs = [] then [] else ''.'' @ fs)) = ip"
    "tl (dropWhile (\<lambda>c. c \<noteq> CHR ''.'') (ip @ (if fs = [] then [] else ''.'' @ fs))) = fs"
    using no(3) by (auto simp: takeWhile_append dropWhile_append)
  have "read_digits (group_thousands ip @ (if fs = [] then [] else ''.'' @ fs)) =
      of_nat (num_of_digits ip) + of_nat (num_of_digits fs) / 10 ^ length fs"
    unfolding read_digits_def f Let_def parts ..
  also have "(of_nat (num_of_digits fs) :: rat) / 10 ^ length fs = of_nat (num_of_digits fp) / 10 ^ length fp"
    unfolding fs_def by (rule shorten_value [OF assms(3)])
  finally show ?thesis unfolding fs_def by (simp add: num_of_digits_append add_divide_distrib)
qed

lemma read_intl_decimal:
  assumes "mn \<le> mx"
  shows "read_digits (intl_decimal mn mx q) = of_nat (nat \<lfloor>q * 10 ^ mx + 1 / 2\<rfloor>) / 10 ^ mx"
proof -
  define m where "m = show_nat (nat \<lfloor>q * 10 ^ mx + 1 / 2\<rfloor>)"
  define ds where "ds = replicate (mx + 1 - length m) (CHR ''0'') @ m"
  have "list_all is_digit ds"
    using show_nat_digits by (auto simp: ds_def m_def list_all_iff is_digit_def code_def)
  moreover have len: "length (drop (length ds - mx) ds) = mx" by (simp add: ds_def)
  moreover have "intl_decimal mn mx q = group_thousands (take (length ds - mx) ds) @
      (if shorten mn (drop (length ds - mx) ds) = [] then [] else ''.'' @ shorten mn (drop (length ds - mx) ds))"
    unfolding intl_decimal_def Let_def ds_def m_def ..
  ultimately have "read_digits (intl_decimal mn mx q) = of_nat (num_of_digits ds) / 10 ^ mx"
    using read_fixed_point [OF digits_parts(1) digits_parts(2), of ds ds mn "length ds - mx" "length ds - mx"] assms
    by (simp only: append_take_drop_id)
  then show ?thesis by (simp add: ds_def m_def num_of_digits_append num_of_digits_zeros num_of_digits_show_nat)
qed

lemma rounded_close:
  assumes "0 \<le> (q::rat)"
  shows "\<bar>of_nat (nat \<lfloor>q * 10 ^ mx + 1 / 2\<rfloor>) / 10 ^ mx - q\<bar> \<le> 1 / 2 / 10 ^ mx"
proof -
  let ?n = "\<lfloor>q * 10 ^ mx + 1 / 2\<rfloor>"
  have n: "(of_nat (nat ?n) :: rat) = of_int ?n" using assms by simp
  have "\<bar>of_int ?n - q * 10 ^ mx\<bar> \<le> 1 / 2" by linarith
  then have "\<bar>(of_int ?n - q * 10 ^ mx) / 10 ^ mx\<bar> \<le> 1 / 2 / 10 ^ mx"
    using divide_right_mono [of "\<bar>of_int ?n - q * 10 ^ mx\<bar>" "1 / 2" "10 ^ mx"] by (simp only: abs_divide) simp
  then show ?thesis by (simp add: n diff_divide_distrib)
qed

lemma read_intl_usd:
  assumes "mn \<le> mx"
  shows "\<bar>read_usd (intl_usd mn mx q) - q\<bar> \<le> 1 / 2 / 10 ^ mx"
proof (cases "q < 0")
  case True
  then show ?thesis
    using rounded_close [of "- q" mx] read_intl_decimal [OF assms, of "- q"]
    by (simp add: intl_usd_def read_usd_def abs_minus_commute)
next
  case False
  then show ?thesis
    using rounded_close [of q mx] read_intl_decimal [OF assms, of q]
    by (simp add: intl_usd_def read_usd_def)
qed

text \<open>C40. Every amount of money on the pages reads back as the amount to within half a cent, and an amount
  below one cent to within half a millionth of a dollar.\<close>

theorem formatCurrency_precise:
  "\<bar>read_usd (formatCurrency (Fin a)) - a\<bar> \<le> (if 1 / 100 \<le> \<bar>a\<bar> then 1 / 200 else 1 / 2000000)"
proof -
  have cents: "\<bar>read_usd (intl_usd 2 2 q) - q\<bar> \<le> 1 / 200" for q using read_intl_usd [of 2 2 q] by simp
  have micros: "\<bar>read_usd (intl_usd 4 6 q) - q\<bar> \<le> 1 / 2000000" for q using read_intl_usd [of 4 6 q] by simp
  have zero: "read_usd (intl_usd 2 2 0) = 0"
    unfolding intl_usd_def read_usd_def using read_intl_decimal [of 2 2 0] by simp
  consider "a = 0" | "a \<noteq> 0" "1 / 100 \<le> \<bar>a\<bar>" | "a \<noteq> 0" "\<not> 1 / 100 \<le> \<bar>a\<bar>" by blast
  then show ?thesis
  proof cases
    case 1
    then have "read_usd (formatCurrency (Fin a)) = 0" using zero by (simp only: formatCurrency.simps if_True simp_thms)
    then show ?thesis using 1 by simp
  qed (simp_all only: formatCurrency.simps if_True if_False cents micros)
qed

end
