(* ===== verification/Finops_Page.thy ===== *)
theory Finops_Page
  imports Monetization Format CSV_Export Budget_Routes
begin

text \<open>
  What the FinOps page (app/(app)/budgets/page.tsx) computes from the data it has fetched: the rows a user may
  see, the totals of the budget view, the dashboard figures, the tenant analytics table, its CSV downloads, and
  the budget table (features/budgets/components/budgets-table.tsx).

  Data from the routes has the declared TypeScript type here. \<open>sort\<close> with a numeric comparator is a stable
  sort, in which a comparison that yields NaN counts as equal.
\<close>

section \<open>Data\<close>

record tenant_budget =
  tb_tenant_id :: string
  tb_monthly_usd :: "jsnum option"
  tb_timezone :: "string option"
  tb_enforcement_mode :: "string option"
  tb_warn_pct :: "jsnum option"
  tb_hard_pct :: "jsnum option"
  tb_current_spend_usd :: jsnum
  tb_reserved_usd :: "jsnum option"
  tb_effective_spend_usd :: "jsnum option"
  tb_remaining_usd :: jsnum
  tb_status :: budget_status
  tb_version :: jsnum
  tb_enforcement_paused :: bool
  tb_override_limit_usd :: "jsnum option"

record model_use =
  mo_model :: string
  mo_cost_usd :: jsnum
  mo_requests :: jsnum

record tenant_usage =
  tu_tenant_id :: string
  tu_total_cost_usd :: jsnum
  tu_total_requests :: jsnum
  tu_models :: "model_use list"

text \<open>\<open>v ?? d\<close> on optional values, and \<open>xs.sort((a, b) => f(b) - f(a))\<close>.\<close>

definition or_num :: "jsnum option \<Rightarrow> jsnum \<Rightarrow> jsnum" where
  "or_num v d = (case v of None \<Rightarrow> d | Some x \<Rightarrow> x)"

definition sort_desc :: "('a \<Rightarrow> jsnum) \<Rightarrow> 'a list \<Rightarrow> 'a list" where
  "sort_desc f xs = sort_by (\<lambda>a b. \<not> num_less (f a) (f b)) xs"

text \<open>\<open>new Map(xs.map(x => [f(x), x])).get(k)\<close>: the last \<open>x\<close> with that key; its keys keep the order of
  their first occurrence, as do the elements of a \<open>Set\<close>.\<close>

definition last_with :: "('a \<Rightarrow> string) \<Rightarrow> 'a list \<Rightarrow> string \<Rightarrow> 'a option" where
  "last_with f xs k = find (\<lambda>x. f x = k) (rev xs)"

definition uniq :: "'a list \<Rightarrow> 'a list" where
  "uniq xs = rev (remdups (rev xs))"

section \<open>What the user may see\<close>

definition tenantIdsForRequestStats :: "tenant_usage list \<Rightarrow> tenant_budget list \<Rightarrow> string list" where
  "tenantIdsForRequestStats usageSummaries budgets =
     sort_by (\<lambda>a b. \<not> str_less b a) (uniq (map tu_tenant_id usageSummaries @ map tb_tenant_id budgets))"

definition budgetsVisible :: "string list \<Rightarrow> tenant_budget list \<Rightarrow> tenant_budget list" where
  "budgetsVisible forbidden budgets = filter (\<lambda>b. tb_tenant_id b \<notin> set forbidden) budgets"

definition usageSummariesVisible :: "string list \<Rightarrow> tenant_usage list \<Rightarrow> tenant_usage list" where
  "usageSummariesVisible forbidden usageSummaries = filter (\<lambda>u. tu_tenant_id u \<notin> set forbidden) usageSummaries"

definition dashboardOverviewRows :: "string list \<Rightarrow> overview_row list \<Rightarrow> overview_row list" where
  "dashboardOverviewRows forbidden rows = filter (\<lambda>r. ov_tenant_id r \<notin> set forbidden) rows"

definition configuredBudgets :: "tenant_budget list \<Rightarrow> tenant_budget list" where
  "configuredBudgets visible = filter (\<lambda>b. tb_status b \<noteq> NotConfigured) visible"

section \<open>Totals of the budget view\<close>

text \<open>An override replaces the monthly limit.\<close>

definition effectiveLimit :: "tenant_budget \<Rightarrow> jsnum" where
  "effectiveLimit b = or_num (tb_override_limit_usd b) (or_num (tb_monthly_usd b) (Fin 0))"

definition effectiveSpend :: "tenant_budget \<Rightarrow> jsnum" where
  "effectiveSpend b = or_num (tb_effective_spend_usd b) (tb_current_spend_usd b)"

fun elapsedFraction :: "window_hours \<Rightarrow> rat" where
  "elapsedFraction H24 = 1 / 10"
| "elapsedFraction H168 = 3 / 10"
| "elapsedFraction H720 = 1 / 2"

definition calculateProjectedSpend :: "window_hours \<Rightarrow> jsnum \<Rightarrow> jsnum" where
  "calculateProjectedSpend w currentSpend =
     (if 0 < elapsedFraction w then num_div currentSpend (Fin (elapsedFraction w)) else currentSpend)"

record budget_totals =
  bt_totalBudgets :: nat
  bt_totalSpend :: jsnum
  bt_totalReserved :: jsnum
  bt_totalRemaining :: jsnum
  bt_budgetsExceeded :: nat
  bt_budgetsInWarning :: nat
  bt_activeOverrides :: nat
  bt_projectedOverruns :: nat

definition count_status :: "budget_status \<Rightarrow> tenant_budget list \<Rightarrow> nat" where
  "count_status s bs = length (filter (\<lambda>b. tb_status b = s) bs)"

definition overridden :: "tenant_budget \<Rightarrow> bool" where
  "overridden b \<longleftrightarrow> tb_enforcement_paused b \<or> tb_override_limit_usd b \<noteq> None"

definition projectedOverrun :: "window_hours \<Rightarrow> tenant_budget \<Rightarrow> bool" where
  "projectedOverrun w b \<longleftrightarrow> num_le (effectiveLimit b) (calculateProjectedSpend w (tb_current_spend_usd b))"

definition budgetTotals :: "window_hours \<Rightarrow> tenant_budget list \<Rightarrow> budget_totals" where
  "budgetTotals w visible =
     (let cs = configuredBudgets visible in
      \<lparr>bt_totalBudgets = length cs, bt_totalSpend = sum_nums tb_current_spend_usd cs,
       bt_totalReserved = sum_nums (\<lambda>b. or_num (tb_reserved_usd b) (Fin 0)) cs,
       bt_totalRemaining = sum_nums (\<lambda>b. num_sub (effectiveLimit b) (effectiveSpend b)) cs,
       bt_budgetsExceeded = count_status Exceeded cs, bt_budgetsInWarning = count_status Warning cs,
       bt_activeOverrides = length (filter overridden visible),
       bt_projectedOverruns = length (filter (projectedOverrun w) cs)\<rparr>)"

text \<open>The width in percent of a bar of the consumption charts.\<close>

definition bar_max :: "jsnum option \<Rightarrow> jsnum list \<Rightarrow> jsnum" where
  "bar_max maxValue values =
     (case maxValue of
        Some m \<Rightarrow> if truthy (JNum m) then m else foldl num_max (Fin 0) values
      | None \<Rightarrow> foldl num_max (Fin 0) values)"

definition bar_width :: "jsnum \<Rightarrow> jsnum \<Rightarrow> jsnum" where
  "bar_width mx value = (if num_pos mx then num_max (num_mul (num_div value mx) (Fin 100)) (Fin 2) else Fin 0)"

section \<open>Dashboard\<close>

record risk_row =
  rk_tenant_id :: string
  rk_current_spend_usd :: jsnum
  rk_budget_usd :: jsnum
  rk_utilization_pct :: jsnum
  rk_status :: string
  rk_enforcement_mode :: "string option"
  rk_warn_pct :: "jsnum option"
  rk_hard_pct :: "jsnum option"

record finops_kpis =
  kp_totalSpendMonth :: jsnum
  kp_totalBudgetUsd :: jsnum
  kp_utilizationPct :: jsnum
  kp_tenantsAtRisk :: nat
  kp_tenantsOver :: nat
  kp_spendByTenantRows :: "(string \<times> jsnum) list"
  kp_riskRows :: "risk_row list"

definition percent_of :: "jsnum \<Rightarrow> jsnum \<Rightarrow> jsnum" where
  "percent_of spend budget = (if num_pos budget then num_mul (num_div spend budget) (Fin 100) else Fin 0)"

definition budget_risk :: "tenant_budget \<Rightarrow> risk_row" where
  "budget_risk b =
     (let budgetUsd = num_add (tb_current_spend_usd b) (tb_remaining_usd b) in
      \<lparr>rk_tenant_id = tb_tenant_id b, rk_current_spend_usd = tb_current_spend_usd b, rk_budget_usd = budgetUsd,
       rk_utilization_pct = percent_of (tb_current_spend_usd b) budgetUsd, rk_status = budget_status_name (tb_status b),
       rk_enforcement_mode = tb_enforcement_mode b, rk_warn_pct = tb_warn_pct b, rk_hard_pct = tb_hard_pct b\<rparr>)"

definition overview_risk :: "overview_row \<Rightarrow> risk_row" where
  "overview_risk r =
     (let budgetUsd = (if num_pos (ov_budget_limit r) then ov_budget_limit r
            else case ov_remaining_usd r of None \<Rightarrow> ov_current_spend r | Some x \<Rightarrow> num_add (ov_current_spend r) x)
      in \<lparr>rk_tenant_id = ov_tenant_id r, rk_current_spend_usd = ov_current_spend r, rk_budget_usd = budgetUsd,
       rk_utilization_pct = (case ov_utilization_pct r of
            Some u \<Rightarrow> if is_finite u then u else percent_of (ov_current_spend r) budgetUsd
          | None \<Rightarrow> percent_of (ov_current_spend r) budgetUsd),
       rk_status = ov_status r, rk_enforcement_mode = ov_enforcement_mode r, rk_warn_pct = ov_warn_pct r,
       rk_hard_pct = ov_hard_pct r\<rparr>)"

definition kpis_of_budgets :: "tenant_budget list \<Rightarrow> finops_kpis" where
  "kpis_of_budgets visible =
     (let cs = configuredBudgets visible;
          spend = sum_nums tb_current_spend_usd visible; budget = sum_nums effectiveLimit cs
      in \<lparr>kp_totalSpendMonth = spend, kp_totalBudgetUsd = budget, kp_utilizationPct = percent_of spend budget,
          kp_tenantsAtRisk = count_status Warning cs, kp_tenantsOver = count_status Exceeded cs,
          kp_spendByTenantRows = map (\<lambda>b. (tb_tenant_id b, tb_current_spend_usd b)) visible,
          kp_riskRows = map budget_risk cs\<rparr>)"

definition kpis_of_overview :: "overview_row list \<Rightarrow> finops_kpis" where
  "kpis_of_overview rows =
     (let spend = sum_nums ov_current_spend rows; budget = sum_nums (\<lambda>r. num_max (Fin 0) (ov_budget_limit r)) rows
      in \<lparr>kp_totalSpendMonth = spend, kp_totalBudgetUsd = budget, kp_utilizationPct = percent_of spend budget,
          kp_tenantsAtRisk = length (filter (\<lambda>r. to_lower (ov_status r) = ''warning'') rows),
          kp_tenantsOver = length (filter (\<lambda>r. to_lower (ov_status r) = ''exceeded'') rows),
          kp_spendByTenantRows = map (\<lambda>r. (ov_tenant_id r, ov_current_spend r)) rows,
          kp_riskRows = map overview_risk rows\<rparr>)"

definition finopsDashboardKpis :: "bool \<Rightarrow> overview_row list \<Rightarrow> tenant_budget list \<Rightarrow> finops_kpis" where
  "finopsDashboardKpis isSuccess rows visible =
     (if isSuccess \<and> rows \<noteq> [] then kpis_of_overview rows else kpis_of_budgets visible)"

section \<open>Tenant analytics\<close>

text \<open>The first provider seen for a model, by the name without case and blanks.\<close>

definition modelProviderMap :: "(jsval \<times> jsval) list \<Rightarrow> (string \<times> string) list" where
  "modelProviderMap perf =
     foldl (\<lambda>mp (model, provider).
       let m = model_key (string_default [] model); p = trim (string_default [] provider) in
       if m \<noteq> [] \<and> p \<noteq> [] \<and> map_of mp m = None then mp @ [(m, p)] else mp) [] perf"

definition name_rules :: "(string list \<times> string) list" where
  "name_rules = [([''gpt'', ''openai'', ''o1'', ''o3''], ''openai''), ([''gemini''], ''gemini''),
     ([''claude'', ''anthropic''], ''anthropic''), ([''grok'', ''xai''], ''xai''), ([''llama'', ''meta''], ''meta''),
     ([''mistral''], ''mistral'')]"

definition resolveProviderFromModel :: "string \<Rightarrow> (string \<times> string) list \<Rightarrow> string" where
  "resolveProviderFromModel modelName mp =
     (let normalized = model_key modelName in
      if normalized = [] then ''other''
      else case map_of mp normalized of
        Some (c # s) \<Rightarrow> c # s
      | _ \<Rightarrow> (case find (\<lambda>(parts, _). list_ex (str_includes normalized) parts) name_rules of
            Some (_, p) \<Rightarrow> p | None \<Rightarrow> ''other''))"

record analytics_row =
  an_tenant_id :: string
  an_requests :: jsnum
  an_spend_usd :: jsnum
  an_success_rate :: "jsnum option"
  an_avg_latency_ms :: "jsnum option"
  an_top_model :: "string option"
  an_budget_usd :: "jsnum option"
  an_remaining_budget_usd :: "jsnum option"
  an_utilization_pct :: "jsnum option"
  an_status :: string
  an_models :: "model_use list"

definition analytics_budget :: "tenant_budget option \<Rightarrow> jsnum option" where
  "analytics_budget budget =
     (case budget of None \<Rightarrow> None
      | Some b \<Rightarrow> (case tb_override_limit_usd b of Some x \<Rightarrow> Some x | None \<Rightarrow> tb_monthly_usd b))"

definition analytics_row_of ::
  "tenant_usage option \<Rightarrow> tenant_budget option \<Rightarrow> stats_row option \<Rightarrow> string \<Rightarrow> analytics_row" where
  "analytics_row_of usage budget stats tenantId =
     (let models = sort_desc mo_requests (case usage of None \<Rightarrow> [] | Some u \<Rightarrow> tu_models u);
          budgetUsd = analytics_budget budget;
          spendUsd = (case usage of Some u \<Rightarrow> tu_total_cost_usd u
            | None \<Rightarrow> (case budget of Some b \<Rightarrow> tb_current_spend_usd b | None \<Rightarrow> Fin 0))
      in \<lparr>an_tenant_id = tenantId,
          an_requests = (case usage of Some u \<Rightarrow> tu_total_requests u | None \<Rightarrow> Fin 0),
          an_spend_usd = spendUsd,
          an_success_rate = (case stats of Some s \<Rightarrow> sr_success_rate s | None \<Rightarrow> None),
          an_avg_latency_ms = (case stats of Some s \<Rightarrow> sr_avg_latency_ms s | None \<Rightarrow> None),
          an_top_model = (case models of [] \<Rightarrow> None | m # _ \<Rightarrow> Some (mo_model m)),
          an_budget_usd = budgetUsd,
          an_remaining_budget_usd = map_option (\<lambda>b. num_sub b spendUsd) budgetUsd,
          an_utilization_pct = (case budgetUsd of
              Some b \<Rightarrow> if num_pos b then Some (num_mul (num_div spendUsd b) (Fin 100)) else None | None \<Rightarrow> None),
          an_status = (case budget of Some b \<Rightarrow> budget_status_name (tb_status b) | None \<Rightarrow> ''healthy''),
          an_models = models\<rparr>)"

record analytics_filter =
  fl_tenant :: string
  fl_status :: string
  fl_alerts :: string
  fl_model :: string
  fl_provider :: string

definition analytics_keeps :: "(string \<times> string) list \<Rightarrow> analytics_filter \<Rightarrow> analytics_row \<Rightarrow> bool" where
  "analytics_keeps mp f row \<longleftrightarrow>
     (fl_tenant f = ''all'' \<or> an_tenant_id row = fl_tenant f)
     \<and> (fl_status f = ''all'' \<or> an_status row = fl_status f)
     \<and> \<not> (fl_alerts f = ''with_alerts'' \<and> an_status row = ''healthy'')
     \<and> \<not> (fl_alerts f = ''no_alerts'' \<and> an_status row \<noteq> ''healthy'')
     \<and> (fl_model f = ''all'' \<or> list_ex (\<lambda>m. mo_model m = fl_model f) (an_models row))
     \<and> (fl_provider f = ''all'' \<or> list_ex (\<lambda>m. resolveProviderFromModel (mo_model m) mp = fl_provider f) (an_models row))"

definition analytics_tenants :: "tenant_usage list \<Rightarrow> tenant_budget list \<Rightarrow> string list" where
  "analytics_tenants usage budgets = uniq (uniq (map tu_tenant_id usage) @ uniq (map tb_tenant_id budgets))"

definition analytics_all :: "tenant_usage list \<Rightarrow> tenant_budget list \<Rightarrow> stats_row list \<Rightarrow> analytics_row list" where
  "analytics_all usage budgets stats =
     map (\<lambda>t. analytics_row_of (last_with tu_tenant_id usage t) (last_with tb_tenant_id budgets t)
         (last_with sr_tenant_id stats t) t) (analytics_tenants usage budgets)"

definition analyticsRows ::
  "(string \<times> string) list \<Rightarrow> analytics_filter \<Rightarrow> tenant_usage list \<Rightarrow> tenant_budget list \<Rightarrow> stats_row list \<Rightarrow> analytics_row list" where
  "analyticsRows mp f usage budgets stats =
     sort_desc an_spend_usd (filter (analytics_keeps mp f) (analytics_all usage budgets stats))"

section \<open>Rows and options of the usage views\<close>

text \<open>The name filter of a usage table, the names it offers, and the raw usage with the latest request first.\<close>

definition rows_named :: "('r \<Rightarrow> string) \<Rightarrow> string \<Rightarrow> 'r list \<Rightarrow> 'r list" where
  "rows_named name f rows = (if f = [] then rows else filter (\<lambda>r. name r = f) rows)"

definition name_options :: "('r \<Rightarrow> string) \<Rightarrow> 'r list \<Rightarrow> string list" where
  "name_options name rows =
     sort_by (\<lambda>a b. \<not> str_less b a) (uniq (filter (\<lambda>n. n \<noteq> []) (map (\<lambda>r. trim (name r)) rows)))"

definition apiKeyUsageRows :: "string \<Rightarrow> key_usage list \<Rightarrow> key_usage list" where
  "apiKeyUsageRows apiKeyNameFilter rows = rows_named ak_api_key_name apiKeyNameFilter rows"

definition apiKeyNameOptions :: "key_usage list \<Rightarrow> string list" where
  "apiKeyNameOptions rows = name_options ak_api_key_name rows"

definition jwtSubUsageRows :: "string \<Rightarrow> sub_usage list \<Rightarrow> sub_usage list" where
  "jwtSubUsageRows jwtSubFilter rows = rows_named su_jwt_sub jwtSubFilter rows"

definition jwtSubOptions :: "sub_usage list \<Rightarrow> string list" where
  "jwtSubOptions rows = name_options su_jwt_sub rows"

definition apiKeyRawRows :: "(string \<Rightarrow> jsnum) \<Rightarrow> key_raw list \<Rightarrow> key_raw list" where
  "apiKeyRawRows date_ms rows = sort_desc (\<lambda>r. date_ms (rw_timestamp r)) rows"

definition apiKeyRawNameOptions :: "key_raw list \<Rightarrow> string list" where
  "apiKeyRawNameOptions rows = name_options kw_api_key_name rows"

definition jwtSubRawRows :: "(string \<Rightarrow> jsnum) \<Rightarrow> sub_raw list \<Rightarrow> sub_raw list" where
  "jwtSubRawRows date_ms rows = sort_desc (\<lambda>r. date_ms (rw_timestamp r)) rows"

definition jwtSubRawOptions :: "sub_raw list \<Rightarrow> string list" where
  "jwtSubRawOptions rows = name_options sw_jwt_sub rows"

end
