(* ===== verification/Download.thy ===== *)
theory Download
  imports URI JS_IO "HOL-Library.Sublist"
begin

text \<open>
  The name under which a download is saved: \<open>resolveBillingFilename\<close> of the FinOps page and
  \<open>resolveExportFilename\<close> of the logs page read the same two forms of a \<open>Content-Disposition\<close> header.
  The regular expressions are written out as matchers; none of their parts can give back what it has taken, except
  the blanks before an unquoted name, which is written out too.
\<close>

section \<open>The two regular expressions\<close>

text \<open>The rest of \<open>s\<close> after a literal that is compared without case.\<close>

fun after_ci :: "string \<Rightarrow> string \<Rightarrow> string option" where
  "after_ci [] s = Some s"
| "after_ci (c # p) [] = None"
| "after_ci (c # p) (d # s) = (if lower_char d = lower_char c then after_ci p s else None)"

abbreviation skip_ws :: "string \<Rightarrow> string" where
  "skip_ws \<equiv> dropWhile is_ws"

definition non_empty :: "string \<Rightarrow> string option" where
  "non_empty s = (if s = [] then None else Some s)"

text \<open>\<open>/filename\*\s*=\s*UTF-8''([^;]+)/i\<close> at the start of \<open>s\<close>: its group.\<close>

definition utf8_at :: "string \<Rightarrow> string option" where
  "utf8_at s =
     Option.bind (after_ci ''filename*'' s) (\<lambda>r.
     Option.bind (after_ci ''='' (skip_ws r)) (\<lambda>r.
     Option.bind (after_ci (''UTF-8'' @ [CHR 0x27, CHR 0x27]) (skip_ws r)) (\<lambda>r.
     non_empty (takeWhile (\<lambda>c. c \<noteq> CHR '';'') r))))"

text \<open>\<open>/filename\s*=\s*"?([^";]+)"?/i\<close> at the start of \<open>s\<close>: when nothing follows the blanks, the group is
  the last of them.\<close>

definition plain_value :: "string \<Rightarrow> string option" where
  "plain_value s =
     (let r = skip_ws s; r' = (if r \<noteq> [] \<and> hd r = CHR 0x22 then tl r else r);
          g = takeWhile (\<lambda>c. c \<noteq> CHR 0x22 \<and> c \<noteq> CHR '';'') r'; ws = takeWhile is_ws s
      in if g \<noteq> [] then Some g else if ws \<noteq> [] then Some [last ws] else None)"

definition plain_at :: "string \<Rightarrow> string option" where
  "plain_at s =
     Option.bind (after_ci ''filename'' s) (\<lambda>r. Option.bind (after_ci ''='' (skip_ws r)) plain_value)"

text \<open>The leftmost match.\<close>

fun search :: "(string \<Rightarrow> string option) \<Rightarrow> string \<Rightarrow> string option" where
  "search f [] = f []"
| "search f (c # s) = (case f (c # s) of None \<Rightarrow> search f s | Some g \<Rightarrow> Some g)"

definition resolve_filename :: "string option \<Rightarrow> string option" where
  "resolve_filename contentDisposition =
     (case contentDisposition of
        None \<Rightarrow> None
      | Some cd \<Rightarrow>
          if cd = [] then None
          else (case search utf8_at cd of
              Some g \<Rightarrow> Some (if uri_wellformed (trim g) then decodeURIComponent (trim g) else trim g)
            | None \<Rightarrow> map_option trim (search plain_at cd)))"

definition resolveBillingFilename :: "string option \<Rightarrow> string option" where
  "resolveBillingFilename contentDisposition = resolve_filename contentDisposition"

definition resolveExportFilename :: "string option \<Rightarrow> string option" where
  "resolveExportFilename contentDisposition = resolve_filename contentDisposition"

section \<open>A name survives its header\<close>

lemma search_skip: "(\<And>q. suffix q p \<Longrightarrow> q \<noteq> [] \<Longrightarrow> f (q @ s) = None) \<Longrightarrow> search f (p @ s) = search f s"
proof (induction p)
  case (Cons c p)
  have "f (c # p @ s) = None" using Cons.prems [of "c # p"] by simp
  moreover have "search f (p @ s) = search f s" using Cons by (simp add: suffix_Cons)
  ultimately show ?case by simp
qed simp

lemma search_here: "f s = Some g \<Longrightarrow> search f s = Some g"
  by (cases s) simp_all

lemma after_ci_starred: "CHR ''*'' \<notin> set s \<Longrightarrow> after_ci ''filename*'' s = None"
proof -
  have "after_ci p s = None" if "CHR ''*'' \<notin> set s" "CHR ''*'' \<in> set p" for p
    using that
  proof (induction p s rule: after_ci.induct)
    case (3 c p d s)
    have "code (lower_char d) = 42 \<Longrightarrow> code d = 42" by (auto simp: lower_char_def split: if_splits)
    moreover have "code (CHR ''*'') = 42" by (simp add: code_def)
    ultimately have "lower_char d = CHR ''*'' \<Longrightarrow> d = CHR ''*''" by (metis code_inject)
    moreover have "lower_char (CHR ''*'') = CHR ''*''" by (simp add: lower_char_def code_def)
    ultimately show ?case using 3 by auto
  qed auto
  then show "CHR ''*'' \<notin> set s \<Longrightarrow> after_ci ''filename*'' s = None" by simp
qed

lemma search_starless: "CHR ''*'' \<notin> set s \<Longrightarrow> search utf8_at s = None"
proof (induction s)
  case Nil
  then show ?case by (simp add: utf8_at_def)
next
  case (Cons c s)
  then have "utf8_at (c # s) = None" using after_ci_starred [of "c # s"] by (simp add: utf8_at_def)
  with Cons show ?case by simp
qed

lemma no_filename_before:
  assumes "suffix q ''attachment; ''" and "q \<noteq> []"
  shows "after_ci ''filename'' (q @ s) = None" and "after_ci ''filename*'' (q @ s) = None"
proof -
  from assms have "q \<in> {''attachment; '', ''ttachment; '', ''tachment; '', ''achment; '', ''chment; '', ''hment; '', ''ment; '',
      ''ent; '', ''nt; '', ''t; '', ''; '', '' ''}"
    by (auto simp: suffix_Cons)
  then show "after_ci ''filename'' (q @ s) = None" and "after_ci ''filename*'' (q @ s) = None"
    by (auto simp: lower_char_def code_def)
qed

lemma encoded_not_blank: "list_all (\<lambda>c. \<not> is_ws c \<and> c \<noteq> CHR '';'') (encodeURIComponent s)"
  using uri_char_encode [of s]
  by (rule list.pred_mono_strong) (auto simp: uri_char_def unreserved_def is_ws_def is_digit_def code_def)

lemma filename_forms:
  assumes "name \<noteq> []"
  shows "resolve_filename (Some (''attachment; filename*=UTF-8'' @ [CHR 0x27, CHR 0x27] @ encodeURIComponent name)) = Some name"
    and "list_all (\<lambda>c. c \<noteq> CHR 0x22 \<and> c \<noteq> CHR '';'' \<and> c \<noteq> CHR ''*'') name \<Longrightarrow>
      resolve_filename (Some (''attachment; filename='' @ [CHR 0x22] @ name @ [CHR 0x22])) = Some (trim name)"
proof -
  let ?e = "encodeURIComponent name"
  let ?h = "''filename*=UTF-8'' @ [CHR 0x27, CHR 0x27] @ ?e"
  have e: "?e \<noteq> []" using assms decode_encode [of name] by force
  have plain: "\<not> is_ws c \<and> c \<noteq> CHR '';''" if "c \<in> set ?e" for c
    using encoded_not_blank [of name] that by (simp add: list_all_iff)
  then have "takeWhile (\<lambda>c. c \<noteq> CHR '';'') ?e = ?e" by (simp add: takeWhile_eq_all_conv)
  moreover have "trim ?e = ?e" using plain hd_in_set [OF e] last_in_set [OF e] by (intro trim_id) simp
  ultimately have ws: "takeWhile (\<lambda>c. c \<noteq> CHR '';'') ?e = ?e" "trim ?e = ?e" .
  have "utf8_at ?h = Some ?e"
    unfolding utf8_at_def using e by (simp add: ws(1) non_empty_def is_ws_def code_def del: takeWhile_eq_all_conv)
  then have "search utf8_at (''attachment; '' @ ?h) = Some ?e"
    using search_here by (subst search_skip) (auto simp: utf8_at_def no_filename_before)
  then show "resolve_filename (Some (''attachment; filename*=UTF-8'' @ [CHR 0x27, CHR 0x27] @ ?e)) = Some name"
    using ws(2) by (simp add: resolve_filename_def)
  assume ok: "list_all (\<lambda>c. c \<noteq> CHR 0x22 \<and> c \<noteq> CHR '';'' \<and> c \<noteq> CHR ''*'') name"
  let ?p = "''filename='' @ [CHR 0x22] @ name @ [CHR 0x22]"
  have "CHR ''*'' \<notin> set (''attachment; '' @ ?p)" using ok by (auto simp: list_all_iff)
  then have "search utf8_at (''attachment; '' @ ?p) = None" by (rule search_starless)
  moreover have "plain_at ?p = Some name"
    using ok assms
    by (simp add: plain_at_def plain_value_def is_ws_def code_def list_all_iff takeWhile_append)
  then have "search plain_at (''attachment; '' @ ?p) = Some name"
    using search_here by (subst search_skip) (auto simp: plain_at_def no_filename_before)
  ultimately show "resolve_filename (Some (''attachment; filename='' @ [CHR 0x22] @ name @ [CHR 0x22])) = Some (trim name)"
    by (simp add: resolve_filename_def)
qed

text \<open>A file name sent in either form of the header is the name of the downloaded file: whatever characters it has when it
  is sent encoded (\<open>filename*=UTF-8''...\<close>), and without quotes, semicolons and asterisks when it is
  sent in quotes, up to surrounding blanks.\<close>

theorem download_name_roundtrip:
  assumes "name \<noteq> []"
  shows "resolveBillingFilename (Some (''attachment; filename*=UTF-8'' @ [CHR 0x27, CHR 0x27] @ encodeURIComponent name)) = Some name
    \<and> (list_all (\<lambda>c. c \<noteq> CHR 0x22 \<and> c \<noteq> CHR '';'' \<and> c \<noteq> CHR ''*'') name \<longrightarrow>
        resolveBillingFilename (Some (''attachment; filename='' @ [CHR 0x22] @ name @ [CHR 0x22])) = Some (trim name))
    \<and> resolveExportFilename = resolveBillingFilename"
  using filename_forms [OF assms] by (auto simp: resolveBillingFilename_def resolveExportFilename_def)

theorem download_name_roundtrip_witness:
  "resolveBillingFilename (Some (''attachment; filename='' @ [CHR 0x22] @ ''billing 01.csv'' @ [CHR 0x22])) = Some ''billing 01.csv''"
proof -
  have "trim ''billing 01.csv'' = ''billing 01.csv''" by (intro trim_id) (simp add: is_ws_def code_def)
  then show ?thesis using download_name_roundtrip [of "''billing 01.csv''"] by simp
qed

end
