(* ===== verification/Finops_View.thy ===== *)
theory Finops_View
  imports Finops_Page Download
begin

text \<open>
  The parts of the FinOps page a user acts on: its downloads, the budget table and its sort headers
  (features/budgets/components/budgets-table.tsx), the dialog that edits a budget
  (features/budgets/components/edit-budget-dialog.tsx), and which of its screens is shown.
\<close>

section \<open>Downloads\<close>

text \<open>\<open>v.includes(',') ? `"${v}"` : v\<close>: quotes and line breaks in a value are left as they are.\<close>

definition comma_quote :: "string \<Rightarrow> string" where
  "comma_quote v = (if CHR '','' \<in> set v then [CHR 0x22] @ v @ [CHR 0x22] else v)"

definition comma_csv :: "string list \<Rightarrow> string list list \<Rightarrow> string" where
  "comma_csv headers rows = csv_text (csv_line headers # map (\<lambda>r. csv_line (map comma_quote r)) rows)"

definition model_export_headers :: "string list" where
  "model_export_headers = [''model'', ''provider'', ''model_type'', ''requests'', ''effective_spend'', ''avg_cost_per_request'']"

definition or_dash :: "string option \<Rightarrow> string" where
  "or_dash v = (case v of None \<Rightarrow> ''-'' | Some s \<Rightarrow> s)"

definition model_export_cells :: "model_cost_row \<Rightarrow> string list" where
  "model_export_cells r = [mc_model r, or_dash (mc_provider r), or_dash (mc_model_type r), num_to_string (mc_requests r),
     num_to_string (mc_effective_spend r), num_to_string (mc_avg_cost_per_request r)]"

definition handleExportModelEfficiency :: "string \<Rightarrow> model_cost_row list \<Rightarrow> string \<times> string" where
  "handleExportModelEfficiency selectedMonth rows =
     (''model_cost_efficiency_'' @ selectedMonth @ ''.csv'', comma_csv model_export_headers (map model_export_cells rows))"

definition analytics_headers :: "string list" where
  "analytics_headers = [''generated_at'', ''window'', ''tenant_id'', ''requests'', ''spend_usd'', ''success_rate'',
     ''avg_latency_ms'', ''top_model'', ''budget_usd'', ''remaining_budget_usd'', ''utilization_pct'', ''status'']"

definition num_or_dash :: "jsnum option \<Rightarrow> string" where
  "num_or_dash v = or_dash (map_option num_to_string v)"

definition analytics_cells :: "string \<Rightarrow> window_hours \<Rightarrow> analytics_row \<Rightarrow> string list" where
  "analytics_cells generatedAt w row =
     [generatedAt, nat_str (hours w) @ ''h'', an_tenant_id row, num_to_string (an_requests row),
      num_to_string (an_spend_usd row), num_or_dash (an_success_rate row), num_or_dash (an_avg_latency_ms row),
      or_dash (an_top_model row), num_or_dash (an_budget_usd row), num_or_dash (an_remaining_budget_usd row),
      num_or_dash (an_utilization_pct row), an_status row]"

definition handleExportTenantAnalytics ::
  "jsnum \<Rightarrow> window_hours \<Rightarrow> string \<Rightarrow> analytics_row list \<Rightarrow> exn + (string \<times> string)" where
  "handleExportTenantAnalytics now w selectedMonth rows =
     (case to_iso_string now of
        Inl err \<Rightarrow> Inl err
      | Inr generatedAt \<Rightarrow> Inr (''tenant_analytics_'' @ selectedMonth @ ''.csv'',
          comma_csv analytics_headers (map (analytics_cells generatedAt w) rows)))"

text \<open>The billing report: the file that is saved, or a toast; \<open>finally\<close> clears the flag either way.\<close>

record download_outcome =
  dl_saved :: "(string \<times> string) option"
  dl_toast :: "(string \<times> string) option"
  dl_isDownloading :: bool

definition billing_request :: "window_hours \<Rightarrow> http_req" where
  "billing_request w = get_request (''/api/finops/billing/report?window_hours='' @ encodeURIComponent (nat_str (hours w)))"

definition handleDownloadBillingReport :: "window_hours \<Rightarrow> download_outcome io" where
  "handleDownloadBillingReport w =
     io_catch
       (io_bind (io_fetch (billing_request w)) (\<lambda>resp.
        if \<not> resp_ok resp then
          io_bind (assertFinopsUnauthorized resp) (\<lambda>_. io_throw (JsError ''Failed to download billing report.'' None))
        else
          let filename = (case resolveBillingFilename (map_of (rs_headers resp) ''content-disposition'') of
                None \<Rightarrow> ''billing_report.csv'' | Some n \<Rightarrow> n)
          in io_return \<lparr>dl_saved = Some (filename, rs_text resp), dl_toast = None, dl_isDownloading = False\<rparr>))
       (\<lambda>_. io_return \<lparr>dl_saved = None, dl_toast = Some (''Error'', ''Failed to download billing report.''),
          dl_isDownloading = False\<rparr>)"

section \<open>The budget table\<close>

datatype budget_sort = BySpend | ByLimit | ByUsage | ByStatus | ByProjected
datatype direction = Asc | Desc

record table_sort =
  so_field :: budget_sort
  so_direction :: direction

definition initial_sort :: table_sort where
  "initial_sort = \<lparr>so_field = ByUsage, so_direction = Desc\<rparr>"

fun flip_dir :: "direction \<Rightarrow> direction" where
  "flip_dir Asc = Desc"
| "flip_dir Desc = Asc"

definition budget_handleSort :: "budget_sort \<Rightarrow> table_sort \<Rightarrow> table_sort" where
  "budget_handleSort field st =
     (if so_field st = field then st\<lparr>so_direction := flip_dir (so_direction st)\<rparr>
      else \<lparr>so_field = field, so_direction = Desc\<rparr>)"

text \<open>The table's limit is the monthly one: an override is not looked at.\<close>

definition table_limit :: "tenant_budget \<Rightarrow> jsnum" where
  "table_limit b = or_num (tb_monthly_usd b) (Fin 0)"

fun status_order :: "budget_status \<Rightarrow> nat" where
  "status_order Exceeded = 3"
| "status_order Warning = 2"
| "status_order Healthy = 1"
| "status_order NotConfigured = 0"

fun sort_key :: "(jsnum \<Rightarrow> jsnum) \<Rightarrow> budget_sort \<Rightarrow> tenant_budget \<Rightarrow> jsnum" where
  "sort_key project BySpend b = effectiveSpend b"
| "sort_key project ByLimit b = table_limit b"
| "sort_key project ByUsage b = percent_of (effectiveSpend b) (table_limit b)"
| "sort_key project ByStatus b = Fin (of_nat (status_order (tb_status b)))"
| "sort_key project ByProjected b = project (tb_current_spend_usd b)"

text \<open>Equal rows keep their index order, in both directions.\<close>

definition sortedBudgets :: "(jsnum \<Rightarrow> jsnum) \<Rightarrow> table_sort \<Rightarrow> tenant_budget list \<Rightarrow> tenant_budget list" where
  "sortedBudgets project st budgets =
     (let key = sort_key project (so_field st) in
      case so_direction st of
        Asc \<Rightarrow> sort_by (\<lambda>a b. \<not> num_less (key b) (key a)) budgets
      | Desc \<Rightarrow> sort_by (\<lambda>a b. \<not> num_less (key a) (key b)) budgets)"

definition isProjectedOverrun :: "(jsnum \<Rightarrow> jsnum) \<Rightarrow> tenant_budget \<Rightarrow> bool" where
  "isProjectedOverrun project b \<longleftrightarrow> num_le (table_limit b) (project (tb_current_spend_usd b))"

definition default_projection :: "jsnum \<Rightarrow> jsnum" where
  "default_projection currentSpend = num_div currentSpend (Fin (1 / 2))"

section \<open>Editing a budget\<close>

record budget_form =
  bf_monthlyUsd :: string
  bf_timezone :: string
  bf_error :: "string option"

definition open_budget_form :: "tenant_budget \<Rightarrow> budget_form" where
  "open_budget_form b =
     \<lparr>bf_monthlyUsd = (case tb_monthly_usd b of None \<Rightarrow> [] | Some n \<Rightarrow> num_to_string n),
      bf_timezone = (case tb_timezone b of None \<Rightarrow> ''UTC'' | Some z \<Rightarrow> z), bf_error = None\<rparr>"

text \<open>\<open>JSON.stringify\<close> leaves out the limit when it is undefined.\<close>

definition budget_request :: "jsnum option \<Rightarrow> string \<Rightarrow> props" where
  "budget_request monthly tz =
     (case monthly of None \<Rightarrow> [] | Some n \<Rightarrow> [(''monthly_usd'', JNum n)]) @ [(''timezone'', JStr tz)]"

datatype submit_result = NotSent budget_form | Sent bool budget_form

text \<open>\<open>Sent True\<close> closes the dialog; \<open>Sent False\<close> is a rejected update, which the mutation has reported.\<close>

definition budget_handleSubmit :: "tenant_budget option \<Rightarrow> budget_form \<Rightarrow> submit_result io" where
  "budget_handleSubmit budget f =
     (case budget of
        None \<Rightarrow> io_return (NotSent (f\<lparr>bf_error := None\<rparr>))
      | Some b \<Rightarrow>
          let monthly = (if bf_monthlyUsd f = [] then None else Some (parse_float (bf_monthlyUsd f))) in
          if (case monthly of None \<Rightarrow> False | Some n \<Rightarrow> n = NaN \<or> num_le n (Fin 0))
          then io_return (NotSent (f\<lparr>bf_error := Some ''Monthly limit must be greater than 0''\<rparr>))
          else io_catch
            (io_bind (updateBudget (tb_tenant_id b) (budget_request monthly (bf_timezone f)) (JNum (tb_version b)))
              (\<lambda>_. io_return (Sent True (f\<lparr>bf_error := None\<rparr>))))
            (\<lambda>_. io_return (Sent False (f\<lparr>bf_error := None\<rparr>))))"

section \<open>Which screen is shown\<close>

datatype screen = AccessLimited | LoadError string string | FinopsUi

definition denied_status :: "int option \<Rightarrow> bool" where
  "denied_status s \<longleftrightarrow> s = Some 403 \<or> s = Some 401"

fun exn_status :: "exn \<Rightarrow> int option" where
  "exn_status (GatewayAdminError _ s _) = s"
| "exn_status (JsError _ s) = s"

definition error_screen :: "string \<Rightarrow> exn \<Rightarrow> screen" where
  "error_screen title err = (if denied_status (exn_status err) then AccessLimited else LoadError title (exn_message err))"

definition finops_screen :: "exn option \<Rightarrow> exn option \<Rightarrow> string list \<Rightarrow> bool \<Rightarrow> screen" where
  "finops_screen budgetsError usageError forbidden isLoadingTenantStats =
     (case budgetsError of
        Some err \<Rightarrow> error_screen ''Failed to load budgets'' err
      | None \<Rightarrow> (case usageError of
          Some err \<Rightarrow> error_screen ''Failed to load usage summaries'' err
        | None \<Rightarrow> if forbidden \<noteq> [] \<and> \<not> isLoadingTenantStats then AccessLimited else FinopsUi))"

end
