(* ===== verification/Finops_State.thy ===== *)
theory Finops_State
  imports Finops_View
begin

text \<open>
  The state of the FinOps page and its events: the view, the window, the filters, the page of each of its seven paged
  lists, the open drawers (app/(app)/budgets/page.tsx), and the queries that are enabled in a state with the
  arguments they are called with. The seven page numbers are one function here. Filters hold \<open>'all'\<close> (or the empty
  string for a name) when they are off.
\<close>

section \<open>State\<close>

datatype view_mode = Budgets | Dashboard | Analytics | AnomalyView | ApiKeysUsage | JwtSubUsage | ApiKeysRaw | JwtSubRaw
  | ModelsMonetization

datatype paged_list = Anomalies | KeyUsages | SubUsages | MoneyKeys | MoneySubs | KeyRaws | SubRaws

datatype money_tab = ApiKeysTab | JwtSubsTab

record finops_state =
  fs_view :: view_mode
  fs_window :: window_hours
  fs_month :: string
  fs_analytics :: analytics_filter
  fs_anomaly :: anomaly_filter
  fs_keys :: usage_filter
  fs_subs :: usage_filter
  fs_key_raw :: raw_filter
  fs_sub_raw :: raw_filter
  fs_page :: "paged_list \<Rightarrow> nat"
  fs_tab :: money_tab
  fs_anomaly_drawer :: bool
  fs_key_drawer :: "bool \<times> string option"
  fs_sub_drawer :: "bool \<times> string option"
  fs_money_drawer :: "bool \<times> string option"

definition no_usage_filter :: usage_filter where
  "no_usage_filter = \<lparr>uf_tenant = ''all'', uf_provider = ''all'', uf_model = ''all'', uf_status = ''all'', uf_name = []\<rparr>"

definition no_anomaly_filter :: anomaly_filter where
  "no_anomaly_filter = \<lparr>af_tenant = ''all'', af_model = ''all'', af_provider = ''all'', af_status = ''all''\<rparr>"

definition no_raw_filter :: "string \<Rightarrow> string \<Rightarrow> raw_filter" where
  "no_raw_filter from to = \<lparr>rf_from = from, rf_to = to, rf_tenant = ''all'', rf_name = ''all'', rf_model = ''all'',
     rf_provider = ''all'', rf_status = ''all''\<rparr>"

definition no_analytics_filter :: analytics_filter where
  "no_analytics_filter = \<lparr>fl_tenant = ''all'', fl_status = ''all'', fl_alerts = ''all'', fl_model = ''all'', fl_provider = ''all''\<rparr>"

definition finops_init :: "string \<Rightarrow> string \<Rightarrow> string \<Rightarrow> finops_state" where
  "finops_init month from to =
     \<lparr>fs_view = Dashboard, fs_window = H720, fs_month = month, fs_analytics = no_analytics_filter,
      fs_anomaly = no_anomaly_filter, fs_keys = no_usage_filter, fs_subs = no_usage_filter,
      fs_key_raw = no_raw_filter from to, fs_sub_raw = no_raw_filter from to, fs_page = (\<lambda>_. 0),
      fs_tab = ApiKeysTab, fs_anomaly_drawer = False, fs_key_drawer = (False, None), fs_sub_drawer = (False, None),
      fs_money_drawer = (False, None)\<rparr>"

section \<open>Events\<close>

datatype anomaly_field = ATenant | AProvider | AModel | AStatus
datatype usage_field = UTenant | UProvider | UModel | UStatus | UName
datatype raw_field = RFrom | RTo | RTenant | RName | RModel | RProvider | RStatus

datatype finops_event =
    SetView view_mode
  | SetWindow window_hours
  | SetMonth string
  | SetAnalytics analytics_filter
  | EditAnomaly anomaly_field string
  | ResetAnomaly
  | EditKeys usage_field string
  | ResetKeys
  | EditSubs usage_field string
  | ResetSubs
  | EditKeyRaw raw_field string
  | ResetKeyRaw string string
  | EditSubRaw raw_field string
  | ResetSubRaw string string
  | SetTab money_tab
  | PrevPage paged_list
  | NextPage paged_list
  | OpenAnomaly
  | CloseAnomaly
  | OpenKey string
  | OpenSub string
  | OpenMoneyKey string
  | CloseKey
  | CloseSub
  | CloseMoneyKey

fun set_anomaly :: "anomaly_field \<Rightarrow> string \<Rightarrow> anomaly_filter \<Rightarrow> anomaly_filter" where
  "set_anomaly ATenant v f = f\<lparr>af_tenant := v\<rparr>"
| "set_anomaly AProvider v f = f\<lparr>af_provider := v\<rparr>"
| "set_anomaly AModel v f = f\<lparr>af_model := v\<rparr>"
| "set_anomaly AStatus v f = f\<lparr>af_status := v\<rparr>"

fun set_usage :: "usage_field \<Rightarrow> string \<Rightarrow> usage_filter \<Rightarrow> usage_filter" where
  "set_usage UTenant v f = f\<lparr>uf_tenant := v\<rparr>"
| "set_usage UProvider v f = f\<lparr>uf_provider := v\<rparr>"
| "set_usage UModel v f = f\<lparr>uf_model := v\<rparr>"
| "set_usage UStatus v f = f\<lparr>uf_status := v\<rparr>"
| "set_usage UName v f = f\<lparr>uf_name := v\<rparr>"

fun set_raw :: "raw_field \<Rightarrow> string \<Rightarrow> raw_filter \<Rightarrow> raw_filter" where
  "set_raw RFrom v f = f\<lparr>rf_from := v\<rparr>"
| "set_raw RTo v f = f\<lparr>rf_to := v\<rparr>"
| "set_raw RTenant v f = f\<lparr>rf_tenant := v\<rparr>"
| "set_raw RName v f = f\<lparr>rf_name := v\<rparr>"
| "set_raw RModel v f = f\<lparr>rf_model := v\<rparr>"
| "set_raw RProvider v f = f\<lparr>rf_provider := v\<rparr>"
| "set_raw RStatus v f = f\<lparr>rf_status := v\<rparr>"

definition set_page :: "paged_list \<Rightarrow> nat \<Rightarrow> finops_state \<Rightarrow> finops_state" where
  "set_page l n s = s\<lparr>fs_page := (fs_page s)(l := n)\<rparr>"

fun tab_list :: "money_tab \<Rightarrow> paged_list" where
  "tab_list ApiKeysTab = MoneyKeys"
| "tab_list JwtSubsTab = MoneySubs"

text \<open>The handlers. The anomaly filters only set their value; every other filter also goes back to the first page.\<close>

fun finops_step :: "finops_event \<Rightarrow> finops_state \<Rightarrow> finops_state" where
  "finops_step (SetView v) s = s\<lparr>fs_view := v\<rparr>"
| "finops_step (SetWindow w) s = s\<lparr>fs_window := w\<rparr>"
| "finops_step (SetMonth m) s = s\<lparr>fs_month := m\<rparr>"
| "finops_step (SetAnalytics f) s = s\<lparr>fs_analytics := f\<rparr>"
| "finops_step (EditAnomaly k v) s = s\<lparr>fs_anomaly := set_anomaly k v (fs_anomaly s)\<rparr>"
| "finops_step ResetAnomaly s = set_page Anomalies 0 (s\<lparr>fs_anomaly := no_anomaly_filter\<rparr>)"
| "finops_step (EditKeys k v) s = set_page KeyUsages 0 (s\<lparr>fs_keys := set_usage k v (fs_keys s)\<rparr>)"
| "finops_step ResetKeys s = set_page KeyUsages 0 (s\<lparr>fs_keys := no_usage_filter\<rparr>)"
| "finops_step (EditSubs k v) s = set_page SubUsages 0 (s\<lparr>fs_subs := set_usage k v (fs_subs s)\<rparr>)"
| "finops_step ResetSubs s = set_page SubUsages 0 (s\<lparr>fs_subs := no_usage_filter\<rparr>)"
| "finops_step (EditKeyRaw k v) s = set_page KeyRaws 0 (s\<lparr>fs_key_raw := set_raw k v (fs_key_raw s)\<rparr>)"
| "finops_step (ResetKeyRaw from to) s = set_page KeyRaws 0 (s\<lparr>fs_key_raw := no_raw_filter from to\<rparr>)"
| "finops_step (EditSubRaw k v) s = set_page SubRaws 0 (s\<lparr>fs_sub_raw := set_raw k v (fs_sub_raw s)\<rparr>)"
| "finops_step (ResetSubRaw from to) s = set_page SubRaws 0 (s\<lparr>fs_sub_raw := no_raw_filter from to\<rparr>)"
| "finops_step (SetTab t) s = set_page (tab_list t) 0 (s\<lparr>fs_tab := t\<rparr>)"
| "finops_step (PrevPage l) s = set_page l (fs_page s l - 1) s"
| "finops_step (NextPage l) s = set_page l (fs_page s l + 1) s"
| "finops_step OpenAnomaly s = s\<lparr>fs_anomaly_drawer := True\<rparr>"
| "finops_step CloseAnomaly s = s\<lparr>fs_anomaly_drawer := False\<rparr>"
| "finops_step (OpenKey i) s = s\<lparr>fs_key_drawer := (True, Some i)\<rparr>"
| "finops_step (OpenSub i) s = s\<lparr>fs_sub_drawer := (True, Some i)\<rparr>"
| "finops_step (OpenMoneyKey i) s = s\<lparr>fs_money_drawer := (True, Some i)\<rparr>"
| "finops_step CloseKey s = s\<lparr>fs_key_drawer := (False, snd (fs_key_drawer s))\<rparr>"
| "finops_step CloseSub s = s\<lparr>fs_sub_drawer := (False, snd (fs_sub_drawer s))\<rparr>"
| "finops_step CloseMoneyKey s = s\<lparr>fs_money_drawer := (False, snd (fs_money_drawer s))\<rparr>"

text \<open>The buttons: \<open>Next\<close> is disabled once the rows shown reach the total, \<open>Previous\<close> on the first page.\<close>

definition next_enabled :: "page_info \<Rightarrow> bool" where
  "next_enabled p \<longleftrightarrow> \<not> num_le (pi_total p) (num_add (pi_offset p) (pi_returned p))"

definition prev_enabled :: "paged_list \<Rightarrow> finops_state \<Rightarrow> bool" where
  "prev_enabled l s \<longleftrightarrow> fs_page s l \<noteq> 0"

section \<open>Queries\<close>

definition finops_page_limit :: nat where
  "finops_page_limit = 50"

definition page_paging :: "paged_list \<Rightarrow> finops_state \<Rightarrow> paging" where
  "page_paging l s = \<lparr>pg_limit = Some finops_page_limit, pg_offset = Some (fs_page s l * finops_page_limit)\<rparr>"

datatype finops_query =
    AnomalyExplainQ nat
  | AnomaliesQ window_hours anomaly_filter paging
  | AnomalyStatsQ window_hours anomaly_filter
  | KeyUsageQ window_hours usage_filter paging
  | KeyDrilldownQ string window_hours
  | ModelAggregationQ window_hours
  | MoneyKeysQ window_hours paging
  | MoneyDrilldownQ string window_hours
  | SubUsageQ window_hours usage_filter paging
  | MoneySubsQ window_hours paging
  | SubDrilldownQ string window_hours string
  | KeyRawQ raw_filter paging
  | SubRawQ raw_filter paging
  | BudgetOverviewQ

text \<open>\<open>drawerOpen && !!selected?.id\<close>\<close>

definition drawer_query :: "bool \<times> string option \<Rightarrow> (string \<Rightarrow> finops_query) \<Rightarrow> finops_query list" where
  "drawer_query d q = (case d of (True, Some i) \<Rightarrow> if i \<noteq> [] then [q i] else [] | _ \<Rightarrow> [])"

definition view_queries :: "finops_state \<Rightarrow> finops_query list" where
  "view_queries s =
     (let w = fs_window s in
      case fs_view s of
        AnomalyView \<Rightarrow> [AnomaliesQ w (fs_anomaly s) (page_paging Anomalies s), AnomalyStatsQ w (fs_anomaly s)]
      | ApiKeysUsage \<Rightarrow> KeyUsageQ w (fs_keys s) (page_paging KeyUsages s) # drawer_query (fs_key_drawer s) (\<lambda>i. KeyDrilldownQ i w)
      | Dashboard \<Rightarrow> [ModelAggregationQ w, BudgetOverviewQ]
      | ModelsMonetization \<Rightarrow>
          (case fs_tab s of ApiKeysTab \<Rightarrow> [MoneyKeysQ w (page_paging MoneyKeys s)]
           | JwtSubsTab \<Rightarrow> [MoneySubsQ w (page_paging MoneySubs s)])
          @ drawer_query (fs_money_drawer s) (\<lambda>i. MoneyDrilldownQ i w)
      | JwtSubUsage \<Rightarrow> SubUsageQ w (fs_subs s) (page_paging SubUsages s)
          # drawer_query (fs_sub_drawer s) (\<lambda>i. SubDrilldownQ i w (uf_tenant (fs_subs s)))
      | ApiKeysRaw \<Rightarrow> [KeyRawQ (fs_key_raw s) (page_paging KeyRaws s)]
      | JwtSubRaw \<Rightarrow> [SubRawQ (fs_sub_raw s) (page_paging SubRaws s)]
      | Budgets \<Rightarrow> []
      | Analytics \<Rightarrow> [])"

text \<open>The explanations of an anomaly are asked for while its drawer is open, whatever the view.\<close>

definition finops_queries :: "finops_state \<Rightarrow> finops_query list" where
  "finops_queries s = (if fs_anomaly_drawer s then [AnomalyExplainQ 30] else []) @ view_queries s"

definition discard :: "'a io \<Rightarrow> unit io" where
  "discard m = io_bind m (\<lambda>_. io_return ())"

fun run_query :: "int \<Rightarrow> (string \<Rightarrow> jsnum) \<Rightarrow> nat \<Rightarrow> finops_query \<Rightarrow> unit io" where
  "run_query now date_ms fuel (AnomalyExplainQ d) = discard (fetchAnomalyExplain d)"
| "run_query now date_ms fuel (AnomaliesQ w f p) = discard (fetchAnomalies w f p)"
| "run_query now date_ms fuel (AnomalyStatsQ w f) = discard (fetchAnomalyStats w f)"
| "run_query now date_ms fuel (KeyUsageQ w f p) = discard (page_fetchApiKeysUsage w f p)"
| "run_query now date_ms fuel (KeyDrilldownQ i w) = discard (page_fetchApiKeyDrilldown i w)"
| "run_query now date_ms fuel (ModelAggregationQ w) = discard (dashboard_model_aggregation fuel w)"
| "run_query now date_ms fuel (MoneyKeysQ w p) = discard (fetchApiKeysMonetization w p)"
| "run_query now date_ms fuel (MoneyDrilldownQ i w) = discard (fetchApiKeyMonetizationDrilldown i w)"
| "run_query now date_ms fuel (SubUsageQ w f p) = discard (fetchJwtSubsUsage now w f p)"
| "run_query now date_ms fuel (MoneySubsQ w p) = discard (fetchJwtMonetization w p)"
| "run_query now date_ms fuel (SubDrilldownQ i w t) = discard (fetchJwtSubDrilldown now i w t)"
| "run_query now date_ms fuel (KeyRawQ f p) = discard (fetchApiKeyRawUsage date_ms f p)"
| "run_query now date_ms fuel (SubRawQ f p) = discard (fetchJwtSubRawUsage date_ms f p)"
| "run_query now date_ms fuel BudgetOverviewQ = discard fetchBudgetOverview"

end
