(* ===== verification/Monetization_Props.thy ===== *)
theory Monetization_Props
  imports Monetization
begin

text \<open>
  Properties of the cost table by model: when its page loop ends, that it collects every API key of a
  gateway that pages as documented, and that the aggregation neither loses nor invents requests or cost.
\<close>

section \<open>Stateless computations\<close>

lemma stateless_option [stateless_rules]:
  "stateless a \<Longrightarrow> (\<And>y. stateless (b y)) \<Longrightarrow> stateless (case x of None \<Rightarrow> a | Some y \<Rightarrow> b y)"
  by (simp split: option.splits)

lemma stateless_unauthorized [stateless_rules]: "stateless (assertFinopsUnauthorized resp)"
  unfolding assertFinopsUnauthorized_def Let_def by (intro stateless_rules)

lemma stateless_map_typed [stateless_rules]: "stateless (map_typed f rows)"
  unfolding map_typed_def by (intro stateless_rules)

lemma against_map_typed [against_simps]:
  "against (map_typed f rows) g = (if list_ex nullish rows then Inl type_error else Inr (map f rows))"
  by (simp add: map_typed_def against_simps)

lemma stateless_finops_get [stateless_rules]:
  "(\<And>r. stateless (fail r)) \<Longrightarrow> (\<And>v. stateless (k v)) \<Longrightarrow> stateless (finops_get req fail k)"
  unfolding finops_get_def by (intro stateless_rules) auto

lemma against_finops_get_ok:
  assumes "g req = FetchOk \<lparr>rs_status = 200, rs_text = t, rs_json = Some v, rs_headers = hs\<rparr>"
    and "\<And>r. stateless (fail r)" and "\<And>v. stateless (k v)"
  shows "against (finops_get req fail k) g = against (k v) g"
  using assms(1) unfolding finops_get_def
  by (subst against_bind) (auto intro!: stateless_rules assms(2,3) simp: against_simps against_bind assms(2,3) resp_ok_def resp_json_def)

lemma stateless_money_page [stateless_rules]: "stateless (money_page f p raw)"
  unfolding money_page_def Let_def by (intro stateless_rules)

lemma stateless_keys_money [stateless_rules]: "stateless (fetchApiKeysMonetization w p)"
  unfolding fetchApiKeysMonetization_def by (intro stateless_rules)

lemma stateless_key_pages [stateless_rules]: "stateless (key_pages fuel w offset keys)"
proof (induction fuel arbitrary: offset keys)
  case (Suc fuel)
  then show ?case by (auto intro!: stateless_rules split: prod.splits)
qed (simp add: stateless_rules)

section \<open>When the loop ends\<close>

abbreviation money_paging :: "nat \<Rightarrow> paging" where
  "money_paging offset \<equiv> \<lparr>pg_limit = Some 200, pg_offset = Some offset\<rparr>"

text \<open>The page at an offset is full: the loop goes on after it.\<close>

definition full_page :: "window_hours \<Rightarrow> server \<Rightarrow> nat \<Rightarrow> bool" where
  "full_page w g offset =
     (case against (fetchApiKeysMonetization w (money_paging offset)) g of
        Inr (Some (data, _)) \<Rightarrow> 200 \<le> length data | _ \<Rightarrow> False)"

lemma key_pages_step:
  "against (key_pages (Suc fuel) w offset keys) g =
     (case against (fetchApiKeysMonetization w (money_paging offset)) g of
        Inl e \<Rightarrow> Inl e
      | Inr None \<Rightarrow> Inr (Some keys)
      | Inr (Some (data, _)) \<Rightarrow>
          if data = [] then Inr (Some keys)
          else if length data < 200 then Inr (Some (keys @ data))
          else against (key_pages fuel w (offset + 200) (keys @ data)) g)"
  by (simp, subst against_bind)
     (auto intro!: stateless_rules split: prod.splits option.splits sum.splits simp: against_simps)

lemma key_pages_full:
  assumes "full_page w g offset"
  shows "\<exists>data. against (key_pages (Suc fuel) w offset keys) g = against (key_pages fuel w (offset + 200) (keys @ data)) g"
  using assms unfolding key_pages_step full_page_def
  by (force split: sum.splits option.splits prod.splits)

lemma key_pages_not_full:
  "\<not> full_page w g offset \<Longrightarrow> against (key_pages (Suc fuel) w offset keys) g \<noteq> Inr None"
  unfolding key_pages_step full_page_def by (auto split: sum.splits option.splits prod.splits)

lemma key_pages_all_full:
  "(\<And>k. full_page w g (offset + 200 * k)) \<Longrightarrow> against (key_pages fuel w offset keys) g = Inr None"
proof (induction fuel arbitrary: offset keys)
  case (Suc fuel)
  obtain data where "against (key_pages (Suc fuel) w offset keys) g = against (key_pages fuel w (offset + 200) (keys @ data)) g"
    using key_pages_full [of w g offset fuel keys] Suc.prems [of 0] by auto
  moreover have "full_page w g (offset + 200 + 200 * k)" for k
    using Suc.prems [of "Suc k"] by (simp add: algebra_simps)
  ultimately show ?case using Suc.IH by simp
qed (simp add: against_simps)

lemma key_pages_ends:
  "\<not> full_page w g (offset + 200 * k) \<Longrightarrow> k < fuel \<Longrightarrow> against (key_pages fuel w offset keys) g \<noteq> Inr None"
proof (induction k arbitrary: offset keys fuel)
  case 0
  then show ?case by (cases fuel) (auto dest!: key_pages_not_full simp del: key_pages.simps)
next
  case (Suc k)
  then obtain fuel' where f: "fuel = Suc fuel'" "k < fuel'" by (cases fuel) auto
  show ?case
  proof (cases "full_page w g offset")
    case True
    obtain data where "against (key_pages fuel w offset keys) g = against (key_pages fuel' w (offset + 200) (keys @ data)) g"
      using key_pages_full [OF True] f by blast
    moreover have "\<not> full_page w g (offset + 200 + 200 * k)" using Suc.prems(1) by (simp add: algebra_simps)
    ultimately show ?thesis using Suc.IH f(2) by simp
  next
    case False
    then show ?thesis using key_pages_not_full f(1) by blast
  qed
qed

text \<open>C27. The loop that collects the API keys for the cost table ends exactly when the server ever answers one of
  the offsets 0, 200, 400, ... with less than a full page (or an error). A server that ignores the offset and
  always has 200 rows keeps the page asking for ever: unlike the usage client, this loop has no page limit.\<close>

theorem key_pages_end_iff:
  "(\<exists>fuel. against (key_pages fuel w 0 []) g \<noteq> Inr None) \<longleftrightarrow> (\<exists>k. \<not> full_page w g (200 * k))"
  using key_pages_all_full [of w g 0] key_pages_ends [of w g 0] by (metis add_0 lessI)

section \<open>Every key is collected\<close>

text \<open>The FinOps route wraps the gateway's page of keys in \<open>data\<close>.\<close>

definition pages_money :: "window_hours \<Rightarrow> jsval list \<Rightarrow> server \<Rightarrow> bool" where
  "pages_money w ks g \<longleftrightarrow> (\<forall>off \<le> length ks. \<exists>t hs. g (usage_request (window_num w) 200 off) = FetchOk
     \<lparr>rs_status = 200, rs_text = t, rs_json = Some (JObj [(''data'', JObj [(''data'', JArr (take 200 (drop off ks)))])]),
      rs_headers = hs\<rparr>)"

lemma money_request:
  "list_request ''/api/finops/api-keys/usage'' (window_params w @ paging_params (money_paging off)) =
   usage_request (window_num w) 200 off"
  by (simp add: list_request_def usage_request_def window_params_def paging_params_def nat_str_def limit_of_def
      offset_of_def window_num_def)

lemma money_page_of_keys:
  assumes "pages_money w ks g" and "list_all (\<lambda>k. \<not> nullish k) ks" and "off \<le> length ks"
  shows "\<exists>info. against (fetchApiKeysMonetization w (money_paging off)) g =
    Inr (Some (map key_money_of (take 200 (drop off ks)), info))"
proof -
  obtain t hs where "g (usage_request (window_num w) 200 off) = FetchOk
     \<lparr>rs_status = 200, rs_text = t, rs_json = Some (JObj [(''data'', JObj [(''data'', JArr (take 200 (drop off ks)))])]),
      rs_headers = hs\<rparr>"
    using assms(1,3) unfolding pages_money_def by blast
  then have resp: "g (list_request ''/api/finops/api-keys/usage'' (window_params w @ paging_params (money_paging off))) = FetchOk
     \<lparr>rs_status = 200, rs_text = t, rs_json = Some (JObj [(''data'', JObj [(''data'', JArr (take 200 (drop off ks)))])]),
      rs_headers = hs\<rparr>"
    by (simp only: money_request)
  have "\<not> list_ex nullish (take 200 (drop off ks))"
    using assms(2) by (auto simp: list_ex_iff list_all_iff dest: in_set_takeD in_set_dropD)
  then have "against (money_page key_money_of (money_paging off)
      (JObj [(''data'', JObj [(''data'', JArr (take 200 (drop off ks)))])])) g =
    Inr (Some (map key_money_of (take 200 (drop off ks)), list_pagination (money_paging off)
      (length (take 200 (drop off ks))) JUndef JUndef))"
    by (simp add: money_page_def payload_of_def Let_def against_simps stateless_return
        get_prop_simps nullish_def coalesce_def)
  then show ?thesis
    unfolding fetchApiKeysMonetization_def
    by (subst against_finops_get_ok [where g = g, OF resp]) (auto intro: stateless_rules)
qed

lemma key_pages_collect:
  assumes "pages_money w ks g" and "list_all (\<lambda>k. \<not> nullish k) ks" and "off \<le> length ks"
    and "(length ks - off) div 200 < fuel"
  shows "against (key_pages fuel w off keys) g = Inr (Some (keys @ map key_money_of (drop off ks)))"
  using assms(3,4)
proof (induction fuel arbitrary: off keys)
  case (Suc fuel)
  obtain info where page: "against (fetchApiKeysMonetization w (money_paging off)) g =
      Inr (Some (map key_money_of (take 200 (drop off ks)), info))"
    using money_page_of_keys [OF assms(1,2) Suc.prems(1)] by blast
  show ?case
  proof (cases "length ks - off < 200")
    case True
    then show ?thesis unfolding key_pages_step page by auto
  next
    case False
    then have len: "length (take 200 (drop off ks)) = 200" by simp
    have "(length ks - (off + 200)) div 200 < fuel"
      using Suc.prems(2) False by simp
    then have "against (key_pages fuel w (off + 200) (keys @ map key_money_of (take 200 (drop off ks)))) g =
        Inr (Some ((keys @ map key_money_of (take 200 (drop off ks))) @ map key_money_of (drop (off + 200) ks)))"
      using False Suc.prems(1) by (intro Suc.IH) auto
    moreover have "take 200 (drop off ks) @ drop (off + 200) ks = drop off ks"
      by (metis add.commute append_take_drop_id drop_drop)
    then have "map key_money_of (take 200 (drop off ks)) @ map key_money_of (drop (off + 200) ks) = map key_money_of (drop off ks)"
      by (metis map_append)
    ultimately show ?thesis unfolding key_pages_step page using len by (auto simp del: length_take)
  qed
qed simp

text \<open>Against a server that pages as documented the loop ends after one request per started page of 200 keys
  and has collected every key once and in order, however many there are.\<close>

theorem key_pages_complete:
  assumes "pages_money w ks g" and "list_all (\<lambda>k. \<not> nullish k) ks" and "length ks div 200 < fuel"
  shows "against (key_pages fuel w 0 []) g = Inr (Some (map key_money_of ks))"
  using key_pages_collect [OF assms(1,2), of 0 fuel "[]"] assms(3) by simp

theorem key_pages_complete_witness:
  "\<exists>g. against (key_pages 1 H24 0 []) g = Inr (Some [key_money_of (JObj [(''api_key_id'', JStr ''k1'')])])"
proof -
  let ?k = "JObj [(''api_key_id'', JStr ''k1'')]"
  let ?page = "\<lambda>rows. FetchOk \<lparr>rs_status = 200, rs_text = [],
    rs_json = Some (JObj [(''data'', JObj [(''data'', JArr rows)])]), rs_headers = []\<rparr>"
  let ?g = "\<lambda>r. ?page (if r = usage_request (window_num H24) 200 0 then [?k] else [])"
  have "pages_money H24 [?k] ?g"
    unfolding pages_money_def
  proof (intro allI impI)
    fix off assume "off \<le> length [?k]"
    then have "off = 0 \<or> off = 1" by auto
    then show "\<exists>t hs. ?g (usage_request (window_num H24) 200 off) = FetchOk
       \<lparr>rs_status = 200, rs_text = t, rs_json = Some (JObj [(''data'', JObj [(''data'', JArr (take 200 (drop off [?k])))])]),
        rs_headers = hs\<rparr>"
      using usage_request_inject [of 1 0 "window_num H24"] by auto
  qed
  then have "against (key_pages 1 H24 0 []) ?g = Inr (Some (map key_money_of [?k]))"
    by (rule key_pages_complete) (simp_all add: nullish_def)
  then show ?thesis by (intro exI [of _ ?g]) simp
qed

section \<open>The aggregation by model\<close>

fun fin_val :: "jsnum \<Rightarrow> rat" where
  "fin_val (Fin q) = q"
| "fin_val _ = 0"

definition rows_of_model :: "string \<Rightarrow> model_money list \<Rightarrow> model_money list" where
  "rows_of_model k rows = filter (\<lambda>r. model_key (mm_model r) = k) rows"

definition model_total :: "(model_money \<Rightarrow> jsnum) \<Rightarrow> model_money list \<Rightarrow> rat" where
  "model_total f rows = (\<Sum>r\<leftarrow>rows. fin_val (f r))"

definition finite_costs :: "model_money list \<Rightarrow> bool" where
  "finite_costs rows \<longleftrightarrow> list_all (\<lambda>r. is_finite (mm_requests r) \<and> is_finite (mm_effective_spend r)) rows"

text \<open>What the table says of a model: its name as first seen, and its totals.\<close>

definition model_entry :: "string \<Rightarrow> model_money list \<Rightarrow> model_cost option" where
  "model_entry k rows =
     (let rs = rows_of_model k rows in
      if k = [] \<or> rs = [] then None
      else Some (mm_model (hd rs), Fin (model_total mm_requests rs), Fin (model_total mm_effective_spend rs)))"

lemma model_key_Nil [simp]: "model_key [] = []"
  by (simp add: model_key_def trim_def trim_start_def to_lower_def)

lemma is_finite_val: "is_finite n \<Longrightarrow> n = Fin (fin_val n)"
  by (cases n) simp_all

lemma hd_model_named:
  assumes "k \<noteq> []" and "rows_of_model k rows \<noteq> []"
  shows "mm_model (hd (rows_of_model k rows)) \<noteq> []"
proof -
  have "hd (rows_of_model k rows) \<in> set (rows_of_model k rows)" using assms(2) by (rule hd_in_set)
  then have "model_key (mm_model (hd (rows_of_model k rows))) = k" by (simp add: rows_of_model_def)
  then show ?thesis using assms(1) by auto
qed

lemma add_model_cost_entry:
  assumes f: "is_finite (mm_requests r)" "is_finite (mm_effective_spend r)"
    and agg: "\<And>k. map_of agg k = model_entry k rows"
  shows "map_of (add_model_cost agg r) k = model_entry k (rows @ [r])"
proof -
  let ?key = "model_key (mm_model r)"
  have r: "mm_requests r = Fin (fin_val (mm_requests r))" "mm_effective_spend r = Fin (fin_val (mm_effective_spend r))"
    using f by (simp_all only: is_finite_val [symmetric])
  have split: "rows_of_model k (rows @ [r]) = rows_of_model k rows @ (if ?key = k then [r] else [])" for k
    by (simp add: rows_of_model_def)
  show ?thesis
  proof (cases "?key = k \<and> k \<noteq> []")
    case True
    have add: "num_add (Fin x) (mm_requests r) = Fin (x + fin_val (mm_requests r))"
      "num_add (Fin x) (mm_effective_spend r) = Fin (x + fin_val (mm_effective_spend r))" for x
      by (subst r, simp)+
    show ?thesis
    proof (cases "rows_of_model k rows = []")
      case none: True
      then show ?thesis using True agg [of k]
        by (simp add: add_model_cost_def model_entry_def split add model_total_def)
    next
      case False
      then show ?thesis using True agg [of k] hd_model_named [OF _ False]
        by (simp add: add_model_cost_def model_entry_def split add model_total_def num_or_0_def Let_def)
    qed
  next
    case False
    then show ?thesis using agg [of k] by (auto simp: add_model_cost_def model_entry_def split Let_def)
  qed
qed

lemma costs_fold_entry:
  "finite_costs rows \<Longrightarrow> map_of (foldl add_model_cost [] rows) k = model_entry k rows"
proof (induction rows arbitrary: k rule: rev_induct)
  case Nil
  then show ?case by (simp add: model_entry_def rows_of_model_def)
next
  case (snoc r rows)
  then have "is_finite (mm_requests r)" "is_finite (mm_effective_spend r)" by (auto simp: finite_costs_def)
  moreover have "map_of (foldl add_model_cost [] rows) k = model_entry k rows" for k
    using snoc by (auto simp: finite_costs_def)
  ultimately show ?case by (simp add: add_model_cost_entry)
qed

lemma costs_fold_distinct: "distinct (map fst (foldl add_model_cost [] rows))"
  by (induction rows rule: rev_induct) (auto simp: add_model_cost_def Let_def distinct_obj_set)

text \<open>C28. The cost table has exactly one row for every model that occurs in a drill-down (model names compared
  without case and surrounding blanks), named as it was first seen, whose requests and spend are the sums over all
  rows of that model in all drill-downs: nothing is dropped, merged twice or invented.\<close>

theorem model_costs_reference:
  assumes "finite_costs (concat (map md_requests_by_model (List.map_filter (\<lambda>d. d) drilldowns)))"
  shows "distinct (map fst (costs_by_model drilldowns))
    \<and> map_of (costs_by_model drilldowns) =
        (\<lambda>k. model_entry k (concat (map md_requests_by_model (List.map_filter (\<lambda>d. d) drilldowns))))"
  unfolding costs_by_model_def using costs_fold_entry [OF assms] costs_fold_distinct by auto

theorem model_costs_reference_witness:
  "map_of (costs_by_model [Some \<lparr>md_api_key_id = [], md_api_key_name = [], md_tenant_id = [],
      md_summary = money_summary_of JUndef,
      md_requests_by_model = [model_money_of (JObj [(''model'', JStr ''GPT-4''), (''requests'', jint 2), (''spend'', jint 3)]),
        model_money_of (JObj [(''model'', JStr ''gpt-4''), (''requests'', jint 1), (''effective_spend'', jint 5)])],
      md_recent_requests = []\<rparr>, None]) ''gpt-4'' = Some (''GPT-4'', Fin 3, Fin 8)"
proof -
  let ?ms = "[model_money_of (JObj [(''model'', JStr ''GPT-4''), (''requests'', jint 2), (''spend'', jint 3)]),
        model_money_of (JObj [(''model'', JStr ''gpt-4''), (''requests'', jint 1), (''effective_spend'', jint 5)])]"
  let ?ds = "[Some \<lparr>md_api_key_id = [], md_api_key_name = [], md_tenant_id = [],
      md_summary = money_summary_of JUndef, md_requests_by_model = ?ms, md_recent_requests = []\<rparr>, None]"
  have ms: "concat (map md_requests_by_model (List.map_filter (\<lambda>d. d) ?ds)) = ?ms"
    by (simp add: map_filter_simps)
  have "finite_costs ?ms" by code_simp
  moreover have "model_entry ''gpt-4'' ?ms = Some (''GPT-4'', Fin 3, Fin 8)" by code_simp
  ultimately show ?thesis using model_costs_reference [of ?ds] unfolding ms by simp
qed

end
