(* ===== verification/Finops_Props.thy ===== *)
theory Finops_Props
  imports Finops_State Budget_Props Monetization_Props
begin

text \<open>
  Properties of the FinOps page: tenants whose statistics are denied appear nowhere, the analytics table is the
  sorted join of its sources, filters restart paging (all but those of the anomalies), what the budget dialog
  sends, and what its downloads keep.
\<close>

section \<open>Lists\<close>

lemma uniq_set [simp]: "set (uniq xs) = set xs"
  by (simp add: uniq_def)

lemma uniq_distinct [simp]: "distinct (uniq xs)"
  by (simp add: uniq_def)

lemma last_with_Some: "last_with f xs k = Some x \<Longrightarrow> x \<in> set xs \<and> f x = k"
  by (auto simp: last_with_def find_Some_iff) (metis length_rev nth_mem set_rev)

lemma last_with_None: "last_with f xs k = None \<longleftrightarrow> k \<notin> f ` set xs"
  by (auto simp: last_with_def find_None_iff)

lemma sort_desc_set [simp]: "set (sort_desc f xs) = set xs"
  by (simp add: sort_desc_def)

lemma sort_desc_distinct [simp]: "distinct (map g (sort_desc f xs)) = distinct (map g xs)"
  by (simp add: sort_desc_def)

text \<open>On finite numbers a descending sort is sorted.\<close>

lemma insert_by_restrict:
  assumes "\<And>y. y \<in> set ys \<Longrightarrow> leq x y = leq' x y"
  shows "insert_by leq x ys = insert_by leq' x ys"
  using assms by (induction ys) auto

lemma sort_desc_sorted:
  assumes "\<forall>x \<in> set xs. is_finite (f x)"
  shows "sorted_wrt (\<lambda>a b. num_le (f b) (f a)) (sort_desc f xs)"
proof -
  let ?le = "\<lambda>a b. fin_val (f b) \<le> fin_val (f a)"
  have "sort_desc f xs = sort_by ?le xs"
    using assms
  proof (induction xs)
    case (Cons x xs)
    have fin: "f y = Fin (fin_val (f y))" if "y \<in> set (x # xs)" for y
      using Cons.prems that by (simp only: is_finite_val [symmetric])
    have "sort_desc f (x # xs) = insert_by (\<lambda>a b. \<not> num_less (f a) (f b)) x (sort_by ?le xs)"
      using Cons by (simp add: sort_desc_def sort_by_def)
    also have "\<dots> = insert_by ?le x (sort_by ?le xs)"
    proof (rule insert_by_restrict)
      fix y assume "y \<in> set (sort_by ?le xs)"
      then show "(\<not> num_less (f x) (f y)) = (fin_val (f y) \<le> fin_val (f x))"
        by (subst fin [of x], simp, subst fin [of y], simp) auto
    qed
    finally show ?case by (simp add: sort_by_def)
  qed (simp add: sort_desc_def sort_by_def)
  moreover have "sorted_wrt ?le (sort_by ?le xs)" by (rule sorted_sort_by) auto
  then have "sorted_wrt (\<lambda>a b. num_le (f b) (f a)) (sort_by ?le xs)"
    by (rule sorted_wrt_mono_rel [rotated]) (use assms in \<open>metis is_finite_val num_le_Fin sort_by_set(1)\<close>)
  ultimately show ?thesis by simp
qed

section \<open>Denied tenants\<close>

lemma stats_loop_denied:
  assumes "stats_loop w ids rows forb (\<lambda>_. g) h = (Inr (rows', forb'), h')"
    and "t \<in> set ids" and "g (stats_request w t) = FetchOk resp" and "rs_status resp = 401 \<or> rs_status resp = 403"
  shows "t \<in> set forb'"
  using assms(1,2)
proof (induction ids arbitrary: rows forb h)
  case (Cons i ids)
  obtain r where f: "g (stats_request w i) = FetchOk r"
    using Cons.prems(1) by (cases "g (stats_request w i)") (auto simp: io_bind_def io_fetch_def)
  show ?case
  proof (cases "rs_status r = 401 \<or> rs_status r = 403")
    case True
    then have run: "stats_loop w ids rows (forb @ [i]) (\<lambda>_. g) (h @ [stats_request w i]) = (Inr (rows', forb'), h')"
      using Cons.prems(1) f by (simp add: io_bind_def io_fetch_def)
    obtain new newf where "forb' = (forb @ [i]) @ newf" using stats_loop_result [OF run] by blast
    then show ?thesis using Cons.IH [OF run] Cons.prems(2) by auto
  next
    case False
    then obtain row where run: "stats_loop w ids (rows @ [row]) forb (\<lambda>_. g) (h @ [stats_request w i]) = (Inr (rows', forb'), h')"
      using Cons.prems(1) f by (auto simp: js_simps split: if_splits option.splits sum.splits)
    have "t \<noteq> i" using False f assms(3,4) by auto
    then show ?thesis using Cons.IH [OF run] Cons.prems(2) by auto
  qed
qed simp

lemma analytics_tenant_ids:
  "map an_tenant_id (analytics_all usage budgets stats) = analytics_tenants usage budgets"
  by (simp add: analytics_all_def comp_def analytics_row_of_def Let_def)

lemma analytics_tenants_set: "set (analytics_tenants usage budgets) = tu_tenant_id ` set usage \<union> tb_tenant_id ` set budgets"
  by (simp add: analytics_tenants_def)

lemma analyticsRows_tenants:
  "an_tenant_id ` set (analyticsRows mp f us bs stats) \<subseteq> tu_tenant_id ` set us \<union> tb_tenant_id ` set bs"
proof -
  have "an_tenant_id ` set (analyticsRows mp f us bs stats) \<subseteq> an_tenant_id ` set (analytics_all us bs stats)"
    by (auto simp: analyticsRows_def)
  also have "\<dots> = set (analytics_tenants us bs)" using analytics_tenant_ids [of us bs stats] by (metis set_map)
  finally show ?thesis by (simp only: analytics_tenants_set)
qed

lemma kpi_tenants:
  "fst ` set (kp_spendByTenantRows (finopsDashboardKpis ok rows visible)) \<union> rk_tenant_id ` set (kp_riskRows (finopsDashboardKpis ok rows visible))
   \<subseteq> ov_tenant_id ` set rows \<union> tb_tenant_id ` set visible"
  by (auto simp: finopsDashboardKpis_def kpis_of_overview_def kpis_of_budgets_def Let_def overview_risk_def budget_risk_def
      configuredBudgets_def image_image)


definition demo_budget :: "string \<Rightarrow> budget_status \<Rightarrow> tenant_budget" where
  "demo_budget t st =
     \<lparr>tb_tenant_id = t, tb_monthly_usd = Some (Fin 100), tb_timezone = None, tb_enforcement_mode = None, tb_warn_pct = None,
      tb_hard_pct = None, tb_current_spend_usd = Fin 30, tb_reserved_usd = None, tb_effective_spend_usd = None,
      tb_remaining_usd = Fin 70, tb_status = st, tb_version = Fin 1, tb_enforcement_paused = False,
      tb_override_limit_usd = None\<rparr>"


section \<open>The analytics table\<close>

text \<open>C26. Without filters the analytics table has exactly one row for every tenant with usage this month or a configured
  budget, computed from the tenant's last usage summary, budget and statistics, with a utilization that is the spend
  in percent of the limit and a remaining budget that is the difference; the rows are in order of falling spend.\<close>

theorem analytics_table_correct:
  assumes "\<forall>u \<in> set usage. is_finite (tu_total_cost_usd u)" and "\<forall>b \<in> set budgets. is_finite (tb_current_spend_usd b)"
  shows "distinct (map an_tenant_id (analyticsRows mp no_analytics_filter usage budgets stats))
    \<and> an_tenant_id ` set (analyticsRows mp no_analytics_filter usage budgets stats) = tu_tenant_id ` set usage \<union> tb_tenant_id ` set budgets
    \<and> sorted_wrt (\<lambda>a b. num_le (an_spend_usd b) (an_spend_usd a)) (analyticsRows mp no_analytics_filter usage budgets stats)
    \<and> list_all (\<lambda>r. r = analytics_row_of (last_with tu_tenant_id usage (an_tenant_id r))
          (last_with tb_tenant_id budgets (an_tenant_id r)) (last_with sr_tenant_id stats (an_tenant_id r)) (an_tenant_id r))
        (analyticsRows mp no_analytics_filter usage budgets stats)"
proof -
  let ?all = "analytics_all usage budgets stats"
  have rows: "analyticsRows mp no_analytics_filter usage budgets stats = sort_desc an_spend_usd ?all"
    by (simp add: analyticsRows_def no_analytics_filter_def analytics_keeps_def)
  have "distinct (map an_tenant_id ?all)" unfolding analytics_tenant_ids by (simp add: analytics_tenants_def)
  moreover have "an_tenant_id ` set ?all = tu_tenant_id ` set usage \<union> tb_tenant_id ` set budgets"
    using analytics_tenant_ids [of usage budgets stats] analytics_tenants_set [of usage budgets] by (metis set_map)
  moreover have "is_finite (an_spend_usd r)" if "r \<in> set ?all" for r
    using that assms
    by (auto simp: analytics_all_def analytics_row_of_def Let_def split: option.splits dest!: last_with_Some)
  moreover have "list_all (\<lambda>r. r = analytics_row_of (last_with tu_tenant_id usage (an_tenant_id r))
      (last_with tb_tenant_id budgets (an_tenant_id r)) (last_with sr_tenant_id stats (an_tenant_id r)) (an_tenant_id r)) ?all"
    by (auto simp: list_all_iff analytics_all_def) (simp add: analytics_row_of_def Let_def)
  ultimately show ?thesis
    unfolding rows by (auto simp: list_all_iff intro!: sort_desc_sorted)
qed

theorem analytics_table_correct_witness:
  "an_tenant_id ` set (analyticsRows [] no_analytics_filter [] [demo_budget ''acme'' Healthy, demo_budget ''zeta'' Warning] [])
   = {''acme'', ''zeta''}"
  using analytics_table_correct [of "[]" "[demo_budget ''acme'' Healthy, demo_budget ''zeta'' Warning]" "[]" "[]"]
  by (simp add: demo_budget_def)

section \<open>Filters and pages\<close>

text \<open>The list an event filters: a change of one of its filters, or their reset.\<close>

fun filters_list :: "finops_event \<Rightarrow> paged_list option" where
  "filters_list (EditAnomaly k v) = Some Anomalies"
| "filters_list ResetAnomaly = Some Anomalies"
| "filters_list (EditKeys k v) = Some KeyUsages"
| "filters_list ResetKeys = Some KeyUsages"
| "filters_list (EditSubs k v) = Some SubUsages"
| "filters_list ResetSubs = Some SubUsages"
| "filters_list (EditKeyRaw k v) = Some KeyRaws"
| "filters_list (ResetKeyRaw a b) = Some KeyRaws"
| "filters_list (EditSubRaw k v) = Some SubRaws"
| "filters_list (ResetSubRaw a b) = Some SubRaws"
| "filters_list _ = None"

text \<open>Changing a filter of a paged list shows its first page and leaves the pages of the other lists alone, with one
  exception: the four anomaly filters keep the page number, so that the query with the new filter still skips
  the rows of the pages before; choosing another window keeps every page number too.\<close>

theorem filters_restart_paging:
  "(filters_list e = Some l \<and> l \<noteq> Anomalies \<longrightarrow>
      pg_offset (page_paging l (finops_step e s)) = Some 0 \<and> (\<forall>l'. l' \<noteq> l \<longrightarrow> fs_page (finops_step e s) l' = fs_page s l'))
   \<and> pg_offset (page_paging Anomalies (finops_step (EditAnomaly k v) s)) = pg_offset (page_paging Anomalies s)
   \<and> fs_page (finops_step (SetWindow w) s) = fs_page s"
  by (cases e) (auto simp: page_paging_def set_page_def)

theorem filters_restart_paging_witness:
  "pg_offset (page_paging KeyUsages (finops_step (EditKeys UTenant ''acme'')
     (finops_step (NextPage KeyUsages) (finops_init ''2026-01'' [] [])))) = Some 0"
  using filters_restart_paging [of "EditKeys UTenant ''acme''" KeyUsages] by simp

section \<open>What the budget table and the totals agree on\<close>

text \<open>The overrun mark of the budget table and the overrun count above it agree on every budget without an override; for
  a budget with one they can differ, since the table compares with the monthly limit.\<close>

theorem overrun_mark_agrees:
  "(tb_override_limit_usd b = None \<longrightarrow> isProjectedOverrun (calculateProjectedSpend w) b = projectedOverrun w b)
   \<and> (\<exists>b'. isProjectedOverrun (calculateProjectedSpend w) b' \<and> \<not> projectedOverrun w b')"
proof -
  let ?b = "demo_budget ''acme'' Healthy\<lparr>tb_monthly_usd := Some (Fin 1), tb_override_limit_usd := Some (Fin 1000)\<rparr>"
  have differ: "isProjectedOverrun (calculateProjectedSpend w) ?b \<and> \<not> projectedOverrun w ?b"
    by (cases w) (simp_all add: isProjectedOverrun_def projectedOverrun_def calculateProjectedSpend_def table_limit_def
        effectiveLimit_def or_num_def demo_budget_def)
  have "tb_override_limit_usd b = None \<longrightarrow> isProjectedOverrun (calculateProjectedSpend w) b = projectedOverrun w b"
    by (simp add: isProjectedOverrun_def projectedOverrun_def table_limit_def effectiveLimit_def or_num_def)
  then show ?thesis using differ by blast
qed

section \<open>The budget dialog\<close>

definition budget_body :: "tenant_budget \<Rightarrow> jsnum option \<Rightarrow> string \<Rightarrow> props" where
  "budget_body b monthly tz = budget_request monthly tz @ [(''version'', JNum (tb_version b))]"

lemma budget_update_request:
  "snd (updateBudget t (budget_request m tz) v net h) =
     h @ [send_request ''PATCH'' (''/api/budgets/tenants/'' @ t) (JObj (budget_request m tz @ [(''version'', v)]))]"
proof -
  have body: "obj_set ''version'' v (spread [] (budget_request m tz)) = budget_request m tz @ [(''version'', v)]"
    by (simp add: budget_request_def split: option.splits)
  show ?thesis
    unfolding updateBudget_def body by (rule call_history)
qed

lemma budget_body_patch:
  "budget_patch (JObj (budget_body b m tz)) =
     [(''budgets'', JObj ((case m of None \<Rightarrow> [] | Some n \<Rightarrow> [(''monthly_usd'', JNum n)]) @ [(''timezone'', JStr tz)]))]"
  by (cases m) (simp_all add: budget_body_def budget_request_def budget_patch_def budgets_part_def copy_defined_def
      enforcement_keys_def get_prop_simps)

text \<open>The budget dialog never sends a limit that is not a positive number: it sends nothing and shows an error. A positive
  limit is sent in one request, with the version the budget was read at, and the handler turns it into a patch
  of the tenant's limit and time zone alone: thresholds, overrides and enforcement are left as they are.\<close>

theorem budget_dialog_exact:
  "(let m = (if bf_monthlyUsd f = [] then None else Some (parse_float (bf_monthlyUsd f)));
        run = budget_handleSubmit (Some b) f net []
    in (m \<noteq> None \<and> (the m = NaN \<or> num_le (the m) (Fin 0)) \<longrightarrow>
          run = (Inr (NotSent (f\<lparr>bf_error := Some ''Monthly limit must be greater than 0''\<rparr>)), []))
     \<and> (m = None \<or> num_pos (the m) \<longrightarrow>
          snd run = [send_request ''PATCH'' (''/api/budgets/tenants/'' @ tb_tenant_id b) (JObj (budget_body b m (bf_timezone f)))]
          \<and> get_prop (JObj (budget_body b m (bf_timezone f))) ''version'' = JNum (tb_version b)
          \<and> fst ` set (budget_patch (JObj (budget_body b m (bf_timezone f)))) = {''budgets''}
          \<and> foldl get_prop (JObj (budget_patch (JObj (budget_body b m (bf_timezone f))))) [''budgets'', ''monthly_usd''] =
              (case m of None \<Rightarrow> JUndef | Some n \<Rightarrow> JNum n)))"
proof -
  define m where "m = (if bf_monthlyUsd f = [] then None else Some (parse_float (bf_monthlyUsd f)))"
  let ?run = "budget_handleSubmit (Some b) f net []"
  let ?body = "JObj (budget_body b m (bf_timezone f))"
  have bad: "?run = (Inr (NotSent (f\<lparr>bf_error := Some ''Monthly limit must be greater than 0''\<rparr>)), [])"
    if "m \<noteq> None" "the m = NaN \<or> num_le (the m) (Fin 0)"
    using that by (auto simp: budget_handleSubmit_def Let_def m_def io_return_def)
  have good: "snd ?run = [send_request ''PATCH'' (''/api/budgets/tenants/'' @ tb_tenant_id b) ?body]"
    if "m = None \<or> num_pos (the m)"
  proof -
    have "\<not> (case m of None \<Rightarrow> False | Some n \<Rightarrow> n = NaN \<or> num_le n (Fin 0))"
    proof (cases m)
      case (Some n)
      then show ?thesis using that by (cases n) (auto simp: num_le_def)
    qed simp
    then have run: "?run = io_catch
        (io_bind (updateBudget (tb_tenant_id b) (budget_request m (bf_timezone f)) (JNum (tb_version b)))
          (\<lambda>_. io_return (Sent True (f\<lparr>bf_error := None\<rparr>))))
        (\<lambda>_. io_return (Sent False (f\<lparr>bf_error := None\<rparr>))) net []"
      by (simp add: budget_handleSubmit_def Let_def m_def)
    show ?thesis
      using budget_update_request [of "tb_tenant_id b" m "bf_timezone f" "JNum (tb_version b)" net "[]"]
      unfolding run by (auto simp: io_catch_def io_bind_def io_return_def budget_body_def split: prod.splits sum.splits)
  qed
  have ver: "get_prop ?body ''version'' = JNum (tb_version b)"
    by (cases m) (simp_all add: budget_body_def budget_request_def get_prop_simps)
  have patch: "fst ` set (budget_patch ?body) = {''budgets''}"
    "foldl get_prop (JObj (budget_patch ?body)) [''budgets'', ''monthly_usd''] = (case m of None \<Rightarrow> JUndef | Some n \<Rightarrow> JNum n)"
    unfolding budget_body_patch by (cases m; simp add: get_prop_simps)+
  show ?thesis
    unfolding m_def [symmetric] Let_def using bad good ver patch by blast
qed

theorem budget_dialog_exact_witness:
  "budget_handleSubmit (Some (demo_budget ''acme'' Healthy)) \<lparr>bf_monthlyUsd = ''-5'', bf_timezone = ''UTC'', bf_error = None\<rparr>
     (\<lambda>_ _. FetchFail []) [] =
   (Inr (NotSent \<lparr>bf_monthlyUsd = ''-5'', bf_timezone = ''UTC'', bf_error = Some ''Monthly limit must be greater than 0''\<rparr>), [])"
proof -
  let ?f = "\<lparr>bf_monthlyUsd = ''-5'', bf_timezone = ''UTC'', bf_error = None\<rparr>"
  have "parse_float ''-5'' = Fin (- 5)" by code_simp
  then show ?thesis using budget_dialog_exact [of ?f "demo_budget ''acme'' Healthy" "\<lambda>_ _. FetchFail []"] by (simp add: Let_def)
qed

section \<open>The downloads\<close>

definition plain_text :: "string \<Rightarrow> bool" where
  "plain_text w \<longleftrightarrow> CHR 0x22 \<notin> set w \<and> CHR 0x0A \<notin> set w"

lemma double_quotes_plain: "CHR 0x22 \<notin> set w \<Longrightarrow> double_quotes w = w"
  by (induction w) (auto simp: double_quotes_simps)

interpretation comma: csv_quoting comma_quote plain_text
proof
  fix w s row assume w: "plain_text w" and s: "ends_cell s"
  show "csv_read False [] row (comma_quote w @ s) = csv_read False w row s"
  proof (cases "CHR '','' \<in> set w")
    case True
    then show ?thesis
      using csv_read_quoted [OF s, of "[]" row w] w double_quotes_plain [of w] by (simp add: comma_quote_def plain_text_def)
  next
    case False
    then have "\<not> list_ex csv_special w" using w by (auto simp: plain_text_def list_ex_iff csv_special_def)
    then show ?thesis using csv_read_plain [of w "[]" row s] False by (simp add: comma_quote_def)
  qed
qed

lemma comma_csv_parses:
  assumes "headers \<noteq> []" and "list_all (\<lambda>w. plain_text w \<and> CHR '','' \<notin> set w) headers"
    and "list_all (\<lambda>r. r \<noteq> [] \<and> list_all plain_text r) rows"
  shows "parse_csv (comma_csv headers rows) = headers # rows"
proof -
  have "map comma_quote headers = headers" using assms(2) by (auto simp: list_all_iff comma_quote_def intro!: map_idI)
  then have "comma_csv headers rows = csv_text (map (\<lambda>r. csv_line (map comma_quote r)) (headers # rows))"
    by (simp add: comma_csv_def)
  then show ?thesis using assms by (simp only:) (rule comma.parse_lines, auto simp: list_all_iff)
qed

text \<open>The two downloads of the FinOps page read back as the rows of their tables when no text in them holds a quote
  or a line break. They do not escape those: a tenant name with a line break in it adds a row to the file.\<close>

theorem finops_downloads_roundtrip:
  "(list_all (\<lambda>r. list_all plain_text (model_export_cells r)) ms \<longrightarrow>
      parse_csv (snd (handleExportModelEfficiency month ms)) = model_export_headers # map model_export_cells ms)
   \<and> (handleExportTenantAnalytics now w month rows = Inr (name, csv) \<and> to_iso_string now = Inr ts
        \<and> list_all (\<lambda>r. list_all plain_text (analytics_cells ts w r)) rows \<longrightarrow>
      parse_csv csv = analytics_headers # map (analytics_cells ts w) rows)
   \<and> (\<exists>r. length (parse_csv (comma_csv model_export_headers [model_export_cells r])) = 3)"
proof -
  have h: "list_all (\<lambda>w. plain_text w \<and> CHR '','' \<notin> set w) model_export_headers"
    "list_all (\<lambda>w. plain_text w \<and> CHR '','' \<notin> set w) analytics_headers"
    by (simp_all add: model_export_headers_def analytics_headers_def plain_text_def)
  have ne: "model_export_headers \<noteq> []" "analytics_headers \<noteq> []"
    by (simp_all add: model_export_headers_def analytics_headers_def)
  have a: "parse_csv (snd (handleExportModelEfficiency month ms)) = model_export_headers # map model_export_cells ms"
    if "list_all (\<lambda>r. list_all plain_text (model_export_cells r)) ms"
    unfolding handleExportModelEfficiency_def snd_conv
    by (rule comma_csv_parses [OF ne(1) h(1)]) (use that in \<open>auto simp: list_all_iff model_export_cells_def\<close>)
  have b: "parse_csv csv = analytics_headers # map (analytics_cells ts w) rows"
    if "handleExportTenantAnalytics now w month rows = Inr (name, csv)" "to_iso_string now = Inr ts"
      "list_all (\<lambda>r. list_all plain_text (analytics_cells ts w r)) rows"
  proof -
    have "csv = comma_csv analytics_headers (map (analytics_cells ts w) rows)"
      using that(1,2) by (simp add: handleExportTenantAnalytics_def)
    moreover have "list_all (\<lambda>r. r \<noteq> [] \<and> list_all plain_text r) (map (analytics_cells ts w) rows)"
      using that(3) by (auto simp: list_all_iff analytics_cells_def)
    ultimately show ?thesis by (simp only: comma_csv_parses [OF ne(2) h(2)])
  qed
  let ?r = "\<lparr>mc_model = ''a'' @ [CHR 0x0A] @ ''b'', mc_provider = None, mc_model_type = None, mc_requests = Fin 0,
      mc_effective_spend = Fin 0, mc_avg_cost_per_request = Fin 0\<rparr>"
  have "length (parse_csv (comma_csv model_export_headers [model_export_cells ?r])) = 3" by code_simp
  then show ?thesis using a b by blast
qed

theorem finops_downloads_roundtrip_witness:
  "parse_csv (snd (handleExportModelEfficiency ''2026-01'' [])) = [model_export_headers]"
  using finops_downloads_roundtrip [of "[]" "''2026-01''"] by simp

section \<open>Name filters of the usage views\<close>

lemma name_options_set: "set (name_options name rows) = {n. n \<noteq> [] \<and> n \<in> (\<lambda>r. trim (name r)) ` set rows}"
  by (auto simp: name_options_def)

lemma rows_named_select:
  assumes "r \<in> set rows" and "trim (name r) \<noteq> []"
  shows "trim (name r) \<in> set (name_options name rows) \<and>
         (r \<in> set (rows_named name (trim (name r)) rows) \<longleftrightarrow> trim (name r) = name r)"
  using assms by (auto simp: name_options_set rows_named_def)

text \<open>Every named row of the usage tables has its name offered by the name filter, and choosing it shows the row
  exactly when the name has no white space around it: the options are trimmed and the rows are not, so a key
  named with a trailing blank cannot be selected.\<close>

theorem usage_name_filter:
  assumes "k \<in> set keys" and "trim (ak_api_key_name k) \<noteq> []" and "u \<in> set subs" and "trim (su_jwt_sub u) \<noteq> []"
  shows "trim (ak_api_key_name k) \<in> set (apiKeyNameOptions keys) \<and>
         (k \<in> set (apiKeyUsageRows (trim (ak_api_key_name k)) keys) \<longleftrightarrow> trim (ak_api_key_name k) = ak_api_key_name k) \<and>
         trim (su_jwt_sub u) \<in> set (jwtSubOptions subs) \<and>
         (u \<in> set (jwtSubUsageRows (trim (su_jwt_sub u)) subs) \<longleftrightarrow> trim (su_jwt_sub u) = su_jwt_sub u)"
  using rows_named_select [where name = ak_api_key_name, OF assms(1,2)] rows_named_select [where name = su_jwt_sub, OF assms(3,4)]
  by (simp add: apiKeyNameOptions_def apiKeyUsageRows_def jwtSubOptions_def jwtSubUsageRows_def)

definition blank_key :: key_usage where
  "blank_key = key_usage_of (JObj [(''api_key_name'', JStr ''ci '')])"

definition plain_sub :: sub_usage where
  "plain_sub = sub_usage_of (JObj [(''jwt_sub'', JStr ''ann'')])"

theorem usage_name_filter_witness:
  "''ci'' \<in> set (apiKeyNameOptions [blank_key]) \<and> blank_key \<notin> set (apiKeyUsageRows ''ci'' [blank_key]) \<and>
   plain_sub \<in> set (jwtSubUsageRows ''ann'' [plain_sub])"
proof -
  have k: "ak_api_key_name blank_key = ''ci ''" "trim ''ci '' = ''ci''" "su_jwt_sub plain_sub = ''ann''" "trim ''ann'' = ''ann''"
    by code_simp+
  show ?thesis using usage_name_filter [of blank_key "[blank_key]" plain_sub "[plain_sub]"] by (simp add: k)
qed

end
