(* ===== verification/Finops_Exports.thy ===== *)
theory Finops_Exports
  imports Finops_Props
begin

text \<open>
  The CSV downloads offered inside the views of the FinOps page (app/(app)/budgets/page.tsx): usage and raw usage of
  API keys and JWT subjects, anomalies, and the budget risk table. The first five quote like the other downloads
  of the page; their \<open>replace(/\"/g, '\"')\<close> replaces a quote by itself. The risk table quotes every cell. File names
  hold the local time, which is an argument (\<open>ts\<close>).
\<close>

section \<open>Usage\<close>

definition blank_dash :: "string \<Rightarrow> string" where
  "blank_dash s = (if s = [] then ''-'' else s)"

definition opt_blank_dash :: "string option \<Rightarrow> string" where
  "opt_blank_dash v = (case v of None \<Rightarrow> ''-'' | Some s \<Rightarrow> blank_dash s)"

definition row_avg_cost :: "jsnum \<Rightarrow> jsnum \<Rightarrow> jsnum" where
  "row_avg_cost requests cost = (if num_less (Fin 0) requests then num_div cost requests else Fin 0)"

definition window_label :: "window_hours \<Rightarrow> string" where
  "window_label w = nat_str (hours w) @ ''h''"

definition key_usage_headers :: "string list" where
  "key_usage_headers = [''generated_at'', ''window'', ''api_key_id'', ''api_key_name'', ''tenant_id'', ''requests'',
     ''total_cost_usd'', ''avg_cost_per_request'', ''success_rate'', ''avg_latency_ms'', ''top_model'', ''top_provider'',
     ''last_seen_at'']"

definition key_usage_cells :: "string \<Rightarrow> window_hours \<Rightarrow> key_usage \<Rightarrow> string list" where
  "key_usage_cells now w row =
     [now, window_label w, ak_api_key_id row, blank_dash (ak_api_key_name row), ak_tenant_id row,
      num_to_string (ak_requests row), num_to_string (ku_total_cost_usd row),
      num_to_string (row_avg_cost (ak_requests row) (ku_total_cost_usd row)),
      num_or_dash (ak_success_rate row), num_or_dash (ak_avg_latency_ms row),
      opt_blank_dash (ak_top_model row), opt_blank_dash (ak_top_provider row), opt_blank_dash (ak_last_seen_at row)]"

definition sub_usage_headers :: "string list" where
  "sub_usage_headers = [''generated_at'', ''window'', ''jwt_sub'', ''tenant_id'', ''requests'', ''prompt_tokens'',
     ''completion_tokens'', ''total_tokens'', ''total_cost_usd'', ''avg_cost_per_request'', ''first_seen'', ''last_seen'']"

definition sub_usage_cells :: "string \<Rightarrow> window_hours \<Rightarrow> sub_usage \<Rightarrow> string list" where
  "sub_usage_cells now w row =
     [now, window_label w, su_jwt_sub row, blank_dash (su_tenant_id row), num_to_string (su_requests row),
      num_to_string (su_prompt_tokens row), num_to_string (su_completion_tokens row), num_to_string (su_total_tokens row),
      num_to_string (su_total_cost_usd row), num_to_string (row_avg_cost (su_requests row) (su_total_cost_usd row)),
      opt_blank_dash (su_first_seen row), opt_blank_dash (su_last_seen row)]"

text \<open>\<open>now.toISOString()\<close> is called once per row, so an empty table never calls it.\<close>

definition stamped_export ::
  "(string \<Rightarrow> 'r \<Rightarrow> string list) \<Rightarrow> string list \<Rightarrow> string \<Rightarrow> string \<Rightarrow> jsnum \<Rightarrow> 'r list \<Rightarrow> exn + (string \<times> string)" where
  "stamped_export row_cells headers name ts now rows =
     (case all_rows (\<lambda>r. case to_iso_string now of Inl err \<Rightarrow> Inl err | Inr stamp \<Rightarrow> Inr (row_cells stamp r)) rows of
        Inl err \<Rightarrow> Inl err
      | Inr rs \<Rightarrow> Inr (name @ ''_'' @ ts @ ''.csv'', comma_csv headers rs))"

definition export_key_usage :: "window_hours \<Rightarrow> string \<Rightarrow> jsnum \<Rightarrow> key_usage list \<Rightarrow> exn + (string \<times> string)" where
  "export_key_usage w ts now rows =
     stamped_export (\<lambda>stamp. key_usage_cells stamp w) key_usage_headers ''api_key_usage'' ts now rows"

definition export_sub_usage :: "window_hours \<Rightarrow> string \<Rightarrow> jsnum \<Rightarrow> sub_usage list \<Rightarrow> exn + (string \<times> string)" where
  "export_sub_usage w ts now rows =
     stamped_export (\<lambda>stamp. sub_usage_cells stamp w) sub_usage_headers ''jwt_sub_usage'' ts now rows"

section \<open>Raw usage\<close>

definition raw_numbers :: "('a raw_usage_scheme) \<Rightarrow> string list" where
  "raw_numbers row = map num_to_string [rw_latency_ms row, rw_cost_usd row, rw_prompt_tokens row, rw_cached_tokens row,
     rw_completion_tokens row, rw_total_tokens row]"

definition key_raw_headers :: "string list" where
  "key_raw_headers = [''timestamp'', ''tenant_id'', ''api_key_name'', ''api_key_id'', ''request_id'', ''model'',
     ''provider'', ''status'', ''latency_ms'', ''cost_usd'', ''prompt_tokens'', ''cached_tokens'', ''completion_tokens'',
     ''total_tokens'']"

definition key_raw_cells :: "key_raw \<Rightarrow> string list" where
  "key_raw_cells row = map blank_dash [rw_timestamp row, rw_tenant_id row, kw_api_key_name row, kw_api_key_id row,
     rw_request_id row, rw_model row, rw_provider row, rw_status row] @ raw_numbers row"

definition export_key_raw :: "string \<Rightarrow> key_raw list \<Rightarrow> string \<times> string" where
  "export_key_raw ts rows = (''api_key_raw_usage_'' @ ts @ ''.csv'', comma_csv key_raw_headers (map key_raw_cells rows))"

definition sub_raw_headers :: "string list" where
  "sub_raw_headers = [''timestamp'', ''tenant_id'', ''jwt_sub'', ''request_id'', ''model'', ''provider'', ''status'',
     ''latency_ms'', ''cost_usd'', ''prompt_tokens'', ''cached_tokens'', ''completion_tokens'', ''total_tokens'']"

definition sub_raw_cells :: "sub_raw \<Rightarrow> string list" where
  "sub_raw_cells row = map blank_dash [rw_timestamp row, rw_tenant_id row, sw_jwt_sub row, rw_request_id row,
     rw_model row, rw_provider row, rw_status row] @ raw_numbers row"

definition export_sub_raw :: "string \<Rightarrow> sub_raw list \<Rightarrow> string \<times> string" where
  "export_sub_raw ts rows = (''jwt_sub_raw_usage_'' @ ts @ ''.csv'', comma_csv sub_raw_headers (map sub_raw_cells rows))"

section \<open>Anomalies\<close>

text \<open>The rows are the gateway's own; \<open>toFixed\<close> throws on what is not a number.\<close>

definition anomaly_headers :: "string list" where
  "anomaly_headers = [''timestamp'', ''tenant_id'', ''model'', ''provider'', ''expected_cost_usd'', ''observed_cost_usd'',
     ''deviation_pct'', ''anomaly_type'', ''status'']"

definition fixed_field :: "nat \<Rightarrow> string \<Rightarrow> jsval \<Rightarrow> exn + string" where
  "fixed_field d k a = (case num_method (get_prop a k) of Inl err \<Rightarrow> Inl err | Inr n \<Rightarrow> Inr (to_fixed d n))"

definition text_or_dash :: "string \<Rightarrow> jsval \<Rightarrow> string" where
  "text_or_dash k a = (if truthy (get_prop a k) then to_str (get_prop a k) else ''-'')"

definition anomaly_cells :: "jsval \<Rightarrow> exn + string list" where
  "anomaly_cells a =
     (if nullish a then Inl type_error
      else case fixed_field 6 ''expected_cost_usd'' a of
        Inl err \<Rightarrow> Inl err
      | Inr expected \<Rightarrow> (case fixed_field 6 ''observed_cost_usd'' a of
          Inl err \<Rightarrow> Inl err
        | Inr observed \<Rightarrow> (case fixed_field 2 ''deviation_pct'' a of
            Inl err \<Rightarrow> Inl err
          | Inr deviation \<Rightarrow> Inr [to_str (get_prop a ''timestamp''), to_str (get_prop a ''tenant_id''),
              text_or_dash ''model'' a, text_or_dash ''provider'' a, expected, observed, deviation,
              to_str (get_prop a ''anomaly_type''), to_str (get_prop a ''status'')])))"

definition export_anomalies :: "string \<Rightarrow> jsval list \<Rightarrow> exn + (string \<times> string)" where
  "export_anomalies ts anomalies =
     (case all_rows anomaly_cells anomalies of
        Inl err \<Rightarrow> Inl err
      | Inr rs \<Rightarrow> Inr (''anomaly_detection_'' @ ts @ ''.csv'', comma_csv anomaly_headers rs))"

section \<open>Budget risk\<close>

definition escapeCell :: "string \<Rightarrow> string" where
  "escapeCell v = [CHR 0x22] @ double_quotes v @ [CHR 0x22]"

definition risk_headers :: "string list" where
  "risk_headers = [''generated_at'', ''month'', ''tenant_id'', ''current_spend_usd'', ''budget_usd'', ''utilization_pct'',
     ''status'', ''enforcement_mode'', ''warn_pct'', ''hard_pct'']"

definition opt_num_text :: "jsnum option \<Rightarrow> string" where
  "opt_num_text v = (case v of None \<Rightarrow> [] | Some n \<Rightarrow> num_to_string n)"

definition risk_cells :: "string \<Rightarrow> string \<Rightarrow> risk_row \<Rightarrow> string list" where
  "risk_cells now month r = [now, month, rk_tenant_id r, num_to_string (rk_current_spend_usd r),
     num_to_string (rk_budget_usd r), num_to_string (rk_utilization_pct r), rk_status r,
     (case rk_enforcement_mode r of None \<Rightarrow> [] | Some m \<Rightarrow> m), opt_num_text (rk_warn_pct r), opt_num_text (rk_hard_pct r)]"

definition sorted_risk :: "finops_kpis \<Rightarrow> risk_row list" where
  "sorted_risk k = sort_desc rk_utilization_pct (kp_riskRows k)"

definition export_risk :: "string \<Rightarrow> jsnum \<Rightarrow> finops_kpis \<Rightarrow> exn + (string \<times> string)" where
  "export_risk month now k =
     (case to_iso_string now of
        Inl err \<Rightarrow> Inl err
      | Inr stamp \<Rightarrow> Inr (''finops_budget_risk_'' @ month @ ''.csv'',
          csv_text (map (\<lambda>r. csv_line (map escapeCell r)) (risk_headers # map (risk_cells stamp month) (sorted_risk k)))))"

section \<open>What the files keep\<close>

interpretation always: csv_quoting escapeCell "\<lambda>_. True"
proof
  fix w s row
  assume "ends_cell s"
  then show "csv_read False [] row (escapeCell w @ s) = csv_read False w row s"
    using csv_read_quoted [of s "[]" row w] by (simp add: escapeCell_def)
qed

definition read_export :: "exn + (string \<times> string) \<Rightarrow> exn + string list list" where
  "read_export e = (case e of Inl err \<Rightarrow> Inl err | Inr f \<Rightarrow> Inr (parse_csv (snd f)))"

lemmas export_headers =
  key_usage_headers_def sub_usage_headers_def key_raw_headers_def sub_raw_headers_def anomaly_headers_def

lemma export_headers_plain:
  "list_all (\<lambda>hs. hs \<noteq> [] \<and> list_all (\<lambda>w. plain_text w \<and> CHR '','' \<notin> set w) hs)
     [key_usage_headers, sub_usage_headers, key_raw_headers, sub_raw_headers, anomaly_headers]"
  by (simp add: export_headers plain_text_def)

lemma comma_export_parses:
  assumes "hs \<in> {key_usage_headers, sub_usage_headers, key_raw_headers, sub_raw_headers, anomaly_headers}"
    and "list_all (\<lambda>r. r \<noteq> [] \<and> list_all plain_text r) rows"
  shows "parse_csv (comma_csv hs rows) = hs # rows"
  using assms export_headers_plain by (intro comma_csv_parses) auto

lemma all_rows_map: "all_rows (\<lambda>x. Inr (f x)) xs = Inr (map f xs)"
  by (induction xs) simp_all

lemma stamped_export_text:
  assumes "to_iso_string now = Inr stamp"
  shows "stamped_export row_cells hs n ts now rows = Inr (n @ ''_'' @ ts @ ''.csv'', comma_csv hs (map (row_cells stamp) rows))"
  by (simp add: stamped_export_def assms all_rows_map)

lemma anomaly_cells_length: "anomaly_cells a = Inr r \<Longrightarrow> length r = 9"
  by (auto simp: anomaly_cells_def split: if_splits sum.splits)

text \<open>The budget risk file keeps everything: it reads back as its header and the ten values of every tenant, highest
  utilisation first, whatever the names contain.\<close>

theorem risk_export_roundtrip:
  assumes "export_risk month now k = Inr (name, csv)" and "to_iso_string now = Inr stamp"
  shows "parse_csv csv = risk_headers # map (risk_cells stamp month) (sorted_risk k)"
proof -
  have "csv = csv_text (map (\<lambda>r. csv_line (map escapeCell r)) (risk_headers # map (risk_cells stamp month) (sorted_risk k)))"
    using assms by (simp add: export_risk_def)
  also have "parse_csv \<dots> = risk_headers # map (risk_cells stamp month) (sorted_risk k)"
    by (rule always.parse_lines) (auto simp: list_all_iff risk_headers_def risk_cells_def)
  finally show ?thesis .
qed

text \<open>The five files of the usage, raw usage and anomaly views read back as the rows of their tables when no text in
  them holds a quote or a line break.\<close>

theorem view_exports_roundtrip:
  assumes "to_iso_string now = Inr stamp"
    and "list_all (list_all plain_text) (map (key_usage_cells stamp w) keys)"
    and "list_all (list_all plain_text) (map (sub_usage_cells stamp w) subs)"
    and "list_all (list_all plain_text) (map key_raw_cells keyRaws)"
    and "list_all (list_all plain_text) (map sub_raw_cells subRaws)"
    and "all_rows anomaly_cells anomalies = Inr acells" and "list_all (list_all plain_text) acells"
  shows "read_export (export_key_usage w ts now keys) = Inr (key_usage_headers # map (key_usage_cells stamp w) keys)"
    and "read_export (export_sub_usage w ts now subs) = Inr (sub_usage_headers # map (sub_usage_cells stamp w) subs)"
    and "parse_csv (snd (export_key_raw ts keyRaws)) = key_raw_headers # map key_raw_cells keyRaws"
    and "parse_csv (snd (export_sub_raw ts subRaws)) = sub_raw_headers # map sub_raw_cells subRaws"
    and "read_export (export_anomalies ts anomalies) = Inr (anomaly_headers # acells)"
proof -
  show "read_export (export_key_usage w ts now keys) = Inr (key_usage_headers # map (key_usage_cells stamp w) keys)"
    using assms(2) unfolding export_key_usage_def stamped_export_text [OF assms(1)]
    by (simp add: read_export_def comma_export_parses list_all_iff key_usage_cells_def)
  show "read_export (export_sub_usage w ts now subs) = Inr (sub_usage_headers # map (sub_usage_cells stamp w) subs)"
    using assms(3) unfolding export_sub_usage_def stamped_export_text [OF assms(1)]
    by (simp add: read_export_def comma_export_parses list_all_iff sub_usage_cells_def)
  show "parse_csv (snd (export_key_raw ts keyRaws)) = key_raw_headers # map key_raw_cells keyRaws"
    using assms(4) by (simp add: export_key_raw_def comma_export_parses list_all_iff key_raw_cells_def)
  show "parse_csv (snd (export_sub_raw ts subRaws)) = sub_raw_headers # map sub_raw_cells subRaws"
    using assms(5) by (simp add: export_sub_raw_def comma_export_parses list_all_iff sub_raw_cells_def)
  have "list_all (\<lambda>r. r \<noteq> []) acells"
    using all_rows_Inr [OF assms(6)] anomaly_cells_length by (fastforce simp: list_all2_conv_all_nth list_all_length)
  then show "read_export (export_anomalies ts anomalies) = Inr (anomaly_headers # acells)"
    using assms(6,7) by (simp add: read_export_def export_anomalies_def comma_export_parses list_all_iff)
qed

end
