(* ===== verification/Routing_Page.thy ===== *)
theory Routing_Page
  imports Query_Client JS_Num Provider_Config
begin

text \<open>
  The routing page (app/(app)/routing/page.tsx): the editor of the smart routing stages and their rules, and the
  sections for strategy, weights, fallback and selection, each with its own Save button. The page casts the
  \<open>stages\<close> of the tenant config to its type \<open>SmartStage[]\<close>; here they have that type. Their numbers are finite,
  since they come from JSON or from an input that stores only finite numbers, so \<open>Number.isFinite\<close> is true of them and
  \<open>JSON.parse(JSON.stringify(x))\<close> is a copy. The rest of the config is an arbitrary JSON value.
\<close>

section \<open>Rules and stages\<close>

record prompt_length =
  pl_gt :: "rat option"
  pl_gte :: "rat option"
  pl_lt :: "rat option"
  pl_lte :: "rat option"

record smart_when =
  sw_max_prompt_tokens :: "rat option"
  sw_contains :: "string list option"
  sw_prompt_length :: "prompt_length option"
  sw_semantic_similarity :: "rat option"

record set_constraints =
  sc_max_cost_per_1m :: "rat option"
  sc_max_latency_ms :: "rat option"

record smart_action =
  sa_block :: "bool option"
  sa_reason :: "string option"
  sa_prefer_models :: "string list option"
  sa_ban_models :: "string list option"
  sa_set_constraints :: "set_constraints option"
  sa_use_anchor :: "bool option"

record smart_rule =
  sr_when :: smart_when
  sr_action :: smart_action

record smart_stage =
  ss_name :: string
  ss_rules :: "smart_rule list"

definition no_length :: prompt_length where
  "no_length = \<lparr>pl_gt = None, pl_gte = None, pl_lt = None, pl_lte = None\<rparr>"

definition emptyWhen :: smart_when where
  "emptyWhen = \<lparr>sw_max_prompt_tokens = None, sw_contains = None, sw_prompt_length = None, sw_semantic_similarity = None\<rparr>"

definition no_constraints :: set_constraints where
  "no_constraints = \<lparr>sc_max_cost_per_1m = None, sc_max_latency_ms = None\<rparr>"

definition emptyAction :: smart_action where
  "emptyAction = \<lparr>sa_block = None, sa_reason = None, sa_prefer_models = None, sa_ban_models = None,
     sa_set_constraints = None, sa_use_anchor = None\<rparr>"

section \<open>Labels\<close>

definition label_if :: "bool \<Rightarrow> string \<Rightarrow> string list" where
  "label_if c l = (if c then [l] else [])"

definition non_empty_list :: "'a list option \<Rightarrow> bool" where
  "non_empty_list v \<longleftrightarrow> v \<noteq> None \<and> v \<noteq> Some []"

definition summarizeRuleWhen :: "smart_when \<Rightarrow> string list" where
  "summarizeRuleWhen w =
     (case sw_max_prompt_tokens w of None \<Rightarrow> [] | Some n \<Rightarrow> [''tokens > '' @ num_to_string (Fin n)])
     @ label_if (non_empty_list (sw_contains w)) ''contains keywords''
     @ label_if (sw_prompt_length w \<noteq> None) ''length condition''
     @ label_if (sw_semantic_similarity w \<noteq> None) ''semantic similarity''"

definition ACTION_BADGE_ORDER :: "string list" where
  "ACTION_BADGE_ORDER = [''Block'', ''Prefer models'', ''Ban models'', ''Use anchor'', ''Constraints'']"

definition action_badges :: "smart_action \<Rightarrow> string list" where
  "action_badges a = label_if (sa_block a = Some True) ''Block''
     @ label_if (non_empty_list (sa_prefer_models a)) ''Prefer models''
     @ label_if (non_empty_list (sa_ban_models a)) ''Ban models''
     @ label_if (sa_use_anchor a = Some True) ''Use anchor''
     @ label_if (sa_set_constraints a \<noteq> None) ''Constraints''"

definition aggregateActionBadges :: "smart_rule list \<Rightarrow> string list" where
  "aggregateActionBadges rules =
     filter (\<lambda>b. list_ex (\<lambda>r. b \<in> set (action_badges (sr_action r))) rules) ACTION_BADGE_ORDER"

definition collectWhenSummaries :: "smart_rule list \<Rightarrow> string list" where
  "collectWhenSummaries rules =
     foldl (\<lambda>order label. if label \<in> set order then order else order @ [label]) []
       (concat (map (\<lambda>r. summarizeRuleWhen (sr_when r)) rules))"

section \<open>What a rule keeps when it is saved\<close>

definition keep_list :: "'a list option \<Rightarrow> 'a list option" where
  "keep_list v = (if non_empty_list v then v else None)"

definition keep_length :: "prompt_length option \<Rightarrow> prompt_length option" where
  "keep_length v = (case v of None \<Rightarrow> None | Some pl \<Rightarrow> if pl = no_length then None else Some pl)"

definition keep_constraints :: "set_constraints option \<Rightarrow> set_constraints option" where
  "keep_constraints v = (case v of None \<Rightarrow> None | Some c \<Rightarrow> if c = no_constraints then None else Some c)"

definition keep_true :: "bool option \<Rightarrow> bool option" where
  "keep_true v = (if v = Some True then Some True else None)"

definition finalizeWhen :: "smart_when \<Rightarrow> smart_when" where
  "finalizeWhen w =
     \<lparr>sw_max_prompt_tokens = (case sw_max_prompt_tokens w of
          None \<Rightarrow> None | Some n \<Rightarrow> if 1 \<le> n then Some (of_int \<lfloor>n\<rfloor>) else None),
      sw_contains = keep_list (sw_contains w),
      sw_prompt_length = keep_length (sw_prompt_length w),
      sw_semantic_similarity = sw_semantic_similarity w\<rparr>"

definition keep_reason :: "smart_action \<Rightarrow> string option" where
  "keep_reason a =
     (if sa_block a = Some True then
        (case sa_reason a of None \<Rightarrow> None | Some r \<Rightarrow> if trim r = [] then None else Some (trim r))
      else None)"

definition finalizeAction :: "smart_action \<Rightarrow> smart_action" where
  "finalizeAction a =
     \<lparr>sa_block = keep_true (sa_block a), sa_reason = keep_reason a,
      sa_prefer_models = keep_list (sa_prefer_models a), sa_ban_models = keep_list (sa_ban_models a),
      sa_set_constraints = keep_constraints (sa_set_constraints a), sa_use_anchor = keep_true (sa_use_anchor a)\<rparr>"

section \<open>The fields of the rule dialog\<close>

datatype length_field = GT | GTE | LT | LTE

fun set_length :: "length_field \<Rightarrow> rat option \<Rightarrow> prompt_length \<Rightarrow> prompt_length" where
  "set_length GT v pl = pl\<lparr>pl_gt := v\<rparr>"
| "set_length GTE v pl = pl\<lparr>pl_gte := v\<rparr>"
| "set_length LT v pl = pl\<lparr>pl_lt := v\<rparr>"
| "set_length LTE v pl = pl\<lparr>pl_lte := v\<rparr>"

text \<open>An input of a number: blank removes the member, a finite number sets it, anything else leaves it.\<close>

definition patch_number :: "(string \<Rightarrow> jsnum) \<Rightarrow> (rat option \<Rightarrow> 'r \<Rightarrow> 'r) \<Rightarrow> string \<Rightarrow> 'r \<Rightarrow> 'r" where
  "patch_number number set_field raw cur =
     (if trim raw = [] then set_field None cur
      else case number raw of Fin q \<Rightarrow> set_field (Some q) cur | _ \<Rightarrow> cur)"

definition patchPromptLength :: "smart_when \<Rightarrow> length_field \<Rightarrow> string \<Rightarrow> smart_when" where
  "patchPromptLength w field raw =
     (let cur = patch_number str_to_num (set_length field) raw
            (case sw_prompt_length w of None \<Rightarrow> no_length | Some pl \<Rightarrow> pl)
      in w\<lparr>sw_prompt_length := (if cur = no_length then None else Some cur)\<rparr>)"

datatype constraint_field = MaxCost | MaxLatency

fun set_constraint :: "constraint_field \<Rightarrow> rat option \<Rightarrow> set_constraints \<Rightarrow> set_constraints" where
  "set_constraint MaxCost v c = c\<lparr>sc_max_cost_per_1m := v\<rparr>"
| "set_constraint MaxLatency v c = c\<lparr>sc_max_latency_ms := v\<rparr>"

definition patchRuleConstraint :: "constraint_field \<Rightarrow> string \<Rightarrow> smart_action \<Rightarrow> smart_action" where
  "patchRuleConstraint key raw a =
     (let c = patch_number parse_float (set_constraint key) raw
            (case sa_set_constraints a of None \<Rightarrow> no_constraints | Some c \<Rightarrow> c)
      in a\<lparr>sa_set_constraints := (if c = no_constraints then None else Some c)\<rparr>)"

definition list_or_none :: "'a list \<Rightarrow> 'a list option" where
  "list_or_none xs = (if xs = [] then None else Some xs)"

definition toggle_model :: "string \<Rightarrow> string list option \<Rightarrow> string list option" where
  "toggle_model m cur =
     (let ms = (case cur of None \<Rightarrow> [] | Some l \<Rightarrow> l)
      in list_or_none (if m \<in> set ms then filter (\<lambda>i. i \<noteq> m) ms else ms @ [m]))"

datatype model_field = PreferModels | BanModels

fun toggleRuleModel :: "model_field \<Rightarrow> string \<Rightarrow> smart_action \<Rightarrow> smart_action" where
  "toggleRuleModel PreferModels m a = a\<lparr>sa_prefer_models := toggle_model m (sa_prefer_models a)\<rparr>"
| "toggleRuleModel BanModels m a = a\<lparr>sa_ban_models := toggle_model m (sa_ban_models a)\<rparr>"

definition finite_opt :: "jsnum \<Rightarrow> rat option" where
  "finite_opt n = (case n of Fin q \<Rightarrow> Some q | _ \<Rightarrow> None)"

definition edit_tokens :: "string \<Rightarrow> smart_when \<Rightarrow> smart_when" where
  "edit_tokens v w = w\<lparr>sw_max_prompt_tokens := (if v = [] then None else finite_opt (str_to_num v))\<rparr>"

text \<open>The text area of the keywords and what is stored of it.\<close>

definition contains_text :: "smart_when \<Rightarrow> string" where
  "contains_text w = join [CHR 0x0A] (case sw_contains w of None \<Rightarrow> [] | Some ks \<Rightarrow> ks)"

definition keyword_lines :: "string \<Rightarrow> string list" where
  "keyword_lines v = filter (\<lambda>k. k \<noteq> []) (map trim (split_on (CHR 0x0A) v))"

definition edit_contains :: "string \<Rightarrow> smart_when \<Rightarrow> smart_when" where
  "edit_contains v w = w\<lparr>sw_contains := list_or_none (keyword_lines v)\<rparr>"

definition edit_threshold :: "string \<Rightarrow> smart_when \<Rightarrow> smart_when" where
  "edit_threshold v w = w\<lparr>sw_semantic_similarity := (if v = [] then None else finite_opt (parse_float v))\<rparr>"

definition switch_block :: "bool \<Rightarrow> smart_action \<Rightarrow> smart_action" where
  "switch_block checked a =
     a\<lparr>sa_block := (if checked then Some True else None), sa_reason := (if checked then sa_reason a else None)\<rparr>"

definition edit_reason :: "string \<Rightarrow> smart_action \<Rightarrow> smart_action" where
  "edit_reason v a = a\<lparr>sa_reason := list_or_none v\<rparr>"

definition switch_anchor :: "bool \<Rightarrow> smart_action \<Rightarrow> smart_action" where
  "switch_anchor checked a = a\<lparr>sa_use_anchor := (if checked then Some True else None)\<rparr>"

section \<open>State of the page\<close>

record weights =
  wt_cost :: jsnum
  wt_latency :: jsnum
  wt_errors :: jsnum

record fallback_state =
  fb_enabled :: bool
  fb_timeout_ms :: jsnum
  fb_max_attempts :: jsnum

record selection_state =
  sel_allow_model_override :: bool
  sel_allow_route_group_override :: bool
  sel_precedence_model :: string
  sel_conflict_policy :: string

record rule_dialog =
  rd_open :: bool
  rd_stageIndex :: nat
  rd_ruleIndex :: "nat option"
  rd_when :: smart_when
  rd_action :: smart_action

record group_dialog =
  gd_open :: bool
  gd_edit :: bool
  gd_name :: string
  gd_originalName :: "string option"
  gd_models :: "string list"

record routing_state =
  rt_strategy :: string
  rt_weights :: weights
  rt_fallback :: fallback_state
  rt_selection :: selection_state
  rt_routeGroups :: "(string \<times> string list) list"
  rt_stages :: "smart_stage list"
  rt_ruleDialog :: rule_dialog
  rt_groupDialog :: group_dialog

definition closed_dialog :: rule_dialog where
  "closed_dialog = \<lparr>rd_open = False, rd_stageIndex = 0, rd_ruleIndex = None, rd_when = emptyWhen, rd_action = emptyAction\<rparr>"

definition closed_group :: group_dialog where
  "closed_group = \<lparr>gd_open = False, gd_edit = False, gd_name = [], gd_originalName = None, gd_models = []\<rparr>"

definition routing_init :: routing_state where
  "routing_init =
     \<lparr>rt_strategy = ''smart'', rt_weights = \<lparr>wt_cost = Fin (4 / 10), wt_latency = Fin (3 / 10), wt_errors = Fin (3 / 10)\<rparr>,
      rt_fallback = \<lparr>fb_enabled = False, fb_timeout_ms = Fin 20000, fb_max_attempts = Fin 1\<rparr>,
      rt_selection = \<lparr>sel_allow_model_override = False, sel_allow_route_group_override = False,
        sel_precedence_model = ''header'', sel_conflict_policy = ''error''\<rparr>,
      rt_routeGroups = [], rt_stages = [], rt_ruleDialog = closed_dialog, rt_groupDialog = closed_group\<rparr>"

section \<open>Reading the config\<close>

definition clampNumber :: "jsnum \<Rightarrow> jsnum \<Rightarrow> jsnum \<Rightarrow> jsnum" where
  "clampNumber v lo hi = num_min hi (num_max lo v)"

definition normalizeRouteGroups :: "jsval \<Rightarrow> (string \<times> string list) list" where
  "normalizeRouteGroups v =
     (if \<not> is_object v then []
      else foldl (\<lambda>result (k, ms). if is_array ms then obj_set k (map str_of (filter is_str (arr_elems ms))) result else result)
             [] (js_entries v))"

text \<open>\<open>(v.k as Record) || {}\<close>, and the readers of the sections.\<close>

definition section_of :: "jsval \<Rightarrow> string \<Rightarrow> jsval" where
  "section_of v k = js_or (get_prop v k) (JObj [])"

definition routing_of :: "jsval \<Rightarrow> jsval" where
  "routing_of config = section_of config ''routing''"

definition smart_of :: "jsval \<Rightarrow> jsval" where
  "smart_of config = section_of (routing_of config) ''smart''"

definition strategy_value :: "jsval \<Rightarrow> jsval" where
  "strategy_value config =
     coalesce (get_prop (routing_of config) ''strategy'') (coalesce (get_prop config ''routing_strategy'') (JStr ''smart''))"

definition weights_of :: "jsval \<Rightarrow> weights" where
  "weights_of config =
     (let w = get_prop (smart_of config) ''weights'' in
      \<lparr>wt_cost = to_num (coalesce (get_prop w ''cost'') (JNum (Fin (4 / 10)))),
       wt_latency = to_num (coalesce (get_prop w ''latency'') (JNum (Fin (3 / 10)))),
       wt_errors = to_num (coalesce (get_prop w ''errors'') (JNum (Fin (3 / 10))))\<rparr>)"

definition fallback_of :: "jsval \<Rightarrow> fallback_state" where
  "fallback_of config =
     (let f = get_prop (routing_of config) ''fallback'' in
      \<lparr>fb_enabled = truthy (coalesce (get_prop f ''enabled'') (JBool False)),
       fb_timeout_ms = to_num (coalesce (get_prop f ''timeout_ms'') (JNum (Fin 20000))),
       fb_max_attempts = to_num (coalesce (get_prop f ''max_attempts'') (JNum (Fin 1)))\<rparr>)"

definition selection_of :: "jsval \<Rightarrow> selection_state" where
  "selection_of config =
     (let s = get_prop config ''selection''; p = get_prop s ''precedence'' in
      \<lparr>sel_allow_model_override = truthy (coalesce (get_prop s ''allow_model_override'') (JBool False)),
       sel_allow_route_group_override = truthy (coalesce (get_prop s ''allow_route_group_override'') (JBool False)),
       sel_precedence_model = to_str (coalesce (get_prop p ''model'') (JStr ''header'')),
       sel_conflict_policy = to_str (coalesce (get_prop p ''conflict_policy'') (JStr ''error''))\<rparr>)"

definition route_groups_value :: "jsval \<Rightarrow> jsval" where
  "route_groups_value config =
     coalesce (get_prop (get_prop config ''selection'') ''route_groups'') (coalesce (get_prop config ''route_groups'') (JObj []))"

text \<open>The effect that runs when the config arrives. Without a config object the read of \<open>config.routing_strategy\<close> throws.
  A section that is missing or falsy reads as an empty object, which is how \<open>get_prop\<close> reads any value without members.\<close>

definition load_config :: "jsval \<Rightarrow> smart_stage list option \<Rightarrow> routing_state \<Rightarrow> exn + routing_state" where
  "load_config config rawStages s =
     (if nullish config then Inl type_error
      else Inr (s\<lparr>rt_strategy := to_str (strategy_value config), rt_weights := weights_of config,
        rt_fallback := fallback_of config, rt_selection := selection_of config,
        rt_routeGroups := normalizeRouteGroups (route_groups_value config),
        rt_stages := (case rawStages of None \<Rightarrow> [] | Some st \<Rightarrow> st)\<rparr>))"

section \<open>Which sections have changes, and which may be saved\<close>

definition num_differs :: "jsnum \<Rightarrow> jsnum \<Rightarrow> bool" where
  "num_differs a b \<longleftrightarrow> a = NaN \<or> b = NaN \<or> a \<noteq> b"

definition strategyDirty :: "jsval \<Rightarrow> routing_state \<Rightarrow> bool" where
  "strategyDirty config s \<longleftrightarrow> strategy_value config \<noteq> JStr (rt_strategy s)"

definition weightsDirty :: "jsval \<Rightarrow> routing_state \<Rightarrow> bool" where
  "weightsDirty config s \<longleftrightarrow>
     num_differs (wt_cost (weights_of config)) (wt_cost (rt_weights s)) \<or>
     num_differs (wt_latency (weights_of config)) (wt_latency (rt_weights s)) \<or>
     num_differs (wt_errors (weights_of config)) (wt_errors (rt_weights s))"

definition fallbackDirty :: "jsval \<Rightarrow> routing_state \<Rightarrow> bool" where
  "fallbackDirty config s \<longleftrightarrow>
     fb_enabled (fallback_of config) \<noteq> fb_enabled (rt_fallback s) \<or>
     num_differs (fb_timeout_ms (fallback_of config)) (fb_timeout_ms (rt_fallback s)) \<or>
     num_differs (fb_max_attempts (fallback_of config)) (fb_max_attempts (rt_fallback s))"

definition selectionDirty :: "jsval \<Rightarrow> routing_state \<Rightarrow> bool" where
  "selectionDirty config s \<longleftrightarrow> selection_of config \<noteq> rt_selection s"

definition sorted_strs :: "string list \<Rightarrow> string list" where
  "sorted_strs xs = sort_by (\<lambda>a b. \<not> str_less b a) xs"

definition routeGroupsDirty :: "jsval \<Rightarrow> routing_state \<Rightarrow> bool" where
  "routeGroupsDirty config s \<longleftrightarrow>
     (let current = normalizeRouteGroups (route_groups_value config); groups = rt_routeGroups s in
      length current \<noteq> length groups \<or>
      list_ex (\<lambda>(k, ms). case map_of groups k of None \<Rightarrow> True | Some ns \<Rightarrow> sorted_strs ms \<noteq> sorted_strs ns) current)"

definition stagesDirty :: "smart_stage list option \<Rightarrow> routing_state \<Rightarrow> bool" where
  "stagesDirty rawStages s \<longleftrightarrow> (case rawStages of None \<Rightarrow> [] | Some st \<Rightarrow> st) \<noteq> rt_stages s"

definition in_unit :: "jsnum \<Rightarrow> bool" where
  "in_unit w \<longleftrightarrow> num_le (Fin 0) w \<and> num_le w (Fin 1)"

definition num_abs :: "jsnum \<Rightarrow> jsnum" where
  "num_abs n = (if num_less n (Fin 0) then num_neg n else n)"

definition weightsSum :: "weights \<Rightarrow> jsnum" where
  "weightsSum w = num_add (num_add (wt_cost w) (wt_latency w)) (wt_errors w)"

definition weightsValid :: "weights \<Rightarrow> bool" where
  "weightsValid w \<longleftrightarrow> list_all in_unit [wt_cost w, wt_latency w, wt_errors w] \<and>
     num_less (num_abs (num_sub (weightsSum w) (Fin 1))) (Fin (1 / 1000))"

definition fallbackValid :: "fallback_state \<Rightarrow> bool" where
  "fallbackValid f \<longleftrightarrow> \<not> fb_enabled f \<or>
     is_finite (fb_timeout_ms f) \<and> num_less (Fin 0) (fb_timeout_ms f) \<and> num_le (Fin 1) (fb_max_attempts f)"

section \<open>Editing stages\<close>

text \<open>The buttons of a stage are drawn for the stages that exist, so an index they pass is one of the list;
  the conditions below are those of the handlers, with the same effect of none for an index past the end.\<close>

definition rename_stage :: "nat \<Rightarrow> string \<Rightarrow> smart_stage list \<Rightarrow> smart_stage list" where
  "rename_stage i name prev = (if i < length prev then prev[i := (prev ! i)\<lparr>ss_name := name\<rparr>] else prev)"

definition swap_next :: "nat \<Rightarrow> 'a list \<Rightarrow> 'a list" where
  "swap_next i xs = (if Suc i < length xs then xs[i := xs ! Suc i, Suc i := xs ! i] else xs)"

definition move_up :: "nat \<Rightarrow> smart_stage list \<Rightarrow> smart_stage list" where
  "move_up i prev = (if i = 0 then prev else swap_next (i - 1) prev)"

definition move_down :: "nat \<Rightarrow> smart_stage list \<Rightarrow> smart_stage list" where
  "move_down i prev = swap_next i prev"

definition remove_nth :: "nat \<Rightarrow> 'a list \<Rightarrow> 'a list" where
  "remove_nth i xs = take i xs @ drop (Suc i) xs"

definition set_rules :: "nat \<Rightarrow> (smart_rule list \<Rightarrow> smart_rule list) \<Rightarrow> smart_stage list \<Rightarrow> smart_stage list" where
  "set_rules i f prev =
     (if i < length prev then prev[i := (prev ! i)\<lparr>ss_rules := f (ss_rules (prev ! i))\<rparr>] else prev)"

definition put_rule :: "nat option \<Rightarrow> smart_rule \<Rightarrow> smart_rule list \<Rightarrow> smart_rule list" where
  "put_rule j r rules = (case j of None \<Rightarrow> rules @ [r] | Some j \<Rightarrow> rules[j := r])"

definition openRuleDialog :: "nat \<Rightarrow> nat option \<Rightarrow> routing_state \<Rightarrow> routing_state" where
  "openRuleDialog i j s =
     (case j of
        None \<Rightarrow> s\<lparr>rt_ruleDialog := closed_dialog\<lparr>rd_open := True, rd_stageIndex := i\<rparr>\<rparr>
      | Some k \<Rightarrow>
          if i < length (rt_stages s) \<and> k < length (ss_rules (rt_stages s ! i)) then
            let r = ss_rules (rt_stages s ! i) ! k in
            s\<lparr>rt_ruleDialog := \<lparr>rd_open = True, rd_stageIndex = i, rd_ruleIndex = Some k,
               rd_when = sr_when r, rd_action = sr_action r\<rparr>\<rparr>
          else s)"

definition handleSaveRule :: "routing_state \<Rightarrow> routing_state" where
  "handleSaveRule s =
     (let d = rt_ruleDialog s;
          r = \<lparr>sr_when = finalizeWhen (rd_when d), sr_action = finalizeAction (rd_action d)\<rparr>
      in s\<lparr>rt_stages := set_rules (rd_stageIndex d) (put_rule (rd_ruleIndex d) r) (rt_stages s),
           rt_ruleDialog := closed_dialog\<rparr>)"

section \<open>Events\<close>

datatype rule_edit =
    EditTokens string
  | EditContains string
  | EditLength length_field string
  | EditThreshold string
  | SwitchBlock bool
  | EditReason string
  | ToggleModel model_field string
  | SwitchAnchor bool
  | EditConstraint constraint_field string

fun edit_rule :: "rule_edit \<Rightarrow> rule_dialog \<Rightarrow> rule_dialog" where
  "edit_rule (EditTokens v) d = d\<lparr>rd_when := edit_tokens v (rd_when d)\<rparr>"
| "edit_rule (EditContains v) d = d\<lparr>rd_when := edit_contains v (rd_when d)\<rparr>"
| "edit_rule (EditLength f v) d = d\<lparr>rd_when := patchPromptLength (rd_when d) f v\<rparr>"
| "edit_rule (EditThreshold v) d = d\<lparr>rd_when := edit_threshold v (rd_when d)\<rparr>"
| "edit_rule (SwitchBlock c) d = d\<lparr>rd_action := switch_block c (rd_action d)\<rparr>"
| "edit_rule (EditReason v) d = d\<lparr>rd_action := edit_reason v (rd_action d)\<rparr>"
| "edit_rule (ToggleModel f m) d = d\<lparr>rd_action := toggleRuleModel f m (rd_action d)\<rparr>"
| "edit_rule (SwitchAnchor c) d = d\<lparr>rd_action := switch_anchor c (rd_action d)\<rparr>"
| "edit_rule (EditConstraint k v) d = d\<lparr>rd_action := patchRuleConstraint k v (rd_action d)\<rparr>"

datatype weight_field = WCost | WLatency | WErrors

fun set_weight :: "weight_field \<Rightarrow> jsnum \<Rightarrow> weights \<Rightarrow> weights" where
  "set_weight WCost n w = w\<lparr>wt_cost := n\<rparr>"
| "set_weight WLatency n w = w\<lparr>wt_latency := n\<rparr>"
| "set_weight WErrors n w = w\<lparr>wt_errors := n\<rparr>"

datatype routing_event =
    SetStrategy string
  | AddStage
  | RenameStage nat string
  | MoveUp nat
  | MoveDown nat
  | RemoveStage nat
  | DeleteRule nat nat
  | OpenRule nat "nat option"
  | EditRule rule_edit
  | SaveRule
  | CancelRule
  | EditWeight weight_field string
  | SwitchFallback bool
  | EditTimeout string
  | EditAttempts string
  | SetSelection selection_state

fun routing_step :: "routing_event \<Rightarrow> routing_state \<Rightarrow> routing_state" where
  "routing_step (SetStrategy v) s = s\<lparr>rt_strategy := v\<rparr>"
| "routing_step AddStage s = s\<lparr>rt_stages := rt_stages s @ [\<lparr>ss_name = ''new_stage'', ss_rules = []\<rparr>]\<rparr>"
| "routing_step (RenameStage i n) s = s\<lparr>rt_stages := rename_stage i n (rt_stages s)\<rparr>"
| "routing_step (MoveUp i) s = s\<lparr>rt_stages := move_up i (rt_stages s)\<rparr>"
| "routing_step (MoveDown i) s = s\<lparr>rt_stages := move_down i (rt_stages s)\<rparr>"
| "routing_step (RemoveStage i) s = s\<lparr>rt_stages := remove_nth i (rt_stages s)\<rparr>"
| "routing_step (DeleteRule i j) s = s\<lparr>rt_stages := set_rules i (remove_nth j) (rt_stages s)\<rparr>"
| "routing_step (OpenRule i j) s = openRuleDialog i j s"
| "routing_step (EditRule e) s = s\<lparr>rt_ruleDialog := edit_rule e (rt_ruleDialog s)\<rparr>"
| "routing_step SaveRule s = handleSaveRule s"
| "routing_step CancelRule s = s\<lparr>rt_ruleDialog := (rt_ruleDialog s)\<lparr>rd_open := False\<rparr>\<rparr>"
| "routing_step (EditWeight f v) s = s\<lparr>rt_weights := set_weight f (clampNumber (str_to_num v) (Fin 0) (Fin 1)) (rt_weights s)\<rparr>"
| "routing_step (SwitchFallback b) s = s\<lparr>rt_fallback := (rt_fallback s)\<lparr>fb_enabled := b\<rparr>\<rparr>"
| "routing_step (EditTimeout v) s = s\<lparr>rt_fallback := (rt_fallback s)\<lparr>fb_timeout_ms := str_to_num v\<rparr>\<rparr>"
| "routing_step (EditAttempts v) s = s\<lparr>rt_fallback := (rt_fallback s)\<lparr>fb_max_attempts := str_to_num v\<rparr>\<rparr>"
| "routing_step (SetSelection v) s = s\<lparr>rt_selection := v\<rparr>"

section \<open>Saving\<close>

record tenant_config =
  tc_tenant_id :: string
  tc_version :: jsval
  tc_config :: jsval
  tc_stages :: "smart_stage list option"

definition handleSave :: "tenant_config option \<Rightarrow> jsval \<Rightarrow> unit io" where
  "handleSave tc p =
     (case tc of
        None \<Rightarrow> io_return ()
      | Some t \<Rightarrow> io_bind (updateTenantConfig (tc_tenant_id t) (tc_version t) p) (\<lambda>_. io_return ()))"

text \<open>The JSON of stages: \<open>JSON.stringify\<close> leaves undefined members out.\<close>

definition opt_member :: "string \<Rightarrow> ('a \<Rightarrow> jsval) \<Rightarrow> 'a option \<Rightarrow> props" where
  "opt_member k f v = (case v of None \<Rightarrow> [] | Some x \<Rightarrow> [(k, f x)])"

definition num_json :: "rat \<Rightarrow> jsval" where
  "num_json q = JNum (Fin q)"

definition strs_json :: "string list \<Rightarrow> jsval" where
  "strs_json xs = JArr (map JStr xs)"

definition length_json :: "prompt_length \<Rightarrow> jsval" where
  "length_json p = JObj (opt_member ''gt'' num_json (pl_gt p) @ opt_member ''gte'' num_json (pl_gte p)
     @ opt_member ''lt'' num_json (pl_lt p) @ opt_member ''lte'' num_json (pl_lte p))"

definition when_json :: "smart_when \<Rightarrow> jsval" where
  "when_json w = JObj (opt_member ''max_prompt_tokens'' num_json (sw_max_prompt_tokens w)
     @ opt_member ''contains'' strs_json (sw_contains w) @ opt_member ''prompt_length'' length_json (sw_prompt_length w)
     @ opt_member ''semantic_similarity'' (\<lambda>t. JObj [(''threshold'', num_json t)]) (sw_semantic_similarity w))"

definition constraints_json :: "set_constraints \<Rightarrow> jsval" where
  "constraints_json c = JObj (opt_member ''max_cost_per_1m'' num_json (sc_max_cost_per_1m c)
     @ opt_member ''max_latency_ms'' num_json (sc_max_latency_ms c))"

definition action_json :: "smart_action \<Rightarrow> jsval" where
  "action_json a = JObj (opt_member ''block'' JBool (sa_block a) @ opt_member ''reason'' JStr (sa_reason a)
     @ opt_member ''prefer_models'' strs_json (sa_prefer_models a) @ opt_member ''ban_models'' strs_json (sa_ban_models a)
     @ opt_member ''use_anchor'' JBool (sa_use_anchor a) @ opt_member ''set_constraints'' constraints_json (sa_set_constraints a))"

definition rule_json :: "smart_rule \<Rightarrow> jsval" where
  "rule_json r = JObj [(''when'', when_json (sr_when r)), (''action'', action_json (sr_action r))]"

definition stage_json :: "smart_stage \<Rightarrow> jsval" where
  "stage_json st = JObj [(''name'', JStr (ss_name st)), (''rules'', JArr (map rule_json (ss_rules st)))]"

datatype save_button = SaveStrategy | SaveStages | SaveWeights | SaveFallback | SaveSelection

fun save_patch :: "save_button \<Rightarrow> routing_state \<Rightarrow> jsval" where
  "save_patch SaveStrategy s = JObj [(''routing'', JObj [(''strategy'', JStr (rt_strategy s))])]"
| "save_patch SaveStages s = JObj [(''routing'', JObj [(''smart'', JObj [(''stages'', JArr (map stage_json (rt_stages s)))])])]"
| "save_patch SaveWeights s = JObj [(''routing'', JObj [(''smart'', JObj [(''weights'',
     JObj [(''cost'', JNum (wt_cost (rt_weights s))), (''latency'', JNum (wt_latency (rt_weights s))),
           (''errors'', JNum (wt_errors (rt_weights s)))])])])]"
| "save_patch SaveFallback s = JObj [(''routing'', JObj [(''fallback'',
     JObj [(''enabled'', JBool (fb_enabled (rt_fallback s))), (''timeout_ms'', JNum (fb_timeout_ms (rt_fallback s))),
           (''max_attempts'', JNum (fb_max_attempts (rt_fallback s)))])])]"
| "save_patch SaveSelection s = JObj [(''selection'',
     JObj [(''allow_model_override'', JBool (sel_allow_model_override (rt_selection s))),
           (''allow_route_group_override'', JBool (sel_allow_route_group_override (rt_selection s))),
           (''precedence'', JObj [(''model'', JStr (sel_precedence_model (rt_selection s))),
              (''conflict_policy'', JStr (sel_conflict_policy (rt_selection s)))])])]"

fun save_enabled :: "save_button \<Rightarrow> tenant_config \<Rightarrow> bool \<Rightarrow> routing_state \<Rightarrow> bool" where
  "save_enabled SaveStrategy t pending s = (strategyDirty (tc_config t) s \<and> \<not> pending)"
| "save_enabled SaveStages t pending s = (stagesDirty (tc_stages t) s \<and> \<not> pending)"
| "save_enabled SaveWeights t pending s =
     (rt_strategy s = ''smart'' \<and> weightsDirty (tc_config t) s \<and> weightsValid (rt_weights s) \<and> \<not> pending)"
| "save_enabled SaveFallback t pending s = (fallbackDirty (tc_config t) s \<and> fallbackValid (rt_fallback s) \<and> \<not> pending)"
| "save_enabled SaveSelection t pending s = (selectionDirty (tc_config t) s \<and> \<not> pending)"

definition click_save :: "save_button \<Rightarrow> tenant_config \<Rightarrow> bool \<Rightarrow> routing_state \<Rightarrow> unit io" where
  "click_save b t pending s = (if save_enabled b t pending s then handleSave (Some t) (save_patch b s) else io_return ())"

text \<open>The route group dialog.\<close>

definition group_map :: "group_dialog \<Rightarrow> (string \<times> string list) list \<Rightarrow> (string \<times> string list) list" where
  "group_map d groups =
     (let name = trim (gd_name d);
          base = (case gd_originalName d of
            Some old \<Rightarrow> if gd_edit d \<and> old \<noteq> [] \<and> old \<noteq> name then obj_del old groups else groups
          | None \<Rightarrow> groups)
      in obj_set name (gd_models d) base)"

definition groups_patch :: "(string \<times> string list) list \<Rightarrow> jsval" where
  "groups_patch groups = JObj [(''selection'', JObj [(''route_groups'', JObj (map (\<lambda>(k, ms). (k, strs_json ms)) groups))])]"

definition handleRouteGroupSave :: "tenant_config option \<Rightarrow> routing_state \<Rightarrow> routing_state io" where
  "handleRouteGroupSave tc s =
     (if trim (gd_name (rt_groupDialog s)) = [] then io_return s
      else let groups = group_map (rt_groupDialog s) (rt_routeGroups s) in
        io_bind (handleSave tc (groups_patch groups))
          (\<lambda>_. io_return (s\<lparr>rt_routeGroups := groups, rt_groupDialog := closed_group\<rparr>)))"

definition toggle_group_model :: "string \<Rightarrow> bool \<Rightarrow> group_dialog \<Rightarrow> group_dialog" where
  "toggle_group_model m checked d =
     d\<lparr>gd_models := (if checked then gd_models d @ [m] else filter (\<lambda>i. i \<noteq> m) (gd_models d))\<rparr>"

definition routeGroupModelOptions :: "string list \<Rightarrow> string list \<Rightarrow> string list" where
  "routeGroupModelOptions allowed models = (if allowed = [] then models else filter (\<lambda>m. m \<in> set allowed) models)"

end
