(* ===== verification/Routing_Page_Props.thy ===== *)
theory Routing_Page_Props
  imports Routing_Page
begin

text \<open>
  Properties of the routing page: what the rule editor stores, that it writes the rule it was opened for, that stages are
  only reordered by the arrows, that a freshly loaded config has no unsaved changes, and that only valid weights are saved.
\<close>

section \<open>Finished rules\<close>

definition clean_when :: "smart_when \<Rightarrow> bool" where
  "clean_when w \<longleftrightarrow> (case sw_max_prompt_tokens w of None \<Rightarrow> True | Some n \<Rightarrow> 1 \<le> n \<and> is_integer n)
     \<and> sw_contains w \<noteq> Some [] \<and> sw_prompt_length w \<noteq> Some no_length"

definition clean_action :: "smart_action \<Rightarrow> bool" where
  "clean_action a \<longleftrightarrow> sa_block a \<noteq> Some False \<and> sa_use_anchor a \<noteq> Some False
     \<and> (case sa_reason a of None \<Rightarrow> True | Some r \<Rightarrow> sa_block a = Some True \<and> r \<noteq> [] \<and> trim r = r)
     \<and> sa_prefer_models a \<noteq> Some [] \<and> sa_ban_models a \<noteq> Some [] \<and> sa_set_constraints a \<noteq> Some no_constraints"

definition clean_rule :: "smart_rule \<Rightarrow> bool" where
  "clean_rule r \<longleftrightarrow> clean_when (sr_when r) \<and> clean_action (sr_action r)"

definition clean_stage :: "smart_stage \<Rightarrow> bool" where
  "clean_stage st \<longleftrightarrow> list_all clean_rule (ss_rules st)"

lemmas keep_defs = keep_list_def keep_length_def keep_constraints_def keep_true_def keep_reason_def non_empty_list_def

lemma keep_ids:
  "v \<noteq> Some False \<Longrightarrow> keep_true v = v" "xs \<noteq> Some [] \<Longrightarrow> keep_list xs = xs"
  "pl \<noteq> Some no_length \<Longrightarrow> keep_length pl = pl" "c \<noteq> Some no_constraints \<Longrightarrow> keep_constraints c = c"
  by (auto simp: keep_defs split: option.splits) (metis (full_types) not_Some_eq)

lemma finalizeWhen_clean [simp]: "clean_when (finalizeWhen w)"
proof -
  have "1 \<le> n \<Longrightarrow> (1::rat) \<le> of_int \<lfloor>n\<rfloor>" for n :: rat
    by (metis le_floor_iff of_int_1 of_int_le_iff)
  then show ?thesis
    by (auto simp: clean_when_def finalizeWhen_def keep_defs is_integer_def split: option.splits)
qed

lemma finalizeWhen_id: "clean_when w \<Longrightarrow> finalizeWhen w = w"
  by (cases w) (auto simp: clean_when_def finalizeWhen_def keep_ids is_integer_def split: option.splits)

lemma finalizeAction_clean [simp]: "clean_action (finalizeAction a)"
  by (auto simp: clean_action_def finalizeAction_def keep_defs split: option.splits)

lemma finalizeAction_id: "clean_action a \<Longrightarrow> finalizeAction a = a"
  by (cases a) (auto simp: clean_action_def finalizeAction_def keep_ids keep_reason_def split: option.splits)

section \<open>Lists of stages\<close>

lemma mset_swap_next [simp]: "mset (swap_next i xs) = mset xs"
  by (simp add: swap_next_def mset_swap)

lemma length_swap_next [simp]: "length (swap_next i xs) = length xs"
  by (simp add: swap_next_def)

lemma swap_next_twice [simp]: "swap_next i (swap_next i xs) = xs"
  by (rule nth_equalityI) (auto simp: swap_next_def nth_list_update)

lemma set_swap_next [simp]: "set (swap_next i xs) = set xs"
  using mset_swap_next [of i xs] by (metis set_mset_mset)

lemma set_remove_nth: "set (remove_nth i xs) \<subseteq> set xs"
  by (auto simp: remove_nth_def dest: in_set_takeD in_set_dropD)

lemma list_all_subset: "set ys \<subseteq> set xs \<Longrightarrow> list_all P xs \<Longrightarrow> list_all P ys"
  by (auto simp: list_all_iff)

lemma clean_set_rules:
  assumes "list_all clean_stage xs" and "\<And>rs. list_all clean_rule rs \<Longrightarrow> list_all clean_rule (f rs)"
  shows "list_all clean_stage (set_rules i f xs)"
proof (cases "i < length xs")
  case True
  then have "clean_stage ((xs ! i)\<lparr>ss_rules := f (ss_rules (xs ! i))\<rparr>)"
    using assms by (simp add: clean_stage_def list_all_length)
  moreover have "set (set_rules i f xs) \<subseteq> insert ((xs ! i)\<lparr>ss_rules := f (ss_rules (xs ! i))\<rparr>) (set xs)"
    by (simp add: set_rules_def True set_update_subset_insert)
  ultimately show ?thesis using assms(1) by (auto simp: list_all_iff)
qed (simp add: set_rules_def assms(1))

lemma clean_put_rule:
  "clean_rule r \<Longrightarrow> list_all clean_rule rs \<Longrightarrow> list_all clean_rule (put_rule j r rs)"
  using set_update_subset_insert [of rs _ r] by (auto simp: put_rule_def list_all_iff split: option.splits)

lemma clean_step:
  assumes "list_all clean_stage (rt_stages s)"
  shows "list_all clean_stage (rt_stages (routing_step e s))"
proof (cases e)
  case (RenameStage i n)
  then show ?thesis
    using assms by (auto simp: rename_stage_def clean_stage_def list_all_length nth_list_update)
next
  case (MoveUp i)
  then show ?thesis using assms by (auto simp: move_up_def list_all_iff)
next
  case (MoveDown i)
  then show ?thesis using assms by (auto simp: move_down_def list_all_iff)
next
  case (RemoveStage i)
  then show ?thesis using list_all_subset [OF set_remove_nth] assms by simp
next
  case (DeleteRule i j)
  then show ?thesis by (auto intro!: clean_set_rules [OF assms] list_all_subset [OF set_remove_nth])
next
  case SaveRule
  have "clean_rule \<lparr>sr_when = finalizeWhen (rd_when (rt_ruleDialog s)), sr_action = finalizeAction (rd_action (rt_ruleDialog s))\<rparr>"
    by (simp add: clean_rule_def)
  then show ?thesis
    unfolding SaveRule by (auto simp: handleSaveRule_def Let_def intro!: clean_set_rules [OF assms] clean_put_rule)
qed (use assms in \<open>auto simp: openRuleDialog_def Let_def clean_stage_def split: option.splits\<close>)

abbreviation run_events :: "routing_event list \<Rightarrow> routing_state \<Rightarrow> routing_state" where
  "run_events es s \<equiv> foldl (\<lambda>s e. routing_step e s) s es"


definition demo_rule :: smart_rule where
  "demo_rule = \<lparr>sr_when = emptyWhen\<lparr>sw_max_prompt_tokens := Some 100\<rparr>, sr_action = emptyAction\<lparr>sa_block := Some True\<rparr>\<rparr>"

definition demo_routing :: routing_state where
  "demo_routing = routing_init\<lparr>rt_stages := [\<lparr>ss_name = ''guardrails'', ss_rules = [demo_rule]\<rparr>]\<rparr>"

lemma demo_clean: "list_all clean_stage (rt_stages demo_routing)"
  by (simp add: demo_routing_def demo_rule_def clean_stage_def clean_rule_def clean_when_def clean_action_def emptyWhen_def
      emptyAction_def is_integer_def no_length_def)


section \<open>The dialog writes the rule it was opened for\<close>

text \<open>While the dialog is open it covers the page: only its own fields and buttons can be used. The buttons that open it
  are drawn for existing stages. A config that arrives replaces the stages at any time.\<close>

fun can_happen :: "routing_event \<Rightarrow> routing_state \<Rightarrow> bool" where
  "can_happen (EditRule e) s = rd_open (rt_ruleDialog s)"
| "can_happen SaveRule s = rd_open (rt_ruleDialog s)"
| "can_happen CancelRule s = rd_open (rt_ruleDialog s)"
| "can_happen (OpenRule i j) s = (\<not> rd_open (rt_ruleDialog s) \<and> i < length (rt_stages s))"
| "can_happen e s = (\<not> rd_open (rt_ruleDialog s))"

inductive routing_reachable :: "routing_state \<Rightarrow> bool" where
  start: "routing_reachable (routing_init\<lparr>rt_stages := st\<rparr>)"
| event: "routing_reachable s \<Longrightarrow> can_happen e s \<Longrightarrow> routing_reachable (routing_step e s)"

definition dialog_ok :: "routing_state \<Rightarrow> bool" where
  "dialog_ok s \<longleftrightarrow> (rd_open (rt_ruleDialog s) \<longrightarrow>
     (let d = rt_ruleDialog s in rd_stageIndex d < length (rt_stages s) \<and>
       (case rd_ruleIndex d of None \<Rightarrow> True | Some j \<Rightarrow> j < length (ss_rules (rt_stages s ! rd_stageIndex d)))))"

lemma edit_rule_target [simp]:
  "rd_open (edit_rule e d) = rd_open d" "rd_stageIndex (edit_rule e d) = rd_stageIndex d"
  "rd_ruleIndex (edit_rule e d) = rd_ruleIndex d"
  by (cases e; simp)+

lemma dialog_ok_step: "dialog_ok s \<Longrightarrow> can_happen e s \<Longrightarrow> dialog_ok (routing_step e s)"
  by (cases e) (auto simp: dialog_ok_def openRuleDialog_def handleSaveRule_def closed_dialog_def Let_def split: option.splits)

lemma dialog_ok_reachable: "routing_reachable s \<Longrightarrow> dialog_ok s"
proof (induction rule: routing_reachable.induct)
  case (start st)
  then show ?case by (simp add: dialog_ok_def routing_init_def closed_dialog_def)
qed (rule dialog_ok_step)

lemma set_rules_nth:
  "i < length xs \<Longrightarrow> k < length xs \<Longrightarrow>
   set_rules i f xs ! k = (if k = i then (xs ! i)\<lparr>ss_rules := f (ss_rules (xs ! i))\<rparr> else xs ! k)"
  by (simp add: set_rules_def)



section \<open>Moving stages\<close>

text \<open>The arrows only reorder: the stages stay the same up to order, and moving a stage down and up again, or up and
  down, restores the list.\<close>

theorem stage_moves:
  "mset (rt_stages (routing_step (MoveUp i) s)) = mset (rt_stages s)
   \<and> mset (rt_stages (routing_step (MoveDown i) s)) = mset (rt_stages s)
   \<and> routing_step (MoveUp (Suc i)) (routing_step (MoveDown i) s) = s
   \<and> routing_step (MoveDown i) (routing_step (MoveUp (Suc i)) s) = s"
  by (simp add: move_up_def move_down_def)

section \<open>A loaded config has no changes\<close>

definition plain_config :: "jsval \<Rightarrow> bool" where
  "plain_config config \<longleftrightarrow> is_str (strategy_value config)
     \<and> list_all (\<lambda>n. n \<noteq> NaN) [wt_cost (weights_of config), wt_latency (weights_of config), wt_errors (weights_of config),
           fb_timeout_ms (fallback_of config), fb_max_attempts (fallback_of config)]"

lemma str_value: "is_str v \<Longrightarrow> v = JStr (to_str v)"
  by (cases v) simp_all

lemma obj_set_distinct: "distinct (map fst ps) \<Longrightarrow> distinct (map fst (obj_set k v ps))"
  by (simp add: obj_set_def distinct_update)

lemma normalizeRouteGroups_distinct: "distinct (map fst (normalizeRouteGroups v))"
proof -
  have "distinct (map fst (foldl (\<lambda>result (k, ms). if is_array ms then obj_set k (f ms) result else result) acc ps))"
    if "distinct (map fst acc)" for acc :: "(string \<times> string list) list" and f ps
    using that by (induction ps arbitrary: acc) (auto simp: obj_set_distinct split: prod.splits)
  then show ?thesis unfolding normalizeRouteGroups_def by auto
qed

text \<open>Right after a config is loaded no Save button is enabled and no route group counts as changed, when the strategy is
  a string and the numbers are readable. A weight that is not a number counts as changed for ever.\<close>

theorem loaded_is_unchanged:
  assumes "load_config (tc_config t) (tc_stages t) s = Inr s'" and "plain_config (tc_config t)"
  shows "\<not> save_enabled b t pending s' \<and> \<not> routeGroupsDirty (tc_config t) s' \<and> io_requests (click_save b t pending s') net = []"
proof -
  have s': "s' = s\<lparr>rt_strategy := to_str (strategy_value (tc_config t)), rt_weights := weights_of (tc_config t),
        rt_fallback := fallback_of (tc_config t), rt_selection := selection_of (tc_config t),
        rt_routeGroups := normalizeRouteGroups (route_groups_value (tc_config t)),
        rt_stages := (case tc_stages t of None \<Rightarrow> [] | Some st \<Rightarrow> st)\<rparr>"
    using assms(1) by (simp add: load_config_def split: if_splits)
  have st: "strategy_value (tc_config t) = JStr (to_str (strategy_value (tc_config t)))"
    using assms(2) str_value by (simp add: plain_config_def)
  have "\<not> save_enabled b t pending s'"
    using assms(2) st unfolding s'
    by (cases b) (simp_all add: strategyDirty_def weightsDirty_def fallbackDirty_def selectionDirty_def stagesDirty_def
        num_differs_def plain_config_def)
  moreover have "\<not> routeGroupsDirty (tc_config t) s'"
    unfolding s' using normalizeRouteGroups_distinct [of "route_groups_value (tc_config t)"]
    by (auto simp: routeGroupsDirty_def Let_def list_ex_iff)
  ultimately show ?thesis by (simp add: click_save_def io_requests_def io_return_def)
qed

definition demo_config :: tenant_config where
  "demo_config = \<lparr>tc_tenant_id = ''acme'', tc_version = jint 3,
     tc_config = JObj [(''routing'', JObj [(''strategy'', JStr ''cost'')])], tc_stages = None\<rparr>"

theorem loaded_is_unchanged_witness:
  "\<exists>s'. load_config (tc_config demo_config) None routing_init = Inr s' \<and> rt_strategy s' = ''cost''
     \<and> \<not> save_enabled SaveStrategy demo_config False s'"
proof -
  obtain s' where s': "load_config (tc_config demo_config) (tc_stages demo_config) routing_init = Inr s'"
    by (simp add: load_config_def demo_config_def nullish_def)
  have "plain_config (tc_config demo_config)" by code_simp
  moreover have "strategy_value (tc_config demo_config) = JStr ''cost''" by code_simp
  then have "rt_strategy s' = ''cost''" using s' by (auto simp: load_config_def split: if_splits)
  ultimately show ?thesis
    using loaded_is_unchanged [OF s', of SaveStrategy False] s' by (auto simp: demo_config_def)
qed

section \<open>Weights\<close>

lemma in_unit_val: "in_unit n \<Longrightarrow> \<exists>q. n = Fin q \<and> 0 \<le> q \<and> q \<le> 1"
  by (cases n) (auto simp: in_unit_def num_le_def)

text \<open>C32. The Save button of the weights sends at most one request, and only weights between 0 and 1 whose sum is 1 up to
  one thousandth; the request names the tenant and the version that were loaded.\<close>

theorem saved_weights_valid:
  "(\<not> save_enabled SaveWeights t pending s \<longrightarrow> io_requests (click_save SaveWeights t pending s) net = []) \<and>
   (save_enabled SaveWeights t pending s \<longrightarrow>
     (\<exists>c l e. rt_weights s = \<lparr>wt_cost = Fin c, wt_latency = Fin l, wt_errors = Fin e\<rparr>
      \<and> 0 \<le> c \<and> c \<le> 1 \<and> 0 \<le> l \<and> l \<le> 1 \<and> 0 \<le> e \<and> e \<le> 1 \<and> \<bar>c + l + e - 1\<bar> < 1 / 1000
      \<and> io_requests (click_save SaveWeights t pending s) net =
         [send_request ''PATCH'' (tenant_url (tc_tenant_id t) ''/config'')
            (JObj [(''version'', tc_version t), (''patch'', JObj [(''routing'', JObj [(''smart'', JObj [(''weights'',
               JObj [(''cost'', JNum (Fin c)), (''latency'', JNum (Fin l)), (''errors'', JNum (Fin e))])])])])])]))"
proof (cases "save_enabled SaveWeights t pending s")
  case True
  then have v: "weightsValid (rt_weights s)" by simp
  then obtain c l e where w: "wt_cost (rt_weights s) = Fin c" "wt_latency (rt_weights s) = Fin l" "wt_errors (rt_weights s) = Fin e"
    and r: "0 \<le> c" "c \<le> 1" "0 \<le> l" "l \<le> 1" "0 \<le> e" "e \<le> 1"
    unfolding weightsValid_def using in_unit_val by (simp only: list.pred_inject) metis
  have "\<bar>c + l + e - 1\<bar> < 1 / 1000"
    using v w by (auto simp: weightsValid_def weightsSum_def num_sub_def num_abs_def split: if_splits)
  moreover have "rt_weights s = \<lparr>wt_cost = Fin c, wt_latency = Fin l, wt_errors = Fin e\<rparr>"
    using w by (cases "rt_weights s") simp
  moreover have "io_requests (click_save SaveWeights t pending s) net =
      [send_request ''PATCH'' (tenant_url (tc_tenant_id t) ''/config'')
            (JObj [(''version'', tc_version t), (''patch'', save_patch SaveWeights s)])]"
    using True by (simp add: io_requests_def click_save_def handleSave_def updateTenantConfig_def call_history bind_return_history
        del: save_enabled.simps save_patch.simps)
  ultimately show ?thesis using r True unfolding save_patch.simps w by blast
next
  case False
  then show ?thesis by (simp add: click_save_def io_requests_def io_return_def del: save_enabled.simps)
qed

theorem saved_weights_valid_witness:
  "length (io_requests (click_save SaveWeights demo_config False
     (run_events [EditWeight WCost ''0.5'', EditWeight WLatency ''0.2''] routing_init)) (\<lambda>_ _. FetchFail [])) = 1"
proof -
  define s where "s = run_events [EditWeight WCost ''0.5'', EditWeight WLatency ''0.2''] routing_init"
  have "save_enabled SaveWeights demo_config False s" unfolding s_def by code_simp
  then obtain rq where "io_requests (click_save SaveWeights demo_config False s) (\<lambda>_ _. FetchFail []) = [rq]"
    using saved_weights_valid [of demo_config False s "\<lambda>_ _. FetchFail []"] by blast
  then have "length (io_requests (click_save SaveWeights demo_config False s) (\<lambda>_ _. FetchFail [])) = 1" by simp
  then show ?thesis unfolding s_def .
qed

section \<open>The keyword field\<close>

definition keyword :: "string \<Rightarrow> bool" where
  "keyword k \<longleftrightarrow> k \<noteq> [] \<and> trim k = k \<and> CHR 0x0A \<notin> set k"

lemma keyword_lines_join:
  assumes "list_all keyword ks"
  shows "keyword_lines (join [CHR 0x0A] ks) = ks"
proof (cases "ks = []")
  case True
  then show ?thesis by (simp add: keyword_lines_def trim_def)
next
  case False
  have "split_on (CHR 0x0A) (join [CHR 0x0A] ks) = ks"
    using False assms by (intro split_on_join) (auto simp: list_all_iff keyword_def)
  moreover have "map trim ks = ks" using assms by (auto simp: list_all_iff keyword_def intro!: map_idI)
  ultimately show ?thesis using assms by (auto simp: keyword_lines_def list_all_iff keyword_def filter_id_conv)
qed

lemma join_snoc: "ks \<noteq> [] \<Longrightarrow> join sep (ks @ [k]) = join sep ks @ sep @ k"
  by (induction ks rule: list_nonempty_induct) (simp_all add: join_Cons)

text \<open>The text area shows the keywords one per line and reads back what it shows, so a pasted list is stored. But it is
  drawn from what is stored: typing Enter after the last keyword changes nothing, so a second keyword cannot be
  typed.\<close>

theorem keyword_field:
  assumes "list_all keyword ks" and "ks \<noteq> []"
  shows "edit_contains (join [CHR 0x0A] ks) w = w\<lparr>sw_contains := Some ks\<rparr> \<and>
    contains_text (w\<lparr>sw_contains := Some ks\<rparr>) = join [CHR 0x0A] ks \<and>
    edit_contains (contains_text (w\<lparr>sw_contains := Some ks\<rparr>) @ [CHR 0x0A]) (w\<lparr>sw_contains := Some ks\<rparr>) = w\<lparr>sw_contains := Some ks\<rparr>"
proof -
  have "keyword_lines (join [CHR 0x0A] ks @ [CHR 0x0A]) = ks"
  proof -
    have "split_on (CHR 0x0A) (join [CHR 0x0A] (ks @ [[]])) = ks @ [[]]"
      using assms by (intro split_on_join) (auto simp: list_all_iff keyword_def)
    moreover have "map trim ks = ks" using assms by (auto simp: list_all_iff keyword_def intro!: map_idI)
    moreover have "trim [] = []" by (simp add: trim_def)
    ultimately show ?thesis
      using assms join_snoc [OF assms(2), of "[CHR 0x0A]" "[]"]
      by (auto simp: keyword_lines_def list_all_iff keyword_def filter_id_conv)
  qed
  then show ?thesis
    using assms keyword_lines_join [OF assms(1)] by (simp add: edit_contains_def contains_text_def list_or_none_def)
qed

theorem keyword_field_witness:
  "edit_contains (''json'' @ [CHR 0x0A]) (emptyWhen\<lparr>sw_contains := Some [''json'']\<rparr>) = emptyWhen\<lparr>sw_contains := Some [''json'']\<rparr>"
proof -
  have "list_all keyword [''json'']" by code_simp
  then show ?thesis using keyword_field [of "[''json'']" emptyWhen] by (simp add: contains_text_def)
qed

end
