(* ===== verification/Logs_Page.thy ===== *)
theory Logs_Page
  imports Finops_Fetch Download Routing_Log_Routes
begin

text \<open>
  The logs page (app/(app)/logs/page.tsx): its four tabs with their filters and pages, the queries they send, and
  the CSV download. The filters of the four tabs share one record; a tab without a filter leaves its field
  empty. \<open>date_ms\<close> is \<open>new Date(v).getTime()\<close> on the text of a date input, which depends on the time zone.
\<close>

section \<open>Filters\<close>

datatype logs_tab = Audit | Compliance | Conversation | Ml

record log_filters =
  lf_from :: string
  lf_to :: string
  lf_tenant_id :: string
  lf_jwt_sub :: string
  lf_model :: string
  lf_status :: string
  lf_limit :: nat
  lf_offset :: nat

fun initial_status :: "logs_tab \<Rightarrow> string" where
  "initial_status Audit = ''ok''"
| "initial_status _ = []"

definition initial_filters :: "string \<Rightarrow> string \<Rightarrow> logs_tab \<Rightarrow> log_filters" where
  "initial_filters from to tab =
     \<lparr>lf_from = from, lf_to = to, lf_tenant_id = [], lf_jwt_sub = [], lf_model = [], lf_status = initial_status tab,
      lf_limit = 50, lf_offset = 0\<rparr>"

fun tab_ready :: "logs_tab \<Rightarrow> log_filters \<Rightarrow> bool" where
  "tab_ready Audit f = (lf_from f \<noteq> [] \<and> lf_to f \<noteq> [] \<and> lf_tenant_id f \<noteq> [] \<and> lf_status f \<noteq> [])"
| "tab_ready Compliance f = (lf_from f \<noteq> [] \<and> lf_to f \<noteq> [])"
| "tab_ready Conversation f = (lf_from f \<noteq> [] \<and> lf_to f \<noteq> [] \<and> lf_tenant_id f \<noteq> [])"
| "tab_ready Ml f = (lf_from f \<noteq> [] \<and> lf_to f \<noteq> [] \<and> lf_tenant_id f \<noteq> [])"

section \<open>Texts of the table\<close>

text \<open>\<open>None\<close> stands for the dash shown for a missing value.\<close>

definition truncateText :: "string option \<Rightarrow> nat \<Rightarrow> string option" where
  "truncateText v mx =
     (case v of
        None \<Rightarrow> None
      | Some s \<Rightarrow> if s = [] then None else if length s \<le> mx then Some s else Some (take (mx - 3) s @ ''...''))"

definition observable_entry :: "string \<times> jsval \<Rightarrow> string" where
  "observable_entry e = (if is_object (snd e) then fst e @ ''={...}'' else fst e @ ''='' @ to_str (snd e))"

definition previewObservable :: "jsval \<Rightarrow> string option" where
  "previewObservable v =
     (let entries = js_entries v in
      if \<not> truthy v \<or> entries = [] then None
      else if 2 < length entries then Some (show_nat (length entries) @ '' fields'')
      else Some (join '', '' (map observable_entry entries)))"

definition getStatusBadgeClass :: "string option \<Rightarrow> string" where
  "getStatusBadgeClass status =
     (let normalized = to_lower (case status of None \<Rightarrow> [] | Some s \<Rightarrow> s) in
      if normalized = ''ok'' \<or> normalized = ''success'' then ''bg-green-100 text-green-800 border-green-200 hover:bg-green-100''
      else if normalized = ''error'' then ''bg-red-100 text-red-800 border-red-200 hover:bg-red-100''
      else [])"

section \<open>Queries\<close>

definition toRfc3339 :: "(string \<Rightarrow> jsnum) \<Rightarrow> string \<Rightarrow> exn + string" where
  "toRfc3339 date_ms v = (if v = [] then Inr [] else to_iso_string (date_ms v))"

definition opt_param :: "string \<Rightarrow> string \<Rightarrow> (string \<times> string) list" where
  "opt_param k v = (if v \<noteq> [] then [(k, v)] else [])"

fun tab_params :: "logs_tab \<Rightarrow> log_filters \<Rightarrow> (string \<times> string) list" where
  "tab_params Audit f = [(''tenant_id'', lf_tenant_id f), (''status'', lf_status f)] @ opt_param ''jwt_sub'' (lf_jwt_sub f)"
| "tab_params Compliance f = []"
| "tab_params Conversation f = [(''tenant_id'', lf_tenant_id f)] @ opt_param ''jwt_sub'' (lf_jwt_sub f)"
| "tab_params Ml f = [(''tenant_id'', lf_tenant_id f)] @ opt_param ''model'' (lf_model f) @ opt_param ''status'' (lf_status f)"

fun logs_path :: "logs_tab \<Rightarrow> string" where
  "logs_path Audit = ''/api/logs/audit''"
| "logs_path Compliance = ''/api/logs/compliance''"
| "logs_path Conversation = ''/api/logs/conversations''"
| "logs_path Ml = ''/api/logs/ml''"

fun logs_failure :: "logs_tab \<Rightarrow> string" where
  "logs_failure Audit = ''Failed to load audit logs''"
| "logs_failure Compliance = ''Failed to load compliance events''"
| "logs_failure Conversation = ''Failed to load conversation logs''"
| "logs_failure Ml = ''Failed to load ML logs''"

definition range_params :: "(string \<Rightarrow> jsnum) \<Rightarrow> log_filters \<Rightarrow> exn + (string \<times> string) list" where
  "range_params date_ms f =
     (case toRfc3339 date_ms (lf_from f) of
        Inl err \<Rightarrow> Inl err
      | Inr from \<Rightarrow> (case toRfc3339 date_ms (lf_to f) of Inl err \<Rightarrow> Inl err | Inr to \<Rightarrow> Inr [(''from'', from), (''to'', to)]))"

definition page_params :: "log_filters \<Rightarrow> (string \<times> string) list" where
  "page_params f = [(''limit'', nat_str (lf_limit f)), (''offset'', nat_str (lf_offset f))]"

definition logs_request :: "logs_tab \<Rightarrow> log_filters \<Rightarrow> (string \<times> string) list \<Rightarrow> http_req" where
  "logs_request tab f dates = list_request (logs_path tab) (dates @ tab_params tab f @ page_params f)"

text \<open>\<open>const payload = await res.json().catch(() => ({}))\<close>; the error carries the status.\<close>

definition logs_error :: "string \<Rightarrow> http_resp \<Rightarrow> exn" where
  "logs_error msg resp =
     JsError (to_str (js_or (get_prop (resp_json_or_empty resp) ''error'') (JStr msg))) (Some (rs_status resp))"

definition fetch_logs :: "(string \<Rightarrow> jsnum) \<Rightarrow> logs_tab \<Rightarrow> log_filters \<Rightarrow> jsval io" where
  "fetch_logs date_ms tab f =
     io_bind (io_of_sum (range_params date_ms f)) (\<lambda>dates.
     io_bind (io_fetch (logs_request tab f dates)) (\<lambda>resp.
     if \<not> resp_ok resp then io_throw (logs_error (logs_failure tab) resp) else resp_json resp))"

definition logs_retry :: "nat \<Rightarrow> int option \<Rightarrow> bool" where
  "logs_retry failureCount status = (if status = Some 401 \<or> status = Some 403 then False else failureCount < 2)"

text \<open>\<open>a ?? fallback\<close>; the default of the total is the offset plus the rows returned.\<close>

definition buildPagination :: "jsval \<Rightarrow> log_filters \<Rightarrow> page_info" where
  "buildPagination data f =
     (let p = get_prop data ''pagination'';
          offset = number_default (Fin (of_nat (lf_offset f))) (get_prop p ''offset'');
          returned = number_default (Fin (of_nat (length (arr_elems (get_prop data ''data''))))) (get_prop p ''returned'')
      in \<lparr>pi_limit = number_default (Fin (of_nat (lf_limit f))) (get_prop p ''limit''), pi_offset = offset,
          pi_returned = returned, pi_total = number_default (num_add offset returned) (get_prop p ''total'')\<rparr>)"

definition logs_has_next :: "jsval \<Rightarrow> log_filters \<Rightarrow> bool" where
  "logs_has_next data f \<longleftrightarrow> Fin (of_nat (length (arr_elems (get_prop data ''data'')))) = pi_limit (buildPagination data f)"

section \<open>State and events\<close>

record logs_state =
  lg_tab :: logs_tab
  lg_filters :: "logs_tab \<Rightarrow> log_filters"

definition logs_init :: "string \<Rightarrow> string \<Rightarrow> logs_state" where
  "logs_init from to = \<lparr>lg_tab = Audit, lg_filters = initial_filters from to\<rparr>"

datatype log_field = FFrom | FTo | FTenant | FJwtSub | FModel | FStatus

fun has_field :: "logs_tab \<Rightarrow> log_field \<Rightarrow> bool" where
  "has_field tab FFrom = True"
| "has_field tab FTo = True"
| "has_field tab FTenant = (tab \<noteq> Compliance)"
| "has_field tab FJwtSub = (tab = Audit \<or> tab = Conversation)"
| "has_field tab FModel = (tab = Ml)"
| "has_field tab FStatus = (tab = Audit \<or> tab = Ml)"

fun set_field :: "logs_tab \<Rightarrow> log_field \<Rightarrow> string \<Rightarrow> log_filters \<Rightarrow> log_filters" where
  "set_field tab FFrom v f = f\<lparr>lf_from := v\<rparr>"
| "set_field tab FTo v f = f\<lparr>lf_to := v\<rparr>"
| "set_field tab FTenant v f = f\<lparr>lf_tenant_id := v\<rparr>"
| "set_field tab FJwtSub v f = f\<lparr>lf_jwt_sub := v\<rparr>"
| "set_field tab FModel v f = f\<lparr>lf_model := v\<rparr>"
| "set_field tab FStatus v f = f\<lparr>lf_status := (if tab = Ml \<and> v = ''all'' then [] else v)\<rparr>"

datatype logs_event = ShowTab logs_tab | EditFilter logs_tab log_field string | PrevLogs logs_tab | NextLogs logs_tab

definition update_filters :: "logs_tab \<Rightarrow> (log_filters \<Rightarrow> log_filters) \<Rightarrow> logs_state \<Rightarrow> logs_state" where
  "update_filters tab g s = s\<lparr>lg_filters := (lg_filters s)(tab := g (lg_filters s tab))\<rparr>"

fun logs_step :: "logs_event \<Rightarrow> logs_state \<Rightarrow> logs_state" where
  "logs_step (ShowTab tab) s = s\<lparr>lg_tab := tab\<rparr>"
| "logs_step (EditFilter tab k v) s =
     (if has_field tab k then update_filters tab (\<lambda>f. (set_field tab k v f)\<lparr>lf_offset := 0\<rparr>) s else s)"
| "logs_step (PrevLogs tab) s = update_filters tab (\<lambda>f. f\<lparr>lf_offset := lf_offset f - lf_limit f\<rparr>) s"
| "logs_step (NextLogs tab) s = update_filters tab (\<lambda>f. f\<lparr>lf_offset := lf_offset f + lf_limit f\<rparr>) s"

text \<open>The queries that run: only the one of the tab shown, once its required filters are set.\<close>

definition logs_queries :: "bool \<Rightarrow> logs_state \<Rightarrow> (logs_tab \<times> log_filters) list" where
  "logs_queries canFetch s =
     (let f = lg_filters s (lg_tab s) in if canFetch \<and> tab_ready (lg_tab s) f then [(lg_tab s, f)] else [])"

section \<open>Download\<close>

fun export_path :: "logs_tab \<Rightarrow> string" where
  "export_path Audit = ''/api/logs/audit/export''"
| "export_path Compliance = ''/api/logs/compliance/export''"
| "export_path Conversation = ''/api/logs/conversations/export''"
| "export_path Ml = ''/api/logs/ml/export''"

definition export_params :: "logs_tab \<Rightarrow> log_filters \<Rightarrow> (string \<times> string) list \<Rightarrow> (string \<times> string) list" where
  "export_params tab f dates = dates @ (if tab = Compliance then [] else opt_param ''tenant_id'' (lf_tenant_id f))"

definition getExportUrl :: "logs_tab \<Rightarrow> (string \<times> string) list \<Rightarrow> string" where
  "getExportUrl tab params = export_path tab @ ''?'' @ params_to_string params"

definition export_request :: "string \<Rightarrow> string \<Rightarrow> http_req" where
  "export_request url token = (get_request url)\<lparr>rq_headers := [(''Authorization'', ''Bearer '' @ token)]\<rparr>"

datatype download = LoggedOut | Saved string string | Toasted string

definition export_reply :: "http_resp \<Rightarrow> download" where
  "export_reply res =
     (if rs_status res = 401 then LoggedOut
      else if rs_status res = 403 then Toasted ''You do not have permission to export data''
      else if \<not> resp_ok res then Toasted ''Failed to download CSV''
      else Saved (case resolveExportFilename (map_of (rs_headers res) ''content-disposition'') of
             None \<Rightarrow> ''export.csv'' | Some n \<Rightarrow> n) (rs_text res))"

text \<open>The dates are read before the \<open>try\<close>: an unreadable one is not caught.\<close>

definition handleDownloadCsv :: "(string \<Rightarrow> jsnum) \<Rightarrow> string option \<Rightarrow> logs_tab \<Rightarrow> logs_state \<Rightarrow> download io" where
  "handleDownloadCsv date_ms accessToken tab s =
     (case accessToken of
        None \<Rightarrow> io_return LoggedOut
      | Some token \<Rightarrow>
          if token = [] then io_return LoggedOut
          else io_bind (io_of_sum (range_params date_ms (lg_filters s tab))) (\<lambda>dates.
            io_catch
              (io_bind (io_fetch (export_request (getExportUrl tab (export_params tab (lg_filters s tab) dates)) token))
                 (\<lambda>res. io_return (export_reply res)))
              (\<lambda>_. io_return (Toasted ''Failed to download CSV''))))"

end
