(* ===== verification/Logs_Page_Props.thy ===== *)
theory Logs_Page_Props
  imports Logs_Page Client_Props
begin

text \<open>
  Properties of the logs page, together with the audit route behind it: the filters of the page are the ones the gateway is
  asked with, pages are whole and filters restart them, the download uses the token of the session and leaves
  filters out.
\<close>

section \<open>Numbers in a query string\<close>

lemma str_to_num_show_nat: "str_to_num (show_nat n) = Fin (of_nat n)"
proof -
  have t: "trim (show_nat n) = show_nat n"
    using digit_not_ws [OF show_nat_ends(1) [of n]] digit_not_ws [OF show_nat_ends(2) [of n]] by (intro trim_id) simp
  have digits: "c \<in> set (show_nat n) \<Longrightarrow> is_digit c" for c using show_nat_digits [of n] by (simp add: list_all_iff)
  have low: "map lower_char xs = xs" if "set xs \<subseteq> set (show_nat n)" for xs
  proof (rule map_idI)
    fix x assume "x \<in> set xs"
    then have "is_digit x" using that digits by blast
    then show "lower_char x = x" by (auto simp: lower_char_def is_digit_def)
  qed
  have lt: "to_lower (take 2 (show_nat n)) \<noteq> [CHR ''0'', x]" if "\<not> is_digit x" for x
    using low [OF set_take_subset [of 2]] that digits set_take_subset [of 2 "show_nat n"]
    by (auto simp: to_lower_def)
  have nd: "\<not> is_digit (CHR ''x'')" "\<not> is_digit (CHR ''o'')" "\<not> is_digit (CHR ''b'')" "\<not> is_digit (CHR ''I'')"
    by (simp_all add: is_digit_def code_def)
  have inf: "show_nat n \<noteq> ''Infinity''" using digits [of "CHR ''I''"] nd(4) by force
  have s: "signed (show_nat n) = (False, show_nat n)" using signed_show_int [of "int n"] by (simp add: show_int_def)
  have "parse_decimal (show_nat n) = Some (of_nat n, [])" by (simp add: parse_decimal_def parse_exp_def)
  then show ?thesis
    unfolding str_to_num_def t Let_def using lt nd inf by (simp add: s)
qed

lemma nat_str_show: "n < 10 ^ 21 \<Longrightarrow> nat_str n = show_nat n"
  using num_to_string_int [of "int n"] by (simp add: nat_str_def show_int_def)

section \<open>Query strings\<close>

lemma params_no_hash: "CHR ''#'' \<notin> set (params_to_string ps)"
proof -
  have "CHR ''#'' \<notin> set (join ''&'' ws)" if "list_all (\<lambda>w. CHR ''#'' \<notin> set w) ws" for ws
    using that by (induction "''&''" ws rule: join.induct) auto
  then show ?thesis using param_encode_no_hash by (auto simp: params_to_string_def list_all_iff)
qed

lemma list_request_read:
  assumes "list_all plain_segment ss" and "ss \<noteq> []" and "ps \<noteq> []"
  shows "url_segments (rq_url (list_request (slash_path ss) ps)) = ss"
    and "params_parse (url_query (rq_url (list_request (slash_path ss) ps))) = ps"
  using target_plain [OF assms(1,2), of "''?'' @ params_to_string ps"] params_parse_to_string [OF assms(3)]
    takeWhile_no_hash [OF params_no_hash [of ps]]
  by (simp_all add: list_request_def get_request_def)

section \<open>The audit log reaches the gateway as it was asked for\<close>

lemma audit_request_url: "rq_url (logs_request Audit f ds) =
    rq_url (list_request (slash_path [''api'', ''logs'', ''audit'']) (ds @ tab_params Audit f @ page_params f))"
  by (simp add: logs_request_def slash_path_def)

lemma plain_logs: "list_all plain_segment [''api'', ''logs'', ''audit'']"
  by (simp add: plain_segment_def ends_path_def dot_segments_def double_dot_segments_def)

text \<open>C31. The request of the audit tab, read by the route it addresses, becomes a gateway query with the same range, tenant,
  subject and status and the same page: nothing is dropped, changed or added on the way, whatever characters the filters
  hold.\<close>

theorem audit_filters_reach_gateway:
  assumes "tab_ready Audit f" and "ds = [(''from'', a), (''to'', b)]" and "a \<noteq> []" and "b \<noteq> []"
    and "1 \<le> lf_limit f" and "lf_limit f \<le> 200" and "lf_offset f < 10 ^ 21"
    and "sq_query q = params_parse (url_query (rq_url (logs_request Audit f ds)))"
  shows "url_segments (rq_url (logs_request Audit f ds)) = [''api'', ''logs'', ''audit''] \<and>
    audit_params q = [(''from'', a), (''to'', b), (''tenant_id'', lf_tenant_id f)] @ opt_param ''jwt_sub'' (lf_jwt_sub f)
      @ [(''status'', lf_status f), (''limit'', show_nat (lf_limit f)), (''offset'', show_nat (lf_offset f))]"
proof -
  note read = list_request_read [OF plain_logs, of "ds @ tab_params Audit f @ page_params f"]
  have q: "sq_query q = [(''from'', a), (''to'', b), (''tenant_id'', lf_tenant_id f), (''status'', lf_status f)]
      @ opt_param ''jwt_sub'' (lf_jwt_sub f) @ [(''limit'', show_nat (lf_limit f)), (''offset'', show_nat (lf_offset f))]"
    using assms read(2) nat_str_show [of "lf_limit f"] nat_str_show [of "lf_offset f"]
    by (simp add: audit_request_url page_params_def)
  have num: "num_to_string (Fin (of_nat n)) = show_nat n" if "n < 10 ^ 21" for n
    using nat_str_show [OF that] by (simp add: nat_str_def)
  have or: "or_string (Some s) d = s" if "s \<noteq> []" for s d using that by (cases s) (simp_all add: or_string_def)
  have "page_limit 50 q = Fin (of_nat (lf_limit f))"
    using assms(5,6) unfolding page_limit_def search_param_def q
    by (simp add: opt_param_def or str_to_num_show_nat finite_or_def num_min_def num_max_def)
  moreover have "page_offset q = Fin (of_nat (lf_offset f))"
    unfolding page_offset_def search_param_def q
    by (simp add: opt_param_def or str_to_num_show_nat finite_or_def num_max_def)
  moreover have "qs_params q [Optional ''from'', Optional ''to'', Optional ''tenant_id'', Optional ''jwt_sub'', Optional ''status''] =
      [(''from'', a), (''to'', b), (''tenant_id'', lf_tenant_id f)] @ opt_param ''jwt_sub'' (lf_jwt_sub f) @ [(''status'', lf_status f)]"
    using assms(1,3,4) unfolding qs_params_def
    by (simp add: get_or_empty_def search_param_def q opt_param_def or) (simp add: or_string_def)
  ultimately show ?thesis
    using assms(6,7) read(1) num [of "lf_limit f"] num [of "lf_offset f"] by (simp add: audit_params_def audit_request_url)
qed

definition demo_filters :: log_filters where
  "demo_filters = (initial_filters ''2026-01-01T00:00'' ''2026-01-02T00:00'' Audit)\<lparr>lf_tenant_id := ''a&status=error''\<rparr>"

theorem audit_filters_reach_gateway_witness:
  "\<exists>q. (''tenant_id'', ''a&status=error'') \<in> set (audit_params q) \<and> (''status'', ''ok'') \<in> set (audit_params q)"
proof -
  let ?ds = "[(''from'', ''2026-01-01T00:00:00.000Z''), (''to'', ''2026-01-02T00:00:00.000Z'')]"
  let ?q = "\<lparr>sq_query = params_parse (url_query (rq_url (logs_request Audit demo_filters ?ds))), sq_headers = [], sq_cookies = [], sq_body = None\<rparr>"
  show ?thesis
    using audit_filters_reach_gateway [of demo_filters ?ds _ _ ?q]
    by (intro exI [of _ ?q]) (simp add: demo_filters_def initial_filters_def)
qed

section \<open>Pages\<close>

inductive logs_reachable :: "logs_state \<Rightarrow> bool" where
  start: "logs_reachable (logs_init from to)"
| event: "logs_reachable s \<Longrightarrow> logs_reachable (logs_step e s)"

definition whole_pages :: "logs_state \<Rightarrow> bool" where
  "whole_pages s \<longleftrightarrow> (\<forall>tab. lf_limit (lg_filters s tab) = 50 \<and> 50 dvd lf_offset (lg_filters s tab))"

lemma set_field_paging [simp]:
  "lf_limit (set_field tab k v f) = lf_limit f" "lf_offset (set_field tab k v f) = lf_offset f"
  by (cases k; simp)+

lemma whole_pages_step: "whole_pages s \<Longrightarrow> whole_pages (logs_step e s)"
  by (cases e) (auto simp: whole_pages_def update_filters_def intro: dvd_diff_nat)

lemma whole_pages_reachable: "logs_reachable s \<Longrightarrow> whole_pages s"
  by (induction rule: logs_reachable.induct)
    (simp add: whole_pages_def logs_init_def initial_filters_def, rule whole_pages_step)

text \<open>In every reachable state each tab asks for whole pages of 50 rows. Changing a filter goes back to the first page of
  its tab and touches no other tab, and Previous undoes Next.\<close>

theorem logs_pages:
  assumes "logs_reachable s"
  shows "(\<forall>tab. lf_limit (lg_filters s tab) = 50 \<and> 50 dvd lf_offset (lg_filters s tab)) \<and>
    (has_field tab k \<longrightarrow> lf_offset (lg_filters (logs_step (EditFilter tab k v) s) tab) = 0) \<and>
    (tab' \<noteq> tab \<longrightarrow> lg_filters (logs_step (EditFilter tab k v) s) tab' = lg_filters s tab') \<and>
    logs_step (PrevLogs tab) (logs_step (NextLogs tab) s) = s"
  using whole_pages_reachable [OF assms] by (auto simp: whole_pages_def update_filters_def)

theorem logs_pages_witness:
  "lf_offset (lg_filters (logs_step (EditFilter Ml FModel ''m'') (logs_step (NextLogs Ml) (logs_init ''a'' ''b''))) Ml) = 0"
proof -
  have "logs_reachable (logs_step (NextLogs Ml) (logs_init ''a'' ''b''))" by (intro logs_reachable.intros)
  from logs_pages [OF this, of Ml FModel "''m''"] show ?thesis by (simp del: logs_step.simps)
qed

section \<open>The download\<close>

text \<open>The download logs out and sends nothing without a session token; with one it sends exactly one request, with that
  token, for the range and the tenant of the tab, and saves the file only for an accepted answer. The status, subject and
  model filters have no part in it: the file holds rows the table does not show.\<close>

theorem logs_download:
  assumes "range_params date_ms (lg_filters s tab) = Inr ds"
  shows "handleDownloadCsv date_ms None tab s net [] = (Inr LoggedOut, []) \<and>
    (token \<noteq> [] \<longrightarrow>
      (let req = export_request (getExportUrl tab (export_params tab (lg_filters s tab) ds)) token;
           run = handleDownloadCsv date_ms (Some token) tab s net []
       in snd run = [req] \<and> rq_headers req = [(''Authorization'', ''Bearer '' @ token)] \<and>
          fst run = Inr (case net [] req of FetchFail _ \<Rightarrow> Toasted ''Failed to download CSV'' | FetchOk res \<Rightarrow> export_reply res))) \<and>
    export_params tab ((lg_filters s tab)\<lparr>lf_status := x, lf_jwt_sub := y, lf_model := z\<rparr>) ds = export_params tab (lg_filters s tab) ds"
  using assms
  by (auto simp: handleDownloadCsv_def io_of_sum_def Let_def export_request_def export_params_def js_simps split: fetch_result.splits)

theorem logs_download_witness:
  "snd (handleDownloadCsv (\<lambda>_. Fin 0) (Some ''t'') Audit (logs_init ''a'' ''b'') (\<lambda>_ _. FetchFail []) []) \<noteq> []"
proof -
  have "\<exists>ds. range_params (\<lambda>_. Fin 0) (lg_filters (logs_init ''a'' ''b'') Audit) = Inr ds"
    by (simp add: range_params_def toRfc3339_def logs_init_def initial_filters_def to_iso_string_def)
  then show ?thesis using logs_download [of "\<lambda>_. Fin 0" "logs_init ''a'' ''b''" Audit _ "\<lambda>_ _. FetchFail []" "''t''"] by (auto simp: Let_def)
qed

text \<open>A shortened text fits its column and keeps the front of the value.\<close>

lemma truncateText_bound:
  "3 \<le> mx \<Longrightarrow> truncateText v mx = Some t \<Longrightarrow> length t \<le> mx \<and> (\<exists>s. v = Some s \<and> take (mx - 3) t = take (mx - 3) s)"
  by (auto simp: truncateText_def split: option.splits if_splits)

end
