(* ===== verification/Semantic_Page.thy ===== *)
theory Semantic_Page
  imports Report_Client Provider_Config
begin

text \<open>
  The semantic page (app/(app)/semantic/page.tsx): anchors, threshold, playground, suggestions, calibration and
  routes of the selected tenant. A handler returns the new state and the mutation it starts; the answer of a mutation
  is an event of its own, so that other events may come in between. The caches of React Query that the page reads are
  fields of the state, filled by events. The lists the page casts to its types (anchors, models) have those types here.
  \<open>locale_le\<close> is \<open>localeCompare\<close> of the browser. A dialog is modal: while it is open the page behind it gets no
  input. The \<open>disabled\<close> of a button that a running mutation causes is not a guard of the events below.
\<close>

section \<open>Lists of names\<close>

definition normalizeStringArray :: "string list \<Rightarrow> string list" where
  "normalizeStringArray values =
     foldl (\<lambda>result v. if trim v = [] \<or> trim v \<in> set result then result else result @ [trim v]) [] values"

definition sorted_names :: "string list \<Rightarrow> string list" where
  "sorted_names xs = sort_by (\<lambda>a b. \<not> str_less b a) xs"

definition arraysEqualIgnoreOrder :: "string list \<Rightarrow> string list \<Rightarrow> bool" where
  "arraysEqualIgnoreOrder a b =
     (if length a \<noteq> length b then False
      else list_all (\<lambda>(x, y). x = y) (zip (sorted_names a) (sorted_names b)))"

section \<open>Anchors and the anchor dialog\<close>

record anchor =
  an_name :: string
  an_route_group :: string
  an_preferred_models :: "string list option"
  an_modality :: "string option"
  an_anchor_text :: "string option"

record anchor_form =
  af_name :: string
  af_route_group :: string
  af_anchor_text :: string
  af_modality :: string
  af_preferred_models :: "string list"
  af_tenant_id :: string

definition EMPTY_ANCHOR_FORM :: anchor_form where
  "EMPTY_ANCHOR_FORM = \<lparr>af_name = [], af_route_group = [], af_anchor_text = [], af_modality = ''text'',
     af_preferred_models = [], af_tenant_id = []\<rparr>"

text \<open>The defaults of a new anchor; the page never sets the other members of \<open>defaults\<close>.\<close>

record anchor_defaults =
  ad_name :: "string option"
  ad_route_group :: "string option"
  ad_text :: "string option"
  ad_tenant_id :: "string option"

datatype anchor_dialog = CreateAnchorDialog anchor_defaults | EditAnchorDialog anchor

definition opt_or :: "'a option \<Rightarrow> 'a \<Rightarrow> 'a" where
  "opt_or v d = (case v of None \<Rightarrow> d | Some x \<Rightarrow> x)"

fun first_some :: "'a option list \<Rightarrow> 'a \<Rightarrow> 'a" where
  "first_some [] d = d"
| "first_some (v # vs) d = (case v of None \<Rightarrow> first_some vs d | Some x \<Rightarrow> x)"

definition first_tenant :: "string list \<Rightarrow> string option" where
  "first_tenant tenants = (case tenants of [] \<Rightarrow> None | t # _ \<Rightarrow> Some t)"

fun dialog_form :: "anchor_dialog option \<Rightarrow> string option \<Rightarrow> string list \<Rightarrow> anchor_form" where
  "dialog_form None selected tenants = EMPTY_ANCHOR_FORM"
| "dialog_form (Some (EditAnchorDialog a)) selected tenants =
     \<lparr>af_name = an_name a, af_route_group = an_route_group a, af_anchor_text = opt_or (an_anchor_text a) [],
      af_modality = opt_or (an_modality a) ''text'', af_preferred_models = opt_or (an_preferred_models a) [],
      af_tenant_id = []\<rparr>"
| "dialog_form (Some (CreateAnchorDialog d)) selected tenants =
     \<lparr>af_name = opt_or (ad_name d) [], af_route_group = opt_or (ad_route_group d) [],
      af_anchor_text = opt_or (ad_text d) [], af_modality = ''text'', af_preferred_models = [],
      af_tenant_id = first_some [ad_tenant_id d, selected, first_tenant tenants] []\<rparr>"

section \<open>Mutations\<close>

datatype mutation =
    CreateAnchor props
  | UpdateAnchor string props
  | DeleteAnchor string
  | CreateRoute props
  | DeleteRoute string
  | Playground string string
  | Suggest "string list" jsnum string
  | Calibrate "(string \<times> string) list" string
  | UpdateThreshold string jsval

type_synonym toast_text = "string \<times> string option"

section \<open>State\<close>

record semantic_state =
  sp_tenants :: "string list"
  sp_configs :: "string \<Rightarrow> jsval"
  sp_thresholds :: "string \<Rightarrow> jsnum option"
  sp_selected :: "string option"
  sp_includeAnchorText :: bool
  sp_searchTerm :: string
  sp_anchorDialog :: "anchor_dialog option"
  sp_anchorForm :: anchor_form
  sp_modelSearch :: string
  sp_anchorToDelete :: "anchor option"
  sp_routeDialogOpen :: bool
  sp_routeToDelete :: "string option"
  sp_playgroundInput :: string
  sp_playgroundResult :: jsval
  sp_playgroundError :: "string option"
  sp_suggestDataset :: string
  sp_suggestMaxClusters :: jsnum
  sp_suggestions :: jsval
  sp_calibrationRows :: "(string \<times> string) list"
  sp_calibrationResult :: jsval
  sp_thresholdDraft :: "jsnum option"
  sp_toasts :: "toast_text list"
  sp_invalidated :: "string list list"

definition semantic_init :: "string list \<Rightarrow> semantic_state" where
  "semantic_init tenants =
     \<lparr>sp_tenants = tenants, sp_configs = (\<lambda>_. JUndef), sp_thresholds = (\<lambda>_. None), sp_selected = first_tenant tenants,
      sp_includeAnchorText = False, sp_searchTerm = [], sp_anchorDialog = None, sp_anchorForm = EMPTY_ANCHOR_FORM,
      sp_modelSearch = [], sp_anchorToDelete = None, sp_routeDialogOpen = False, sp_routeToDelete = None,
      sp_playgroundInput = [], sp_playgroundResult = JNull, sp_playgroundError = None, sp_suggestDataset = [],
      sp_suggestMaxClusters = Fin 3, sp_suggestions = JNull, sp_calibrationRows = [([], [])],
      sp_calibrationResult = JNull, sp_thresholdDraft = None, sp_toasts = [], sp_invalidated = []\<rparr>"

text \<open>The selected tenant, when it is truthy.\<close>

definition tenant_of :: "semantic_state \<Rightarrow> string option" where
  "tenant_of s = (if truthy_str (sp_selected s) then sp_selected s else None)"

definition config_of :: "semantic_state \<Rightarrow> jsval" where
  "config_of s = (case tenant_of s of None \<Rightarrow> JUndef | Some t \<Rightarrow> sp_configs s t)"

definition embeddingModel :: "jsval \<Rightarrow> string" where
  "embeddingModel config =
     str_of (get_prop (get_prop (get_prop config ''routing'') ''semantic'') ''embedding_model'')"

definition disableSemanticActions :: "semantic_state \<Rightarrow> bool" where
  "disableSemanticActions s \<longleftrightarrow> trim (embeddingModel (config_of s)) = []"

definition isSemanticRoutingEnabled :: "jsval \<Rightarrow> bool" where
  "isSemanticRoutingEnabled config =
     (let stages = get_prop (get_prop (get_prop config ''routing'') ''smart'') ''stages'' in
      is_array stages \<and>
      (case find (\<lambda>st. get_prop st ''name'' = JStr ''semantic_intent'') (arr_elems stages) of
         None \<Rightarrow> False
       | Some st \<Rightarrow> is_array (get_prop st ''rules'') \<and> arr_elems (get_prop st ''rules'') \<noteq> []))"

section \<open>Threshold\<close>

definition currentThreshold :: "semantic_state \<Rightarrow> jsnum option" where
  "currentThreshold s = (case tenant_of s of None \<Rightarrow> None | Some t \<Rightarrow> sp_thresholds s t)"

definition displayThreshold :: "semantic_state \<Rightarrow> jsnum" where
  "displayThreshold s = first_some [sp_thresholdDraft s, currentThreshold s] (Fin 0)"

definition thresholdDirty :: "semantic_state \<Rightarrow> bool" where
  "thresholdDirty s \<longleftrightarrow> (case sp_thresholdDraft s of
     None \<Rightarrow> False | Some d \<Rightarrow> (case currentThreshold s of None \<Rightarrow> True | Some c \<Rightarrow> d = NaN \<or> c = NaN \<or> d \<noteq> c))"

section \<open>Effects\<close>

definition select_first_tenant :: "semantic_state \<Rightarrow> semantic_state" where
  "select_first_tenant s =
     (case sp_tenants s of
        [] \<Rightarrow> s
      | t # _ \<Rightarrow> if tenant_of s = None then s\<lparr>sp_selected := Some t\<rparr> else s)"

definition reset_form :: "semantic_state \<Rightarrow> semantic_state" where
  "reset_form s = s\<lparr>sp_anchorForm := dialog_form (sp_anchorDialog s) (sp_selected s) (sp_tenants s), sp_modelSearch := []\<rparr>"

definition load_draft :: "semantic_state \<Rightarrow> semantic_state" where
  "load_draft s = (if currentThreshold s \<noteq> None \<and> sp_thresholdDraft s = None
     then s\<lparr>sp_thresholdDraft := currentThreshold s\<rparr> else s)"

text \<open>What the effects of the page leave, after a change from \<open>old\<close> to \<open>s\<close>: the first tenant is selected, the form is
  filled again when one of its dependencies changed, and the draft of the threshold is loaded.\<close>

definition form_deps :: "semantic_state \<Rightarrow> anchor_dialog option \<times> string option \<times> string list" where
  "form_deps s = (sp_anchorDialog s, sp_selected s, sp_tenants s)"

definition run_effects :: "semantic_state \<Rightarrow> semantic_state \<Rightarrow> semantic_state" where
  "run_effects old s =
     (let s1 = select_first_tenant s in load_draft (if form_deps s1 = form_deps old then s1 else reset_form s1))"

section \<open>Derived lists\<close>

record admin_model =
  am_id :: string
  am_provider :: "string option"
  am_route_groups :: "string list"

definition anchorDialogTenantId :: "semantic_state \<Rightarrow> string" where
  "anchorDialogTenantId s =
     (case sp_anchorDialog s of
        Some (CreateAnchorDialog d) \<Rightarrow> af_tenant_id (sp_anchorForm s)
      | _ \<Rightarrow> opt_or (sp_selected s) [])"

text \<open>The models the tenant of the dialog may use; none are named when its config does not list any.\<close>

definition anchorDialogAllowedModels :: "semantic_state \<Rightarrow> string list" where
  "anchorDialogAllowedModels s =
     (if anchorDialogTenantId s = [] then []
      else map str_of (arr_elems (get_prop (sp_configs s (anchorDialogTenantId s)) ''allowed_models'')))"

definition model_matches :: "string \<Rightarrow> admin_model \<Rightarrow> bool" where
  "model_matches needle m \<longleftrightarrow> str_includes (to_lower (am_id m)) needle
     \<or> (case am_provider m of None \<Rightarrow> False | Some p \<Rightarrow> str_includes (to_lower p) needle)
     \<or> list_ex (\<lambda>g. str_includes (to_lower g) needle) (am_route_groups m)"

definition filteredModelOptions :: "(string \<Rightarrow> string \<Rightarrow> bool) \<Rightarrow> admin_model list \<Rightarrow> semantic_state \<Rightarrow> admin_model list" where
  "filteredModelOptions locale_le adminModels s =
     (let allowed = anchorDialogAllowedModels s;
          base = (if allowed = [] then adminModels else filter (\<lambda>m. am_id m \<in> set allowed) adminModels);
          sorted = sort_by (\<lambda>a b. locale_le (am_id a) (am_id b)) base;
          needle = to_lower (trim (sp_modelSearch s))
      in if needle = [] then sorted else filter (model_matches needle) sorted)"

definition routeGroupOptions :: "(string \<Rightarrow> string \<Rightarrow> bool) \<Rightarrow> string list \<Rightarrow> semantic_state \<Rightarrow> string list" where
  "routeGroupOptions locale_le groups s =
     (let current = af_route_group (sp_anchorForm s) in
      sort_by locale_le (if current \<noteq> [] \<and> current \<notin> set groups then groups @ [current] else groups))"

text \<open>\<open>Array.from(new Set(...))\<close>: the first occurrences, in order.\<close>

definition set_names :: "string list \<Rightarrow> string list" where
  "set_names xs = foldl (\<lambda>seen x. if x \<in> set seen then seen else seen @ [x]) [] xs"

definition routeGroupsFromAnchors :: "(string \<Rightarrow> string \<Rightarrow> bool) \<Rightarrow> anchor list \<Rightarrow> string list" where
  "routeGroupsFromAnchors locale_le anchors =
     sort_by locale_le (set_names (filter (\<lambda>g. g \<noteq> []) (map (trim \<circ> an_route_group) anchors)))"

definition calibrationRouteOptions :: "(string \<Rightarrow> string \<Rightarrow> bool) \<Rightarrow> anchor list \<Rightarrow> semantic_state \<Rightarrow> string list" where
  "calibrationRouteOptions locale_le anchors s =
     sort_by locale_le (set_names (routeGroupsFromAnchors locale_le anchors
       @ filter (\<lambda>g. g \<noteq> []) (map (trim \<circ> snd) (sp_calibrationRows s))))"

definition filteredAnchors :: "anchor list \<Rightarrow> semantic_state \<Rightarrow> anchor list" where
  "filteredAnchors anchors s =
     (let needle = to_lower (sp_searchTerm s) in
      if trim (sp_searchTerm s) = [] then anchors
      else filter (\<lambda>a. str_includes (to_lower (an_name a)) needle \<or> str_includes (to_lower (an_route_group a)) needle) anchors)"

definition ANCHOR_LIMIT :: nat where
  "ANCHOR_LIMIT = 50"

definition anchors_query_fn :: "semantic_state \<Rightarrow> jsval io" where
  "anchors_query_fn s = listSemanticAnchors
     (JObj [(''limit'', JNum (Fin (of_nat ANCHOR_LIMIT))), (''includeAnchorText'', JBool (sp_includeAnchorText s)),
            (''tenantId'', case sp_selected s of None \<Rightarrow> JNull | Some t \<Rightarrow> JStr t)])"

section \<open>Submitting the anchor dialog\<close>

definition strs_arr :: "string list \<Rightarrow> jsval" where
  "strs_arr xs = JArr (map JStr xs)"

definition trimmed_name :: "semantic_state \<Rightarrow> string" where
  "trimmed_name s = trim (af_name (sp_anchorForm s))"

definition trimmed_group :: "semantic_state \<Rightarrow> string" where
  "trimmed_group s = trim (af_route_group (sp_anchorForm s))"

definition trimmed_text :: "semantic_state \<Rightarrow> string" where
  "trimmed_text s = trim (af_anchor_text (sp_anchorForm s))"

definition normalizedPreferred :: "semantic_state \<Rightarrow> string list" where
  "normalizedPreferred s = normalizeStringArray (af_preferred_models (sp_anchorForm s))"

definition selectedAnchorTenant :: "semantic_state \<Rightarrow> string" where
  "selectedAnchorTenant s =
     (if af_tenant_id (sp_anchorForm s) \<noteq> [] then af_tenant_id (sp_anchorForm s) else opt_or (sp_selected s) [])"

definition preferredChanged :: "anchor \<Rightarrow> semantic_state \<Rightarrow> bool" where
  "preferredChanged a s \<longleftrightarrow>
     \<not> arraysEqualIgnoreOrder (normalizedPreferred s) (normalizeStringArray (opt_or (an_preferred_models a) []))"

definition create_payload :: "semantic_state \<Rightarrow> props" where
  "create_payload s =
     set_if (normalizedPreferred s \<noteq> []) ''preferred_models'' (strs_arr (normalizedPreferred s))
       (set_if (trimmed_text s \<noteq> []) ''text'' (JStr (trimmed_text s))
         [(''name'', JStr (trimmed_name s)), (''route_group'', JStr (trimmed_group s)),
          (''modality'', JStr (af_modality (sp_anchorForm s)))])"

definition patch_payload :: "anchor \<Rightarrow> semantic_state \<Rightarrow> props" where
  "patch_payload a s =
     set_if (preferredChanged a s) ''preferred_models'' (strs_arr (normalizedPreferred s))
       (set_if (trimmed_text s \<noteq> opt_or (an_anchor_text a) []) ''anchor_text'' (JStr (trimmed_text s))
         (set_if (trimmed_group s \<noteq> an_route_group a) ''route_group'' (JStr (trimmed_group s)) []))"

definition handleSubmitAnchor :: "semantic_state \<Rightarrow> mutation option" where
  "handleSubmitAnchor s =
     (case sp_anchorDialog s of
        None \<Rightarrow> None
      | Some d \<Rightarrow>
          if disableSemanticActions s then None
          else if trimmed_name s = [] \<or> trimmed_group s = [] then None
          else (case d of
            CreateAnchorDialog _ \<Rightarrow>
              if selectedAnchorTenant s = [] then None
              else Some (CreateAnchor (obj_set ''tenantId'' (JStr (selectedAnchorTenant s)) (create_payload s)))
          | EditAnchorDialog a \<Rightarrow>
              if patch_payload a s = [] then None else Some (UpdateAnchor (an_name a) (patch_payload a s))))"

definition anchorHasChanges :: "anchor \<Rightarrow> semantic_state \<Rightarrow> bool" where
  "anchorHasChanges a s \<longleftrightarrow> trimmed_group s \<noteq> an_route_group a
     \<or> trimmed_text s \<noteq> opt_or (an_anchor_text a) [] \<or> preferredChanged a s"

definition anchorSubmitDisabled :: "bool \<Rightarrow> semantic_state \<Rightarrow> bool" where
  "anchorSubmitDisabled pending s \<longleftrightarrow> pending \<or> trimmed_name s = [] \<or> trimmed_group s = [] \<or>
     (case sp_anchorDialog s of
        Some (EditAnchorDialog a) \<Rightarrow> \<not> anchorHasChanges a s
      | Some (CreateAnchorDialog d) \<Rightarrow> selectedAnchorTenant s = []
      | None \<Rightarrow> False)"

section \<open>The other handlers\<close>

definition lines_of :: "string \<Rightarrow> string list" where
  "lines_of v = filter (\<lambda>l. l \<noteq> []) (map trim (split_on (CHR 0x0A) v))"

definition add_toast :: "string \<Rightarrow> string option \<Rightarrow> semantic_state \<Rightarrow> semantic_state" where
  "add_toast title description s = s\<lparr>sp_toasts := sp_toasts s @ [(title, description)]\<rparr>"

definition play_error :: "string \<Rightarrow> semantic_state \<Rightarrow> semantic_state" where
  "play_error msg s = s\<lparr>sp_playgroundError := Some msg, sp_playgroundResult := JNull\<rparr>"

definition handleDeleteAnchor :: "semantic_state \<Rightarrow> mutation option" where
  "handleDeleteAnchor s = (case sp_anchorToDelete s of None \<Rightarrow> None | Some a \<Rightarrow> Some (DeleteAnchor (an_name a)))"

definition handleRunPlayground :: "semantic_state \<Rightarrow> semantic_state \<times> mutation option" where
  "handleRunPlayground s =
     (if disableSemanticActions s then (s, None)
      else if trim (sp_playgroundInput s) = [] then (play_error ''Enter text to test'' s, None)
      else case tenant_of s of
        None \<Rightarrow> (play_error ''Select a tenant before testing'' s, None)
      | Some t \<Rightarrow> (s, Some (Playground (trim (sp_playgroundInput s)) t)))"

definition handleSuggestAnchors :: "semantic_state \<Rightarrow> semantic_state \<times> mutation option" where
  "handleSuggestAnchors s =
     (let dataset = lines_of (sp_suggestDataset s) in
      if disableSemanticActions s then (s, None)
      else if dataset = [] then (add_toast ''Dataset required'' (Some ''Add at least one line'') s, None)
      else case tenant_of s of
        None \<Rightarrow> (add_toast ''Tenant required'' (Some ''Select a tenant before generating suggestions'') s, None)
      | Some t \<Rightarrow> (s, Some (Suggest dataset (sp_suggestMaxClusters s) t)))"

definition labelled_rows :: "(string \<times> string) list \<Rightarrow> (string \<times> string) list" where
  "labelled_rows rows = filter (\<lambda>(x, r). x \<noteq> [] \<and> r \<noteq> []) (map (\<lambda>(x, r). (trim x, trim r)) rows)"

definition handleCalibrate :: "semantic_state \<Rightarrow> semantic_state \<times> mutation option" where
  "handleCalibrate s =
     (if disableSemanticActions s then (s, None)
      else case tenant_of s of
        None \<Rightarrow> (add_toast ''Tenant required'' (Some ''Select a tenant before calibrating'') s, None)
      | Some t \<Rightarrow>
          let dataset = labelled_rows (sp_calibrationRows s) in
          if dataset = [] then (add_toast ''Dataset required'' (Some ''Add at least one labeled row'') s, None)
          else (s, Some (Calibrate dataset t)))"

definition handleApplyRecommendedThreshold :: "semantic_state \<Rightarrow> mutation option" where
  "handleApplyRecommendedThreshold s =
     (if disableSemanticActions s then None
      else case tenant_of s of
        None \<Rightarrow> None
      | Some t \<Rightarrow>
          if truthy (sp_calibrationResult s)
          then Some (UpdateThreshold t (get_prop (sp_calibrationResult s) ''recommended_threshold''))
          else None)"

text \<open>The click of Save threshold: the draft with four decimals.\<close>

definition saveThreshold :: "semantic_state \<Rightarrow> mutation option" where
  "saveThreshold s =
     (if disableSemanticActions s \<or> \<not> thresholdDirty s then None
      else case tenant_of s of
        None \<Rightarrow> None
      | Some t \<Rightarrow> (case sp_thresholdDraft s of
          None \<Rightarrow> None | Some d \<Rightarrow> Some (UpdateThreshold t (JNum (str_to_num (to_fixed 4 d))))))"

definition handleCreateRoute :: "string \<Rightarrow> string \<Rightarrow> string \<Rightarrow> string \<Rightarrow> semantic_state \<Rightarrow> semantic_state \<times> mutation option" where
  "handleCreateRoute name action description utterances s =
     (if disableSemanticActions s then (s, None)
      else case tenant_of s of
        None \<Rightarrow> (add_toast ''Tenant required'' (Some ''Select a tenant before creating a route'') s, None)
      | Some t \<Rightarrow>
          if trim name = [] \<or> trim action = [] then (s, None)
          else (s, Some (CreateRoute
            ([(''name'', JStr (trim name)), (''action'', JStr (trim action))]
             @ (if trim description \<noteq> [] then [(''description'', JStr (trim description))] else [])
             @ [(''utterances'', strs_arr (lines_of utterances))]))))"

definition handleDeleteRoute :: "semantic_state \<Rightarrow> mutation option" where
  "handleDeleteRoute s =
     (case sp_routeToDelete s of
        None \<Rightarrow> None
      | Some n \<Rightarrow> if disableSemanticActions s then None else Some (DeleteRoute n))"

section \<open>Running a mutation\<close>

definition with_selected :: "semantic_state \<Rightarrow> (string \<Rightarrow> 'a io) \<Rightarrow> 'a io" where
  "with_selected s k = (case tenant_of s of None \<Rightarrow> io_throw (JsError ''Select a tenant'' None) | Some t \<Rightarrow> k t)"

definition void :: "unit io \<Rightarrow> jsval io" where
  "void m = io_bind m (\<lambda>_. io_return JUndef)"

fun run_mutation :: "semantic_state \<Rightarrow> mutation \<Rightarrow> jsval io" where
  "run_mutation s (CreateAnchor payload) = createSemanticAnchor payload"
| "run_mutation s (UpdateAnchor name payload) = with_selected s (\<lambda>t. patchSemanticAnchor t name (JObj payload))"
| "run_mutation s (DeleteAnchor name) = with_selected s (\<lambda>t. void (deleteSemanticAnchor t name))"
| "run_mutation s (CreateRoute payload) = with_selected s (\<lambda>t. createSemanticRoute t (JObj payload))"
| "run_mutation s (DeleteRoute name) = with_selected s (\<lambda>t. void (deleteSemanticRoute t name))"
| "run_mutation s (Playground input t) = runSemanticTest (JStr input) (JStr t)"
| "run_mutation s (Suggest dataset n t) = suggestSemanticAnchors (strs_arr dataset) (JNum n) (JStr t)"
| "run_mutation s (Calibrate rows t) =
     calibrateSemanticThreshold (JArr (map (\<lambda>(x, r). JObj [(''text'', JStr x), (''route'', JStr r)]) rows)) (JStr t)"
| "run_mutation s (UpdateThreshold t v) =
     updateSemanticThreshold (JObj [(''tenant_id'', JStr t), (''threshold_default'', v)])"

text \<open>\<open>onSuccess\<close> of the mutation and of the call. The state it leaves, and the error when it throws: a read of a member of
  a null answer does.\<close>

definition invalidate :: "string list \<Rightarrow> semantic_state \<Rightarrow> semantic_state" where
  "invalidate key s = s\<lparr>sp_invalidated := sp_invalidated s @ [key]\<rparr>"

definition tenant_key :: "string \<Rightarrow> string option \<Rightarrow> string list" where
  "tenant_key k t = k # (case t of None \<Rightarrow> [] | Some x \<Rightarrow> [x])"

fun on_success :: "mutation \<Rightarrow> jsval \<Rightarrow> semantic_state \<Rightarrow> semantic_state \<times> exn option" where
  "on_success (CreateAnchor _) data s =
     ((add_toast ''Anchor created'' None (invalidate [''semantic-anchors''] s))\<lparr>sp_anchorDialog := None\<rparr>, None)"
| "on_success (UpdateAnchor _ _) data s =
     ((add_toast ''Anchor updated'' None (invalidate [''semantic-anchors''] s))\<lparr>sp_anchorDialog := None\<rparr>, None)"
| "on_success (DeleteAnchor _) data s =
     ((add_toast ''Anchor deleted'' None (invalidate [''semantic-anchors''] s))\<lparr>sp_anchorToDelete := None\<rparr>, None)"
| "on_success (CreateRoute _) data s =
     ((add_toast ''Route created'' None (invalidate (tenant_key ''semantic-routes'' (sp_selected s)) s))
        \<lparr>sp_routeDialogOpen := False\<rparr>, None)"
| "on_success (DeleteRoute _) data s =
     ((add_toast ''Route deleted'' None (invalidate (tenant_key ''semantic-routes'' (sp_selected s)) s))
        \<lparr>sp_routeToDelete := None\<rparr>, None)"
| "on_success (Playground _ _) data s = (s\<lparr>sp_playgroundResult := data, sp_playgroundError := None\<rparr>, None)"
| "on_success (Suggest _ _ _) data s =
     (if nullish data then (s, Some type_error)
      else (add_toast ''Suggestions ready'' None (s\<lparr>sp_suggestions := js_or (get_prop data ''anchors'') (JArr [])\<rparr>), None))"
| "on_success (Calibrate _ _) data s = (add_toast ''Calibration completed'' None (s\<lparr>sp_calibrationResult := data\<rparr>), None)"
| "on_success (UpdateThreshold _ _) data s =
     (if nullish data then (add_toast ''Threshold updated'' None s, Some type_error)
      else ((invalidate [''semantic-threshold'', to_str (get_prop data ''tenant_id'')]
               (add_toast ''Threshold updated'' None s))\<lparr>sp_thresholdDraft := None\<rparr>, None))"

fun error_title :: "mutation \<Rightarrow> string" where
  "error_title (CreateAnchor _) = ''Failed to create anchor''"
| "error_title (UpdateAnchor _ _) = ''Failed to update anchor''"
| "error_title (DeleteAnchor _) = ''Failed to delete anchor''"
| "error_title (CreateRoute _) = ''Failed to create route''"
| "error_title (DeleteRoute _) = ''Failed to delete route''"
| "error_title (Playground _ _) = []"
| "error_title (Suggest _ _ _) = ''Suggestion failed''"
| "error_title (Calibrate _ _) = ''Calibration failed''"
| "error_title (UpdateThreshold _ _) = ''Failed to update threshold''"

definition on_error :: "mutation \<Rightarrow> exn \<Rightarrow> semantic_state \<Rightarrow> semantic_state" where
  "on_error m err s =
     (case m of
        Playground _ _ \<Rightarrow> play_error (exn_message err) s
      | _ \<Rightarrow> add_toast (error_title m) (Some (exn_message err)) s)"

definition settle_mutation :: "mutation \<Rightarrow> exn + jsval \<Rightarrow> semantic_state \<Rightarrow> semantic_state" where
  "settle_mutation m r s =
     (case r of
        Inl err \<Rightarrow> on_error m err s
      | Inr data \<Rightarrow> (case on_success m data s of (s', None) \<Rightarrow> s' | (s', Some err) \<Rightarrow> on_error m err s'))"

section \<open>Events\<close>

text \<open>\<open>replace(/\s+/g, '_')\<close>\<close>

fun underscore_ws :: "bool \<Rightarrow> string \<Rightarrow> string" where
  "underscore_ws in_ws [] = []"
| "underscore_ws in_ws (c # cs) =
     (if is_ws c then (if in_ws then underscore_ws True cs else CHR ''_'' # underscore_ws True cs)
      else c # underscore_ws False cs)"

definition handleOpenCreateAnchor :: "anchor_defaults \<Rightarrow> semantic_state \<Rightarrow> semantic_state" where
  "handleOpenCreateAnchor d s =
     s\<lparr>sp_anchorDialog := Some (CreateAnchorDialog
        (case ad_tenant_id d of None \<Rightarrow> d\<lparr>ad_tenant_id := Some (opt_or (sp_selected s) [])\<rparr> | Some _ \<Rightarrow> d))\<rparr>"

definition no_defaults :: anchor_defaults where
  "no_defaults = \<lparr>ad_name = None, ad_route_group = None, ad_text = None, ad_tenant_id = None\<rparr>"

definition suggestion_defaults :: "string \<Rightarrow> anchor_defaults" where
  "suggestion_defaults a =
     \<lparr>ad_name = Some (underscore_ws False a), ad_route_group = Some [], ad_text = Some a, ad_tenant_id = None\<rparr>"

definition togglePreferredModel :: "string \<Rightarrow> bool \<Rightarrow> anchor_form \<Rightarrow> anchor_form" where
  "togglePreferredModel m checked f =
     (if checked \<and> m \<notin> set (af_preferred_models f) then f\<lparr>af_preferred_models := af_preferred_models f @ [m]\<rparr>
      else if \<not> checked \<and> m \<in> set (af_preferred_models f)
      then f\<lparr>af_preferred_models := filter (\<lambda>i. i \<noteq> m) (af_preferred_models f)\<rparr>
      else f)"

definition removePreferredModel :: "string \<Rightarrow> anchor_form \<Rightarrow> anchor_form" where
  "removePreferredModel m f = f\<lparr>af_preferred_models := filter (\<lambda>i. i \<noteq> m) (af_preferred_models f)\<rparr>"

datatype form_edit =
    FormTenant string
  | FormName string
  | FormRouteGroup string
  | FormText string
  | FormModality string
  | FormToggle string bool
  | FormRemove string

text \<open>The tenant is drawn only for a new anchor, the name is read-only and the modality disabled for an old one.\<close>

fun edit_form :: "bool \<Rightarrow> form_edit \<Rightarrow> anchor_form \<Rightarrow> anchor_form" where
  "edit_form creating (FormTenant v) f = (if creating then f\<lparr>af_tenant_id := v\<rparr> else f)"
| "edit_form creating (FormName v) f = (if creating then f\<lparr>af_name := v\<rparr> else f)"
| "edit_form creating (FormRouteGroup v) f = f\<lparr>af_route_group := v\<rparr>"
| "edit_form creating (FormText v) f = f\<lparr>af_anchor_text := v\<rparr>"
| "edit_form creating (FormModality v) f = (if creating then f\<lparr>af_modality := v\<rparr> else f)"
| "edit_form creating (FormToggle m b) f = togglePreferredModel m b f"
| "edit_form creating (FormRemove m) f = removePreferredModel m f"

datatype semantic_event =
    SelectTenant string
  | SearchAnchors string
  | SwitchText bool
  | OpenCreate
  | OpenEdit anchor
  | AskDeleteAnchor anchor
  | UseSuggestion string
  | ThresholdNumber string
  | ThresholdRange string
  | EditPlayground string
  | RunPlayground
  | EditDataset string
  | EditClusters string
  | SuggestAnchors
  | RowText nat string
  | RowRoute nat string
  | AddRow
  | RemoveRow nat
  | RunCalibration
  | OpenRoute
  | AskDeleteRoute string
  | SubmitRoute string string string string
  | EditForm form_edit
  | SearchModels string
  | CloseAnchor
  | CloseDelete
  | CloseRoute
  | CloseDeleteRoute
  | TenantsLoaded "string list"
  | ConfigLoaded string jsval
  | ThresholdLoaded string "jsnum option"
  | Settled mutation "exn + jsval"

definition modal :: "semantic_state \<Rightarrow> bool" where
  "modal s \<longleftrightarrow> sp_anchorDialog s \<noteq> None \<or> sp_anchorToDelete s \<noteq> None \<or> sp_routeDialogOpen s \<or> sp_routeToDelete s \<noteq> None"

text \<open>An input of the page behind the dialogs, and one that a tenant without embedding model disables.\<close>

definition page_input :: "semantic_state \<Rightarrow> semantic_state \<Rightarrow> semantic_state" where
  "page_input s s' = (if modal s then s else s')"

definition active_input :: "semantic_state \<Rightarrow> semantic_state \<Rightarrow> semantic_state" where
  "active_input s s' = (if modal s \<or> disableSemanticActions s then s else s')"

definition finite_draft :: "jsnum \<Rightarrow> jsnum option" where
  "finite_draft n = (if is_finite n then Some n else None)"

definition drop_row :: "nat \<Rightarrow> 'a list \<Rightarrow> 'a list" where
  "drop_row i xs = take i xs @ drop (Suc i) xs"

fun semantic_change :: "semantic_event \<Rightarrow> semantic_state \<Rightarrow> semantic_state" where
  "semantic_change (SelectTenant v) s = page_input s (s\<lparr>sp_selected := Some v, sp_thresholdDraft := None\<rparr>)"
| "semantic_change (SearchAnchors v) s = active_input s (s\<lparr>sp_searchTerm := v\<rparr>)"
| "semantic_change (SwitchText b) s = active_input s (s\<lparr>sp_includeAnchorText := b\<rparr>)"
| "semantic_change OpenCreate s = active_input s (handleOpenCreateAnchor no_defaults s)"
| "semantic_change (OpenEdit a) s = active_input s (s\<lparr>sp_anchorDialog := Some (EditAnchorDialog a)\<rparr>)"
| "semantic_change (AskDeleteAnchor a) s = active_input s (s\<lparr>sp_anchorToDelete := Some a\<rparr>)"
| "semantic_change (UseSuggestion a) s = active_input s (handleOpenCreateAnchor (suggestion_defaults a) s)"
| "semantic_change (ThresholdNumber v) s = active_input s (s\<lparr>sp_thresholdDraft := finite_draft (str_to_num v)\<rparr>)"
| "semantic_change (ThresholdRange v) s = active_input s (s\<lparr>sp_thresholdDraft := Some (str_to_num v)\<rparr>)"
| "semantic_change (EditPlayground v) s = active_input s (s\<lparr>sp_playgroundInput := v\<rparr>)"
| "semantic_change RunPlayground s = active_input s (fst (handleRunPlayground s))"
| "semantic_change (EditDataset v) s = active_input s (s\<lparr>sp_suggestDataset := v\<rparr>)"
| "semantic_change (EditClusters v) s = active_input s
     (s\<lparr>sp_suggestMaxClusters := (if truthy (JNum (str_to_num v)) then str_to_num v else Fin 1)\<rparr>)"
| "semantic_change SuggestAnchors s = active_input s (fst (handleSuggestAnchors s))"
| "semantic_change (RowText i v) s = active_input s
     (s\<lparr>sp_calibrationRows := (sp_calibrationRows s)[i := (v, snd (sp_calibrationRows s ! i))]\<rparr>)"
| "semantic_change (RowRoute i v) s = active_input s
     (s\<lparr>sp_calibrationRows := (sp_calibrationRows s)[i := (fst (sp_calibrationRows s ! i), v)]\<rparr>)"
| "semantic_change AddRow s = active_input s (s\<lparr>sp_calibrationRows := sp_calibrationRows s @ [([], [])]\<rparr>)"
| "semantic_change (RemoveRow i) s = active_input s
     (if length (sp_calibrationRows s) = 1 then s else s\<lparr>sp_calibrationRows := drop_row i (sp_calibrationRows s)\<rparr>)"
| "semantic_change RunCalibration s = active_input s (fst (handleCalibrate s))"
| "semantic_change OpenRoute s = active_input s (if tenant_of s = None then s else s\<lparr>sp_routeDialogOpen := True\<rparr>)"
| "semantic_change (AskDeleteRoute n) s = active_input s (s\<lparr>sp_routeToDelete := Some n\<rparr>)"
| "semantic_change (SubmitRoute n a d u) s = (if sp_routeDialogOpen s then fst (handleCreateRoute n a d u s) else s)"
| "semantic_change (EditForm e) s =
     (case sp_anchorDialog s of
        None \<Rightarrow> s
      | Some d \<Rightarrow> if disableSemanticActions s then s
          else s\<lparr>sp_anchorForm := edit_form (case d of CreateAnchorDialog _ \<Rightarrow> True | _ \<Rightarrow> False) e (sp_anchorForm s)\<rparr>)"
| "semantic_change (SearchModels v) s =
     (if sp_anchorDialog s = None \<or> disableSemanticActions s then s else s\<lparr>sp_modelSearch := v\<rparr>)"
| "semantic_change CloseAnchor s = s\<lparr>sp_anchorDialog := None\<rparr>"
| "semantic_change CloseDelete s = s\<lparr>sp_anchorToDelete := None\<rparr>"
| "semantic_change CloseRoute s = s\<lparr>sp_routeDialogOpen := False\<rparr>"
| "semantic_change CloseDeleteRoute s = s\<lparr>sp_routeToDelete := None\<rparr>"
| "semantic_change (TenantsLoaded ts) s = s\<lparr>sp_tenants := ts\<rparr>"
| "semantic_change (ConfigLoaded t c) s = s\<lparr>sp_configs := (sp_configs s)(t := c)\<rparr>"
| "semantic_change (ThresholdLoaded t n) s = s\<lparr>sp_thresholds := (sp_thresholds s)(t := n)\<rparr>"
| "semantic_change (Settled m r) s = settle_mutation m r s"

definition semantic_step :: "semantic_event \<Rightarrow> semantic_state \<Rightarrow> semantic_state" where
  "semantic_step e s = run_effects s (semantic_change e s)"

definition semantic_run :: "semantic_event list \<Rightarrow> semantic_state \<Rightarrow> semantic_state" where
  "semantic_run es s = fold semantic_step es s"

end
