(* ===== verification/Semantic_Page_Props.thy ===== *)
theory Semantic_Page_Props
  imports Semantic_Page "HOL-Library.Multiset"
begin

text \<open>
  Properties of the semantic page: how it compares lists of models, what a submitted anchor dialog sends and to which
  tenant, what a tenant without embedding model allows, and what the threshold field shows after a save.
\<close>

section \<open>Lists of names\<close>

lemma str_less_irrefl [simp]: "\<not> str_less a a"
  by (induction a) auto

lemma str_less_total: "\<not> str_less b a \<or> \<not> str_less a b"
  by (induction a b rule: str_less.induct) auto

lemma str_less_antisym: "\<not> str_less a b \<Longrightarrow> \<not> str_less b a \<Longrightarrow> a = b"
  by (induction a b rule: str_less.induct) (auto simp: not_less)

lemma str_less_trans: "str_less a b \<Longrightarrow> str_less b c \<Longrightarrow> str_less a c"
proof (induction a b arbitrary: c rule: str_less.induct)
  case (4 x s y t)
  then show ?case by (cases c) auto
qed (auto elim: str_less.elims)

lemma str_le_trans: "\<not> str_less b a \<Longrightarrow> \<not> str_less c b \<Longrightarrow> \<not> str_less c a"
  by (metis str_less_antisym str_less_trans)

lemma sorted_names_sorted: "sorted_wrt (\<lambda>a b. \<not> str_less b a) (sorted_names xs)"
  unfolding sorted_names_def by (rule sorted_sort_by) (use str_less_total str_le_trans in blast)+

lemma mset_insert_by_mset: "mset (insert_by leq x ys) = add_mset x (mset ys)"
  by (induction ys) auto

lemma mset_sort_by: "mset (sort_by leq xs) = mset xs"
  by (induction xs) (auto simp: sort_by_def mset_insert_by_mset)

lemma sorted_unique:
  assumes "sorted_wrt (\<lambda>a b. \<not> str_less b a) xs" and "sorted_wrt (\<lambda>a b. \<not> str_less b a) ys" and "mset xs = mset ys"
  shows "xs = ys"
  using assms
proof (induction xs arbitrary: ys)
  case (Cons x xs)
  then obtain y ys' where ys: "ys = y # ys'" by (cases ys) auto
  have "x \<in> set ys" and "y \<in> set (x # xs)" using Cons.prems(3) ys by (metis list.set_intros(1) mset_eq_setD)+
  then have "x = y" using Cons.prems(1,2) ys by (auto intro: str_less_antisym)
  with Cons ys show ?case by auto
qed simp

lemma sorted_names_eq: "sorted_names a = sorted_names b \<longleftrightarrow> mset a = mset b"
  using sorted_unique [OF sorted_names_sorted sorted_names_sorted] mset_sort_by
  unfolding sorted_names_def by metis

lemma arrays_equal_mset: "arraysEqualIgnoreOrder a b \<longleftrightarrow> mset a = mset b"
proof -
  have "length a = length b \<Longrightarrow> list_all (\<lambda>(x, y). x = y) (zip (sorted_names a) (sorted_names b)) \<longleftrightarrow> sorted_names a = sorted_names b"
    using list_all2_eq [of "sorted_names a" "sorted_names b"]
    by (simp add: list_all2_iff list_all_iff sorted_names_def split_beta)
  then show ?thesis
    by (auto simp: arraysEqualIgnoreOrder_def sorted_names_eq dest: mset_eq_length)
qed

definition clean_names :: "string list \<Rightarrow> bool" where
  "clean_names xs \<longleftrightarrow> distinct xs \<and> list_all (\<lambda>x. x \<noteq> [] \<and> trim x = x) xs"

lemma normalize_aux:
  assumes "clean_names acc"
  defines "f \<equiv> \<lambda>result v. if trim v = [] \<or> trim v \<in> set result then result else result @ [trim v]"
  shows "clean_names (foldl f acc xs) \<and> set (foldl f acc xs) = set acc \<union> (trim ` set xs - {[]})"
  using assms(1) by (induction xs arbitrary: acc) (auto simp: f_def clean_names_def)

lemma normalize_clean [simp]: "clean_names (normalizeStringArray xs)"
  and normalize_set: "set (normalizeStringArray xs) = trim ` set xs - {[]}"
  using normalize_aux [of "[]" xs] by (auto simp: normalizeStringArray_def clean_names_def)

lemma normalize_id: "clean_names xs \<Longrightarrow> normalizeStringArray xs = xs"
proof -
  have "foldl (\<lambda>result v. if trim v = [] \<or> trim v \<in> set result then result else result @ [trim v]) acc ys = acc @ ys"
    if "clean_names (acc @ ys)" for acc ys
    using that by (induction ys arbitrary: acc) (auto simp: clean_names_def)
  from this [of "[]" xs] show "clean_names xs \<Longrightarrow> normalizeStringArray xs = xs"
    by (simp add: normalizeStringArray_def)
qed

text \<open>C24. The page finds the preferred models of the form changed exactly when they name another set of models than the
  anchor does, blanks around a name, blank entries, repetitions and order aside; what it would send is that set, each
  model once.\<close>

theorem preferred_models_compared:
  "(preferredChanged a s \<longleftrightarrow>
     trim ` set (af_preferred_models (sp_anchorForm s)) - {[]} \<noteq> trim ` set (opt_or (an_preferred_models a) []) - {[]}) \<and>
   distinct (normalizedPreferred s) \<and> set (normalizedPreferred s) = trim ` set (af_preferred_models (sp_anchorForm s)) - {[]}"
proof -
  have "mset (normalizeStringArray xs) = mset (normalizeStringArray ys) \<longleftrightarrow>
      set (normalizeStringArray xs) = set (normalizeStringArray ys)" for xs ys
    using normalize_clean [of xs] normalize_clean [of ys] set_eq_iff_mset_eq_distinct
    unfolding clean_names_def by blast
  moreover have "distinct (normalizedPreferred s)"
    using normalize_clean unfolding normalizedPreferred_def clean_names_def by blast
  ultimately show ?thesis
    by (simp add: preferredChanged_def normalizedPreferred_def arrays_equal_mset normalize_set)
qed

section \<open>The patch of an anchor\<close>

text \<open>What a patch asks for: the members it names replace those of the anchor.\<close>

definition apply_patch :: "props \<Rightarrow> anchor \<Rightarrow> anchor" where
  "apply_patch p a =
     a\<lparr>an_route_group := (case map_of p ''route_group'' of None \<Rightarrow> an_route_group a | Some v \<Rightarrow> str_of v),
       an_anchor_text := (case map_of p ''anchor_text'' of None \<Rightarrow> an_anchor_text a | Some v \<Rightarrow> Some (str_of v)),
       an_preferred_models := (case map_of p ''preferred_models'' of
         None \<Rightarrow> an_preferred_models a | Some v \<Rightarrow> Some (map str_of (arr_elems v)))\<rparr>"

text \<open>The form shows the anchor, blanks and the order of the models aside.\<close>

definition form_shows :: "semantic_state \<Rightarrow> anchor \<Rightarrow> bool" where
  "form_shows s a \<longleftrightarrow> trimmed_group s = an_route_group a \<and> trimmed_text s = opt_or (an_anchor_text a) [] \<and> \<not> preferredChanged a s"

lemma strs_arr_read [simp]: "map str_of (arr_elems (strs_arr xs)) = xs"
  by (simp add: strs_arr_def comp_def)

lemma patch_lookup [simp]:
  "map_of (patch_payload a s) ''route_group'' = (if trimmed_group s \<noteq> an_route_group a then Some (JStr (trimmed_group s)) else None)"
  "map_of (patch_payload a s) ''anchor_text'' =
     (if trimmed_text s \<noteq> opt_or (an_anchor_text a) [] then Some (JStr (trimmed_text s)) else None)"
  "map_of (patch_payload a s) ''preferred_models'' =
     (if preferredChanged a s then Some (strs_arr (normalizedPreferred s)) else None)"
  by (simp_all add: patch_payload_def)

lemma patch_keys: "fst ` set (patch_payload a s) =
    {k. k = ''route_group'' \<and> trimmed_group s \<noteq> an_route_group a
      \<or> k = ''anchor_text'' \<and> trimmed_text s \<noteq> opt_or (an_anchor_text a) []
      \<or> k = ''preferred_models'' \<and> preferredChanged a s}"
  by (auto simp: patch_payload_def keys_set_if)

lemma patch_empty: "patch_payload a s = [] \<longleftrightarrow> form_shows s a"
  by (auto simp: patch_payload_def form_shows_def)

lemma patched_preferred: "\<not> preferredChanged (a\<lparr>an_preferred_models := Some (normalizedPreferred s)\<rparr>) s"
  by (simp add: preferredChanged_def opt_or_def normalizedPreferred_def normalize_id arrays_equal_mset)

lemma patch_shown: "form_shows s (apply_patch (patch_payload a s) a)"
proof -
  have "preferredChanged (apply_patch (patch_payload a s) a) s \<longleftrightarrow>
      preferredChanged (if preferredChanged a s then a\<lparr>an_preferred_models := Some (normalizedPreferred s)\<rparr> else a) s"
    by (simp add: apply_patch_def preferredChanged_def)
  then have "\<not> preferredChanged (apply_patch (patch_payload a s) a) s" using patched_preferred by simp
  then show ?thesis by (simp add: form_shows_def) (simp add: apply_patch_def opt_or_def)
qed


definition demo_anchor :: anchor where
  "demo_anchor = \<lparr>an_name = ''finance'', an_route_group = ''gold'', an_preferred_models = Some [''m1'', ''m2''],
     an_modality = None, an_anchor_text = None\<rparr>"

definition demo_semantic :: semantic_state where
  "demo_semantic = (semantic_init [''acme''])
     \<lparr>sp_configs := (\<lambda>_. JObj [(''routing'', JObj [(''semantic'', JObj [(''embedding_model'', JStr ''e'')])])])\<rparr>"

definition demo_edit :: semantic_state where
  "demo_edit = semantic_run [OpenEdit demo_anchor, EditForm (FormToggle ''m2'' False), EditForm (FormToggle ''m3'' True)] demo_semantic"

lemmas semantic_eval =
  semantic_run_def semantic_step_def run_effects_def select_first_tenant_def reset_form_def load_draft_def form_deps_def
  active_input_def page_input_def modal_def disableSemanticActions_def config_of_def embeddingModel_def tenant_of_def truthy_str_def
  currentThreshold_def opt_or_def get_prop_def togglePreferredModel_def semantic_init_def first_tenant_def
  EMPTY_ANCHOR_FORM_def

lemma demo_edit_form:
  "sp_anchorDialog demo_edit = Some (EditAnchorDialog demo_anchor)" "\<not> disableSemanticActions demo_edit"
  "af_preferred_models (sp_anchorForm demo_edit) = [''m1'', ''m3'']" "af_route_group (sp_anchorForm demo_edit) = ''gold''"
  "af_name (sp_anchorForm demo_edit) = ''finance''" "af_anchor_text (sp_anchorForm demo_edit) = []"
  by (simp_all add: demo_edit_def demo_semantic_def demo_anchor_def semantic_eval trim_def trim_start_def is_ws_def code_def)

lemma demo_names: "trim ''finance'' = ''finance''" "trim ''gold'' = ''gold''" "trim ''m1'' = ''m1''" "trim ''m2'' = ''m2''" "trim ''m3'' = ''m3''"
  by (simp_all add: trim_def trim_start_def is_ws_def code_def)

lemma demo_edit_values:
  "trimmed_name demo_edit = ''finance''" "trimmed_group demo_edit = ''gold''" "trimmed_text demo_edit = []"
  "normalizedPreferred demo_edit = [''m1'', ''m3'']" "preferredChanged demo_anchor demo_edit"
proof -
  show n: "normalizedPreferred demo_edit = [''m1'', ''m3'']"
    by (simp add: normalizedPreferred_def normalizeStringArray_def demo_edit_form demo_names)
  show "preferredChanged demo_anchor demo_edit"
    by (simp add: preferredChanged_def n demo_anchor_def opt_or_def normalizeStringArray_def demo_names arrays_equal_mset)
qed (simp_all add: trimmed_name_def trimmed_group_def trimmed_text_def demo_edit_form demo_names trim_start_def, simp add: trim_def trim_start_def)

lemma demo_patch: "patch_payload demo_anchor demo_edit = [(''preferred_models'', strs_arr [''m1'', ''m3''])]"
  by (simp add: patch_payload_def demo_edit_values) (simp add: demo_anchor_def opt_or_def)


section \<open>The tenant and the name a dialog acts on\<close>

lemma tenant_of_Some: "tenant_of s = Some t \<longleftrightarrow> sp_selected s = Some t \<and> t \<noteq> []"
  by (auto simp: tenant_of_def truthy_str_def)

lemma select_first_selected: "tenant_of s \<noteq> None \<Longrightarrow> select_first_tenant s = s"
  by (auto simp: select_first_tenant_def split: list.splits)

lemma effects_fields [simp]:
  "sp_anchorDialog (run_effects old s) = sp_anchorDialog s" "sp_tenants (run_effects old s) = sp_tenants s"
  "sp_anchorToDelete (run_effects old s) = sp_anchorToDelete s" "sp_calibrationRows (run_effects old s) = sp_calibrationRows s"
  "sp_selected (run_effects old s) = sp_selected (select_first_tenant s)" "sp_configs (run_effects old s) = sp_configs s"
  "sp_thresholds (run_effects old s) = sp_thresholds s"
  by (simp_all add: run_effects_def Let_def load_draft_def reset_form_def select_first_tenant_def split: list.splits)

lemma handler_fields [simp]:
  "sp_anchorDialog (fst (handleRunPlayground s)) = sp_anchorDialog s" "sp_selected (fst (handleRunPlayground s)) = sp_selected s"
  "sp_anchorDialog (fst (handleSuggestAnchors s)) = sp_anchorDialog s" "sp_selected (fst (handleSuggestAnchors s)) = sp_selected s"
  "sp_anchorDialog (fst (handleCalibrate s)) = sp_anchorDialog s" "sp_selected (fst (handleCalibrate s)) = sp_selected s"
  "sp_anchorDialog (fst (handleCreateRoute n a d u s)) = sp_anchorDialog s"
  "sp_selected (fst (handleCreateRoute n a d u s)) = sp_selected s"
  by (simp_all add: handleRunPlayground_def handleSuggestAnchors_def handleCalibrate_def handleCreateRoute_def Let_def
      add_toast_def play_error_def split: option.splits)

lemma settle_mutation_fields [simp]:
  "sp_selected (settle_mutation m r s) = sp_selected s" "sp_tenants (settle_mutation m r s) = sp_tenants s"
  "sp_anchorDialog (settle_mutation m r s) \<in> {sp_anchorDialog s, None}"
  by (cases m; cases r; simp add: settle_mutation_def on_error_def add_toast_def play_error_def invalidate_def)+

text \<open>While a dialog is open, nothing selects another tenant and no other dialog takes its place.\<close>

lemma modal_keeps:
  assumes "modal s"
  shows "sp_selected (semantic_change e s) = sp_selected s"
    and "sp_anchorDialog s \<noteq> None \<Longrightarrow> sp_anchorDialog (semantic_change e s) \<in> {sp_anchorDialog s, None}"
  using assms settle_mutation_fields
  by (cases e; simp add: page_input_def active_input_def split: option.splits; auto)+

lemma dialog_step:
  assumes "sp_anchorDialog s = Some d" and "tenant_of s = Some t" and "sp_anchorDialog (semantic_step e s) \<noteq> None"
  shows "sp_anchorDialog (semantic_step e s) = Some d" and "tenant_of (semantic_step e s) = Some t"
proof -
  have m: "modal s" using assms(1) by (simp add: modal_def)
  have "tenant_of (semantic_change e s) = Some t"
    using assms(2) modal_keeps(1) [OF m] by (simp add: tenant_of_Some)
  then show "tenant_of (semantic_step e s) = Some t"
    using select_first_selected [of "semantic_change e s"] by (simp add: semantic_step_def tenant_of_Some)
  show "sp_anchorDialog (semantic_step e s) = Some d"
    using assms(1,3) modal_keeps(2) [OF m, of e] by (auto simp: semantic_step_def)
qed

text \<open>The dialog stays open through the events.\<close>

fun stays_open :: "semantic_event list \<Rightarrow> semantic_state \<Rightarrow> bool" where
  "stays_open [] s \<longleftrightarrow> True"
| "stays_open (e # es) s \<longleftrightarrow> sp_anchorDialog (semantic_step e s) \<noteq> None \<and> stays_open es (semantic_step e s)"

lemma dialog_run:
  assumes "sp_anchorDialog s = Some d" and "tenant_of s = Some t" and "stays_open es s"
  shows "sp_anchorDialog (semantic_run es s) = Some d \<and> tenant_of (semantic_run es s) = Some t"
  using assms
proof (induction es arbitrary: s)
  case (Cons e es)
  then show ?case using dialog_step [OF Cons.prems(1,2), of e] by (simp add: semantic_run_def)
qed (simp add: semantic_run_def)

lemma open_edit:
  assumes "\<not> modal s" and "\<not> disableSemanticActions s" and "tenant_of s = Some t"
  shows "sp_anchorDialog (semantic_step (OpenEdit a) s) = Some (EditAnchorDialog a)"
    and "tenant_of (semantic_step (OpenEdit a) s) = Some t"
    and "sp_anchorForm (semantic_step (OpenEdit a) s) = dialog_form (Some (EditAnchorDialog a)) (Some t) (sp_tenants s)"
proof -
  let ?u = "s\<lparr>sp_anchorDialog := Some (EditAnchorDialog a)\<rparr>"
  have u: "tenant_of ?u = Some t" using assms(3) by (simp add: tenant_of_Some)
  have e: "semantic_step (OpenEdit a) s = load_draft (reset_form ?u)"
    using assms(1,2) u
    by (simp add: semantic_step_def active_input_def run_effects_def select_first_selected form_deps_def modal_def)
  have sel: "sp_selected s = Some t" using assms(3) by (simp add: tenant_of_Some)
  have l: "sp_anchorDialog (load_draft v) = sp_anchorDialog v" "sp_anchorForm (load_draft v) = sp_anchorForm v"
    "sp_selected (load_draft v) = sp_selected v" for v by (simp_all add: load_draft_def)
  show "sp_anchorDialog (semantic_step (OpenEdit a) s) = Some (EditAnchorDialog a)"
    and "tenant_of (semantic_step (OpenEdit a) s) = Some t"
    and "sp_anchorForm (semantic_step (OpenEdit a) s) = dialog_form (Some (EditAnchorDialog a)) (Some t) (sp_tenants s)"
    using assms(3) sel unfolding e by (simp_all add: l reset_form_def tenant_of_Some)
qed

lemma handleResponse_history: "snd (handleResponse req net h) = h @ [req]"
  by (auto simp: handleResponse_def call_with_def semantic_failure_def Let_def js_simps split: fetch_result.splits option.splits)

text \<open>C21. From the moment the Edit button of an anchor is pressed and for as long as its dialog stays open, whatever else
  happens (data that arrives, answers to other requests, any input), submitting it sends at most one request, and that
  request is the patch of this anchor for the tenant that was selected when the button was pressed.\<close>

theorem anchor_edit_target:
  assumes "\<not> modal s" and "\<not> disableSemanticActions s" and "tenant_of s = Some t"
    and "stays_open es (semantic_step (OpenEdit a) s)"
    and "s' = semantic_run es (semantic_step (OpenEdit a) s)" and "handleSubmitAnchor s' = Some m"
  shows "io_requests (run_mutation s' m) net = [send_request ''PATCH'' (anchor_url t (an_name a)) (JObj (patch_payload a s'))]"
proof -
  have "sp_anchorDialog s' = Some (EditAnchorDialog a)" and t: "tenant_of s' = Some t"
    using dialog_run [OF open_edit(1,2) [OF assms(1-3)] assms(4)] assms(5) by simp_all
  then have "m = UpdateAnchor (an_name a) (patch_payload a s')"
    using assms(6) by (auto simp: handleSubmitAnchor_def split: if_splits)
  then show ?thesis
    using t by (simp add: with_selected_def patchSemanticAnchor_def io_requests_def handleResponse_history)
qed


theorem anchor_edit_target_witness:
  "io_requests (run_mutation demo_edit (UpdateAnchor ''finance'' (patch_payload demo_anchor demo_edit))) (\<lambda>_ _. FetchFail []) =
     [send_request ''PATCH'' (anchor_url ''acme'' ''finance'') (JObj (patch_payload demo_anchor demo_edit))]"
proof -
  let ?es = "[EditForm (FormToggle ''m2'' False), EditForm (FormToggle ''m3'' True)]"
  have e: "\<not> modal demo_semantic" "\<not> disableSemanticActions demo_semantic" "tenant_of demo_semantic = Some ''acme''"
    by (simp_all add: demo_semantic_def semantic_eval trim_def trim_start_def is_ws_def code_def)
  have o: "stays_open ?es (semantic_step (OpenEdit demo_anchor) demo_semantic)"
    by (simp add: demo_semantic_def demo_anchor_def semantic_eval trim_def trim_start_def is_ws_def code_def)
  have r: "demo_edit = semantic_run ?es (semantic_step (OpenEdit demo_anchor) demo_semantic)"
    by (simp add: demo_edit_def semantic_run_def)
  have "handleSubmitAnchor demo_edit = Some (UpdateAnchor ''finance'' (patch_payload demo_anchor demo_edit))"
    using demo_edit_form demo_edit_values by (simp add: handleSubmitAnchor_def demo_patch) (simp add: demo_anchor_def)
  from anchor_edit_target [OF e o r this] show ?thesis by (simp add: demo_anchor_def)
qed

section \<open>The text of an anchor\<close>

lemma edit_form_text: "(\<forall>v. e \<noteq> FormText v) \<Longrightarrow> af_anchor_text (edit_form c e f) = af_anchor_text f"
  by (cases e) (simp_all add: togglePreferredModel_def removePreferredModel_def)

definition edits :: "form_edit list \<Rightarrow> semantic_state \<Rightarrow> semantic_state" where
  "edits es s = semantic_run (map EditForm es) s"

definition text_edit :: "form_edit \<Rightarrow> bool" where
  "text_edit e \<longleftrightarrow> (case e of FormText _ \<Rightarrow> True | _ \<Rightarrow> False)"

lemma edit_step_form:
  assumes "sp_anchorDialog s \<noteq> None" and "tenant_of s \<noteq> None"
  shows "\<exists>c. sp_anchorForm (semantic_step (EditForm e) s) = (if disableSemanticActions s then sp_anchorForm s else edit_form c e (sp_anchorForm s))"
proof -
  have "tenant_of (s\<lparr>sp_anchorForm := f\<rparr>) = tenant_of s" for f by (simp add: tenant_of_def)
  then show ?thesis
    using assms by (auto simp: semantic_step_def run_effects_def select_first_selected form_deps_def load_draft_def Let_def)
qed

text \<open>C22. The list leaves the texts of the anchors out unless it is asked for them. An anchor opened from such a list and
  edited in any way but typing in the text field is patched without a text, so its text is not lost.\<close>

theorem hidden_text_kept:
  assumes "\<not> modal s" and "\<not> disableSemanticActions s" and "tenant_of s = Some t" and "an_anchor_text a = None"
    and "list_all (\<lambda>e. \<not> text_edit e) es"
    and "handleSubmitAnchor (edits es (semantic_step (OpenEdit a) s)) = Some (UpdateAnchor n p)"
  shows "n = an_name a \<and> ''anchor_text'' \<notin> fst ` set p"
proof -
  let ?s = "semantic_step (OpenEdit a) s"
  have inv: "sp_anchorDialog (edits es u) = Some (EditAnchorDialog a) \<and> af_anchor_text (sp_anchorForm (edits es u)) = []"
    if "sp_anchorDialog u = Some (EditAnchorDialog a)" "tenant_of u = Some t" "af_anchor_text (sp_anchorForm u) = []"
      "list_all (\<lambda>e. \<not> text_edit e) es" for u
    using that
  proof (induction es arbitrary: u)
    case (Cons e es)
    obtain c where f: "sp_anchorForm (semantic_step (EditForm e) u) =
        (if disableSemanticActions u then sp_anchorForm u else edit_form c e (sp_anchorForm u))"
      using edit_step_form [of u e] Cons.prems by auto
    have "sp_anchorDialog (semantic_step (EditForm e) u) \<noteq> None"
      using Cons.prems(1) by (simp add: semantic_step_def)
    moreover have "\<forall>v. e \<noteq> FormText v" using Cons.prems(4) by (auto simp: text_edit_def)
    ultimately show ?case
      using dialog_step [OF Cons.prems(1,2), of "EditForm e"] f Cons edit_form_text [of e c "sp_anchorForm u"]
      by (simp add: edits_def semantic_run_def)
  qed (simp add: edits_def semantic_run_def)
  have "sp_anchorDialog ?s = Some (EditAnchorDialog a)" "tenant_of ?s = Some t" "af_anchor_text (sp_anchorForm ?s) = []"
    using open_edit [OF assms(1-3), of a] assms(4) by (simp_all add: opt_or_def)
  then have "sp_anchorDialog (edits es ?s) = Some (EditAnchorDialog a)" and t: "trimmed_text (edits es ?s) = []"
    using inv assms(5) by (simp_all add: trimmed_text_def) (simp add: trim_def trim_start_def)
  then have "UpdateAnchor n p = UpdateAnchor (an_name a) (patch_payload a (edits es ?s))"
    using assms(6) by (auto simp: handleSubmitAnchor_def split: if_splits)
  then show ?thesis using t assms(4) patch_keys [of a "edits es ?s"] by (simp add: opt_or_def)
qed

lemma demo_ready: "\<not> modal demo_semantic" "\<not> disableSemanticActions demo_semantic" "tenant_of demo_semantic = Some ''acme''"
  by (simp_all add: demo_semantic_def semantic_eval trim_def trim_start_def is_ws_def code_def)

theorem hidden_text_kept_witness:
  "''anchor_text'' \<notin> fst ` set (patch_payload demo_anchor demo_edit) \<and> an_anchor_text demo_anchor = None"
proof -
  let ?es = "[FormToggle ''m2'' False, FormToggle ''m3'' True]"
  have r: "edits ?es (semantic_step (OpenEdit demo_anchor) demo_semantic) = demo_edit"
    by (simp add: demo_edit_def semantic_run_def edits_def)
  have a: "an_anchor_text demo_anchor = None" by (simp add: demo_anchor_def)
  have "handleSubmitAnchor (edits ?es (semantic_step (OpenEdit demo_anchor) demo_semantic)) =
      Some (UpdateAnchor ''finance'' (patch_payload demo_anchor demo_edit))"
    unfolding r using demo_edit_form demo_edit_values by (simp add: handleSubmitAnchor_def demo_patch) (simp add: demo_anchor_def)
  from hidden_text_kept [OF demo_ready a _ this] a show ?thesis by (simp add: text_edit_def)
qed

section \<open>The threshold field after a save\<close>

lemma effects_draft:
  assumes "tenant_of s = Some t"
  shows "sp_thresholdDraft (run_effects old s) = (if sp_thresholdDraft s = None then sp_thresholds s t else sp_thresholdDraft s)"
    and "tenant_of (run_effects old s) = Some t" and "disableSemanticActions (run_effects old s) = disableSemanticActions s"
proof -
  have sel: "select_first_tenant s = s" using assms by (simp add: select_first_selected)
  show t: "tenant_of (run_effects old s) = Some t" using assms sel by (simp add: tenant_of_Some)
  show "disableSemanticActions (run_effects old s) = disableSemanticActions s"
    using t assms by (simp add: disableSemanticActions_def config_of_def)
  have r: "tenant_of (reset_form s) = Some t" using assms by (simp add: tenant_of_Some reset_form_def)
  have f: "currentThreshold (reset_form s) = sp_thresholds s t" "currentThreshold s = sp_thresholds s t"
    "sp_thresholdDraft (reset_form s) = sp_thresholdDraft s"
    using assms r by (simp_all add: currentThreshold_def) (simp_all add: reset_form_def)
  show "sp_thresholdDraft (run_effects old s) = (if sp_thresholdDraft s = None then sp_thresholds s t else sp_thresholdDraft s)"
    by (auto simp: run_effects_def sel Let_def load_draft_def f)
qed

lemma threshold_settled:
  fixes v :: jsval
  assumes "tenant_of s = Some t" and "\<not> nullish data"
  defines "u \<equiv> semantic_step (Settled (UpdateThreshold t v) (Inr data)) s"
  shows "sp_thresholdDraft u = sp_thresholds s t" "tenant_of u = Some t" "disableSemanticActions u = disableSemanticActions s"
proof -
  let ?c = "settle_mutation (UpdateThreshold t v) (Inr data) s"
  have c: "tenant_of ?c = Some t" "sp_thresholdDraft ?c = None" "sp_thresholds ?c = sp_thresholds s" "sp_configs ?c = sp_configs s"
    using assms(1,2) by (simp_all add: settle_mutation_def tenant_of_Some invalidate_def add_toast_def)
  show "sp_thresholdDraft u = sp_thresholds s t" "tenant_of u = Some t" "disableSemanticActions u = disableSemanticActions s"
    using effects_draft [OF c(1), of s] c assms(1)
    by (simp_all add: u_def semantic_step_def disableSemanticActions_def config_of_def)
qed

lemma threshold_loaded:
  fixes n :: "jsnum option"
  assumes "tenant_of s = Some t"
  defines "u \<equiv> semantic_step (ThresholdLoaded t n) s"
  shows "sp_thresholdDraft u = (if sp_thresholdDraft s = None then n else sp_thresholdDraft s)"
    and "tenant_of u = Some t" and "sp_thresholds u t = n" and "disableSemanticActions u = disableSemanticActions s"
proof -
  let ?c = "s\<lparr>sp_thresholds := (sp_thresholds s)(t := n)\<rparr>"
  have c: "tenant_of ?c = Some t" using assms(1) by (simp add: tenant_of_Some)
  show "sp_thresholdDraft u = (if sp_thresholdDraft s = None then n else sp_thresholdDraft s)"
    and "tenant_of u = Some t" and "sp_thresholds u t = n" and "disableSemanticActions u = disableSemanticActions s"
    using effects_draft [OF c, of s] c assms(1)
    by (simp_all add: u_def semantic_step_def disableSemanticActions_def config_of_def)
qed

text \<open>C23. When a threshold has been saved and the list of thresholds is read again, the field shows the new threshold only if the
  tenant had none before. Otherwise the effect that fills an empty draft has already run with the cached value: the field
  shows the old threshold, which counts as a change, and the button Save threshold would write the old one back.\<close>

theorem threshold_save_reverts:
  assumes "tenant_of s = Some t" and "\<not> nullish data" and "new \<noteq> NaN" and "\<not> disableSemanticActions s"
    and "s' = semantic_run [Settled (UpdateThreshold t v) (Inr data), ThresholdLoaded t (Some new)] s"
  shows "case sp_thresholds s t of
      None \<Rightarrow> displayThreshold s' = new \<and> \<not> thresholdDirty s' \<and> saveThreshold s' = None
    | Some old \<Rightarrow> displayThreshold s' = old \<and> thresholdDirty s' = (old \<noteq> new) \<and>
        (old \<noteq> new \<longrightarrow> saveThreshold s' = Some (UpdateThreshold t (JNum (str_to_num (to_fixed 4 old)))))"
proof -
  let ?u = "semantic_step (Settled (UpdateThreshold t v) (Inr data)) s"
  note u = threshold_settled [OF assms(1,2), of v]
  note l = threshold_loaded [OF u(2), of "Some new"]
  have s': "s' = semantic_step (ThresholdLoaded t (Some new)) ?u" using assms(5) by (simp add: semantic_run_def)
  have d: "sp_thresholdDraft s' = Some (case sp_thresholds s t of None \<Rightarrow> new | Some old \<Rightarrow> old)"
    using u(1) l(1) unfolding s' by (cases "sp_thresholds s t") simp_all
  have c: "currentThreshold s' = Some new" using l(2,3) unfolding s' currentThreshold_def by simp
  have t: "tenant_of s' = Some t" "\<not> disableSemanticActions s'" using l(2,4) u(3) assms(4) unfolding s' by simp_all
  show ?thesis
    using d c t assms(3) by (auto simp: displayThreshold_def thresholdDirty_def saveThreshold_def split: option.splits)
qed

theorem threshold_save_reverts_witness:
  "displayThreshold (semantic_run [Settled (UpdateThreshold ''acme'' (JNum (Fin (9 / 10)))) (Inr (JObj [])),
     ThresholdLoaded ''acme'' (Some (Fin (9 / 10)))] (demo_semantic\<lparr>sp_thresholds := (\<lambda>_. Some (Fin (1 / 2)))\<rparr>)) = Fin (1 / 2)"
proof -
  let ?s = "demo_semantic\<lparr>sp_thresholds := (\<lambda>_. Some (Fin (1 / 2)))\<rparr>"
  have t: "tenant_of ?s = Some ''acme''" using demo_ready(3) by (simp add: tenant_of_Some)
  have d: "\<not> disableSemanticActions ?s"
    using demo_ready(2) by (simp add: disableSemanticActions_def config_of_def t demo_ready(3))
  show ?thesis
    using threshold_save_reverts [OF t _ _ d refl, of "JObj []" "Fin (9 / 10)"] by (simp add: nullish_def)
qed

section \<open>A tenant without an embedding model\<close>

text \<open>For a tenant without embedding model no button of the page starts a request, except the confirmation of the
  deletion of an anchor, whose handler does not check it.\<close>

theorem disabled_sends_nothing:
  assumes "disableSemanticActions s"
  shows "handleSubmitAnchor s = None \<and> handleRunPlayground s = (s, None) \<and> handleSuggestAnchors s = (s, None) \<and>
    handleCalibrate s = (s, None) \<and> handleApplyRecommendedThreshold s = None \<and> saveThreshold s = None \<and>
    handleCreateRoute n a d u s = (s, None) \<and> handleDeleteRoute s = None \<and>
    handleDeleteAnchor s = map_option (DeleteAnchor \<circ> an_name) (sp_anchorToDelete s)"
  using assms
  by (simp add: handleSubmitAnchor_def handleRunPlayground_def handleSuggestAnchors_def handleCalibrate_def
      handleApplyRecommendedThreshold_def saveThreshold_def handleCreateRoute_def handleDeleteRoute_def handleDeleteAnchor_def
      Let_def split: option.splits)

section \<open>Calibration\<close>

lemma settle_rows [simp]: "sp_calibrationRows (settle_mutation m r s) = sp_calibrationRows s"
  by (cases m; cases r; simp add: settle_mutation_def on_error_def add_toast_def play_error_def invalidate_def)

lemma handler_rows [simp]:
  "sp_calibrationRows (fst (handleRunPlayground s)) = sp_calibrationRows s"
  "sp_calibrationRows (fst (handleSuggestAnchors s)) = sp_calibrationRows s"
  "sp_calibrationRows (fst (handleCalibrate s)) = sp_calibrationRows s"
  "sp_calibrationRows (fst (handleCreateRoute n a d u s)) = sp_calibrationRows s"
  by (simp_all add: handleRunPlayground_def handleSuggestAnchors_def handleCalibrate_def handleCreateRoute_def Let_def
      add_toast_def play_error_def split: option.splits)

lemma drop_row_not_Nil: "xs \<noteq> [] \<Longrightarrow> length xs \<noteq> 1 \<Longrightarrow> drop_row i xs \<noteq> []"
  by (cases xs; cases i) (auto simp: drop_row_def)

lemma rows_step: "sp_calibrationRows s \<noteq> [] \<Longrightarrow> sp_calibrationRows (semantic_step e s) \<noteq> []"
  by (cases e) (simp_all add: semantic_step_def page_input_def active_input_def handleOpenCreateAnchor_def drop_row_not_Nil
      split: option.splits)

text \<open>The calibration table never loses its last row, and what is calibrated are its complete rows, trimmed and in order;
  a dataset without complete rows is never sent.\<close>

theorem calibration_dataset:
  "sp_calibrationRows (semantic_run es (semantic_init ts)) \<noteq> [] \<and>
   (case snd (handleCalibrate s) of
      None \<Rightarrow> True
    | Some m \<Rightarrow> \<exists>rows t. m = Calibrate rows t \<and> tenant_of s = Some t \<and> rows \<noteq> [] \<and>
        rows = map (\<lambda>(x, r). (trim x, trim r)) (filter (\<lambda>(x, r). trim x \<noteq> [] \<and> trim r \<noteq> []) (sp_calibrationRows s)))"
proof
  have "sp_calibrationRows u \<noteq> [] \<Longrightarrow> sp_calibrationRows (semantic_run es u) \<noteq> []" for u
    unfolding semantic_run_def by (induction es arbitrary: u) (simp_all add: rows_step)
  then show "sp_calibrationRows (semantic_run es (semantic_init ts)) \<noteq> []" by (simp add: semantic_init_def)
  have "labelled_rows rows = map (\<lambda>(x, r). (trim x, trim r)) (filter (\<lambda>(x, r). trim x \<noteq> [] \<and> trim r \<noteq> []) rows)" for rows
    by (induction rows) (auto simp: labelled_rows_def)
  then show "case snd (handleCalibrate s) of
      None \<Rightarrow> True
    | Some m \<Rightarrow> \<exists>rows t. m = Calibrate rows t \<and> tenant_of s = Some t \<and> rows \<noteq> [] \<and>
        rows = map (\<lambda>(x, r). (trim x, trim r)) (filter (\<lambda>(x, r). trim x \<noteq> [] \<and> trim r \<noteq> []) (sp_calibrationRows s))"
    by (simp add: handleCalibrate_def Let_def split: option.splits)
qed

end
