(* ===== verification/Model_Dialogs.thy ===== *)
theory Model_Dialogs
  imports Query_Client Model_Patch
begin

text \<open>
  The dialogs that create and edit a model (features/models/components/create-model-dialog.tsx,
  edit-model-dialog.tsx and observable-fields-editor.tsx). Both dialogs keep the same fields; the fields only one of
  them has are empty in the other. In the text of an error the sign for at least is written with two characters. The model an edit starts from is an arbitrary JSON value with the members the dialog
  reads as strings. \<open>JSON.stringify\<close> leaves undefined members out, so the bodies below are built without them.
\<close>

section \<open>Observable fields\<close>

record observable_field =
  of_path :: string
  of_type :: string
  of_role :: string

datatype field_patch = PathTo string | TypeTo string | RoleTo string

fun patch_field :: "field_patch \<Rightarrow> observable_field \<Rightarrow> observable_field" where
  "patch_field (PathTo v) f = f\<lparr>of_path := v\<rparr>"
| "patch_field (TypeTo v) f = f\<lparr>of_type := v\<rparr>"
| "patch_field (RoleTo v) f = f\<lparr>of_role := v\<rparr>"

definition handleUpdate :: "nat \<Rightarrow> field_patch \<Rightarrow> observable_field list \<Rightarrow> observable_field list" where
  "handleUpdate index p fs = map (\<lambda>(i, f). if i = index then patch_field p f else f) (enumerate 0 fs)"

definition handleRemove :: "nat \<Rightarrow> observable_field list \<Rightarrow> observable_field list" where
  "handleRemove index fs = map snd (filter (\<lambda>(i, f). i \<noteq> index) (enumerate 0 fs))"

definition handleAdd :: "observable_field list \<Rightarrow> observable_field list" where
  "handleAdd fs = fs @ [\<lparr>of_path = [], of_type = ''text'', of_role = ''input''\<rparr>]"

definition trim_field :: "observable_field \<Rightarrow> observable_field" where
  "trim_field f = f\<lparr>of_path := trim (of_path f)\<rparr>"

definition invalid_field :: "observable_field \<Rightarrow> bool" where
  "invalid_field f \<longleftrightarrow> of_path f = [] \<or> of_type f \<notin> set [''text'', ''json'', ''number''] \<or> of_role f \<notin> set [''input'', ''output'']"

definition field_key :: "observable_field \<Rightarrow> string" where
  "field_key f = of_path f @ ''::'' @ of_type f @ ''::'' @ of_role f"

fun has_duplicate :: "string list \<Rightarrow> string list \<Rightarrow> bool" where
  "has_duplicate seen [] = False"
| "has_duplicate seen (k # ks) = (k \<in> set seen \<or> has_duplicate (k # seen) ks)"

definition fields_error :: "observable_field list \<Rightarrow> string option" where
  "fields_error fs =
     (let normalized = map trim_field fs in
      if list_ex invalid_field normalized then Some ''Observable fields must include path, type, and role''
      else if has_duplicate [] (map field_key normalized) then Some ''Observable fields contain duplicate rows''
      else None)"

definition field_json :: "observable_field \<Rightarrow> jsval" where
  "field_json f = JObj [(''path'', JStr (trim (of_path f))), (''type'', JStr (of_type f)), (''role'', JStr (of_role f))]"

section \<open>The form\<close>

record model_form =
  mf_modelId :: string
  mf_provider :: string
  mf_enabled :: bool
  mf_routeGroups :: "string list"
  mf_type :: string
  mf_infra :: string
  mf_baseUrl :: string
  mf_endpoint :: string
  mf_fields :: "observable_field list"
  mf_prompt :: string
  mf_cached :: string
  mf_completion :: string
  mf_markup :: string
  mf_error :: string
  mf_catalogId :: string
  mk_enabled :: bool
  mk_delayMin :: string
  mk_delayMax :: string
  mk_errorRate :: string
  mk_errorStatus :: string
  mk_errorMessage :: string
  mk_fixedResponse :: string

definition empty_model_form :: model_form where
  "empty_model_form =
     \<lparr>mf_modelId = [], mf_provider = [], mf_enabled = True, mf_routeGroups = [], mf_type = [], mf_infra = ''0'',
      mf_baseUrl = [], mf_endpoint = [], mf_fields = [], mf_prompt = [], mf_cached = [], mf_completion = [], mf_markup = ''0'',
      mf_error = [], mf_catalogId = [], mk_enabled = False, mk_delayMin = [], mk_delayMax = [], mk_errorRate = [],
      mk_errorStatus = [], mk_errorMessage = [], mk_fixedResponse = []\<rparr>"

section \<open>Loading the model to edit\<close>

text \<open>\<open>v || ''\<close> of a member, \<open>(a ?? b ?? c)?.toString?.() || ''\<close>, and the ID shown: a Bedrock model is known to its
  provider by another one.\<close>

definition str_or_empty :: "jsval \<Rightarrow> string" where
  "str_or_empty v = (if truthy v then to_str v else [])"

definition shown_number :: "jsval \<Rightarrow> string" where
  "shown_number v = (if nullish v then [] else to_str v)"

fun first_of :: "jsval \<Rightarrow> string list \<Rightarrow> jsval" where
  "first_of v [] = JUndef"
| "first_of v (k # ks) = coalesce (get_prop v k) (first_of v ks)"

definition shown_model_id :: "string \<Rightarrow> jsval \<Rightarrow> string" where
  "shown_model_id provider model =
     (let pmid = get_prop model ''provider_model_id'' in
      if provider = ''bedrock'' \<and> \<not> nullish pmid \<and> trim (to_str pmid) \<noteq> [] then trim (to_str pmid)
      else str_of (get_prop model ''id''))"

definition shown_type :: "jsval \<Rightarrow> string" where
  "shown_type v = (if v = JStr ''embedding'' then ''Embedding'' else if v = JStr ''ml'' then ''ML'' else ''LLM'')"

definition shown_field :: "jsval \<Rightarrow> observable_field" where
  "shown_field f = \<lparr>of_path = str_of (get_prop f ''path''), of_type = str_of (get_prop f ''type''), of_role = str_of (get_prop f ''role'')\<rparr>"

definition load_model :: "jsval \<Rightarrow> model_form \<Rightarrow> model_form" where
  "load_model model f =
     (let enabled = coalesce (get_prop model ''Enabled'') (get_prop model ''enabled''); pr = get_prop model ''pricing'';
          mock = get_prop model ''mock''; infra = get_prop model ''infrastructure_monthly_usd'';
          mp = get_prop model ''markup_percentage'';
          provider = str_or_empty (get_prop model ''provider'')
      in f\<lparr>mf_enabled := nullish enabled \<or> truthy enabled, mf_provider := provider,
        mf_modelId := shown_model_id provider model, mf_type := shown_type (get_prop model ''type''),
        mf_infra := (if infra \<noteq> JUndef then to_str infra else ''0''), mf_baseUrl := str_or_empty (get_prop model ''base_url''),
        mf_endpoint := str_or_empty (get_prop (get_prop model ''execution'') ''endpoint''),
        mf_fields := map shown_field (arr_elems (get_prop (get_prop model ''observable'') ''fields'')),
        mf_prompt := shown_number (first_of pr [''prompt_per_1m'', ''PromptPer1M'', ''promptPer1M'']),
        mf_cached := shown_number (first_of pr [''cached_input_per_1m'', ''CachedInputPer1M'', ''cachedInputPer1M'']),
        mf_completion := (if get_prop model ''type'' = JStr ''embedding'' then ''0''
          else shown_number (first_of pr [''completion_per_1m'', ''CompletionPer1M'', ''completionPer1M''])),
        mf_markup := (if \<not> nullish mp \<and> is_finite (to_num mp) then to_str mp else ''0''),
        mk_enabled := truthy (coalesce (get_prop mock ''enabled'') (JBool False)),
        mk_delayMin := shown_number (get_prop mock ''delay_min_ms''), mk_delayMax := shown_number (get_prop mock ''delay_max_ms''),
        mk_errorRate := shown_number (get_prop mock ''error_rate''), mk_errorStatus := shown_number (get_prop mock ''error_status''),
        mk_errorMessage := str_or_empty (get_prop mock ''error_message''),
        mk_fixedResponse := str_or_empty (get_prop mock ''fixed_response'')\<rparr>)"

definition handleProviderChange :: "jsval \<Rightarrow> string \<Rightarrow> model_form \<Rightarrow> model_form" where
  "handleProviderChange model p f = f\<lparr>mf_provider := p, mf_modelId := shown_model_id p model\<rparr>"

definition select_edit_type :: "string \<Rightarrow> model_form \<Rightarrow> model_form" where
  "select_edit_type v f = f\<lparr>mf_type := v, mf_completion := (if v = ''Embedding'' then ''0'' else mf_completion f)\<rparr>"

section \<open>Checks\<close>

definition not_negative :: "jsnum \<Rightarrow> bool" where
  "not_negative n \<longleftrightarrow> is_finite n \<and> \<not> num_pos (num_neg n)"

definition markup_value :: "model_form \<Rightarrow> jsnum" where
  "markup_value f = (if trim (mf_markup f) = [] then Fin 0 else str_to_num (mf_markup f))"

definition infra_error :: "model_form \<Rightarrow> string option" where
  "infra_error f = (if not_negative (str_to_num (mf_infra f)) then None else Some ''Infrastructure monthly cost must be 0 or greater'')"

definition markup_error :: "model_form \<Rightarrow> string option" where
  "markup_error f = (if not_negative (markup_value f) then None else Some ''Model Markup % must be a number >= 0'')"

definition endpoint_error :: "model_form \<Rightarrow> string option" where
  "endpoint_error f = (if mf_type f = ''ML'' \<and> trim (mf_endpoint f) = [] then Some ''Execution endpoint is required for ML models'' else None)"

definition ml_fields_error :: "model_form \<Rightarrow> string option" where
  "ml_fields_error f = (if mf_type f = ''ML'' then fields_error (mf_fields f) else None)"

definition required :: "string \<Rightarrow> string \<Rightarrow> string option" where
  "required v msg = (if v = [] then Some msg else None)"

fun first_error :: "string option list \<Rightarrow> string option" where
  "first_error [] = None"
| "first_error (None # es) = first_error es"
| "first_error (Some msg # es) = Some msg"

definition edit_error :: "model_form \<Rightarrow> string option" where
  "edit_error f = first_error
     [infra_error f, markup_error f, endpoint_error f,
      (if mf_provider f = ''bedrock'' then required (trim (mf_modelId f)) ''Model ID is required for Bedrock models'' else None),
      ml_fields_error f]"

definition create_error :: "string list \<Rightarrow> model_form \<Rightarrow> string option" where
  "create_error existingModelIds f = first_error
     [required (trim (mf_modelId f)) ''Model ID is required'', required (mf_provider f) ''Provider is required'',
      required (mf_type f) ''Type is required'', endpoint_error f, ml_fields_error f,
      (if trim (mf_modelId f) \<in> set existingModelIds then Some ''A model with this ID already exists'' else None),
      infra_error f, markup_error f]"

section \<open>Bodies\<close>

definition mappedType :: "string \<Rightarrow> string" where
  "mappedType v = (if v = ''LLM'' then [] else if v = ''Embedding'' then ''embedding'' else ''ml'')"

text \<open>A member set from a field, left out when the field is empty.\<close>

definition typed_member :: "string \<Rightarrow> (string \<Rightarrow> jsval) \<Rightarrow> string \<Rightarrow> props" where
  "typed_member k read v = (if v = [] then [] else [(k, read v)])"

definition price_members :: "model_form \<Rightarrow> props" where
  "price_members f =
     typed_member ''prompt_per_1m'' (JNum \<circ> parse_float) (mf_prompt f)
     @ typed_member ''cached_input_per_1m'' (JNum \<circ> parse_float) (mf_cached f)
     @ (if mf_type f = ''Embedding'' then [(''completion_per_1m'', JNum (Fin 0))]
        else typed_member ''completion_per_1m'' (JNum \<circ> parse_float) (mf_completion f))"

definition has_price :: "model_form \<Rightarrow> bool" where
  "has_price f \<longleftrightarrow> mf_prompt f \<noteq> [] \<or> mf_cached f \<noteq> [] \<or> mf_completion f \<noteq> [] \<or> mf_type f = ''Embedding''"

definition type_members :: "model_form \<Rightarrow> props" where
  "type_members f =
     (if mf_provider f = ''bedrock'' then [(''provider_model_id'', JStr (trim (mf_modelId f))), (''name'', JStr (trim (mf_modelId f)))] else [])
     @ (if mf_type f \<noteq> ''ML'' then [(''base_url'', JStr (trim (mf_baseUrl f)))]
        else [(''execution'', JObj [(''endpoint'', JStr (trim (mf_endpoint f)))]),
              (''observable'', JObj [(''fields'', JArr (map field_json (mf_fields f)))])])"

definition cost_members :: "model_form \<Rightarrow> props" where
  "cost_members f =
     [(''Enabled'', JBool (mf_enabled f)), (''type'', JStr (mappedType (mf_type f))),
      (''infrastructure_monthly_usd'', JNum (str_to_num (mf_infra f))), (''markup_percentage'', JNum (markup_value f))]"

definition mock_members :: "model_form \<Rightarrow> props" where
  "mock_members f =
     [(''enabled'', JBool (mk_enabled f))]
     @ typed_member ''delay_min_ms'' (JNum \<circ> parse_int10) (mk_delayMin f)
     @ typed_member ''delay_max_ms'' (JNum \<circ> parse_int10) (mk_delayMax f)
     @ typed_member ''error_rate'' (JNum \<circ> parse_float) (mk_errorRate f)
     @ typed_member ''error_status'' (JNum \<circ> parse_int10) (mk_errorStatus f)
     @ typed_member ''error_message'' JStr (mk_errorMessage f)
     @ typed_member ''fixed_response'' JStr (mk_fixedResponse f)"

definition shouldPatchMock :: "jsval \<Rightarrow> model_form \<Rightarrow> bool" where
  "shouldPatchMock model f \<longleftrightarrow> mk_enabled f \<or> mk_delayMin f \<noteq> [] \<or> mk_delayMax f \<noteq> [] \<or> mk_errorRate f \<noteq> []
     \<or> mk_errorStatus f \<noteq> [] \<or> mk_errorMessage f \<noteq> [] \<or> mk_fixedResponse f \<noteq> []
     \<or> truthy (get_prop (get_prop model ''mock'') ''enabled'')"

definition edit_update :: "jsval \<Rightarrow> model_form \<Rightarrow> props" where
  "edit_update model f =
     [(''provider'', JStr (mf_provider f))] @ cost_members f @ type_members f
     @ (if has_price f then [(''pricing'', JObj (price_members f))] else [])
     @ (if shouldPatchMock model f then [(''mock'', JObj (mock_members f))] else [])"

definition new_model :: "model_form \<Rightarrow> props" where
  "new_model f =
     [(''id'', JStr (trim (mf_modelId f))), (''provider'', JStr (mf_provider f)),
      (''route_groups'', JArr (map JStr (mf_routeGroups f)))] @ cost_members f @ type_members f
     @ (if mf_type f \<noteq> ''ML'' \<and> has_price f then [(''pricing'', JObj (price_members f))] else [])"

section \<open>Submitting\<close>

text \<open>The form afterwards and whether the dialog closes. A failed request leaves both as they are; the hook shows the error.\<close>

definition edit_submit :: "jsval \<Rightarrow> model_form \<Rightarrow> (model_form \<times> bool) io" where
  "edit_submit model f =
     (case edit_error f of
        Some msg \<Rightarrow> io_return (f\<lparr>mf_error := msg\<rparr>, False)
      | None \<Rightarrow>
          io_catch
            (io_bind (updateModel_call (str_of (get_prop model ''id'')) (edit_update model f)
                        (js_or (get_prop model ''version'') (JNum (Fin 1))))
               (\<lambda>_. io_return (f\<lparr>mf_error := []\<rparr>, True)))
            (\<lambda>_. io_return (f\<lparr>mf_error := []\<rparr>, False)))"

definition create_submit :: "string list \<Rightarrow> model_form \<Rightarrow> (model_form \<times> bool) io" where
  "create_submit existingModelIds f =
     (case create_error existingModelIds f of
        Some msg \<Rightarrow> io_return (f\<lparr>mf_error := msg\<rparr>, False)
      | None \<Rightarrow>
          io_catch
            (io_bind (createModel_call (JObj (new_model f))) (\<lambda>_. io_return (empty_model_form, True)))
            (\<lambda>_. io_return (f\<lparr>mf_error := []\<rparr>, False)))"

section \<open>Other fields of the create dialog\<close>

definition toggleRouteGroup :: "string \<Rightarrow> model_form \<Rightarrow> model_form" where
  "toggleRouteGroup g f =
     f\<lparr>mf_routeGroups := (if g \<in> set (mf_routeGroups f) then filter (\<lambda>x. x \<noteq> g) (mf_routeGroups f) else mf_routeGroups f @ [g])\<rparr>"

definition clear_catalog_fields :: "model_form \<Rightarrow> model_form" where
  "clear_catalog_fields f =
     f\<lparr>mf_modelId := [], mf_prompt := [], mf_cached := [], mf_completion := [], mf_infra := ''0''\<rparr>"

definition handleProviderSelect :: "string \<Rightarrow> model_form \<Rightarrow> model_form" where
  "handleProviderSelect p f = (clear_catalog_fields f)\<lparr>mf_provider := p, mf_catalogId := []\<rparr>"

record catalog_choice =
  ce_id :: string
  ce_prompt_per_1m :: jsnum
  ce_cached_input_per_1m :: jsnum
  ce_completion_per_1m :: jsnum
  ce_infrastructure_monthly_usd :: jsnum

definition handleCatalogEntrySelect :: "catalog_choice list \<Rightarrow> string \<Rightarrow> model_form \<Rightarrow> model_form" where
  "handleCatalogEntrySelect entries entryId f =
     (let g = f\<lparr>mf_catalogId := entryId\<rparr> in
      if entryId = [] then clear_catalog_fields g
      else case find (\<lambda>e. ce_id e = entryId) entries of
        None \<Rightarrow> g
      | Some e \<Rightarrow> g\<lparr>mf_modelId := ce_id e, mf_prompt := num_to_string (ce_prompt_per_1m e),
          mf_cached := num_to_string (ce_cached_input_per_1m e), mf_completion := num_to_string (ce_completion_per_1m e),
          mf_infra := num_to_string (ce_infrastructure_monthly_usd e)\<rparr>)"

end
