(* ===== verification/Model_Dialogs_Props.thy ===== *)
theory Model_Dialogs_Props
  imports Model_Dialogs Model_Routes
begin

text \<open>
  Properties of the model dialogs, together with the route that turns their bodies into the gateway's patch: what is checked
  before a request is sent, and what of the form the gateway is asked to store.
\<close>

section \<open>Observable fields\<close>

lemma has_duplicate_iff: "has_duplicate seen ks \<longleftrightarrow> \<not> distinct ks \<or> set ks \<inter> set seen \<noteq> {}"
  by (induction ks arbitrary: seen) auto

definition field_types :: "string set" where
  "field_types = {''text'', ''json'', ''number''}"

definition field_roles :: "string set" where
  "field_roles = {''input'', ''output''}"

lemma field_key_inject:
  assumes "\<not> invalid_field f" and "\<not> invalid_field g"
  shows "field_key f = field_key g \<longleftrightarrow> f = g"
proof
  assume k: "field_key f = field_key g"
  have "rev (field_key f) = rev (field_key g)" using k by simp
  moreover have "of_type f \<in> set [''text'', ''json'', ''number'']" "of_role f \<in> set [''input'', ''output'']"
    "of_type g \<in> set [''text'', ''json'', ''number'']" "of_role g \<in> set [''input'', ''output'']"
    using assms by (simp_all only: invalid_field_def de_Morgan_disj not_not)
  ultimately have "of_type f = of_type g \<and> of_role f = of_role g \<and> rev (of_path f) = rev (of_path g)"
    by (simp add: field_key_def) (elim disjE; simp)
  then show "f = g" by (cases f; cases g) simp
qed simp

text \<open>The fields of a machine learning model pass the check exactly when every field has a path, a known type and a
  known role and no two of them are the same up to blanks; the text a field is compared by tells different ones apart.\<close>

theorem observable_fields_checked:
  "fields_error fs = None \<longleftrightarrow>
     (\<forall>f \<in> set fs. trim (of_path f) \<noteq> [] \<and> of_type f \<in> field_types \<and> of_role f \<in> field_roles) \<and>
     distinct (map trim_field fs)"
proof -
  have inj: "inj_on field_key (set (map trim_field fs))" if "\<not> list_ex invalid_field (map trim_field fs)"
    using that field_key_inject unfolding list_ex_iff set_map by (intro inj_onI) blast
  have valid: "list_ex invalid_field (map trim_field fs) \<longleftrightarrow>
      \<not> (\<forall>f \<in> set fs. trim (of_path f) \<noteq> [] \<and> of_type f \<in> field_types \<and> of_role f \<in> field_roles)"
    by (auto simp: list_ex_iff invalid_field_def trim_field_def field_types_def field_roles_def)
  show ?thesis
  proof (cases "list_ex invalid_field (map trim_field fs)")
    case False
    then have "distinct (map field_key (map trim_field fs)) \<longleftrightarrow> distinct (map trim_field fs)"
      using inj distinct_map by blast
    with False show ?thesis unfolding fields_error_def Let_def has_duplicate_iff using valid by simp
  qed (use valid in \<open>auto simp: fields_error_def Let_def\<close>)
qed

section \<open>What the route makes of an edit\<close>

definition edit_body :: "jsval \<Rightarrow> model_form \<Rightarrow> jsval \<Rightarrow> jsval" where
  "edit_body model f version = JObj (obj_set ''version'' version (spread [] (edit_update model f)))"

lemma edit_update_distinct: "distinct (map fst (edit_update model f))"
  by (cases "mf_provider f = ''bedrock''"; cases "mf_type f = ''ML''"; cases "has_price f"; cases "shouldPatchMock model f")
     (simp_all add: edit_update_def cost_members_def type_members_def)

lemma edit_update_lookup:
  "map_of (edit_update model f) ''Enabled'' = Some (JBool (mf_enabled f))"
  "map_of (edit_update model f) ''enabled'' = None"
  "map_of (edit_update model f) ''provider'' = Some (JStr (mf_provider f))"
  "map_of (edit_update model f) ''type'' = Some (JStr (mappedType (mf_type f)))"
  "map_of (edit_update model f) ''infrastructure_monthly_usd'' = Some (JNum (str_to_num (mf_infra f)))"
  "map_of (edit_update model f) ''markup_percentage'' = Some (JNum (markup_value f))"
  "map_of (edit_update model f) ''provider_model_id'' = (if mf_provider f = ''bedrock'' then Some (JStr (trim (mf_modelId f))) else None)"
  "map_of (edit_update model f) ''name'' = (if mf_provider f = ''bedrock'' then Some (JStr (trim (mf_modelId f))) else None)"
  "map_of (edit_update model f) ''base_url'' = (if mf_type f = ''ML'' then None else Some (JStr (trim (mf_baseUrl f))))"
  "map_of (edit_update model f) ''execution'' =
     (if mf_type f = ''ML'' then Some (JObj [(''endpoint'', JStr (trim (mf_endpoint f)))]) else None)"
  "map_of (edit_update model f) ''observable'' =
     (if mf_type f = ''ML'' then Some (JObj [(''fields'', JArr (map field_json (mf_fields f)))]) else None)"
  "map_of (edit_update model f) ''pricing'' = (if has_price f then Some (JObj (price_members f)) else None)"
  "map_of (edit_update model f) ''mock'' = (if shouldPatchMock model f then Some (JObj (mock_members f)) else None)"
  by (simp_all add: edit_update_def cost_members_def type_members_def map_add_def)

lemma edit_body_get: "k \<noteq> ''version'' \<Longrightarrow> get_prop (edit_body model f version) k =
    (case map_of (edit_update model f) k of None \<Rightarrow> JUndef | Some v \<Rightarrow> v)"
  using spread_fresh [of "[]" "edit_update model f"] edit_update_distinct [of model f]
  by (simp add: edit_body_def get_prop_simps)

lemma price_lookup:
  "map_of (price_members f) ''prompt_per_1m'' = (if mf_prompt f = [] then None else Some (JNum (parse_float (mf_prompt f))))"
  "map_of (price_members f) ''completion_per_1m'' =
     (if mf_type f = ''Embedding'' then Some (JNum (Fin 0))
      else if mf_completion f = [] then None else Some (JNum (parse_float (mf_completion f))))"
  "map_of (price_members f) ''PromptPer1M'' = None" "map_of (price_members f) ''CompletionPer1M'' = None"
  by (simp_all add: price_members_def typed_member_def)

definition typed_price :: "string \<Rightarrow> jsnum option" where
  "typed_price v = (if v \<noteq> [] \<and> is_finite (parse_float v) then Some (parse_float v) else None)"

definition completion_price :: "model_form \<Rightarrow> jsnum option" where
  "completion_price f = (if mf_type f = ''Embedding'' then Some (Fin 0) else typed_price (mf_completion f))"

lemma numFrom_member:
  assumes "map_of ps p = None"
  shows "numFrom (JObj ps) k p =
    (case map_of ps k of Some (JNum n) \<Rightarrow> if is_finite n then Some n else None | _ \<Rightarrow> numFrom (JObj ps) k p)"
proof -
  have "k \<in> fst ` set ps" if "map_of ps k = Some v" for v using that by (metis map_of_eq_None_iff option.distinct(1))
  then show ?thesis
    by (auto simp: numFrom_def isPresent_def either_prop_def coalesce_def nullish_def get_prop_simps has_own_simps Let_def
        split: option.splits jsval.splits)
qed

lemma price_payload: "pricing_payload (JObj (price_members f)) =
    set_num ''CompletionPer1M'' (completion_price f) (set_num ''PromptPer1M'' (typed_price (mf_prompt f)) [])"
proof -
  have absent: "numFrom (JObj ps) k p = None" if "map_of ps k = None" "map_of ps p = None" for ps k p
    using that by (simp add: numFrom_def isPresent_def has_own_simps map_of_eq_None_iff)
  have "numFrom (JObj (price_members f)) ''prompt_per_1m'' ''PromptPer1M'' = typed_price (mf_prompt f)"
    using numFrom_member [of "price_members f" "''PromptPer1M''" "''prompt_per_1m''"] absent
    by (simp add: price_lookup typed_price_def split: if_splits)
  moreover have "numFrom (JObj (price_members f)) ''completion_per_1m'' ''CompletionPer1M'' = completion_price f"
    using numFrom_member [of "price_members f" "''CompletionPer1M''" "''completion_per_1m''"] absent
    by (simp add: price_lookup typed_price_def completion_price_def split: if_splits)
  ultimately show ?thesis by (simp add: pricing_payload_def)
qed

lemmas edit_reads = edit_body_get edit_update_lookup

lemma edit_pricing: "patch_pricing (edit_body model f v) out =
    set_if (typed_price (mf_prompt f) \<noteq> None \<or> completion_price f \<noteq> None) ''Pricing''
      (JObj (set_num ''CompletionPer1M'' (completion_price f) (set_num ''PromptPer1M'' (typed_price (mf_prompt f)) []))) out"
proof -
  have none: "\<not> has_price f \<Longrightarrow> typed_price (mf_prompt f) = None \<and> completion_price f = None"
    by (simp add: has_price_def typed_price_def completion_price_def)
  have "pricing_payload (JObj (price_members f)) \<noteq> [] \<longleftrightarrow> typed_price (mf_prompt f) \<noteq> None \<or> completion_price f \<noteq> None"
    by (simp add: price_payload set_num_def split: option.splits)
  then show ?thesis
    using none by (cases "has_price f") (simp_all add: patch_pricing_def edit_reads Let_def price_payload)
qed

text \<open>C16. The cached input price of the edit dialog never reaches the gateway: whatever is typed there, the patch the route
  builds is the same.\<close>

theorem cached_price_never_saved:
  "buildAdminModelPatchPayload (edit_body model (f\<lparr>mf_cached := x\<rparr>) v) =
   buildAdminModelPatchPayload (edit_body model (f\<lparr>mf_cached := y\<rparr>) v)"
proof -
  let ?a = "edit_body model (f\<lparr>mf_cached := x\<rparr>) v" and ?b = "edit_body model (f\<lparr>mf_cached := y\<rparr>) v"
  have get: "get_prop ?a k = get_prop ?b k" if "k \<in> {''Enabled'', ''enabled'', ''provider'', ''type'', ''infrastructure_monthly_usd'',
      ''markup_percentage'', ''provider_model_id'', ''name'', ''base_url'', ''execution'', ''observable'', ''mock''}" for k
    using that by (elim insertE; simp add: edit_reads markup_value_def shouldPatchMock_def mock_members_def)
  have "patch_scalars ?a = patch_scalars ?b"
    by (simp add: patch_scalars_def patch_defs either_prop_def get)
  moreover have "patch_observable ?a out = patch_observable ?b out" for out
    by (simp add: patch_observable_def get)
  moreover have "patch_pricing ?a out = patch_pricing ?b out" for out
    by (simp add: edit_pricing completion_price_def)
  moreover have "patch_mock ?a out = patch_mock ?b out" for out by (simp add: patch_mock_def get)
  moreover have "\<not> nullish ?a" "\<not> nullish ?b" by (simp_all add: edit_body_def nullish_def)
  ultimately show ?thesis by (simp add: buildAdminModelPatchPayload_def split: sum.splits)
qed

lemma observable_built:
  assumes "fields_error (mf_fields f) = None"
  shows "filter (\<lambda>f. field_path f \<noteq> []) (map map_field (map field_json (mf_fields f))) =
    map (\<lambda>f. [(''path'', JStr (trim (of_path f))), (''type'', JStr (of_type f)), (''role'', JStr (of_role f))]) (mf_fields f)"
proof -
  have "trim (of_path g) \<noteq> []" if "g \<in> set (mf_fields f)" for g
    using assms that by (auto simp: fields_error_def Let_def invalid_field_def trim_field_def list_ex_iff split: if_splits)
  then show ?thesis
    by (subst filter_True) (auto simp: map_field_def field_json_def field_path_def get_prop_simps coalesce_def nullish_def)
qed

definition edit_valid :: "model_form \<Rightarrow> bool" where
  "edit_valid f \<longleftrightarrow> not_negative (str_to_num (mf_infra f)) \<and> not_negative (markup_value f)
     \<and> (mf_type f = ''ML'' \<longrightarrow> trim (mf_endpoint f) \<noteq> [] \<and> fields_error (mf_fields f) = None)
     \<and> (mf_provider f = ''bedrock'' \<longrightarrow> trim (mf_modelId f) \<noteq> [])"

lemma first_error_None: "first_error es = None \<longleftrightarrow> list_all (\<lambda>e. e = None) es"
  by (induction es rule: first_error.induct) auto

lemma edit_error_None: "edit_error f = None \<longleftrightarrow> edit_valid f"
  by (auto simp: edit_error_def first_error_None edit_valid_def infra_error_def markup_error_def endpoint_error_def
      ml_fields_error_def required_def)

lemma not_negative_finite: "not_negative n \<Longrightarrow> is_finite n"
  by (simp add: not_negative_def)

text \<open>What the gateway is asked to store for a form.\<close>

definition patched_as :: "model_form \<Rightarrow> props \<Rightarrow> bool" where
  "patched_as f out \<longleftrightarrow>
     map_of out ''Provider'' = Some (JStr (mf_provider f)) \<and> map_of out ''Type'' = Some (JStr (mappedType (mf_type f))) \<and>
     map_of out ''Enabled'' = Some (JBool (mf_enabled f)) \<and>
     map_of out ''infrastructure_monthly_usd'' = Some (JNum (str_to_num (mf_infra f))) \<and>
     map_of out ''markup_percentage'' = Some (JNum (markup_value f)) \<and>
     map_of out ''base_url'' = (if mf_type f = ''ML'' then None else Some (JStr (trim (mf_baseUrl f)))) \<and>
     map_of out ''execution'' = (if mf_type f = ''ML'' then Some (JObj [(''endpoint'', JStr (trim (mf_endpoint f)))]) else None) \<and>
     map_of out ''observable'' = (if mf_type f = ''ML'' then Some (JObj [(''fields'', JArr (map field_json (mf_fields f)))]) else None) \<and>
     map_of out ''provider_model_id'' = (if mf_provider f = ''bedrock'' then Some (JStr (trim (mf_modelId f))) else None) \<and>
     map_of out ''name'' = (if mf_provider f = ''bedrock'' then Some (JStr (trim (mf_modelId f))) else None) \<and>
     map_of out ''Pricing'' = (if typed_price (mf_prompt f) = None \<and> completion_price f = None then None
       else Some (JObj (set_num ''CompletionPer1M'' (completion_price f) (set_num ''PromptPer1M'' (typed_price (mf_prompt f)) []))))"

lemma edit_scalars:
  assumes "edit_valid f"
  shows "patch_scalars (edit_body model f v) =
    set_if (mf_type f = ''ML'') ''execution'' (JObj [(''endpoint'', JStr (trim (mf_endpoint f)))])
    (set_if (mf_type f \<noteq> ''ML'') ''base_url'' (JStr (trim (mf_baseUrl f)))
    (set_if (mf_provider f = ''bedrock'') ''name'' (JStr (trim (mf_modelId f)))
    (set_if (mf_provider f = ''bedrock'') ''provider_model_id'' (JStr (trim (mf_modelId f)))
    [(''Enabled'', JBool (mf_enabled f)), (''Provider'', JStr (mf_provider f)), (''Type'', JStr (mappedType (mf_type f))),
     (''infrastructure_monthly_usd'', JNum (str_to_num (mf_infra f))), (''markup_percentage'', JNum (markup_value f))])))"
proof -
  have "is_finite (str_to_num (mf_infra f))" "is_finite (markup_value f)"
    using assms by (simp_all add: edit_valid_def not_negative_finite)
  moreover have "execution_payload (JObj [(''endpoint'', JStr e)]) = (if trim e = [] then [] else [(''endpoint'', JStr (trim e))])" for e
    by (simp add: execution_payload_def either_prop_def get_prop_simps coalesce_def nullish_def trimmed_def)
  moreover have "\<not> is_object JUndef" by simp
  ultimately show ?thesis
    using assms unfolding edit_valid_def
    by (simp add: patch_scalars_def patch_defs edit_reads either_prop_def coalesce_def nullish_def trimmed_def)
qed


definition demo_model_form :: model_form where
  "demo_model_form = empty_model_form\<lparr>mf_type := ''LLM'', mf_provider := ''openai'', mf_prompt := ''2'', mf_cached := ''1''\<rparr>"

lemma demo_zero: "str_to_num ''0'' = Fin 0" by code_simp

lemma demo_model_valid: "edit_error demo_model_form = None"
  by (simp add: edit_error_None edit_valid_def demo_model_form_def empty_model_form_def demo_zero markup_value_def not_negative_def
      trim_def trim_start_def is_ws_def code_def)


section \<open>Creating a model\<close>

definition create_valid :: "string list \<Rightarrow> model_form \<Rightarrow> bool" where
  "create_valid ids f \<longleftrightarrow> trim (mf_modelId f) \<noteq> [] \<and> trim (mf_modelId f) \<notin> set ids \<and> mf_provider f \<noteq> [] \<and> mf_type f \<noteq> []
     \<and> not_negative (str_to_num (mf_infra f)) \<and> not_negative (markup_value f)
     \<and> (mf_type f = ''ML'' \<longrightarrow> trim (mf_endpoint f) \<noteq> [] \<and> fields_error (mf_fields f) = None)"

lemma create_error_None: "create_error ids f = None \<longleftrightarrow> create_valid ids f"
  by (auto simp: create_error_def first_error_None create_valid_def infra_error_def markup_error_def endpoint_error_def
      ml_fields_error_def required_def)

text \<open>The create dialog posts a model exactly when its fields are valid and its ID is not taken, and then once. It closes
  and is emptied when the gateway accepts the model; otherwise it stays open and keeps everything that was typed.\<close>

theorem model_create_checked:
  "io_requests (create_submit ids f) net =
      (if create_valid ids f then [send_request ''POST'' ''/api/models'' (JObj (new_model f))] else []) \<and>
    (io_result (create_submit ids f) net = Inr (empty_model_form, True) \<or>
     (\<exists>msg. io_result (create_submit ids f) net = Inr (f\<lparr>mf_error := msg\<rparr>, False)))"
proof (cases "create_error ids f")
  case None
  have r: "(\<lambda>(r, h). (case r of Inr p \<Rightarrow> p = (a, True) | Inl _ \<Rightarrow> False) \<and> h = snd (m net []) \<or>
      (case r of Inr p \<Rightarrow> p = (b, False) | Inl _ \<Rightarrow> False) \<and> h = snd (m net []))
      (io_catch (io_bind m (\<lambda>_. io_return (a, True))) (\<lambda>_. io_return (b, False)) net [])"
    for m :: "jsval io" and a b :: model_form
    by (auto simp: js_simps split: prod.splits sum.splits)
  show ?thesis
    using None r [where a = empty_model_form and b = "f\<lparr>mf_error := []\<rparr>" and m = "createModel_call (JObj (new_model f))"] create_error_None [of ids f]
    by (auto simp: create_submit_def io_requests_def io_result_def createModel_call_def call_history split: prod.splits sum.splits)
next
  case (Some msg)
  then have "\<not> create_valid ids f" using create_error_None [of ids f] by simp
  with Some show ?thesis by (auto simp: create_submit_def io_requests_def io_result_def js_simps)
qed

end
