(* ===== verification/Tenant_Dialogs.thy ===== *)
theory Tenant_Dialogs
  imports Query_Client
begin

text \<open>
  The dialogs that edit the config of a tenant (features/tenants/components/edit-*-dialog.tsx): traffic split, features, routing,
  rate limit, output limit, PII webhook and budget. Each builds a patch and sends it with the version it was opened with; the
  gateway applies it as a JSON merge patch (backend/internal/storage/postgres.go, mergeMaps). The zod schemas of three
  dialogs are predicates on the numbers they coerce; \<open>valid_url\<close> is the verdict of the browser's URL parser.
\<close>

section \<open>Merge patches\<close>

text \<open>A null removes a member, an object is merged into an object, anything else replaces.\<close>

function mergeMaps :: "props \<Rightarrow> props \<Rightarrow> props" where
  "mergeMaps t [] = t"
| "mergeMaps t ((k, v) # ps) =
     (case v of
        JNull \<Rightarrow> mergeMaps (obj_del k t) ps
      | JObj pm \<Rightarrow>
          (case map_of t k of
             Some (JObj tm) \<Rightarrow> mergeMaps (obj_set k (JObj (mergeMaps tm pm)) t) ps
           | _ \<Rightarrow> mergeMaps (obj_set k v t) ps)
      | _ \<Rightarrow> mergeMaps (obj_set k v t) ps)"
  by pat_completeness auto
termination
  by (relation "measure (\<lambda>(t, ps). size (JObj ps))") auto

definition apply_config_patch :: "jsval \<Rightarrow> jsval \<Rightarrow> jsval" where
  "apply_config_patch config p = JObj (mergeMaps (own_props config) (own_props p))"

section \<open>Sending a patch\<close>

record tenant_view =
  tv_tenant_id :: string
  tv_version :: jsval
  tv_config :: jsval

text \<open>Whether the dialog closes: it does when the request succeeded.\<close>

definition submit_patch :: "tenant_view \<Rightarrow> jsval \<Rightarrow> bool io" where
  "submit_patch tc p =
     io_catch (io_bind (updateTenantConfig (tv_tenant_id tc) (tv_version tc) p) (\<lambda>_. io_return True)) (\<lambda>_. io_return False)"

section \<open>Traffic split\<close>

record split_entry =
  se_model :: string
  se_weight :: jsnum

record split_group =
  sg_name :: string
  sg_entries :: "split_entry list"

definition entry_of :: "jsval \<Rightarrow> split_entry" where
  "entry_of e = \<lparr>se_model = str_of (get_prop e ''model''), se_weight = to_num (get_prop e ''weight'')\<rparr>"

definition split_groups :: "jsval \<Rightarrow> split_group list" where
  "split_groups config =
     map (\<lambda>(n, es). \<lparr>sg_name = n, sg_entries = map entry_of (arr_elems es)\<rparr>) (own_props (get_prop config ''traffic_split''))"

definition addGroup :: "string \<Rightarrow> split_group list \<Rightarrow> split_group list" where
  "addGroup newGroupName groups =
     (let n = trim newGroupName in
      if n = [] \<or> list_ex (\<lambda>g. sg_name g = n) groups then groups else groups @ [\<lparr>sg_name = n, sg_entries = []\<rparr>])"

definition removeGroup :: "string \<Rightarrow> split_group list \<Rightarrow> split_group list" where
  "removeGroup n groups = filter (\<lambda>g. sg_name g \<noteq> n) groups"

definition in_group :: "string \<Rightarrow> (split_entry list \<Rightarrow> split_entry list) \<Rightarrow> split_group list \<Rightarrow> split_group list" where
  "in_group n f groups = map (\<lambda>g. if sg_name g = n then g\<lparr>sg_entries := f (sg_entries g)\<rparr> else g) groups"

definition addEntry :: "string \<Rightarrow> split_group list \<Rightarrow> split_group list" where
  "addEntry n = in_group n (\<lambda>es. es @ [\<lparr>se_model = [], se_weight = Fin 0\<rparr>])"

definition removeEntry :: "string \<Rightarrow> nat \<Rightarrow> split_group list \<Rightarrow> split_group list" where
  "removeEntry n index = in_group n (\<lambda>es. take index es @ drop (Suc index) es)"

datatype entry_field = EntryModel string | EntryWeight string

text \<open>The weight field stores \<open>parseInt(v) || 0\<close>.\<close>

fun set_entry :: "entry_field \<Rightarrow> split_entry \<Rightarrow> split_entry" where
  "set_entry (EntryModel m) e = e\<lparr>se_model := m\<rparr>"
| "set_entry (EntryWeight v) e = e\<lparr>se_weight := (if truthy (JNum (parse_int10 v)) then parse_int10 v else Fin 0)\<rparr>"

definition updateEntry :: "string \<Rightarrow> nat \<Rightarrow> entry_field \<Rightarrow> split_group list \<Rightarrow> split_group list" where
  "updateEntry n index v = in_group n (\<lambda>es. if index < length es then es[index := set_entry v (es ! index)] else es)"

definition getTotalWeight :: "split_entry list \<Rightarrow> jsnum" where
  "getTotalWeight es = foldl (\<lambda>s e. num_add s (if truthy (JNum (se_weight e)) then se_weight e else Fin 0)) (Fin 0) es"

definition group_error :: "split_group \<Rightarrow> string option" where
  "group_error g =
     (let quoted = ''Group '' @ [CHR 0x22] @ sg_name g @ [CHR 0x22]; models = map se_model (sg_entries g) in
      if sg_entries g = [] then Some (quoted @ '' has no models'')
      else if num_le (getTotalWeight (sg_entries g)) (Fin 0) then Some (quoted @ '' must have total weight > 0'')
      else if \<not> distinct models then Some (quoted @ '' has duplicate models'')
      else None)"

fun split_error :: "split_group list \<Rightarrow> string option" where
  "split_error [] = None"
| "split_error (g # gs) = (case group_error g of Some e \<Rightarrow> Some e | None \<Rightarrow> split_error gs)"

definition entry_json :: "split_entry \<Rightarrow> jsval" where
  "entry_json e = JObj [(''model'', JStr (se_model e)), (''weight'', JNum (se_weight e))]"

definition split_members :: "split_group list \<Rightarrow> props" where
  "split_members groups = foldl (\<lambda>o' g. obj_set (sg_name g) (JArr (map entry_json (sg_entries g))) o') [] groups"

definition split_patch :: "split_group list \<Rightarrow> jsval" where
  "split_patch groups = JObj [(''traffic_split'', JObj (split_members groups))]"

text \<open>A failed check is only written to the console: the dialog stays open and shows nothing.\<close>

definition split_submit :: "tenant_view \<Rightarrow> split_group list \<Rightarrow> bool io" where
  "split_submit tc groups = (case split_error groups of Some _ \<Rightarrow> io_return False | None \<Rightarrow> submit_patch tc (split_patch groups))"

section \<open>Features\<close>

definition defaultRules :: jsval where
  "defaultRules = JArr [JObj [(''action'', JObj [(''use_anchor'', JBool True)]), (''when'', JObj [(''semantic_similarity'', JObj [])])]]"

definition defaultSemanticStage :: jsval where
  "defaultSemanticStage = JObj [(''name'', JStr ''semantic_intent''), (''rules'', defaultRules)]"

definition config_stages :: "jsval \<Rightarrow> jsval" where
  "config_stages config = get_prop (get_prop (get_prop config ''routing'') ''smart'') ''stages''"

definition semantic_stage :: "jsval \<Rightarrow> bool" where
  "semantic_stage stage \<longleftrightarrow> get_prop stage ''name'' = JStr ''semantic_intent''"

definition has_rules :: "jsval \<Rightarrow> bool" where
  "has_rules stage \<longleftrightarrow> is_array (get_prop stage ''rules'') \<and> arr_elems (get_prop stage ''rules'') \<noteq> []"

definition getSemanticRoutingEnabled :: "jsval \<Rightarrow> bool" where
  "getSemanticRoutingEnabled config =
     (if \<not> is_array (config_stages config) then False
      else case find semantic_stage (arr_elems (config_stages config)) of None \<Rightarrow> False | Some st \<Rightarrow> has_rules st)"

definition getToolRoutingEnabled :: "jsval \<Rightarrow> bool" where
  "getToolRoutingEnabled config \<longleftrightarrow> get_prop config ''tool_routing_enabled'' \<noteq> JBool False"

definition with_rules :: "jsval \<Rightarrow> jsval" where
  "with_rules stage =
     (if \<not> semantic_stage stage \<or> has_rules stage then stage
      else JObj (obj_set ''rules'' defaultRules (own_props stage)))"

definition buildSemanticRoutingStages :: "jsval \<Rightarrow> bool \<Rightarrow> jsval list option" where
  "buildSemanticRoutingStages config enabled =
     (let stages = arr_elems (config_stages config) in
      if \<not> is_array (config_stages config) then (if enabled then Some [defaultSemanticStage] else None)
      else if \<not> enabled then (if list_ex semantic_stage stages then Some (filter (\<lambda>st. \<not> semantic_stage st) stages) else None)
      else if \<not> list_ex semantic_stage stages then Some (stages @ [defaultSemanticStage])
      else Some (map with_rules stages))"

record feature_form =
  ff_semantic_routing :: bool
  ff_semantic_cache :: bool
  ff_tool_routing :: bool
  ff_budget_enforcement :: bool
  ff_embedding_model :: string
  ff_cache_ttl :: jsnum

definition load_features :: "jsval \<Rightarrow> feature_form" where
  "load_features config =
     (let ttl = get_prop (get_prop config ''semantic_cache'') ''ttl_seconds'' in
      \<lparr>ff_semantic_routing = getSemanticRoutingEnabled config,
       ff_semantic_cache = (get_prop (get_prop config ''semantic_cache'') ''enabled'' = JBool True),
       ff_tool_routing = getToolRoutingEnabled config,
       ff_budget_enforcement = (get_prop (get_prop config ''budget_enforcement'') ''enabled'' = JBool True),
       ff_embedding_model = str_of (get_prop (get_prop (get_prop config ''routing'') ''semantic'') ''embedding_model''),
       ff_cache_ttl = (case ttl of JNum n \<Rightarrow> if num_less (Fin 0) n then n else Fin 86400 | _ \<Rightarrow> Fin 86400)\<rparr>)"

definition edit_ttl :: "string \<Rightarrow> feature_form \<Rightarrow> feature_form" where
  "edit_ttl v f = (let n = parse_int10 v in f\<lparr>ff_cache_ttl := (if n = NaN \<or> num_less n (Fin 1) then Fin 86400 else n)\<rparr>)"

definition features_patch :: "jsval \<Rightarrow> feature_form \<Rightarrow> jsval" where
  "features_patch config f =
     JObj [(''semantic_cache'', JObj [(''enabled'', JBool (ff_semantic_cache f)), (''embedding_model'', JStr (ff_embedding_model f)),
              (''ttl_seconds'', JNum (ff_cache_ttl f))]),
           (''budget_enforcement'', JObj [(''enabled'', JBool (ff_budget_enforcement f))]),
           (''tool_routing_enabled'', JBool (ff_tool_routing f)),
           (''routing'', JObj ((''semantic'', JObj [(''embedding_model'', JStr (ff_embedding_model f))])
              # (case buildSemanticRoutingStages config (ff_semantic_routing f) of
                   None \<Rightarrow> [] | Some sts \<Rightarrow> [(''smart'', JObj [(''stages'', JArr sts)])])))]"

definition features_submit :: "tenant_view \<Rightarrow> feature_form \<Rightarrow> bool io" where
  "features_submit tc f = submit_patch tc (features_patch (tv_config tc) f)"

section \<open>Routing\<close>

definition strategies :: "string list" where
  "strategies = [''smart'', ''round_robin'', ''latency'', ''cost'', ''header'']"

record routing_form =
  rf_strategy :: string
  rf_models :: "string list"
  rf_routeGroups :: "string list"
  rf_default :: "string option"

definition str_items :: "jsval \<Rightarrow> string list" where
  "str_items v = map str_of (arr_elems v)"

definition load_routing :: "jsval \<Rightarrow> routing_form" where
  "load_routing config =
     (let raw = coalesce (get_prop (get_prop config ''routing'') ''strategy'')
            (coalesce (get_prop config ''routing_strategy'') (JStr ''smart''));
          rg = get_prop (get_prop config ''routing'') ''route_group''
      in \<lparr>rf_strategy = (if raw \<in> JStr ` set strategies then str_of raw else ''smart''),
          rf_models = str_items (get_prop config ''allowed_models''), rf_routeGroups = str_items (get_prop config ''route_groups''),
          rf_default = (if nullish rg then None else Some (str_of rg))\<rparr>)"

definition toggle_in :: "string \<Rightarrow> string list \<Rightarrow> string list" where
  "toggle_in x xs = (if x \<in> set xs then filter (\<lambda>y. y \<noteq> x) xs else xs @ [x])"

definition routing_patch :: "routing_form \<Rightarrow> jsval" where
  "routing_patch f =
     JObj ([(''routing'', JObj [(''strategy'', JStr (rf_strategy f)),
              (''route_group'', case rf_default f of None \<Rightarrow> JNull | Some g \<Rightarrow> JStr g)])]
       @ (if rf_models f \<noteq> [] then [(''allowed_models'', JArr (map JStr (rf_models f)))] else [])
       @ [(''route_groups'', JArr (map JStr (rf_routeGroups f)))])"

section \<open>Limits\<close>

datatype rate_scope = ScopeTenant | ScopeApiKey | ScopeJwtSub

fun scope_of :: "jsval \<Rightarrow> rate_scope option" where
  "scope_of (JStr v) = (if v = ''tenant'' then Some ScopeTenant else if v = ''api_key'' then Some ScopeApiKey
     else if v = ''jwt_sub'' then Some ScopeJwtSub else None)"
| "scope_of _ = None"

fun scope_str :: "rate_scope \<Rightarrow> string" where
  "scope_str ScopeTenant = ''tenant''"
| "scope_str ScopeApiKey = ''api_key''"
| "scope_str ScopeJwtSub = ''jwt_sub''"

record rate_limit =
  rl_rpm :: jsnum
  rl_burst :: jsnum
  rl_scope :: rate_scope

definition parseRateLimit :: "jsval \<Rightarrow> rate_limit option" where
  "parseRateLimit raw =
     (let rpm = to_num (get_prop raw ''rpm''); burst = to_num (get_prop raw ''burst'') in
      if \<not> is_object raw then None
      else if \<not> is_finite rpm \<or> \<not> is_finite burst then None
      else case scope_of (get_prop raw ''scope'') of
        None \<Rightarrow> None | Some sc \<Rightarrow> Some \<lparr>rl_rpm = rpm, rl_burst = burst, rl_scope = sc\<rparr>)"

definition load_rate_limit :: "jsval \<Rightarrow> rate_limit" where
  "load_rate_limit config =
     (case parseRateLimit (get_prop config ''rate_limit'') of
        Some rl \<Rightarrow> rl | None \<Rightarrow> \<lparr>rl_rpm = Fin 60, rl_burst = Fin 5, rl_scope = ScopeTenant\<rparr>)"

definition rateLimitSchema :: "rate_limit \<Rightarrow> bool" where
  "rateLimitSchema rl \<longleftrightarrow> num_le (Fin 1) (rl_rpm rl) \<and> num_le (Fin 1) (rl_burst rl)"

definition rate_limit_patch :: "rate_limit \<Rightarrow> jsval" where
  "rate_limit_patch rl = JObj [(''rate_limit'',
     JObj [(''rpm'', JNum (rl_rpm rl)), (''burst'', JNum (rl_burst rl)), (''scope'', JStr (scope_str (rl_scope rl)))])]"

definition rate_limit_submit :: "tenant_view \<Rightarrow> rate_limit \<Rightarrow> bool io" where
  "rate_limit_submit tc rl = (if rateLimitSchema rl then submit_patch tc (rate_limit_patch rl) else io_return False)"

definition load_output_limit :: "jsval \<Rightarrow> jsnum" where
  "load_output_limit config =
     (let raw = get_prop config ''max_output_tokens'' in if nullish raw then Fin 0 else to_num raw)"

definition outputLimitSchema :: "jsnum \<Rightarrow> bool" where
  "outputLimitSchema n \<longleftrightarrow> (case n of Fin q \<Rightarrow> is_integer q \<and> 0 \<le> q | _ \<Rightarrow> False)"

definition output_limit_submit :: "tenant_view \<Rightarrow> jsnum \<Rightarrow> bool io" where
  "output_limit_submit tc n =
     (if outputLimitSchema n then submit_patch tc (JObj [(''max_output_tokens'', JNum n)]) else io_return False)"

section \<open>PII webhook\<close>

record pii_form =
  pf_enabled :: bool
  pf_request_url :: string
  pf_response_url :: string
  pf_timeout_ms :: jsnum
  pf_failure_policy :: string
  pf_api_key :: string

definition load_pii :: "jsval \<Rightarrow> pii_form" where
  "load_pii config =
     (let current = get_prop (get_prop (get_prop config ''hooks'') ''global'') ''external_pii'' in
      \<lparr>pf_enabled = (get_prop current ''enabled'' = JBool True), pf_request_url = str_of (get_prop current ''request_url''),
       pf_response_url = str_of (get_prop current ''response_url''),
       pf_timeout_ms = to_num (coalesce (get_prop current ''timeout_ms'') (JNum (Fin 3000))),
       pf_failure_policy = (if get_prop current ''failure_policy'' = JStr ''deny'' then ''deny'' else ''accept''),
       pf_api_key = str_of (get_prop current ''api_key'')\<rparr>)"

definition url_error :: "(string \<Rightarrow> bool) \<Rightarrow> string \<Rightarrow> string \<Rightarrow> string \<Rightarrow> (string \<times> string) list" where
  "url_error valid_url k v msg = (if v = [] \<or> \<not> valid_url v then [(k, msg)] else [])"

definition connection_errors :: "(string \<Rightarrow> bool) \<Rightarrow> pii_form \<Rightarrow> (string \<times> string) list" where
  "connection_errors valid_url f =
     url_error valid_url ''request_url'' (pf_request_url f) ''Request URL must be a valid URL''
     @ url_error valid_url ''response_url'' (pf_response_url f) ''Response URL must be a valid URL''
     @ (if num_less (pf_timeout_ms f) (Fin 500) \<or> num_less (Fin 10000) (pf_timeout_ms f)
        then [(''timeout_ms'', ''Timeout must be between 500 and 10000 ms'')] else [])"

definition validate_pii :: "(string \<Rightarrow> bool) \<Rightarrow> pii_form \<Rightarrow> (string \<times> string) list" where
  "validate_pii valid_url f =
     (if pf_enabled f then connection_errors valid_url f
        @ (if pf_failure_policy f \<noteq> ''accept'' \<and> pf_failure_policy f \<noteq> ''deny''
           then [(''failure_policy'', ''Failure policy must be accept or deny'')] else [])
      else [])"

definition pii_patch :: "pii_form \<Rightarrow> jsval" where
  "pii_patch f = JObj [(''hooks'', JObj [(''global'', JObj [(''external_pii'', JObj (
     [(''enabled'', JBool (pf_enabled f)), (''request_url'', JStr (trim (pf_request_url f))),
      (''response_url'', JStr (trim (pf_response_url f))), (''timeout_ms'', JNum (pf_timeout_ms f)),
      (''failure_policy'', JStr (pf_failure_policy f))]
     @ (if pf_api_key f \<noteq> [] then [(''api_key'', JStr (trim (pf_api_key f)))] else [])))])])]"

definition pii_submit :: "(string \<Rightarrow> bool) \<Rightarrow> tenant_view \<Rightarrow> pii_form \<Rightarrow> bool io" where
  "pii_submit valid_url tc f = (if validate_pii valid_url f = [] then submit_patch tc (pii_patch f) else io_return False)"

text \<open>The test of the connection: the state keeps the last result and the test under way.\<close>

record pii_state =
  ps_form :: pii_form
  ps_errors :: "(string \<times> string) list"
  ps_testing :: bool
  ps_result :: "jsval option"
  ps_toasts :: "string list"

datatype pii_edit = PiiRequestUrl string | PiiResponseUrl string | PiiTimeout string | PiiApiKey string | PiiEnabled bool | PiiPolicy string

fun edit_pii :: "pii_edit \<Rightarrow> pii_form \<Rightarrow> pii_form" where
  "edit_pii (PiiRequestUrl v) f = f\<lparr>pf_request_url := v\<rparr>"
| "edit_pii (PiiResponseUrl v) f = f\<lparr>pf_response_url := v\<rparr>"
| "edit_pii (PiiTimeout v) f = f\<lparr>pf_timeout_ms := (if truthy (JNum (str_to_num v)) then str_to_num v else Fin 0)\<rparr>"
| "edit_pii (PiiApiKey v) f = f\<lparr>pf_api_key := v\<rparr>"
| "edit_pii (PiiEnabled b) f = f\<lparr>pf_enabled := b\<rparr>"
| "edit_pii (PiiPolicy v) f = f\<lparr>pf_failure_policy := v\<rparr>"

definition tested_fields :: "pii_form \<Rightarrow> string \<times> string \<times> jsnum \<times> string" where
  "tested_fields f = (pf_request_url f, pf_response_url f, pf_timeout_ms f, pf_api_key f)"

definition onFieldChange :: "pii_edit \<Rightarrow> pii_state \<Rightarrow> pii_state" where
  "onFieldChange e s =
     (let next = edit_pii e (ps_form s) in
      s\<lparr>ps_form := next, ps_result := (if tested_fields next = tested_fields (ps_form s) then ps_result s else None)\<rparr>)"

definition pii_test_request :: "tenant_view \<Rightarrow> pii_form \<Rightarrow> http_req" where
  "pii_test_request tc f = send_request ''POST'' (''/api/tenants/'' @ tv_tenant_id tc @ ''/pii/test-connection'')
     (JObj [(''request_url'', JStr (trim (pf_request_url f))), (''response_url'', JStr (trim (pf_response_url f))),
            (''timeout_ms'', JNum (pf_timeout_ms f)), (''api_key'', JStr (trim (pf_api_key f)))])"

text \<open>The click, which returns the request it sends, and the answer, which may come after further edits.\<close>

definition start_test :: "(string \<Rightarrow> bool) \<Rightarrow> tenant_view \<Rightarrow> pii_state \<Rightarrow> pii_state \<times> http_req option" where
  "start_test valid_url tc s =
     (if ps_testing s then (s, None)
      else let errs = connection_errors valid_url (ps_form s); s1 = s\<lparr>ps_result := None, ps_errors := errs\<rparr> in
        if errs = [] then (s1\<lparr>ps_testing := True\<rparr>, Some (pii_test_request tc (ps_form s))) else (s1, None))"

fun finish_test :: "fetch_result \<Rightarrow> pii_state \<Rightarrow> pii_state" where
  "finish_test (FetchFail _) s = s\<lparr>ps_testing := False, ps_toasts := ps_toasts s @ [''Could not reach the gateway'']\<rparr>"
| "finish_test (FetchOk r) s =
     (if \<not> resp_ok r then s\<lparr>ps_testing := False, ps_toasts := ps_toasts s @ [''Failed to test PII connection'']\<rparr>
      else case rs_json r of
        None \<Rightarrow> s\<lparr>ps_testing := False, ps_toasts := ps_toasts s @ [''Could not reach the gateway'']\<rparr>
      | Some v \<Rightarrow> s\<lparr>ps_testing := False, ps_result := Some v\<rparr>)"

section \<open>Budget\<close>

datatype enforcement_mode = ReportOnly | Block | Degrade

fun mode_str :: "enforcement_mode \<Rightarrow> string" where
  "mode_str ReportOnly = ''report_only''"
| "mode_str Block = ''block''"
| "mode_str Degrade = ''degrade''"

text \<open>The data of the form after the schema has coerced its numbers; \<open>bd_by_tag\<close> is the text area and the value
  \<open>JSON.parse\<close> gives for it, if any.\<close>

record budget_data =
  bd_monthly_usd :: "rat option"
  bd_timezone :: string
  bd_enabled :: bool
  bd_mode :: enforcement_mode
  bd_warn_pct_ui :: rat
  bd_hard_pct_ui :: rat
  bd_block_status :: rat
  bd_degrade_route_group :: string
  bd_include_cost :: bool
  bd_tags_enabled :: bool
  bd_tag_keys :: string
  bd_by_tag :: "string \<times> jsval option"

definition budgetSchema :: "budget_data \<Rightarrow> bool" where
  "budgetSchema d \<longleftrightarrow>
     (case bd_monthly_usd d of None \<Rightarrow> True | Some m \<Rightarrow> 0 \<le> m)
     \<and> 0 \<le> bd_warn_pct_ui d \<and> bd_warn_pct_ui d \<le> 100 \<and> 0 \<le> bd_hard_pct_ui d \<and> bd_hard_pct_ui d \<le> 100
     \<and> is_integer (bd_block_status d) \<and> 100 \<le> bd_block_status d \<and> bd_block_status d \<le> 599
     \<and> \<not> bd_warn_pct_ui d \<ge> bd_hard_pct_ui d
     \<and> \<not> (bd_mode d = Degrade \<and> bd_degrade_route_group d = [])"

definition parseTagBudgetsMonthly :: "string \<times> jsval option \<Rightarrow> props option" where
  "parseTagBudgetsMonthly raw =
     (if trim (fst raw) = [] then None
      else case snd raw of
        None \<Rightarrow> None
      | Some json \<Rightarrow>
          if nullish json then None
          else Some (foldl (\<lambda>parsed (k, v). if is_finite (to_num v) then obj_set k (JNum (to_num v)) parsed else parsed)
                 [] (js_entries json)))"

definition tag_keys :: "string \<Rightarrow> string list" where
  "tag_keys v = filter (\<lambda>k. k \<noteq> []) (map trim (split_on (CHR '','') v))"

definition enforcement_json :: "budget_data \<Rightarrow> jsval" where
  "enforcement_json d =
     JObj ([(''enabled'', JBool (bd_enabled d)), (''mode'', JStr (mode_str (bd_mode d))),
        (''thresholds'', JObj [(''warn_pct'', JNum (Fin (bd_warn_pct_ui d / 100))), (''hard_pct'', JNum (Fin (bd_hard_pct_ui d / 100)))]),
        (''include_cost_in_error'', JBool (bd_include_cost d))]
       @ (if bd_mode d = Block then [(''block_status'', JNum (Fin (bd_block_status d)))] else [])
       @ (if bd_mode d = Degrade then [(''degrade_route_group'', JStr (bd_degrade_route_group d))] else [])
       @ [(''tag_budgets'', JObj ([(''enabled'', JBool (bd_tags_enabled d)), (''keys'', JArr (map JStr (tag_keys (bd_tag_keys d))))]
            @ (case parseTagBudgetsMonthly (bd_by_tag d) of None \<Rightarrow> [] | Some m \<Rightarrow> [(''monthly_usd_by_tag'', JObj m)])))])"

definition tenant_budget_patch :: "budget_data \<Rightarrow> jsval" where
  "tenant_budget_patch d =
     JObj [(''budgets'', JObj ((case bd_monthly_usd d of None \<Rightarrow> [] | Some m \<Rightarrow> [(''monthly_usd'', JNum (Fin m))])
              @ [(''timezone'', JStr (bd_timezone d))])),
           (''budget_enforcement'', enforcement_json d)]"

definition tenant_budget_submit :: "tenant_view \<Rightarrow> budget_data \<Rightarrow> bool io" where
  "tenant_budget_submit tc d = (if budgetSchema d then submit_patch tc (tenant_budget_patch d) else io_return False)"

end
