(* ===== verification/Tenant_Dialogs_Props.thy ===== *)
theory Tenant_Dialogs_Props
  imports Tenant_Dialogs Routing_Page
begin

text \<open>
  Properties of the tenant dialogs, composed with the merge patch of the gateway: what the config holds after a dialog was
  saved, and what it shows when it is opened again.
\<close>

section \<open>Merge patches\<close>

text \<open>The value of a member after a patch that names it.\<close>

definition patched :: "jsval \<Rightarrow> jsval \<Rightarrow> jsval" where
  "patched old v =
     (case v of
        JNull \<Rightarrow> JUndef
      | JObj pm \<Rightarrow> (case old of JObj tm \<Rightarrow> JObj (mergeMaps tm pm) | _ \<Rightarrow> v)
      | _ \<Rightarrow> v)"

lemma patched_simps [simp]:
  "patched old (JBool b) = JBool b" "patched old (JNum n) = JNum n" "patched old (JStr s) = JStr s"
  "patched old (JArr xs) = JArr xs" "patched old JNull = JUndef"
  by (simp_all add: patched_def)

lemma patched_object: "is_object (patched old (JObj pm))" "\<not> nullish (patched old (JObj pm))"
  by (auto simp: patched_def nullish_def split: jsval.splits)

lemma merge_step: "\<exists>t'. mergeMaps t ((j, v) # ps) = mergeMaps t' ps \<and>
    (\<forall>k. get_prop (JObj t') k = (if k = j then patched (get_prop (JObj t) j) v else get_prop (JObj t) k))"
proof -
  have del: "get_prop (JObj (obj_del j t)) k = (if k = j then JUndef else get_prop (JObj t) k)" for k
    by (simp add: get_prop_def)
  show ?thesis
  proof (cases v)
    case JNull
    then show ?thesis using del by (intro exI [of _ "obj_del j t"]) simp
  next
    case (JObj pm)
    show ?thesis
    proof (cases "\<exists>tm. map_of t j = Some (JObj tm)")
      case True
      then obtain tm where tm: "map_of t j = Some (JObj tm)" by blast
      then have "patched (get_prop (JObj t) j) v = JObj (mergeMaps tm pm)" using JObj by (simp add: patched_def get_prop_simps)
      then show ?thesis using get_prop_obj_set tm JObj by (intro exI [of _ "obj_set j (JObj (mergeMaps tm pm)) t"]) simp
    next
      case False
      then have "patched (get_prop (JObj t) j) v = v" using JObj
        by (cases "map_of t j") (auto simp: patched_def get_prop_simps split: jsval.splits)
      moreover have "mergeMaps t ((j, v) # ps) = mergeMaps (obj_set j v t) ps"
        using False JObj by (cases "map_of t j") (auto split: jsval.splits)
      ultimately show ?thesis using get_prop_obj_set by (intro exI [of _ "obj_set j v t"]) simp
    qed
  qed (use get_prop_obj_set in \<open>intro exI [of _ "obj_set j v t"], simp add: patched_def\<close>)+
qed

lemma merge_lookup:
  assumes "distinct (map fst ps)"
  shows "get_prop (JObj (mergeMaps t ps)) k =
    (case map_of ps k of None \<Rightarrow> get_prop (JObj t) k | Some v \<Rightarrow> patched (get_prop (JObj t) k) v)"
  using assms
proof (induction ps arbitrary: t)
  case (Cons p ps)
  obtain j v where p: "p = (j, v)" by (cases p)
  obtain t' where t': "mergeMaps t (p # ps) = mergeMaps t' ps"
    "\<And>k. get_prop (JObj t') k = (if k = j then patched (get_prop (JObj t) j) v else get_prop (JObj t) k)"
    using merge_step [of t j v ps] p by blast
  have "map_of ps j = None" using Cons.prems p by (auto simp: map_of_eq_None_iff image_iff)
  then show ?case using Cons t' p by (auto split: option.splits)
qed simp

lemma patched_lookup:
  assumes "distinct (map fst pm)" and "JNull \<notin> snd ` set pm"
  shows "get_prop (patched old (JObj pm)) k =
    (case map_of pm k of None \<Rightarrow> get_prop old k | Some v \<Rightarrow> patched (get_prop old k) v)"
proof (cases "\<exists>tm. old = JObj tm")
  case True
  then show ?thesis using merge_lookup [OF assms(1)] by (auto simp: patched_def)
next
  case False
  then have "patched old (JObj pm) = JObj pm" and old: "get_prop old k = JUndef"
    by (auto simp: patched_def get_prop_simps split: jsval.splits) (cases old, auto simp: get_prop_simps)
  moreover have "patched JUndef v = v" if "map_of pm k = Some v" for v
    using map_of_SomeD [OF that] assms(2) by (cases v) (force simp: patched_def)+
  ultimately show ?thesis by (auto simp: get_prop_simps split: option.splits)
qed

lemma apply_patch_lookup:
  assumes "distinct (map fst ps)"
  shows "get_prop (apply_config_patch config (JObj ps)) k =
    (case map_of ps k of None \<Rightarrow> get_prop config k | Some v \<Rightarrow> patched (get_prop config k) v)"
proof -
  have "get_prop (JObj (own_props config)) k = get_prop config k" by (simp add: get_prop_def)
  then show ?thesis using merge_lookup [OF assms, of "own_props config" k] by (simp add: apply_config_patch_def split: option.splits)
qed

section \<open>The contract of a dialog\<close>

text \<open>A dialog shows the part of a config that \<open>load\<close> reads and saves a form with the patch \<open>patch\<close>. It keeps its contract when
  a saved form is the one it shows afterwards.\<close>

locale config_dialog =
  fixes load :: "jsval \<Rightarrow> 'f"
    and patch :: "jsval \<Rightarrow> 'f \<Rightarrow> jsval"
    and ok :: "'f \<Rightarrow> bool"
  assumes saved: "ok f \<Longrightarrow> load (apply_config_patch config (patch config f)) = f"
begin

definition save :: "'f \<Rightarrow> jsval \<Rightarrow> jsval" where
  "save f config = apply_config_patch config (patch config f)"

lemma load_save: "ok f \<Longrightarrow> load (save f config) = f"
  by (simp add: save_def saved)

lemma resave_unchanged: "ok (load config) \<Longrightarrow> load (save (load config) config) = load config"
  by (rule load_save)

lemma last_save_wins: "list_all ok fs \<Longrightarrow> fs \<noteq> [] \<Longrightarrow> load (fold save fs config) = last fs"
proof (induction fs arbitrary: config)
  case (Cons f fs)
  then show ?case by (cases "fs = []") (simp_all add: load_save)
qed simp

end

section \<open>Traffic split\<close>

lemma find_name: "find (\<lambda>g. sg_name g = n) groups = None \<longleftrightarrow> n \<notin> sg_name ` set groups"
  by (auto simp: find_None_iff)

lemma split_members_aux:
  assumes "distinct (map sg_name groups)"
  shows "map_of (foldl (\<lambda>o' g. obj_set (sg_name g) (JArr (map entry_json (sg_entries g))) o') acc groups) n =
    (case find (\<lambda>g. sg_name g = n) groups of
       None \<Rightarrow> map_of acc n | Some g \<Rightarrow> Some (JArr (map entry_json (sg_entries g))))"
  using assms
proof (induction groups arbitrary: acc)
  case (Cons g gs)
  then have "sg_name g = n \<Longrightarrow> find (\<lambda>g. sg_name g = n) gs = None" unfolding find_name by auto
  with Cons show ?case by (auto split: option.splits)
qed simp

lemma split_members_lookup:
  "distinct (map sg_name groups) \<Longrightarrow> map_of (split_members groups) n =
    (case find (\<lambda>g. sg_name g = n) groups of None \<Rightarrow> None | Some g \<Rightarrow> Some (JArr (map entry_json (sg_entries g))))"
  using split_members_aux [of groups "[]" n] by (simp add: split_members_def split: option.splits)

lemma split_members_keys: "distinct (map fst (split_members groups))" "JNull \<notin> snd ` set (split_members groups)"
proof -
  have "distinct (map fst (foldl (\<lambda>o' g. obj_set (sg_name g) (JArr (map entry_json (sg_entries g))) o') acc groups))"
    if "distinct (map fst acc)" for acc
    using that by (induction groups arbitrary: acc) (simp_all add: distinct_obj_set)
  then show d: "distinct (map fst (split_members groups))" by (simp add: split_members_def)
  have arr: "snd ` set (foldl (\<lambda>o' g. obj_set (sg_name g) (JArr (map entry_json (sg_entries g))) o') acc groups) \<subseteq> range JArr"
    if "snd ` set acc \<subseteq> range JArr" for acc
  proof -
    have upd: "snd ` set (obj_set k (JArr x) ps) \<subseteq> range JArr" if "snd ` set ps \<subseteq> range JArr" for k x ps
      using that by (induction ps) (force split: if_splits)+
    show ?thesis using that by (induction groups arbitrary: acc) (simp_all add: upd)
  qed
  show "JNull \<notin> snd ` set (split_members groups)" using arr [of "[]"] by (auto simp: split_members_def)
qed

text \<open>The names stay distinct while the dialog is used.\<close>

lemma split_names_distinct:
  assumes "distinct (map sg_name groups)"
  shows "distinct (map sg_name (addGroup n groups))" "distinct (map sg_name (removeGroup n groups))"
    "map sg_name (in_group n f groups) = map sg_name groups"
proof -
  show "map sg_name (in_group n f groups) = map sg_name groups" by (simp add: in_group_def)
  show "distinct (map sg_name (addGroup n groups))" using assms by (auto simp: addGroup_def Let_def list_ex_iff)
  show "distinct (map sg_name (removeGroup n groups))" using assms by (simp add: removeGroup_def distinct_map_filter)
qed


definition demo_groups :: "split_group list" where
  "demo_groups = [\<lparr>sg_name = ''a'', sg_entries = [\<lparr>se_model = ''m'', se_weight = Fin 100\<rparr>]\<rparr>]"

definition demo_split :: jsval where
  "demo_split = JObj [(''traffic_split'', JObj [(''a'', JArr []), (''b'', JArr [JNull])])]"


section \<open>Features\<close>

lemma find_map_rules: "find semantic_stage (map with_rules stages) = map_option with_rules (find semantic_stage stages)"
proof -
  have "semantic_stage (with_rules st) = semantic_stage st" for st
    by (simp add: with_rules_def semantic_stage_def get_prop_def)
  then show ?thesis by (induction stages) auto
qed

lemma with_rules_has: "semantic_stage st \<Longrightarrow> has_rules (with_rules st)"
  by (simp add: with_rules_def has_rules_def get_prop_simps defaultRules_def)

definition stages_enabled :: "jsval \<Rightarrow> bool" where
  "stages_enabled v \<longleftrightarrow> is_array v \<and> (case find semantic_stage (arr_elems v) of None \<Rightarrow> False | Some st \<Rightarrow> has_rules st)"

lemma find_filter_none: "find P (filter (\<lambda>x. \<not> P x) xs) = None"
  by (auto simp: find_None_iff)

lemma find_append_none: "find P xs = None \<Longrightarrow> P y \<Longrightarrow> find P (xs @ [y]) = Some y"
  by (induction xs) auto

lemma built_stages_enabled:
  "stages_enabled (case buildSemanticRoutingStages config b of None \<Rightarrow> config_stages config | Some sts \<Rightarrow> JArr sts) = b"
proof (cases "is_array (config_stages config)")
  case True
  let ?st = "arr_elems (config_stages config)"
  have none: "find semantic_stage ?st = None \<longleftrightarrow> \<not> list_ex semantic_stage ?st" by (auto simp: find_None_iff list_ex_iff)
  have d: "semantic_stage defaultSemanticStage" "has_rules defaultSemanticStage"
    by (simp_all add: defaultSemanticStage_def semantic_stage_def has_rules_def get_prop_simps defaultRules_def)
  show ?thesis
  proof (cases "list_ex semantic_stage ?st")
    case ex: True
    then obtain st where st: "find semantic_stage ?st = Some st" using none by (cases "find semantic_stage ?st") auto
    then have "semantic_stage st" by (auto simp: find_Some_iff)
    then show ?thesis using True ex st
      by (cases b) (simp_all add: buildSemanticRoutingStages_def stages_enabled_def find_map_rules with_rules_has find_filter_none Let_def)
  next
    case False
    then show ?thesis using True none d
      by (cases b) (simp_all add: buildSemanticRoutingStages_def stages_enabled_def find_append_none Let_def)
  qed
qed (auto simp: buildSemanticRoutingStages_def stages_enabled_def Let_def defaultSemanticStage_def semantic_stage_def has_rules_def
     get_prop_simps defaultRules_def)

lemma enabled_stages: "getSemanticRoutingEnabled config = stages_enabled (config_stages config)"
  by (simp add: getSemanticRoutingEnabled_def stages_enabled_def)

lemma features_saved:
  assumes "num_less (Fin 0) (ff_cache_ttl f)"
  shows "load_features (apply_config_patch config (features_patch config f)) = f"
proof -
  let ?c = "apply_config_patch config (features_patch config f)"
  let ?smart = "case buildSemanticRoutingStages config (ff_semantic_routing f) of
      None \<Rightarrow> [] | Some sts \<Rightarrow> [(''smart'', JObj [(''stages'', JArr sts)])]"
  let ?r = "(''semantic'', JObj [(''embedding_model'', JStr (ff_embedding_model f))]) # ?smart"
  have r: "distinct (map fst ?r)" "JNull \<notin> snd ` set ?r" by (auto split: option.splits)
  have top: "get_prop ?c ''routing'' = patched (get_prop config ''routing'') (JObj ?r)"
    "get_prop ?c ''tool_routing_enabled'' = JBool (ff_tool_routing f)"
    "get_prop (get_prop ?c ''semantic_cache'') ''enabled'' = JBool (ff_semantic_cache f)"
    "get_prop (get_prop ?c ''semantic_cache'') ''ttl_seconds'' = JNum (ff_cache_ttl f)"
    "get_prop (get_prop ?c ''budget_enforcement'') ''enabled'' = JBool (ff_budget_enforcement f)"
    by (simp_all add: features_patch_def apply_patch_lookup patched_lookup)
  have "config_stages ?c = (case buildSemanticRoutingStages config (ff_semantic_routing f) of
      None \<Rightarrow> config_stages config | Some sts \<Rightarrow> JArr sts)"
    unfolding config_stages_def top(1) patched_lookup [OF r] by (simp add: patched_lookup split: option.splits)
  then have "getSemanticRoutingEnabled ?c = ff_semantic_routing f"
    using built_stages_enabled by (simp add: enabled_stages)
  moreover have "get_prop (get_prop (get_prop ?c ''routing'') ''semantic'') ''embedding_model'' = JStr (ff_embedding_model f)"
    unfolding top(1) patched_lookup [OF r] by (simp add: patched_lookup)
  ultimately show ?thesis
    using assms top by (cases f) (simp add: load_features_def getToolRoutingEnabled_def)
qed

interpretation features: config_dialog load_features features_patch "\<lambda>f. num_less (Fin 0) (ff_cache_ttl f)"
  by unfold_locales (rule features_saved)

text \<open>C17. What the features dialog saves is what it shows when it is opened again on the patched config: the four switches,
  the embedding model and the lifetime of the cache, whatever the config held before; and after several saves it shows the last.\<close>

theorem features_roundtrip:
  assumes "num_less (Fin 0) (ff_cache_ttl f)" and "num_less (Fin 0) (ff_cache_ttl g)"
  shows "load_features (apply_config_patch config (features_patch config f)) = f \<and>
    (let config' = apply_config_patch config (features_patch config f) in
     load_features (apply_config_patch config' (features_patch config' g)) = g)"
  using features.load_save [OF assms(1), of config] features.last_save_wins [of "[f, g]" config] assms
  by (simp add: features.save_def Let_def)

definition demo_features :: feature_form where
  "demo_features = \<lparr>ff_semantic_routing = True, ff_semantic_cache = False, ff_tool_routing = False, ff_budget_enforcement = True,
     ff_embedding_model = ''e'', ff_cache_ttl = Fin 60\<rparr>"

theorem features_roundtrip_witness:
  "load_features (apply_config_patch demo_split (features_patch demo_split demo_features)) = demo_features \<and>
   ff_semantic_routing (load_features demo_split) = False"
proof
  show "load_features (apply_config_patch demo_split (features_patch demo_split demo_features)) = demo_features"
    using features_roundtrip [of demo_features demo_features demo_split] by (simp add: demo_features_def)
  show "ff_semantic_routing (load_features demo_split) = False"
    by (simp add: load_features_def demo_split_def getSemanticRoutingEnabled_def config_stages_def get_prop_simps)
qed

section \<open>Requests\<close>

lemma submit_history: "snd (submit_patch tc p net h) = h @ [send_request ''PATCH'' (tenant_url (tv_tenant_id tc) ''/config'')
    (JObj [(''version'', tv_version tc), (''patch'', p)])]"
proof -
  have "snd (io_catch (io_bind m (\<lambda>_. io_return True)) (\<lambda>_. io_return False) net h) = snd (m net h)" for m :: "jsval io"
    by (auto simp: js_simps split: prod.splits sum.splits)
  then show ?thesis by (simp add: submit_patch_def updateTenantConfig_def call_history)
qed

section \<open>Budget\<close>

text \<open>C19. The budget dialog sends a patch only with data its schema accepts, and then the thresholds in the config are
  fractions with the warning strictly below the hard limit, both within zero and one, and a tenant that is
  degraded has a route group to be degraded to.\<close>

theorem budget_dialog_thresholds:
  "(if budgetSchema d then io_requests (tenant_budget_submit tc d) net =
        [send_request ''PATCH'' (tenant_url (tv_tenant_id tc) ''/config'')
          (JObj [(''version'', tv_version tc), (''patch'', tenant_budget_patch d)])] \<and>
      (let be = get_prop (apply_config_patch config (tenant_budget_patch d)) ''budget_enforcement''; th = get_prop be ''thresholds'' in
       \<exists>w h. get_prop th ''warn_pct'' = JNum (Fin w) \<and> get_prop th ''hard_pct'' = JNum (Fin h) \<and> 0 \<le> w \<and> w < h \<and> h \<le> 1 \<and>
         (if get_prop be ''mode'' = JStr ''degrade'' then truthy (get_prop be ''degrade_route_group'') else True))
    else io_requests (tenant_budget_submit tc d) net = [])"
proof (cases "budgetSchema d")
  case True
  let ?be = "get_prop (apply_config_patch config (tenant_budget_patch d)) ''budget_enforcement''"
  obtain pm where e: "enforcement_json d = JObj pm" "distinct (map fst pm)" "JNull \<notin> snd ` set pm"
    "map_of pm ''thresholds'' = Some (JObj [(''warn_pct'', JNum (Fin (bd_warn_pct_ui d / 100))), (''hard_pct'', JNum (Fin (bd_hard_pct_ui d / 100)))])"
    "map_of pm ''mode'' = Some (JStr (mode_str (bd_mode d)))"
    "bd_mode d = Degrade \<Longrightarrow> map_of pm ''degrade_route_group'' = Some (JStr (bd_degrade_route_group d))"
    by (cases "bd_mode d") (auto simp: enforcement_json_def)
  have be: "?be = patched (get_prop config ''budget_enforcement'') (JObj pm)"
    by (simp add: tenant_budget_patch_def apply_patch_lookup e(1))
  have th: "get_prop (get_prop ?be ''thresholds'') ''warn_pct'' = JNum (Fin (bd_warn_pct_ui d / 100))"
    "get_prop (get_prop ?be ''thresholds'') ''hard_pct'' = JNum (Fin (bd_hard_pct_ui d / 100))"
    "get_prop ?be ''mode'' = JStr (mode_str (bd_mode d))"
    "bd_mode d = Degrade \<Longrightarrow> get_prop ?be ''degrade_route_group'' = JStr (bd_degrade_route_group d)"
    unfolding be patched_lookup [OF e(2,3)] by (simp_all add: e(4,5,6) patched_lookup)
  have "mode_str (bd_mode d) = ''degrade'' \<longleftrightarrow> bd_mode d = Degrade" by (cases "bd_mode d") simp_all
  then have "get_prop ?be ''mode'' = JStr ''degrade'' \<longrightarrow> truthy (get_prop ?be ''degrade_route_group'')"
    using th(3,4) True by (auto simp: budgetSchema_def)
  moreover have "0 \<le> bd_warn_pct_ui d / 100 \<and> bd_warn_pct_ui d / 100 < bd_hard_pct_ui d / 100 \<and> bd_hard_pct_ui d / 100 \<le> 1"
    using True by (simp add: budgetSchema_def divide_strict_right_mono)
  ultimately have "\<exists>w h. get_prop (get_prop ?be ''thresholds'') ''warn_pct'' = JNum (Fin w) \<and>
      get_prop (get_prop ?be ''thresholds'') ''hard_pct'' = JNum (Fin h) \<and> 0 \<le> w \<and> w < h \<and> h \<le> 1 \<and>
      (if get_prop ?be ''mode'' = JStr ''degrade'' then truthy (get_prop ?be ''degrade_route_group'') else True)"
    using th(1,2) by (intro exI [of _ "bd_warn_pct_ui d / 100"] exI [of _ "bd_hard_pct_ui d / 100"]) simp
  then show ?thesis
    using True unfolding Let_def by (simp only: if_True tenant_budget_submit_def io_requests_def submit_history append_Nil simp_thms)
qed (simp add: tenant_budget_submit_def io_requests_def js_simps)

section \<open>PII webhook\<close>

text \<open>A saved PII form is stored with its URLs trimmed; an API key that was emptied in it is not removed but kept, since the
  patch leaves it out.\<close>

theorem pii_key_not_cleared:
  "(let stored = get_prop (get_prop (get_prop (apply_config_patch config (pii_patch f)) ''hooks'') ''global'') ''external_pii'';
        old = get_prop (get_prop (get_prop config ''hooks'') ''global'') ''external_pii'' in
    get_prop stored ''enabled'' = JBool (pf_enabled f) \<and> get_prop stored ''request_url'' = JStr (trim (pf_request_url f)) \<and>
    get_prop stored ''response_url'' = JStr (trim (pf_response_url f)) \<and> get_prop stored ''timeout_ms'' = JNum (pf_timeout_ms f) \<and>
    get_prop stored ''failure_policy'' = JStr (pf_failure_policy f) \<and>
    get_prop stored ''api_key'' = (if pf_api_key f = [] then get_prop old ''api_key'' else JStr (trim (pf_api_key f))))"
  unfolding Let_def
  by (cases "pf_api_key f = []") (simp_all add: pii_patch_def apply_patch_lookup patched_lookup)

text \<open>An edit of a tested field clears the result of the connection test. An answer that arrives after such an edit is
  shown all the same, next to values that were never tested.\<close>

theorem pii_result_of_other_fields:
  assumes "start_test valid_url tc s = (s1, Some req)" and "tested_fields (edit_pii e (ps_form s1)) \<noteq> tested_fields (ps_form s1)"
    and "resp_ok r" and "rs_json r = Some v"
  shows "req = pii_test_request tc (ps_form s) \<and> ps_result (onFieldChange e s1) = None \<and>
    ps_result (finish_test (FetchOk r) (onFieldChange e s1)) = Some v \<and>
    tested_fields (ps_form (finish_test (FetchOk r) (onFieldChange e s1))) \<noteq> tested_fields (ps_form s)"
  using assms by (auto simp: start_test_def onFieldChange_def Let_def split: if_splits)

definition demo_pii :: pii_state where
  "demo_pii = \<lparr>ps_form = \<lparr>pf_enabled = True, pf_request_url = ''https://a'', pf_response_url = ''https://b'', pf_timeout_ms = Fin 3000,
     pf_failure_policy = ''deny'', pf_api_key = []\<rparr>, ps_errors = [], ps_testing = False, ps_result = None, ps_toasts = []\<rparr>"

definition demo_tenant :: tenant_view where
  "demo_tenant = \<lparr>tv_tenant_id = ''acme'', tv_version = JNum (Fin 1), tv_config = JObj []\<rparr>"

definition demo_reply :: http_resp where
  "demo_reply = \<lparr>rs_status = 200, rs_text = [], rs_json = Some (JObj []), rs_headers = []\<rparr>"

theorem pii_result_of_other_fields_witness:
  "ps_result (finish_test (FetchOk demo_reply) (onFieldChange (PiiRequestUrl ''https://c'') (fst (start_test (\<lambda>_. True) demo_tenant demo_pii)))) =
     Some (JObj [])"
proof -
  have s: "start_test (\<lambda>_. True) demo_tenant demo_pii =
      (demo_pii\<lparr>ps_testing := True\<rparr>, Some (pii_test_request demo_tenant (ps_form demo_pii)))"
    by (simp add: start_test_def demo_pii_def connection_errors_def url_error_def Let_def)
  have r: "resp_ok demo_reply" "rs_json demo_reply = Some (JObj [])" by (simp_all add: demo_reply_def resp_ok_def)
  have "tested_fields (edit_pii (PiiRequestUrl ''https://c'') (ps_form (demo_pii\<lparr>ps_testing := True\<rparr>))) \<noteq>
      tested_fields (ps_form (demo_pii\<lparr>ps_testing := True\<rparr>))"
    by (simp add: tested_fields_def demo_pii_def)
  from pii_result_of_other_fields [OF s this r] s show ?thesis by simp
qed

section \<open>Limits and routing\<close>

lemma scope_roundtrip: "scope_of (JStr (scope_str sc)) = Some sc"
  by (cases sc) simp_all

lemma rate_limit_roundtrip:
  assumes "is_finite (rl_rpm rl)" and "is_finite (rl_burst rl)"
  shows "load_rate_limit (apply_config_patch config (rate_limit_patch rl)) = rl"
proof -
  let ?v = "JObj [(''rpm'', JNum (rl_rpm rl)), (''burst'', JNum (rl_burst rl)), (''scope'', JStr (scope_str (rl_scope rl)))]"
  have "get_prop (apply_config_patch config (rate_limit_patch rl)) ''rate_limit'' = patched (get_prop config ''rate_limit'') ?v"
    by (simp add: rate_limit_patch_def apply_patch_lookup)
  then show ?thesis
    using assms by (cases rl) (simp add: load_rate_limit_def parseRateLimit_def patched_object patched_lookup scope_roundtrip Let_def del: scope_of.simps)
qed

interpretation rate_limits: config_dialog load_rate_limit "\<lambda>_. rate_limit_patch" "\<lambda>rl. is_finite (rl_rpm rl) \<and> is_finite (rl_burst rl)"
  by unfold_locales (simp add: rate_limit_roundtrip)

interpretation output_limits: config_dialog load_output_limit "\<lambda>_ n. JObj [(''max_output_tokens'', JNum n)]" outputLimitSchema
  by unfold_locales (simp add: load_output_limit_def apply_patch_lookup nullish_def)

text \<open>Emptying the allowed models in the routing dialog changes nothing: the patch then leaves them out.\<close>

lemma routing_models_saved:
  "get_prop (apply_config_patch config (routing_patch f)) ''allowed_models'' =
     (if rf_models f = [] then get_prop config ''allowed_models'' else JArr (map JStr (rf_models f)))"
  by (cases "rf_models f = []") (simp_all add: routing_patch_def apply_patch_lookup)

section \<open>Renaming a route group\<close>

lemma groups_saved:
  assumes "distinct (map fst groups)"
  shows "get_prop (get_prop (get_prop (apply_config_patch config (groups_patch groups)) ''selection'') ''route_groups'') n =
    (case map_of groups n of
       None \<Rightarrow> get_prop (get_prop (get_prop config ''selection'') ''route_groups'') n | Some ms \<Rightarrow> strs_json ms)"
proof -
  let ?m = "map (\<lambda>(k, ms). (k, strs_json ms)) groups"
  have m: "distinct (map fst ?m)" "JNull \<notin> snd ` set ?m" using assms by (auto simp: split_beta comp_def strs_json_def)
  have "map_of ?m n = map_option strs_json (map_of groups n)" by (induction groups) auto
  then show ?thesis
    using patched_lookup [OF m] by (simp add: groups_patch_def apply_patch_lookup patched_lookup strs_json_def split: option.splits)
qed

text \<open>Renaming a route group on the routing page stores it under the new name and leaves the group of the old name in the
  config as it was.\<close>

theorem renamed_group_kept:
  assumes "distinct (map fst groups)" and "gd_edit d" and "gd_originalName d = Some old" and "old \<noteq> []" and "old \<noteq> trim (gd_name d)"
  shows "map_of (group_map d groups) old = None \<and>
    get_prop (get_prop (get_prop (apply_config_patch config (groups_patch (group_map d groups))) ''selection'') ''route_groups'') old =
      get_prop (get_prop (get_prop config ''selection'') ''route_groups'') old \<and>
    get_prop (get_prop (get_prop (apply_config_patch config (groups_patch (group_map d groups))) ''selection'') ''route_groups'')
      (trim (gd_name d)) = strs_json (gd_models d)"
proof -
  have m: "group_map d groups = obj_set (trim (gd_name d)) (gd_models d) (obj_del old groups)"
    using assms by (simp add: group_map_def Let_def)
  have "distinct (map fst (group_map d groups))"
    unfolding m using assms(1) by (simp add: distinct_obj_set obj_del_def distinct_delete)
  then show ?thesis using groups_saved [of "group_map d groups" config] assms(5) by (simp add: m)
qed

theorem renamed_group_kept_witness:
  "get_prop (get_prop (get_prop (apply_config_patch (JObj [(''selection'', JObj [(''route_groups'', JObj [(''a'', JArr [])])])])
      (groups_patch (group_map (closed_group\<lparr>gd_edit := True, gd_name := ''b'', gd_originalName := Some ''a''\<rparr>) [(''a'', [])])))
      ''selection'') ''route_groups'') ''a'' = JArr []"
proof -
  have b: "trim ''b'' = ''b''" by (simp add: trim_def trim_start_def is_ws_def code_def)
  show ?thesis
    using renamed_group_kept [of "[(''a'', [])]" "closed_group\<lparr>gd_edit := True, gd_name := ''b'', gd_originalName := Some ''a''\<rparr>" "''a''"
      "JObj [(''selection'', JObj [(''route_groups'', JObj [(''a'', JArr [])])])]"]
    by (simp add: b get_prop_simps)
qed

end
