(* ===== verification/Spec2Isabelle.thy ===== *)
theory Spec2Isabelle
  imports Route_Properties Finops_Routes Auth_Session_Props Auth_Machine Toast
    Budget_Props Observability_Props Routing_Log_Props Admin_Props
    Usage_Props CSV_Export Client_Props Config_Utils Finops_Exports Routing_Page_Props Logs_Page_Props
    Semantic_Page_Props Model_Dialogs_Props Tenant_Dialogs_Props
begin

text \<open>
  PrismGateway, the administration front end (src/frontend): a Next.js application whose server
  side proxies the admin API of an AI gateway and runs the OIDC login against Keycloak, and whose
  browser side keeps the session. This development models its own logic; the Go gateway behind
  the admin API, Keycloak, the browser and React are its environment.

  \<^bold>\<open>The parts and how they interact.\<close> A route handler under app/api receives a request, finds the
  caller's token (cookie \<open>admin_access_token\<close>, or an Authorization header, or the mock cookie),
  and calls one operation of lib/server/gateway-admin-client.ts, which sends HTTP requests with the
  caller's Bearer token or with the server's admin API key, retries once after a refresh, and maps
  failures to \<open>GatewayAdminError\<close>; the handler maps that to a response. The auth routes exchange
  codes and refresh tokens with Keycloak and set the cookies. In the browser, AuthProvider keeps
  the session in memory and in localStorage, refreshes it, and the callback page completes a login;
  ApiClient is a second client with its own refresh queue.

  \<^bold>\<open>Theories.\<close>
  \<^item> JS_Base, JS_Text, JS_Num, JS_Date, JS_IO: JavaScript values, strings, numbers and dates, and asynchronous code as a
    monad over the network. A computation takes the network (from the requests sent so far and the
    next request to its outcome) and returns a value or a thrown error with the extended list of
    requests. \<open>issues\<close> and \<open>returns\<close> are its small program logic. IO_Stateless: the result of a
    computation against a server whose answers do not depend on the history.
  \<^item> URI: encodeURIComponent, form bodies and base64url, with decoders as specifications.
  \<^item> Server_Env: process.env, requests and responses of handlers, the error-to-response mapping.
  \<^item> Gateway_Client: \<open>gatewayAdminFetch\<close>, \<open>getAdminAuthToken\<close> and the two guards of lib/server.
    Model_Patch: lib/server/admin-model-patch.ts. Provider_Config: canonical patches and view models
    of features/providers (locale \<open>alias_table\<close>, interpreted on the alias table of the code).
    Gateway_Api: every exported operation of the client.
  \<^item> Routes_Base: the frame of a handler and the locales \<open>proxy_route\<close>, \<open>forwarding_route\<close> and
    \<open>guarded_route\<close> (each extending or giving the one before). Tenant_Routes, Model_Routes, Finops_Routes,
    Budget_Routes, Observability_Routes, Routing_Log_Routes, Semantic_Routes, System_Routes: one definition per
    handler under app/api, and an interpretation of a locale for each that proxies the admin API, whose facts enter the
    collections \<open>route_answers\<close>, \<open>route_forwards\<close> and \<open>route_rejects\<close>: totality, credentials and
    rejection are proved once. Finops_Routes also has lib/finops-fetch.ts.
    Budget_Props, Observability_Props, Routing_Log_Props and Admin_Props hold their properties.
    Route_Properties: versions, merging, filters and paths of single routes.
  \<^item> Oidc: lib/auth/oidc.ts and roles.ts. Auth_Routes: app/api/auth, with a browser cookie jar as
    the link between responses and later requests. Auth_Session_Props: its properties.
  \<^item> Auth_Context: lib/auth/session.ts, auth-context.tsx, guards.tsx and the callback page, each
    asynchronous function split at its await. Auth_Machine: the step relation of all interleavings,
    its invariant by rule induction, and the interleavings that go wrong.
  \<^item> Api_Client: lib/api/client.ts as a state machine, and endpoint normalisation. Toast: the toast
    reducer of hooks/use-toast.ts with its timers.
  \<^item> Usage_Client: the paged API key usage client and the model health table of features/observability.
    Query_Client, Report_Client: the functions with which the hooks under features call the handlers, and
    features/semantic/api/client.ts. Usage_Props and Client_Props: their properties, with the resolution of
    URLs by the browser as specification. CSV_Export: the CSV downloads, with a CSV reader as specification.
    Config_Utils: the small configuration helpers.
  \<^item> The FinOps page, app/(app)/budgets/page.tsx: Finops_Fetch has its fetch functions, Monetization the page loop over
    API keys and the cost table by model, Finops_Page the rows and totals it computes, Finops_View the budget table, the
    budget dialog and the downloads, Finops_State its state, events and enabled queries, Finops_Exports the downloads of
    its views. Monetization_Props and Finops_Props hold their properties. Format: the number formats of
    lib/utils/format.ts and of that page. Download: the names under which downloads are saved.
  \<^item> Routing_Page: the stage and rule editor and the sections of app/(app)/routing/page.tsx. Logs_Page: the tabs, filters,
    queries and download of app/(app)/logs/page.tsx. Semantic_Page: app/(app)/semantic/page.tsx, where a handler returns the
    mutation it starts, the answer is an event of its own, and the effects of the page run after each change.
    Routing_Page_Props, Logs_Page_Props and Semantic_Page_Props hold their properties.
  \<^item> Model_Dialogs: the dialogs of features/models that create and edit a model; Model_Dialogs_Props composes them with the
    route and Model_Patch. Tenant_Dialogs: the dialogs of features/tenants that edit a tenant config, and the merge patch by
    which the gateway applies what they send; Tenant_Dialogs_Props composes the two (locale \<open>config_dialog\<close>, interpreted
    on the dialogs for features, rate limits and output limits).
  \<^item> This theory: the properties of all proxy routes together.

  \<^bold>\<open>What is shown.\<close> Requests without a token are rejected by every guarded route without side
  effects; the admin API key is never used for a signed-in user by a route that forwards a token (the dashboard does not);
  every handler answers; the
  gateway client's outcomes, retries and request bounds; patches are canonical, finite and versioned
  against the config just read; cookies, URLs, form bodies and tokens round-trip; PKCE conforms to
  RFC 7636; a callback is accepted only for the login this browser started; at most one refresh is
  in flight; the toast and statistics invariants; the budget overview shows what the caller may read; the
  one-pass statistics equal per-item references; the page loop ends and lists every key; ephemeral keys
  are revoked; exported CSV reads back; encoded URLs address what they name; the cost table by model keeps every request and cost of a
  gateway that pages as documented; tenants whose statistics are denied appear nowhere on the FinOps page; the rule editor writes
  the rule it was opened for; the anchor dialog sends exactly what was changed; a config dialog that is saved and opened again
  shows what was saved; a model edit reaches the gateway as it was entered. Where the code does not do what it means to, a
  theorem shows the actual behaviour: the refresh of the gateway client can never succeed, mock
  sessions and unguarded routes use the admin key, a refresh without a token blocks later ones, a
  refresh in flight undoes a logout, a failed restore erases a login, queued callers are told that
  a refused refresh succeeded or are never told anything, the dashboard acts with the admin key for everybody and
  the connection test sends a request anywhere for anybody, a model id can address a tenant,
  the page loop of the cost table does not end against a gateway whose pages are all full, the price of cached tokens
  is never saved, a removed group of a traffic split and a renamed route group stay in the config, and the threshold field falls back to
  the old value after a save.

  \<^bold>\<open>Conventions and bounds.\<close> Strings are sequences of code units below 256; numbers are exact
  rationals, infinities and NaN (no rounding to 53 bits, no signed zero); objects list their own
  properties in insertion order (keys that look like array indices, which JavaScript moves to the
  front, are not distinguished). JSON parsing of a response is part of the response. Random bytes,
  the clock, the SHA-256 digest, JSON.parse, Node's Buffer and localeCompare are arguments;
  hypotheses about them are in the statements. Console output, caching headers and the text of
  engine errors are not modelled, and constructing a response never fails. The recursion of every
  definition is structural or has a measure. Fuel stands in two places: the 400 digits of the decimal
  printer, more than any JavaScript number has, and the page loop of the cost table by model, which has no bound in the code: \<open>None\<close> is
  a loop that has not ended, and enough fuel is shown to exist exactly when the gateway answers some page that is not full. The page loop of the
  usage client recurses on the 500 pages the code allows. In the pages and dialogs, data that the code casts to a TypeScript type has
  that type, dialogs are modal, zod schemas are predicates, and the reading of a date input, the collation of the
  locale and the verdict of the URL parser are arguments.

  \<^bold>\<open>Not modelled.\<close> Rendering (the JSX of pages and components), the scheduling and caching of queries by React Query
  except where a page reads its caches above, and the toasts of mutations. Of the pages: tools, settings, catalogs, replay,
  config history, the usage documentation, the views of observability other than their data, and the provider dialogs other than
  their patches. Dates are not formatted, which needs the locale data of Intl.
\<close>

section \<open>All proxy routes\<close>

text \<open>The handlers, given the path parameters of Next.js by name and two readings of the clock: the
  time of a credential update and the current month of the metrics.\<close>

definition guarded_routes :: "(string \<Rightarrow> string) \<Rightarrow> (env \<Rightarrow> server_req \<Rightarrow> server_resp io) list" where
  "guarded_routes params =
     (let t = params ''tenantId''; g = params ''routeGroupId''; m = params ''modelId''; b = params ''budgetId'';
          r = params ''requestId''; p = params ''provider''; i = params ''id'' in
      [tenant_GET t, tenant_DELETE t, tenant_api_keys_GET t, tenant_usage_GET t, tenant_budget_status_GET t,
       route_groups_GET, route_groups_POST, route_group_GET g, route_group_PATCH g, route_group_DELETE g,
       models_GET, models_POST, model_GET m, model_PATCH m, model_DELETE m,
       api_keys_usage_GET, jwt_subs_usage_GET, api_key_usage_GET (params ''apiKeyId''), jwt_sub_usage_GET (params ''jwtSub''),
       api_keys_requests_GET, jwt_subs_requests_GET, tenant_request_stats_GET, usage_summaries_GET,
       budgets_GET, budgets_POST, budgets_overview_GET, budget_GET b, budget_PATCH b, budget_DELETE b, budgets_tenants_GET,
       router_performance_GET, semantic_cache_GET, semantic_correlation_GET, semantic_routing_GET, request_explorer_GET,
       routing_insights_GET, explorer_replay_POST (encodeURIComponent r), explorer_routing_GET (encodeURIComponent r),
       replay_POST r, routing_snapshot_GET r,
       benchmarks_GET, benchmarks_POST, benchmark_GET (params ''benchmarkId''), benchmark_summary_GET,
       model_catalog_GET, model_catalog_POST, model_catalog_PUT p i, model_catalog_DELETE p i,
       tool_catalog_GET, tool_catalog_POST, tool_catalog_PUT p i, tool_catalog_DELETE p i,
       config_diff_GET, config_apply_POST, keycloak_test_POST, system_health_GET])"

definition forwarding_routes ::
  "(string \<Rightarrow> string) \<Rightarrow> string \<Rightarrow> string \<Rightarrow> (env \<Rightarrow> server_req \<Rightarrow> server_resp io) list" where
  "forwarding_routes params now month =
     (let t = params ''tenantId''; k = params ''keyId''; p = params ''providerId''; n = params ''name'' in
      [tenants_GET, tenants_POST, tenant_budget_PATCH t, tenant_config_PATCH t, budgets_tenant_PATCH t,
       api_key_create_POST t, api_key_rotate_POST t k, api_key_revoke_POST t k, pii_test_POST t,
       providers_GET, provider_GET p, provider_PATCH p, credentials_POST now p,
       global_config_GET, global_config_PATCH, global_config_changes_GET,
       admin_models_GET, config_history_GET, config_versions_GET, audit_GET,
       cost_analytics_GET, model_performance_GET, observability_logs_GET, metrics_GET, real_metrics_GET month,
       anchors_GET, anchors_POST, anchor_PATCH n, anchor_DELETE n, semantic_calibrate_POST, semantic_suggest_POST,
       semantic_test_POST, semantic_routes_POST, semantic_routes_GET, semantic_route_GET n, semantic_route_PATCH n,
       semantic_route_DELETE n, threshold_GET, threshold_PATCH, model_benchmarks_GET, model_benchmarks_DELETE])"

text \<open>Every request a route makes carries the credentials of the token it found.\<close>

lemma all_routes_forward:
  "list_all (\<lambda>route. list_all (authorised e (getAdminAuthToken q)) (io_requests (route e q) net))
     (guarded_routes params @ forwarding_routes params now month)"
  by (simp add: guarded_routes_def forwarding_routes_def Let_def route_forwards)


definition anonymous :: server_req where
  "anonymous = \<lparr>sq_query = [], sq_headers = [], sq_cookies = [], sq_body = None\<rparr>"





text \<open>A client that has called \<open>POST /api/auth/mock\<close> (which is not restricted to development)
  passes both guards, although their comments exclude a fallback to the admin API key, and
  every request that any of these proxy routes makes for it carries that key.\<close>

theorem mock_session_grants_admin_key:
  fixes j :: jar
  defines "q \<equiv> request_with_jar (store_cookies j mock_POST)"
  shows "requireAdminBearer q = Inr MOCK_SESSION_SENTINEL \<and> requireTenantAuth q = Inr MOCK_SESSION_SENTINEL
    \<and> list_all (\<lambda>route. list_all (\<lambda>r. no_bearer r \<and> map_of (rq_headers r) ''X-API-Key'' = GATEWAY_ADMIN_API_KEY e)
          (io_requests (route e q) net)) (guarded_routes params @ forwarding_routes params now month)"
proof -
  let ?c = "session_cookie ''is_mock_session'' ''1'' (show_int 86400) False"
  have "show_int 86400 = ''86400''" by (simp add: show_int_def show_nat.simps, code_simp)
  moreover have "encodeURIComponent ''1'' = ''1''" by code_simp
  ultimately have "sr_cookies mock_POST = [?c]"
    by (simp add: mock_POST_def with_cookies_def session_cookie_def)
  then have jar: "store_cookies j mock_POST = obj_set ''is_mock_session'' (cookie_text ?c) j"
    by (simp add: store_cookies_def session_cookie_stored)
  have "decodeURIComponent (cookie_text ?c) = ''1''" by (rule session_cookie_name_value) simp_all
  then have "map_of (sq_cookies q) ''is_mock_session'' = Some ''1''"
    by (simp add: q_def request_with_jar_def jar map_of_decoded)
  then have tok: "getAdminAuthToken q = Some MOCK_SESSION_SENTINEL" by (simp add: getAdminAuthToken_def)
  then have "requireAdminBearer q = Inr MOCK_SESSION_SENTINEL" "requireTenantAuth q = Inr MOCK_SESSION_SENTINEL"
    by (simp_all add: requireAdminBearer_def requireTenantAuth_def MOCK_SESSION_SENTINEL_def)
  then show ?thesis
    using all_routes_forward [of e q net params now month] tok
    by (simp add: list_all_iff authorised_def useBearer_def)
qed

text \<open>The unguarded routes act with the admin API key for callers without any token: whatever
  such a caller sends, each request they make carries the key, and a config patch of any tenant
  is sent to the gateway.\<close>

theorem unguarded_routes_use_admin_key:
  assumes "getAdminAuthToken q = None"
  shows "list_all (\<lambda>route. list_all (\<lambda>r. map_of (rq_headers r) ''X-API-Key'' = GATEWAY_ADMIN_API_KEY e)
          (io_requests (route e q) net)) (forwarding_routes params now month)
    \<and> (callable e None \<and> sq_body q = Some (JObj [(''version'', jint 1), (''patch'', JObj ps)]) \<longrightarrow>
        (\<exists>rest. io_requests (tenant_config_PATCH t e q) net =
           first_request e (tenant_path t ''/config'')
             (gw_send_version ''PATCH'' (to_str (jint 1)) (JsonBody (JObj ps)) None) # rest))"
proof -
  let ?opts = "gw_send_version ''PATCH'' (to_str (jint 1)) (JsonBody (JObj ps)) None"
  have keys: "list_all (\<lambda>route. list_all (\<lambda>r. map_of (rq_headers r) ''X-API-Key'' = GATEWAY_ADMIN_API_KEY e)
          (io_requests (route e q) net)) (forwarding_routes params now month)"
    using all_routes_forward [of e q net params now month] assms
    by (auto simp: list_all_iff authorised_def useBearer_def)
  moreover have "\<exists>rest. io_requests (tenant_config_PATCH t e q) net =
      first_request e (tenant_path t ''/config'') ?opts # rest"
    if c: "callable e None" and b: "sq_body q = Some (JObj [(''version'', jint 1), (''patch'', JObj ps)])"
  proof -
    obtain rest where "snd (gatewayAdminFetch e (tenant_path t ''/config'') ?opts net []) =
        first_request e (tenant_path t ''/config'') ?opts # rest"
      using gw_first [of e ?opts "tenant_path t ''/config''" net "[]"] c by auto
    then show ?thesis
      using b assms
      by (auto simp: io_requests_def tenant_config_PATCH_def tenant_config_PATCH_body_def request_json_def
          read_prop_def patchTenantConfigGeneric_def method_to_string_def nullish_def get_prop_simps handle_with_def
          io_catch_def io_bind_def io_return_def respond_def split: sum.splits prod.splits)
  qed
  ultimately show ?thesis by blast
qed

theorem unguarded_routes_use_admin_key_witness:
  "\<exists>rest. io_requests (tenant_config_PATCH ''acme'' demo_env
      (anonymous\<lparr>sq_body := Some (JObj [(''version'', jint 1), (''patch'', JObj [])])\<rparr>)) demo_config_net =
    first_request demo_env (tenant_path ''acme'' ''/config'')
      (gw_send_version ''PATCH'' (to_str (jint 1)) (JsonBody (JObj [])) None) # rest"
proof -
  let ?q = "anonymous\<lparr>sq_body := Some (JObj [(''version'', jint 1), (''patch'', JObj [])])\<rparr>"
  have "getAdminAuthToken ?q = None" by (simp add: getAdminAuthToken_def anonymous_def)
  from unguarded_routes_use_admin_key [OF this, where e = demo_env and net = demo_config_net and t = "''acme''" and ps = "[]"]
  show ?thesis by simp
qed

end
